(* ===== verification/Rust_Prelude.thy ===== *)
theory Rust_Prelude
  imports Main "HOL-Library.Word" "HOL-Library.Multiset"
begin

text \<open>
  The vocabulary every component of the development shares: Rust's fixed-width integers and
  their checked and saturating operations, the control flow of a fallible function
  (\<open>ensure!\<close>, \<open>ok_or(..)?\<close>, \<open>?\<close>), loops that may not return, the vector operations the
  sources use, and the lemmas on words, lists and results that carry the component proofs.
\<close>

section \<open>Fixed-width integers\<close>

type_synonym u8 = "8 word"
type_synonym u16 = "16 word"
type_synonym u32 = "32 word"
type_synonym u64 = "64 word"
type_synonym u128 = "128 word"

definition checked_add :: "'n::len word \<Rightarrow> 'n word \<Rightarrow> 'n word option" where
  "checked_add a b = (if unat a + unat b < 2 ^ LENGTH('n) then Some (a + b) else None)"

definition checked_sub :: "'n::len word \<Rightarrow> 'n word \<Rightarrow> 'n word option" where
  "checked_sub a b = (if b \<le> a then Some (a - b) else None)"

definition saturating_add :: "'n::len word \<Rightarrow> 'n word \<Rightarrow> 'n word" where
  "saturating_add a b = (if unat a + unat b < 2 ^ LENGTH('n) then a + b else - 1)"

definition saturating_mul :: "'n::len word \<Rightarrow> 'n word \<Rightarrow> 'n word" where
  "saturating_mul a b = (if unat a * unat b < 2 ^ LENGTH('n) then a * b else - 1)"

named_theorems rust_arith \<open>values of the checked and saturating operations\<close>

lemma unat_plus_no_overflow:
  "unat a + unat b < 2 ^ LENGTH('n) \<Longrightarrow> unat (a + b) = unat a + unat b"
  for a b :: "'n::len word"
  by (simp add: unat_word_ariths)

lemma checked_add_Some_iff [rust_arith]:
  "checked_add a b = Some c \<longleftrightarrow> unat c = unat a + unat b"
  for a b c :: "'n::len word"
proof
  assume "checked_add a b = Some c"
  then show "unat c = unat a + unat b"
    by (auto simp: checked_add_def unat_plus_no_overflow split: if_splits)
next
  assume eq: "unat c = unat a + unat b"
  then have lt: "unat a + unat b < 2 ^ LENGTH('n)"
    by (metis unsigned_less)
  then have "unat (a + b) = unat c"
    using eq by (simp add: unat_plus_no_overflow)
  then have "a + b = c"
    by (simp add: word_unat_eq_iff)
  then show "checked_add a b = Some c"
    using lt by (simp add: checked_add_def)
qed

lemma checked_add_None_iff [rust_arith]:
  "checked_add a b = None \<longleftrightarrow> 2 ^ LENGTH('n) \<le> unat a + unat b"
  for a b :: "'n::len word"
  by (auto simp: checked_add_def)

lemma checked_sub_Some_iff [rust_arith]:
  "checked_sub a b = Some c \<longleftrightarrow> b \<le> a \<and> unat c = unat a - unat b"
  for a b c :: "'n::len word"
  by (auto simp: checked_sub_def unat_sub word_unat_eq_iff)

lemma unat_saturating_add [rust_arith]:
  "unat (saturating_add a b) = min (unat a + unat b) (2 ^ LENGTH('n) - 1)"
  for a b :: "'n::len word"
  by (auto simp: saturating_add_def unat_plus_no_overflow unsigned_minus_1_eq_mask mask_eq_exp_minus_1 min_def
      split: if_splits)

lemma unat_saturating_mul [rust_arith]:
  "unat (saturating_mul a b) = min (unat a * unat b) (2 ^ LENGTH('n) - 1)"
  for a b :: "'n::len word"
proof (cases "unat a * unat b < 2 ^ LENGTH('n)")
  case True
  then have "unat (a * b) = unat a * unat b"
    by (simp add: unat_word_ariths)
  moreover have "unat a * unat b \<le> 2 ^ LENGTH('n) - 1"
    using True by linarith
  ultimately show ?thesis
    using True by (simp only: saturating_mul_def min.absorb1 if_True)
next
  case False
  then have "2 ^ LENGTH('n) - 1 \<le> unat a * unat b" by linarith
  with False show ?thesis
    by (simp add: saturating_mul_def unsigned_minus_1_eq_mask mask_eq_exp_minus_1 min_def)
qed

lemma word_next_le_imp_less: "r \<noteq> - 1 \<Longrightarrow> r + 1 \<le> q \<Longrightarrow> r < q" for r q :: "'n::len word"
proof -
  assume r: "r \<noteq> - 1" and le: "r + 1 \<le> q"
  from r have "1 + r \<noteq> 0"
    by (metis add.commute add_eq_0_iff)
  then have "unat (r + 1) = Suc (unat r)"
    by (metis add.commute unatSuc)
  with le show "r < q"
    by (simp add: word_less_nat_alt word_le_nat_alt)
qed

section \<open>Fallible functions\<close>

text \<open>
  \<open>ensure b e k\<close> is \<open>ensure!(b, e); k\<close>; \<open>ok_or v e (\<lambda>x. k)\<close> is \<open>let x = v.ok_or(e)?; k\<close>;
  \<open>try_do r (\<lambda>x. k)\<close> is \<open>let x = r?; k\<close>. The result is \<open>Inl\<close> of the error or \<open>Inr\<close> of the value.
\<close>

definition ensure :: "bool \<Rightarrow> 'e \<Rightarrow> 'e + 'a \<Rightarrow> 'e + 'a" where
  "ensure b e k = (if b then k else Inl e)"

definition ok_or :: "'b option \<Rightarrow> 'e \<Rightarrow> ('b \<Rightarrow> 'e + 'a) \<Rightarrow> 'e + 'a" where
  "ok_or v e k = (case v of None \<Rightarrow> Inl e | Some x \<Rightarrow> k x)"

definition try_do :: "'e + 'b \<Rightarrow> ('b \<Rightarrow> 'e + 'a) \<Rightarrow> 'e + 'a" where
  "try_do r k = (case r of Inl e \<Rightarrow> Inl e | Inr x \<Rightarrow> k x)"

definition unwrap_or :: "'b \<Rightarrow> 'b option \<Rightarrow> 'b" where
  "unwrap_or d v = (case v of None \<Rightarrow> d | Some x \<Rightarrow> x)"

lemma unwrap_or_simps [simp]: "unwrap_or d None = d" "unwrap_or d (Some x) = x"
  by (simp_all add: unwrap_or_def)

lemma ensure_Inr_iff [simp]: "ensure b e k = Inr x \<longleftrightarrow> b \<and> k = Inr x"
  by (simp add: ensure_def)

lemma ensure_simps [simp]: "ensure True e k = k" "ensure False e k = Inl e"
  by (simp_all add: ensure_def)

lemma ok_or_Inr_iff [simp]: "ok_or v e k = Inr x \<longleftrightarrow> (\<exists>y. v = Some y \<and> k y = Inr x)"
  by (simp add: ok_or_def split: option.splits)

lemma ok_or_simps [simp]: "ok_or None e k = Inl e" "ok_or (Some y) e k = k y"
  by (simp_all add: ok_or_def)

lemma try_do_Inr_iff [simp]: "try_do r k = Inr x \<longleftrightarrow> (\<exists>y. r = Inr y \<and> k y = Inr x)"
  by (simp add: try_do_def split: sum.splits)

lemma try_do_simps [simp]: "try_do (Inl e) k = Inl e" "try_do (Inr y) k = k y"
  by (simp_all add: try_do_def)

lemma try_do_Inl_iff: "try_do r k = Inl e \<longleftrightarrow> r = Inl e \<or> (\<exists>x. r = Inr x \<and> k x = Inl e)"
  by (auto simp: try_do_def split: sum.splits)

lemma ok_or_Inl_iff: "ok_or v e k = Inl e' \<longleftrightarrow> (v = None \<and> e = e') \<or> (\<exists>x. v = Some x \<and> k x = Inl e')"
  by (auto simp: ok_or_def split: option.splits)

lemma ensure_Inl_disj: "ensure b e k = Inl e' \<longleftrightarrow> (\<not> b \<and> e = e') \<or> (b \<and> k = Inl e')"
  by (simp add: ensure_def)

lemmas failure_iffs = try_do_Inl_iff ok_or_Inl_iff ensure_Inl_disj

definition map_err :: "('e \<Rightarrow> 'f) \<Rightarrow> 'e + 'a \<Rightarrow> 'f + 'a" where
  "map_err f r = (case r of Inl e \<Rightarrow> Inl (f e) | Inr x \<Rightarrow> Inr x)"

lemma map_err_simps [simp]: "map_err f (Inl e) = Inl (f e)" "map_err f (Inr x) = Inr x"
  by (simp_all add: map_err_def)

lemma map_err_Inr_iff [simp]: "map_err f r = Inr x \<longleftrightarrow> r = Inr x"
  by (cases r) simp_all

text \<open>\<open>for x in xs { body(x)? }\<close> over a state.\<close>

fun try_for :: "('x \<Rightarrow> 's \<Rightarrow> 'e + 's) \<Rightarrow> 'x list \<Rightarrow> 's \<Rightarrow> 'e + 's" where
  "try_for body [] s = Inr s"
| "try_for body (x # xs) s = try_do (body x s) (try_for body xs)"

lemma try_for_append: "try_for f (xs @ ys) s = try_do (try_for f xs s) (try_for f ys)"
  by (induction xs arbitrary: s) (auto simp: try_do_def split: sum.split)

lemma try_for_invariant:
  assumes "try_for body xs s = Inr s'" and "P s"
    and "\<And>x s s'. x \<in> set xs \<Longrightarrow> P s \<Longrightarrow> body x s = Inr s' \<Longrightarrow> P s'"
  shows "P s'"
  using assms
proof (induction xs arbitrary: s)
  case Nil
  then show ?case by simp
next
  case (Cons x xs)
  then obtain s1 where "body x s = Inr s1" "try_for body xs s1 = Inr s'"
    by auto
  with Cons show ?case by (metis list.set_intros(1,2))
qed

lemma try_for_failure: "try_for body xs s = Inl e \<Longrightarrow> \<exists>x \<in> set xs. \<exists>s'. body x s' = Inl e"
  by (induction xs arbitrary: s) (auto simp: try_do_Inl_iff)

lemma try_for_succeeds:
  assumes "\<And>x s. x \<in> set xs \<Longrightarrow> P s \<Longrightarrow> \<exists>t. body x s = Inr t \<and> P t" and "P s"
  shows "\<exists>t. try_for body xs s = Inr t"
  using assms
proof (induction xs arbitrary: s)
  case (Cons x xs)
  then obtain t where "body x s = Inr t" "P t"
    by (meson list.set_intros(1))
  moreover have "\<exists>u. try_for body xs t = Inr u"
    using Cons.prems(1) \<open>P t\<close> by (intro Cons.IH) auto
  ultimately show ?case by simp
qed simp

section \<open>Loops that may not return\<close>

text \<open>
  \<open>run_loop body\<close> repeats one iteration: \<open>Inl r\<close> leaves the loop with the value \<open>r\<close> (a failed
  guard, a \<open>break\<close>, a \<open>return\<close> or an error), \<open>Inr s\<close> goes round again. \<open>None\<close> means that the loop
  never ends.
\<close>

partial_function (option) run_loop :: "('s \<Rightarrow> 'r + 's) \<Rightarrow> 's \<Rightarrow> 'r option" where
  "run_loop body s = (case body s of Inl r \<Rightarrow> Some r | Inr s' \<Rightarrow> run_loop body s')"

lemma run_loop_invariant:
  assumes "run_loop body s = Some x" and "J s" and "\<And>s s'. J s \<Longrightarrow> body s = Inr s' \<Longrightarrow> J s'"
  shows "\<exists>s'. J s' \<and> body s' = Inl x"
proof -
  have "J s \<longrightarrow> (\<forall>s s'. J s \<longrightarrow> body s = Inr s' \<longrightarrow> J s') \<longrightarrow> (\<exists>s'. J s' \<and> body s' = Inl x)"
    using assms(1)
    by (rule run_loop.raw_induct [rotated]) (auto split: sum.splits)
  with assms(2,3) show ?thesis by blast
qed

lemma run_loop_exit: "body s = Inl r \<Longrightarrow> run_loop body s = Some r"
  by (simp add: run_loop.simps)

lemma run_loop_again: "body s = Inr s' \<Longrightarrow> run_loop body s = run_loop body s'"
  by (simp add: run_loop.simps [of body s])

text \<open>
  The contract of a loop: an invariant that every further iteration keeps and a rank that it
  decreases. The loop then returns, and it returns from a state of the invariant.
\<close>

locale ranked_loop =
  fixes body :: "'s \<Rightarrow> 'r + 's" and I :: "'s \<Rightarrow> bool" and rank :: "'s \<Rightarrow> nat"
  assumes again_inv: "I s \<Longrightarrow> body s = Inr s' \<Longrightarrow> I s'"
    and again_rank: "I s \<Longrightarrow> body s = Inr s' \<Longrightarrow> rank s' < rank s"
begin

text \<open>A further property that the iterations keep holds where the loop ends.\<close>

lemma exit_state_with:
  assumes "I s" and "J s" and "\<And>s s'. I s \<Longrightarrow> J s \<Longrightarrow> body s = Inr s' \<Longrightarrow> J s'"
  shows "\<exists>s' r. I s' \<and> J s' \<and> body s' = Inl r \<and> run_loop body s = Some r"
  using assms(1,2)
proof (induction "rank s" arbitrary: s rule: less_induct)
  case less
  show ?case
  proof (cases "body s")
    case (Inl r)
    with less.prems show ?thesis by (blast intro: run_loop_exit)
  next
    case (Inr s1)
    with less show ?thesis
      by (metis again_inv again_rank assms(3) run_loop_again)
  qed
qed

lemma returns_from: "I s \<Longrightarrow> \<exists>s' r. I s' \<and> body s' = Inl r \<and> run_loop body s = Some r"
  using exit_state_with [of s "\<lambda>_. True"] by simp

lemma loop_returns: "I s \<Longrightarrow> \<exists>r. run_loop body s = Some r"
  using returns_from by blast

lemma exit_state: "I s \<Longrightarrow> run_loop body s = Some r \<Longrightarrow> \<exists>s'. I s' \<and> body s' = Inl r"
  using returns_from by force

end

section \<open>Vectors\<close>

text \<open>\<open>rotate_right(k)\<close> of a vector, and \<open>BoundedVec::try_rotate_right\<close>, which fails when \<open>k\<close>
  exceeds the length.\<close>

definition rotate_right :: "nat \<Rightarrow> 'a list \<Rightarrow> 'a list" where
  "rotate_right k xs = drop (length xs - k) xs @ take (length xs - k) xs"

definition try_rotate_right :: "nat \<Rightarrow> 'a list \<Rightarrow> 'a list option" where
  "try_rotate_right k xs = (if k \<le> length xs then Some (rotate_right k xs) else None)"

lemma rotate_right_1: "xs \<noteq> [] \<Longrightarrow> rotate_right 1 xs = last xs # butlast xs"
  by (induction xs rule: rev_induct) (simp_all add: rotate_right_def)

lemma try_rotate_right_1 [simp]:
  "try_rotate_right (Suc 0) xs = Some ys \<longleftrightarrow> xs \<noteq> [] \<and> ys = last xs # butlast xs"
  by (cases xs) (auto simp: try_rotate_right_def rotate_right_1 [simplified])

lemma mset_rotate_right [simp]: "mset (rotate_right k xs) = mset xs"
  by (metis add.commute append_take_drop_id mset_append rotate_right_def)

lemma set_last_butlast: "xs \<noteq> [] \<Longrightarrow> insert (last xs) (set (butlast xs)) = set xs"
  by (induction xs rule: rev_induct) auto

lemma distinct_last_butlast: "xs \<noteq> [] \<Longrightarrow> distinct (last xs # butlast xs) = distinct xs"
  by (induction xs rule: rev_induct) auto

lemma rotate_right_Suc:
  assumes "Suc j \<le> length xs"
  shows "rotate_right (Suc j) xs = last (rotate_right j xs) # butlast (rotate_right j xs)"
proof -
  define i where "i = length xs - Suc j"
  have i: "i < length xs" "length xs - j = Suc i" "length xs - Suc j = i"
    using assms by (simp_all add: i_def)
  have "take (Suc i) xs = take i xs @ [xs ! i]"
    using i(1) by (rule take_Suc_conv_app_nth)
  then show ?thesis
    using i by (simp add: rotate_right_def butlast_append Cons_nth_drop_Suc [symmetric])
qed

lemma hd_rotated_schedule:
  assumes "j < length xs"
  shows "hd (rotate_right j (last xs # butlast xs)) = rev xs ! j"
proof (cases j)
  case 0
  then show ?thesis
    using assms by (simp add: rotate_right_def rev_nth last_conv_nth)
next
  case (Suc i)
  let ?ys = "last xs # butlast xs"
  have len: "length ?ys = length xs" "length xs - j < length xs"
    using assms Suc by simp_all
  then have "drop (length xs - j) ?ys \<noteq> []"
    by simp
  then have "hd (rotate_right j ?ys) = hd (drop (length xs - j) ?ys)"
    unfolding rotate_right_def len(1) by (rule hd_append2)
  also have "\<dots> = ?ys ! (length xs - j)"
    using len by (intro hd_drop_conv_nth) simp
  also have "\<dots> = xs ! (length xs - Suc j)"
    using assms Suc by (simp add: nth_Cons' nth_butlast)
  finally show ?thesis
    using assms by (simp add: rev_nth)
qed

lemma nth_length_minus_1: "xs \<noteq> [] \<Longrightarrow> xs ! (length xs - 1) = last xs"
  by (simp add: last_conv_nth)

lemma distinct_remdups_adj_sorted: "sorted xs \<Longrightarrow> distinct (remdups_adj xs)"
  for xs :: "'a::linorder list"
  by (induction xs rule: remdups_adj.induct) (auto simp: order_antisym)

lemma card_remdups_adj_sort: "length (remdups_adj (sort xs)) = card (set xs)"
  for xs :: "'a::linorder list"
  by (metis distinct_card distinct_remdups_adj_sorted sorted_sort remdups_adj_set set_sort)

lemma somes_conv: "List.map_filter (\<lambda>p. p) xs = map the (filter (\<lambda>p. p \<noteq> None) xs)"
  by (simp add: List.map_filter_def comp_def)

lemma set_somes: "set (List.map_filter (\<lambda>p. p) (rev order)) = {a. Some a \<in> set order}"
  by (auto simp: somes_conv intro: rev_image_eqI)

lemma distinct_filter_somes:
  assumes "\<And>i j. i < length xs \<Longrightarrow> j < length xs \<Longrightarrow> xs ! i = xs ! j \<Longrightarrow> xs ! i \<noteq> None \<Longrightarrow> i = j"
  shows "distinct (filter (\<lambda>p. p \<noteq> None) xs)"
  using assms
proof (induction xs)
  case Nil
  then show ?case by simp
next
  case (Cons x xs)
  have "distinct (filter (\<lambda>p. p \<noteq> None) xs)"
    using Cons.prems [of "Suc _" "Suc _"] by (intro Cons.IH) auto
  moreover have "x \<noteq> None \<Longrightarrow> x \<notin> set xs"
    using Cons.prems [of 0 "Suc _"] by (fastforce simp: in_set_conv_nth)
  ultimately show ?case by auto
qed

lemma card_somes_le: "card {a. Some a \<in> set order} \<le> length order"
proof -
  have "{a. Some a \<in> set order} \<subseteq> the ` set order"
    by (auto intro: rev_image_eqI)
  then have "card {a. Some a \<in> set order} \<le> card (the ` set order)"
    by (intro card_mono) simp_all
  also have "\<dots> \<le> length order"
    by (metis card_image_le card_length finite_set le_trans)
  finally show ?thesis .
qed

end
