(* ===== verification/Rosca_Types.thy ===== *)
theory Rosca_Types
  imports Rust_Prelude
begin

text \<open>
  The data of the ROSCA pallet (\<^verbatim>\<open>src/generic-template/pallets/rosca/src/types.rs\<close> and the
  declarations of \<^verbatim>\<open>lib.rs\<close>): the pallet's own types, its errors and events, its storage as a
  record with one field per storage item, and its configuration trait. An account identifier is
  a type variable \<open>'a\<close> of class \<open>linorder\<close> (the trait asks for \<open>Ord\<close>), the state of the assets
  pallet is a type variable \<open>'l\<close>, and an origin is a type variable \<open>'o\<close>.

  The configuration record also carries the code the pallet calls outside the repository, as
  functions: \<open>ensure_signed\<close>, the transfer of the foreign currency, the derivation of a
  sub-account, the hash, the block hashes and the bounded clearing of a storage prefix.
\<close>

section \<open>types.rs\<close>

type_synonym rosca_id = u32
type_synonym moment = u64

datatype PaymentAssets = USDT | USDC

fun asset_id :: "PaymentAssets \<Rightarrow> u32" where
  "asset_id USDT = 1984"
| "asset_id USDC = 1337"

record RoscaDetails =
  rd_random_order :: bool
  rd_number_of_participants :: u32
  rd_minimum_participant_threshold :: u32
  rd_contribution_amount :: u32
  rd_payment_asset :: PaymentAssets
  rd_contribution_frequency :: moment
  rd_start_by_timestamp :: moment
  rd_name :: "u8 list"

record 'a RoundInfo =
  ri_round_number :: u32
  ri_payment_cutoff :: moment
  ri_expected_contributors :: "'a list"
  ri_recipient :: 'a

type_synonym 'a RoscaRounds = "'a RoundInfo list"

section \<open>Errors\<close>

datatype rosca_error =
    ConversionError
  | ArithmeticOverflow
  | ArithmeticUnderflow
  | MultiplyError
  | DivisionError
  | ArithmeticError
  | ContributionAmountMustBePositive
  | FrequencyMustBePositive
  | StartByTimestampMustBeFuture
  | TooManyProposedParticipants
  | PositionTooLarge
  | RoscaNotFound
  | PositionAlreadyFilled
  | AlreadyJoined
  | RoscaAlreadyActive
  | SecurityDepositNotFound
  | SecurityDepositIsZero
  | AllPositionsFilled
  | RoscaParticipantsNotFound
  | NotAParticipant
  | ParticipantThresholdNotMet
  | RoscaParticipantCountNotFound
  | RoscaNotActive
  | CantContributeToSelf
  | NoEligbleClaimant
  | AlreadyContributed
  | NoNextPayByTimestamp
  | FinalPayByTimestampNotFound
  | FinalPayByTimestampMustBePast
  | RoscaNotCompleted
  | CantContributeBeyondFinalPayBy
  | RoscaAlreadyCompleted
  | NotInvited
  | CantInviteSelf
  | ThresholdTooHigh
  | RoscaStillActive
  | TooManyRounds

text \<open>
  What a dispatchable can fail with: an error of the pallet, an error another pallet returned
  (by its code), or a panic of the Rust code (an index out of range).
\<close>

datatype dispatch_error = Module rosca_error | Foreign nat | Panicked

section \<open>Events\<close>

datatype 'a rosca_event =
    RoscaCreated rosca_id u128 PaymentAssets moment bool "u8 list" u32 u32 moment "'a list" 'a
  | ParticipantDefaulted rosca_id 'a 'a
  | ContributionMade rosca_id 'a 'a u128
  | DepositDeducted rosca_id 'a 'a u128 bool
  | JoinedRosca rosca_id 'a
  | LeftRosca rosca_id 'a
  | RoscaStarted rosca_id 'a "'a RoscaRounds" 'a moment
  | RoscaComplete rosca_id
  | SecurityDepositContribution rosca_id 'a u128
  | SecurityDepositClaimed rosca_id 'a u128
  | RoscaManuallyEnded rosca_id
  | NewRoundStarted rosca_id 'a moment

section \<open>Storage\<close>

text \<open>
  One field per storage item; an \<open>OptionQuery\<close> map is a partial map, a double map a partial map
  for each first key, a \<open>ValueQuery\<close> map a total function whose default is 0. The last four
  fields are the state of other pallets that the pallet reads or changes: the events deposited
  so far, the timestamp, the block number and the balances of the assets pallet.
\<close>

record ('a, 'l) pallet =
  NextRoscaId :: rosca_id
  ActiveRoscas :: "rosca_id \<Rightarrow> RoscaDetails option"
  CompletedRoscas :: "rosca_id \<Rightarrow> unit option"
  RoscaParticipants :: "rosca_id \<Rightarrow> 'a \<Rightarrow> u32 option"
  RoscaInvitedPreverifiedParticipants :: "rosca_id \<Rightarrow> 'a \<Rightarrow> unit option"
  RoscaParticipantsCount :: "rosca_id \<Rightarrow> u32 option"
  RoscaSecurityDeposits :: "rosca_id \<Rightarrow> 'a \<Rightarrow> u32 option"
  PendingRoscaParticipantsOrder :: "rosca_id \<Rightarrow> 'a option list option"
  ActiveRoscaParticipantsOrder :: "rosca_id \<Rightarrow> 'a list option"
  PendingRoscaDetails :: "rosca_id \<Rightarrow> RoscaDetails option"
  NextPayByTimestamp :: "rosca_id \<Rightarrow> moment option"
  FinalPayByTimestamp :: "rosca_id \<Rightarrow> moment option"
  EligibleClaimant :: "rosca_id \<Rightarrow> 'a option"
  RoscaAccounts :: "rosca_id \<Rightarrow> 'a option"
  CurrentContributors :: "rosca_id \<Rightarrow> 'a \<Rightarrow> unit option"
  CurrentContributionCount :: "rosca_id \<Rightarrow> u32"
  DefaultCount :: "rosca_id \<Rightarrow> 'a \<Rightarrow> u32"
  Events :: "'a rosca_event list"
  Now :: moment
  BlockNumber :: u32
  Ledger :: 'l

definition deposit_event :: "'a rosca_event \<Rightarrow> ('a, 'l) pallet \<Rightarrow> ('a, 'l) pallet" where
  "deposit_event e s = s\<lparr>Events := Events s @ [e]\<rparr>"

section \<open>Configuration\<close>

record ('o, 'a, 'l) config =
  MaxParticipants :: u32
  MaxInvitedParticipants :: u32
  StringLimit :: u32
  ensure_signed :: "'o \<Rightarrow> dispatch_error + 'a"
  transfer :: "u32 \<Rightarrow> 'a \<Rightarrow> 'a \<Rightarrow> u128 \<Rightarrow> 'l \<Rightarrow> dispatch_error + 'l"
  into_sub_account :: "rosca_id \<Rightarrow> 'a"
  blake2_128 :: "u8 list \<Rightarrow> u8 list"
  block_hash :: "u32 \<Rightarrow> u8 list"
  clear_prefix :: "u32 \<Rightarrow> ('a \<Rightarrow> unit option) \<Rightarrow> ('a \<Rightarrow> unit option)"

text \<open>\<open>T::ForeignCurrency::transfer(asset, from, to, amount, Expendable)?\<close> on the pallet's state.\<close>

definition currency_transfer ::
  "('o, 'a, 'l) config \<Rightarrow> u32 \<Rightarrow> 'a \<Rightarrow> 'a \<Rightarrow> u128 \<Rightarrow> ('a, 'l) pallet
   \<Rightarrow> dispatch_error + ('a, 'l) pallet" where
  "currency_transfer T asset source dest amount s =
     try_do (transfer T asset source dest amount (Ledger s)) (\<lambda>l. Inr (s\<lparr>Ledger := l\<rparr>))"

definition rosca_account_id :: "('o, 'a, 'l) config \<Rightarrow> rosca_id \<Rightarrow> 'a" where
  "rosca_account_id T rosca_id = into_sub_account T rosca_id"

end
