(* ===== verification/Rosca_Rounds.thy ===== *)
theory Rosca_Rounds
  imports Rosca_Types
begin

text \<open>
  The two pure helpers a starting ROSCA uses: the shuffle of the payout order
  (\<^verbatim>\<open>shuffle_participants\<close>) and the published plan of rounds (\<^verbatim>\<open>generate_rounds\<close>). The shuffle is
  shown to permute the participants; the plan is shown equal to a closed-form reference plan, and
  the call fails exactly when a bound or the timestamp range is exceeded.
\<close>

section \<open>shuffle_participants\<close>

lemma mod_length_shrinks:
  "xs \<noteq> [] \<Longrightarrow> k mod length xs + (length xs - Suc (k mod length xs)) < length xs"
proof -
  assume "xs \<noteq> []"
  then have "k mod length xs < length xs" by simp
  then show ?thesis by linarith
qed

text \<open>
  One draw per remaining index. The inner \<open>let mut rng_seed\<close> of the loop shadows the outer one, so
  every iteration hashes the same outer seed.
\<close>

function draw_indices :: "('o, 'a, 'l) config \<Rightarrow> u8 list \<Rightarrow> nat list \<Rightarrow> nat list \<Rightarrow> nat list" where
  "draw_indices T rng_seed available_indices shuffled_indices =
     (if available_indices = [] then shuffled_indices
      else
        let rng_seed' = blake2_128 T rng_seed;
            random_index = unat (rng_seed' ! 0) mod length available_indices;
            selected_index = available_indices ! random_index
        in draw_indices T rng_seed
             (take random_index available_indices @ drop (Suc random_index) available_indices)
             (shuffled_indices @ [selected_index]))"
  by pat_completeness auto
termination
  by (relation "measure (\<lambda>(T, seed, avail, acc). length avail)") (auto simp: Let_def mod_length_shrinks)

declare draw_indices.simps [simp del]

definition shuffle_participants ::
  "('o, 'a, 'l) config \<Rightarrow> ('a, 'l) pallet \<Rightarrow> 'a list \<Rightarrow> 'a list" where
  "shuffle_participants T s participants =
     (let current_block = BlockNumber s;
          truncated_seed = blake2_128 T (block_hash T current_block);
          shuffled_indices = draw_indices T truncated_seed [0..<length participants] []
      in fold (\<lambda>(i, new_idx) shuffled. shuffled[i := participants ! new_idx])
           (enumerate 0 shuffled_indices) participants)"

section \<open>generate_rounds\<close>

fun generate_rounds_from ::
  "('o, 'a, 'l) config \<Rightarrow> 'a list \<Rightarrow> moment \<Rightarrow> nat \<Rightarrow> 'a list \<Rightarrow> moment \<Rightarrow> 'a RoscaRounds
   \<Rightarrow> rosca_error + 'a RoscaRounds" where
  "generate_rounds_from T participants frequency i [] cutoff rounds = Inr rounds"
| "generate_rounds_from T participants frequency i (recipient # rest) cutoff rounds =
     (let others = filter (\<lambda>x. x \<noteq> recipient) participants in
      ensure (length others \<le> unat (MaxInvitedParticipants T)) TooManyProposedParticipants (
      ensure (length rounds < unat (MaxParticipants T)) TooManyRounds (
      ok_or (checked_add cutoff frequency) ArithmeticOverflow (\<lambda>next_cutoff.
      generate_rounds_from T participants frequency (Suc i) rest next_cutoff
        (rounds @ [\<lparr>ri_round_number = of_nat (i + 1), ri_payment_cutoff = cutoff,
                    ri_expected_contributors = others, ri_recipient = recipient\<rparr>])))))"

definition generate_rounds ::
  "('o, 'a, 'l) config \<Rightarrow> 'a list \<Rightarrow> moment \<Rightarrow> moment \<Rightarrow> rosca_error + 'a RoscaRounds" where
  "generate_rounds T participants current_time frequency =
     ok_or (checked_add current_time frequency) ArithmeticOverflow (\<lambda>round_payment_cutoff.
     generate_rounds_from T participants frequency 0 (rev participants) round_payment_cutoff [])"

section \<open>The shuffle permutes\<close>

lemma mset_remove_nth:
  "i < length xs \<Longrightarrow> add_mset (xs ! i) (mset (take i xs @ drop (Suc i) xs)) = mset xs"
  by (metis add_mset_add_single append_take_drop_id Cons_nth_drop_Suc mset.simps(2) mset_append
      union_mset_add_mset_right)

lemma mset_draw_indices: "mset (draw_indices T seed avail acc) = mset acc + mset avail"
proof (induction T seed avail acc rule: draw_indices.induct)
  case (1 T seed avail acc)
  show ?case
  proof (cases "avail = []")
    case True
    then show ?thesis by (simp add: draw_indices.simps)
  next
    case False
    define i where "i = unat (blake2_128 T seed ! 0) mod length avail"
    have i: "i < length avail"
      using False by (simp add: i_def)
    have "draw_indices T seed avail acc =
        draw_indices T seed (take i avail @ drop (Suc i) avail) (acc @ [avail ! i])"
      using False by (simp add: draw_indices.simps [of T seed avail] i_def Let_def)
    moreover have "mset (draw_indices T seed (take i avail @ drop (Suc i) avail) (acc @ [avail ! i])) =
        mset (acc @ [avail ! i]) + mset (take i avail @ drop (Suc i) avail)"
      using "1.IH" [OF False refl refl refl] by (simp only: i_def)
    ultimately show ?thesis
      using mset_remove_nth [OF i] by simp
  qed
qed

lemma fold_enumerate_update:
  assumes "n + length idx \<le> length ys"
  shows "fold (\<lambda>(i, k) acc. acc[i := xs ! k]) (enumerate n idx) ys =
    take n ys @ map (nth xs) idx @ drop (n + length idx) ys"
  using assms
proof (induction idx arbitrary: n ys)
  case Nil
  then show ?case by simp
next
  case (Cons k idx)
  then have "take (Suc n) (ys[n := xs ! k]) = take n ys @ [xs ! k]"
    by (simp add: take_Suc_conv_app_nth)
  with Cons show ?case by simp
qed

lemma shuffle_participants_eq:
  "shuffle_participants T s xs =
     map (nth xs) (draw_indices T (blake2_128 T (block_hash T (BlockNumber s))) [0..<length xs] [])"
proof -
  let ?idx = "draw_indices T (blake2_128 T (block_hash T (BlockNumber s))) [0..<length xs] []"
  have "mset ?idx = mset [0..<length xs]"
    by (simp add: mset_draw_indices)
  then have "length ?idx = length xs"
    by (metis diff_zero length_upt size_mset)
  then show ?thesis
    using fold_enumerate_update [of 0 ?idx xs xs] by (simp add: shuffle_participants_def)
qed

lemma mset_shuffle_participants: "mset (shuffle_participants T s xs) = mset xs"
proof -
  have "mset (shuffle_participants T s xs) = image_mset (nth xs) (mset [0..<length xs])"
    by (simp add: shuffle_participants_eq mset_draw_indices)
  then show ?thesis by (metis map_nth mset_map)
qed

lemma set_shuffle_participants [simp]: "set (shuffle_participants T s xs) = set xs"
  by (metis mset_shuffle_participants set_mset_mset)

lemma length_shuffle_participants [simp]: "length (shuffle_participants T s xs) = length xs"
  by (metis mset_shuffle_participants size_mset)

lemma distinct_shuffle_participants [simp]:
  "distinct (shuffle_participants T s xs) = distinct xs"
  by (metis mset_shuffle_participants mset_eq_imp_distinct_iff)

text \<open>
  The payout order of a ROSCA with random order is a permutation of its participants,
  whatever the hash function and the block hash are: nobody is lost and nobody is paid twice.
\<close>

theorem shuffle_permutes:
  "mset (shuffle_participants T s participants) = mset participants"
  by (rule mset_shuffle_participants)

text \<open>
  The order depends on the hashes through one byte only: every iteration uses byte 0 of the hash
  of the same seed, where a Fisher-Yates shuffle would hash afresh for every draw.
\<close>

fun draw_by_byte :: "nat \<Rightarrow> nat list \<Rightarrow> nat \<Rightarrow> nat list" where
  "draw_by_byte b avail 0 = []"
| "draw_by_byte b avail (Suc n) =
     avail ! (b mod length avail) #
     draw_by_byte b (take (b mod length avail) avail @ drop (Suc (b mod length avail)) avail) n"

lemma draw_indices_by_byte:
  "draw_indices T seed avail acc =
     acc @ draw_by_byte (unat (blake2_128 T seed ! 0)) avail (length avail)"
proof (induction T seed avail acc rule: draw_indices.induct)
  case (1 T seed avail acc)
  show ?case
  proof (cases "avail = []")
    case True
    then show ?thesis by (simp add: draw_indices.simps)
  next
    case False
    define i where "i = unat (blake2_128 T seed ! 0) mod length avail"
    have i: "i < length avail"
      using False by (simp add: i_def)
    have len: "length avail = Suc (length (take i avail @ drop (Suc i) avail))"
      using i by simp
    have "draw_indices T seed avail acc =
        draw_indices T seed (take i avail @ drop (Suc i) avail) (acc @ [avail ! i])"
      using False by (simp add: draw_indices.simps [of T seed avail] i_def Let_def)
    also have "\<dots> = (acc @ [avail ! i]) @ draw_by_byte (unat (blake2_128 T seed ! 0))
        (take i avail @ drop (Suc i) avail) (length (take i avail @ drop (Suc i) avail))"
      using "1.IH" [OF False refl refl refl] by (simp only: i_def)
    finally show ?thesis
      by (subst len) (simp add: i_def)
  qed
qed

text \<open>
  C17. The random order is a function of a single byte: if the first byte of the twice hashed
  block hash is the same, so is the payout order, for any hash functions, blocks and states. A
  group therefore sees at most 256 orders, whatever its size.
\<close>

theorem shuffle_determined_by_one_byte:
  assumes "blake2_128 T (blake2_128 T (block_hash T (BlockNumber s))) ! 0 =
           blake2_128 U (blake2_128 U (block_hash U (BlockNumber t))) ! 0"
  shows "shuffle_participants T s participants = shuffle_participants U t participants"
  using assms by (simp add: shuffle_participants_eq draw_indices_by_byte)

section \<open>The plan of rounds\<close>

text \<open>
  The reference plan: round \<open>i\<close> (from 0) has number \<open>i + 1\<close>, is to be paid one period after round
  \<open>i - 1\<close>, goes to the \<open>i\<close>-th participant from the end and expects everybody else to pay.
\<close>

definition round_plan :: "'a list \<Rightarrow> moment \<Rightarrow> moment \<Rightarrow> 'a RoscaRounds" where
  "round_plan participants current_time frequency =
     map (\<lambda>i. \<lparr>ri_round_number = of_nat (i + 1),
              ri_payment_cutoff = current_time + of_nat (i + 1) * frequency,
              ri_expected_contributors =
                filter (\<lambda>x. x \<noteq> rev participants ! i) participants,
              ri_recipient = rev participants ! i\<rparr>)
       [0..<length participants]"

lemma generate_rounds_from_Inr_iff:
  "generate_rounds_from T participants frequency i rest cutoff rounds = Inr rs \<longleftrightarrow>
     (\<forall>x \<in> set rest. length (filter (\<lambda>y. y \<noteq> x) participants) \<le> unat (MaxInvitedParticipants T)) \<and>
     (rest = [] \<or> length rounds + length rest \<le> unat (MaxParticipants T)) \<and>
     unat cutoff + length rest * unat frequency < 2 ^ 64 \<and>
     rs = rounds @ map (\<lambda>j. \<lparr>ri_round_number = of_nat (i + j + 1),
         ri_payment_cutoff = cutoff + of_nat j * frequency,
         ri_expected_contributors = filter (\<lambda>x. x \<noteq> rest ! j) participants,
         ri_recipient = rest ! j\<rparr>) [0..<length rest]"
proof (induction rest arbitrary: i cutoff rounds)
  case Nil
  have "unat cutoff < 2 ^ 64"
    using unsigned_less [of cutoff] by simp
  then show ?case by auto
next
  case (Cons x rest)
  have upt: "[0..<length (x # rest)] = 0 # map Suc [0..<length rest]"
    by (simp add: upt_conv_Cons map_Suc_upt del: upt_Suc)
  show ?case
  proof (cases "checked_add cutoff frequency")
    case None
    then have "2 ^ 64 \<le> unat cutoff + unat frequency"
      by (simp add: checked_add_None_iff)
    with None show ?thesis by auto
  next
    case (Some c)
    then have c: "unat c = unat cutoff + unat frequency"
      by (simp add: checked_add_Some_iff)
    have ceq: "c = cutoff + frequency"
      using Some by (simp add: checked_add_def split: if_splits)
    show ?thesis
      unfolding upt using Some
      by (auto simp: Cons.IH c [unfolded ceq] ceq algebra_simps Let_def)
  qed
qed

lemma generate_rounds_Inr_iff:
  "generate_rounds T participants current_time frequency = Inr rs \<longleftrightarrow>
     (\<forall>x \<in> set participants.
        length (filter (\<lambda>y. y \<noteq> x) participants) \<le> unat (MaxInvitedParticipants T)) \<and>
     (participants = [] \<or> length participants \<le> unat (MaxParticipants T)) \<and>
     unat current_time + (length participants + 1) * unat frequency < 2 ^ 64 \<and>
     rs = round_plan participants current_time frequency"
proof (cases "checked_add current_time frequency")
  case None
  then have "2 ^ 64 \<le> unat current_time + unat frequency"
    by (simp add: checked_add_None_iff)
  with None show ?thesis by (auto simp: generate_rounds_def)
next
  case (Some c)
  then have c: "unat c = unat current_time + unat frequency"
    by (simp add: checked_add_Some_iff)
  have ceq: "c = current_time + frequency"
    using Some by (simp add: checked_add_def split: if_splits)
  show ?thesis
    unfolding generate_rounds_def ok_or_Inr_iff generate_rounds_from_Inr_iff round_plan_def
    using Some c [unfolded ceq] ceq by (auto simp: algebra_simps)
qed

text \<open>
  C18. The published plan of rounds is the reference plan, and the call succeeds exactly when
  every round has at most \<open>MaxInvitedParticipants\<close> contributors, the rounds fit
  \<open>MaxParticipants\<close> and one period after the last cutoff still fits the 64-bit timestamp.
\<close>

theorem generate_rounds_is_plan:
  "generate_rounds T participants current_time frequency = Inr rs \<longleftrightarrow>
     list_all (\<lambda>x. length (filter (\<lambda>y. y \<noteq> x) participants) \<le> unat (MaxInvitedParticipants T))
       participants \<and>
     (participants = [] \<or> length participants \<le> unat (MaxParticipants T)) \<and>
     unat current_time + (length participants + 1) * unat frequency < 2 ^ 64 \<and>
     rs = round_plan participants current_time frequency"
  by (simp only: generate_rounds_Inr_iff list_all_iff)

lemma length_round_plan [simp]: "length (round_plan ps t f) = length ps"
  by (simp add: round_plan_def)

lemma recipients_round_plan: "map ri_recipient (round_plan ps t f) = rev ps"
  by (simp add: round_plan_def comp_def) (metis length_rev map_nth)

lemma round_plan_nth:
  assumes "k < length ps"
  shows "ri_recipient (round_plan ps t f ! k) = rev ps ! k"
    and "ri_payment_cutoff (round_plan ps t f ! k) = t + of_nat (k + 1) * f"
    and "ri_round_number (round_plan ps t f ! k) = of_nat (k + 1)"
    and "ri_expected_contributors (round_plan ps t f ! k) = filter (\<lambda>x. x \<noteq> rev ps ! k) ps"
  using assms by (simp_all add: round_plan_def)

end
