(* ===== verification/Rosca_Pallet.thy ===== *)
theory Rosca_Pallet
  imports Rosca_Rounds
begin

text \<open>
  The dispatchables of the ROSCA pallet and their helpers, statement by statement from
  \<^verbatim>\<open>src/generic-template/pallets/rosca/src/lib.rs\<close>. A dispatchable takes the configuration, its
  origin and arguments and the pallet's state, and returns an error or the next state. The two
  dispatchables with a \<open>while\<close> loop return an option of that, \<open>None\<close> for a loop that never ends.
\<close>

section \<open>create_rosca\<close>

text \<open>\<open>BoundedVec::try_push\<close> with its result ignored: a full vector stays as it is.\<close>

definition try_push :: "u32 \<Rightarrow> 'a list \<Rightarrow> 'a \<Rightarrow> 'a list" where
  "try_push bound xs x = (if length xs < unat bound then xs @ [x] else xs)"

text \<open>\<open>usize\<close> has 32 bits in the WebAssembly runtime.\<close>

definition usize_checked_add :: "nat \<Rightarrow> nat \<Rightarrow> nat option" where
  "usize_checked_add a b = (if a + b < 2 ^ 32 then Some (a + b) else None)"

fun invite_all ::
  "('o, 'a, 'l) config \<Rightarrow> rosca_id \<Rightarrow> 'a list \<Rightarrow> ('a, 'l) pallet \<times> 'a list
   \<Rightarrow> ('a, 'l) pallet \<times> 'a list" where
  "invite_all T rosca_id [] (s, acc) = (s, acc)"
| "invite_all T rosca_id (x # xs) (s, acc) =
     invite_all T rosca_id xs
       (s\<lparr>RoscaInvitedPreverifiedParticipants :=
            (RoscaInvitedPreverifiedParticipants s)
              (rosca_id := (RoscaInvitedPreverifiedParticipants s rosca_id)(x \<mapsto> ()))\<rparr>,
        try_push (MaxParticipants T) acc x)"

definition create_rosca ::
  "('o, 'a::linorder, 'l) config \<Rightarrow> 'o \<Rightarrow> bool \<Rightarrow> 'a list \<Rightarrow> u32 \<Rightarrow> u32 \<Rightarrow> PaymentAssets \<Rightarrow> moment
   \<Rightarrow> moment \<Rightarrow> u32 option \<Rightarrow> u8 list \<Rightarrow> ('a, 'l) pallet \<Rightarrow> dispatch_error + ('a, 'l) pallet" where
  "create_rosca T origin random_order invited minimum_participant_threshold contribution_amount
     payment_asset contribution_frequency start_by_timestamp position name s =
   try_do (ensure_signed T origin) (\<lambda>signer.
   ensure (0 < contribution_amount) (Module ContributionAmountMustBePositive) (
   ensure (0 < contribution_frequency) (Module FrequencyMustBePositive) (
   ensure (MaxInvitedParticipants T < MaxParticipants T) (Module ArithmeticError) (
   ensure (signer \<notin> set invited) (Module CantInviteSelf) (
   let invited' = remdups_adj (sort invited);
       current_timestamp = Now s;
       pos = unwrap_or 0 position in
   ok_or (usize_checked_add (length invited') 1) (Module ArithmeticOverflow) (\<lambda>len.
   let number_of_participants = of_nat len :: u32 in
   ensure (minimum_participant_threshold \<le> number_of_participants) (Module ThresholdTooHigh) (
   ensure (pos < MaxParticipants T) (Module PositionTooLarge) (
   ensure (current_timestamp < start_by_timestamp) (Module StartByTimestampMustBeFuture) (
   let new_rosca_id = NextRoscaId s;
       rosca_participants = replicate (unat number_of_participants) None in
   ensure (unat pos < length rosca_participants) Panicked (
   let rosca_participants = rosca_participants[unat pos := Some signer];
       (s1, including_creator) = invite_all T new_rosca_id (signer # invited') (s, []) in
   ensure (length rosca_participants \<le> unat (MaxParticipants T))
     (Module TooManyProposedParticipants) (
   let s2 = s1\<lparr>
         PendingRoscaParticipantsOrder :=
           (PendingRoscaParticipantsOrder s1)(new_rosca_id \<mapsto> rosca_participants),
         RoscaParticipants :=
           (RoscaParticipants s1)(new_rosca_id := (RoscaParticipants s1 new_rosca_id)(signer \<mapsto> pos)),
         RoscaParticipantsCount := (RoscaParticipantsCount s1)(new_rosca_id \<mapsto> 1),
         PendingRoscaDetails := (PendingRoscaDetails s1)(new_rosca_id \<mapsto>
           \<lparr>rd_random_order = random_order,
            rd_number_of_participants = number_of_participants,
            rd_minimum_participant_threshold = minimum_participant_threshold,
            rd_contribution_amount = contribution_amount,
            rd_payment_asset = payment_asset,
            rd_contribution_frequency = contribution_frequency,
            rd_start_by_timestamp = start_by_timestamp,
            rd_name = name\<rparr>),
         NextRoscaId := new_rosca_id + 1\<rparr> in
   Inr (deposit_event
     (RoscaCreated new_rosca_id (ucast contribution_amount) payment_asset contribution_frequency
        random_order name number_of_participants minimum_participant_threshold start_by_timestamp
        including_creator signer) s2))))))))))))"

section \<open>join_rosca\<close>

text \<open>\<open>iter().position(|p| p.is_none())\<close>\<close>

fun first_free :: "'a option list \<Rightarrow> nat option" where
  "first_free [] = None"
| "first_free (None # xs) = Some 0"
| "first_free (Some x # xs) = map_option Suc (first_free xs)"

text \<open>The order with the signer placed, and the signer's position.\<close>

definition claim_position ::
  "'a \<Rightarrow> u32 option \<Rightarrow> 'a option list \<Rightarrow> dispatch_error + ('a option list \<times> u32)" where
  "claim_position signer position order =
     (case position of
        Some position_index \<Rightarrow>
          ensure (unat position_index < length order) (Module PositionTooLarge) (
          ensure (order ! unat position_index = None) (Module PositionAlreadyFilled) (
          Inr (order[unat position_index := Some signer], position_index)))
      | None \<Rightarrow>
          ok_or (first_free order) (Module AllPositionsFilled) (\<lambda>position_index.
          Inr (order[position_index := Some signer], of_nat position_index)))"

definition join_rosca ::
  "('o, 'a, 'l) config \<Rightarrow> 'o \<Rightarrow> rosca_id \<Rightarrow> u32 option \<Rightarrow> ('a, 'l) pallet
   \<Rightarrow> dispatch_error + ('a, 'l) pallet" where
  "join_rosca T origin rosca_id position s =
   try_do (ensure_signed T origin) (\<lambda>signer.
   ensure (ActiveRoscas s rosca_id = None) (Module RoscaAlreadyActive) (
   ensure (RoscaParticipants s rosca_id signer = None) (Module AlreadyJoined) (
   ensure (RoscaInvitedPreverifiedParticipants s rosca_id signer \<noteq> None) (Module NotInvited) (
   ok_or (PendingRoscaDetails s rosca_id) (Module RoscaNotFound) (\<lambda>pending_rosca.
   ensure (Now s < rd_start_by_timestamp pending_rosca) (Module StartByTimestampMustBeFuture) (
   ok_or (PendingRoscaParticipantsOrder s rosca_id) (Module RoscaNotFound) (\<lambda>pending_rosca_order.
   try_do (claim_position signer position pending_rosca_order)
     (\<lambda>(pending_rosca_order, participant_position).
   let s1 = s\<lparr>
         PendingRoscaParticipantsOrder :=
           (PendingRoscaParticipantsOrder s)(rosca_id \<mapsto> pending_rosca_order),
         RoscaParticipants := (RoscaParticipants s)
           (rosca_id := (RoscaParticipants s rosca_id)(signer \<mapsto> participant_position))\<rparr> in
   ok_or (RoscaParticipantsCount s1 rosca_id) (Module RoscaParticipantCountNotFound) (\<lambda>count.
   ok_or (checked_add count 1) (Module ArithmeticOverflow) (\<lambda>current_participant_count.
   let s2 = s1\<lparr>RoscaParticipantsCount :=
         (RoscaParticipantsCount s1)(rosca_id \<mapsto> current_participant_count)\<rparr> in
   Inr (deposit_event (JoinedRosca rosca_id signer) s2)))))))))))"

section \<open>leave_rosca\<close>

text \<open>The block that pays a leaving participant's deposit back.\<close>

definition refund_deposit ::
  "('o, 'a, 'l) config \<Rightarrow> rosca_id \<Rightarrow> 'a \<Rightarrow> RoscaDetails \<Rightarrow> ('a, 'l) pallet
   \<Rightarrow> dispatch_error + ('a, 'l) pallet" where
  "refund_deposit T rosca_id signer pending_rosca s =
     (let participant_deposit = unwrap_or 0 (RoscaSecurityDeposits s rosca_id signer) in
      if 0 < participant_deposit then
        try_do (currency_transfer T (asset_id (rd_payment_asset pending_rosca))
                  (rosca_account_id T rosca_id) signer (ucast participant_deposit) s) (\<lambda>s1.
        Inr (deposit_event
          (SecurityDepositClaimed rosca_id signer (ucast participant_deposit))
          (s1\<lparr>RoscaSecurityDeposits := (RoscaSecurityDeposits s1)
             (rosca_id := (RoscaSecurityDeposits s1 rosca_id)(signer := None))\<rparr>)))
      else Inr s)"

definition leave_rosca ::
  "('o, 'a, 'l) config \<Rightarrow> 'o \<Rightarrow> rosca_id \<Rightarrow> ('a, 'l) pallet
   \<Rightarrow> dispatch_error + ('a, 'l) pallet" where
  "leave_rosca T origin rosca_id s =
   try_do (ensure_signed T origin) (\<lambda>signer.
   ensure (ActiveRoscas s rosca_id = None) (Module RoscaAlreadyActive) (
   ok_or (RoscaParticipants s rosca_id signer) (Module NotAParticipant) (\<lambda>participant_index.
   ok_or (PendingRoscaDetails s rosca_id) (Module RoscaNotFound) (\<lambda>pending_rosca.
   ok_or (PendingRoscaParticipantsOrder s rosca_id) (Module RoscaParticipantsNotFound)
     (\<lambda>participants_order.
   ensure (unat participant_index < length participants_order) Panicked (
   let participants_order = participants_order[unat participant_index := None];
       s1 = s\<lparr>
         RoscaParticipants := (RoscaParticipants s)
           (rosca_id := (RoscaParticipants s rosca_id)(signer := None)),
         PendingRoscaParticipantsOrder :=
           (PendingRoscaParticipantsOrder s)(rosca_id \<mapsto> participants_order)\<rparr> in
   ok_or (RoscaParticipantsCount s1 rosca_id) (Module RoscaParticipantCountNotFound) (\<lambda>count.
   ok_or (checked_sub count 1) (Module ArithmeticUnderflow) (\<lambda>current_participant_count.
   let s2 = s1\<lparr>RoscaParticipantsCount :=
         (RoscaParticipantsCount s1)(rosca_id \<mapsto> current_participant_count)\<rparr> in
   try_do (refund_deposit T rosca_id signer pending_rosca s2) (\<lambda>s4.
   Inr (deposit_event (LeftRosca rosca_id signer) s4))))))))))"

section \<open>start_rosca\<close>

text \<open>\<open>for _ in 1..count { t = t.checked_add(frequency)? }\<close> makes \<open>count - 1\<close> additions.\<close>

fun add_periods :: "moment \<Rightarrow> moment \<Rightarrow> nat \<Rightarrow> dispatch_error + moment" where
  "add_periods frequency t 0 = Inr t"
| "add_periods frequency t (Suc n) =
     ok_or (checked_add t frequency) (Module ArithmeticOverflow) (\<lambda>t'. add_periods frequency t' n)"

definition start_rosca ::
  "('o, 'a, 'l) config \<Rightarrow> 'o \<Rightarrow> rosca_id \<Rightarrow> ('a, 'l) pallet
   \<Rightarrow> dispatch_error + ('a, 'l) pallet" where
  "start_rosca T origin rosca_id s =
   try_do (ensure_signed T origin) (\<lambda>signer.
   ensure (ActiveRoscas s rosca_id = None) (Module RoscaAlreadyActive) (
   ok_or (RoscaParticipants s rosca_id signer) (Module NotAParticipant) (\<lambda>participant_index.
   ok_or (PendingRoscaDetails s rosca_id) (Module RoscaNotFound) (\<lambda>pending_rosca.
   ok_or (PendingRoscaParticipantsOrder s rosca_id) (Module RoscaParticipantsNotFound)
     (\<lambda>pending_rosca_order.
   let current_timestamp = Now s in
   ensure (current_timestamp < rd_start_by_timestamp pending_rosca)
     (Module StartByTimestampMustBeFuture) (
   ok_or (RoscaParticipantsCount s rosca_id) (Module RoscaParticipantCountNotFound) (\<lambda>count.
   ensure (rd_minimum_participant_threshold pending_rosca \<le> count)
     (Module ParticipantThresholdNotMet) (
   let filtered_order = List.map_filter (\<lambda>p. p) (rev pending_rosca_order) in
   ensure (length filtered_order \<le> unat (MaxParticipants T)) (Module TooManyProposedParticipants) (
   let active_rosca_order =
         (if rd_random_order pending_rosca then shuffle_participants T s filtered_order
          else filtered_order) in
   try_do (map_err Module (generate_rounds T active_rosca_order current_timestamp
             (rd_contribution_frequency pending_rosca))) (\<lambda>rosca_rounds.
   ensure (active_rosca_order \<noteq> []) Panicked (
   let first_eligible_claimant = active_rosca_order ! (length active_rosca_order - 1);
       s1 = s\<lparr>EligibleClaimant := (EligibleClaimant s)(rosca_id \<mapsto> first_eligible_claimant)\<rparr> in
   ok_or (try_rotate_right 1 active_rosca_order) (Module ArithmeticError) (\<lambda>rotated.
   let s2 = s1\<lparr>ActiveRoscaParticipantsOrder :=
         (ActiveRoscaParticipantsOrder s1)(rosca_id \<mapsto> rotated)\<rparr> in
   ok_or (checked_add current_timestamp (rd_contribution_frequency pending_rosca))
     (Module ArithmeticOverflow) (\<lambda>next_pay_by_timestamp.
   try_do (add_periods (rd_contribution_frequency pending_rosca) next_pay_by_timestamp
             (unat count - 1)) (\<lambda>final_pay_by_timestamp.
   let s3 = s2\<lparr>
         NextPayByTimestamp := (NextPayByTimestamp s2)(rosca_id \<mapsto> next_pay_by_timestamp),
         FinalPayByTimestamp := (FinalPayByTimestamp s2)(rosca_id \<mapsto> final_pay_by_timestamp),
         ActiveRoscas := (ActiveRoscas s2)(rosca_id \<mapsto> pending_rosca),
         PendingRoscaDetails := (PendingRoscaDetails s2)(rosca_id := None)\<rparr> in
   Inr (deposit_event
     (RoscaStarted rosca_id signer rosca_rounds first_eligible_claimant next_pay_by_timestamp)
     s3)))))))))))))))"

section \<open>process_defaulters\<close>

text \<open>The body of the loop over the payout order.\<close>

definition process_participant ::
  "('o, 'a, 'l) config \<Rightarrow> rosca_id \<Rightarrow> RoscaDetails \<Rightarrow> 'a \<Rightarrow> 'a \<Rightarrow> ('a, 'l) pallet
   \<Rightarrow> dispatch_error + ('a, 'l) pallet" where
  "process_participant T rosca_id rosca eligible_claimant participant s =
     (if participant = eligible_claimant then Inr s
      else if CurrentContributors s rosca_id participant = None then
        let participant_deposit = unwrap_or 0 (RoscaSecurityDeposits s rosca_id participant);
            asset = asset_id (rd_payment_asset rosca);
            rosca_account = rosca_account_id T rosca_id;
            set_deposit = (\<lambda>v t. t\<lparr>RoscaSecurityDeposits := (RoscaSecurityDeposits t)
              (rosca_id := (RoscaSecurityDeposits t rosca_id)(participant \<mapsto> v))\<rparr>) in
        if participant_deposit < rd_contribution_amount rosca then
          try_do
            (if 0 < participant_deposit then
               try_do (currency_transfer T asset rosca_account eligible_claimant
                         (ucast participant_deposit) s) (\<lambda>s1.
               Inr (deposit_event
                 (DepositDeducted rosca_id participant eligible_claimant
                    (ucast participant_deposit) False)
                 (set_deposit 0 s1)))
             else Inr s) (\<lambda>s2.
          Inr (deposit_event (ParticipantDefaulted rosca_id eligible_claimant participant)
            (s2\<lparr>DefaultCount := (DefaultCount s2)(rosca_id :=
               (DefaultCount s2 rosca_id)
                 (participant := saturating_add (DefaultCount s2 rosca_id participant) 1))\<rparr>)))
        else
          try_do (currency_transfer T asset rosca_account eligible_claimant
                    (ucast (rd_contribution_amount rosca)) s) (\<lambda>s1.
          let remaining =
                unwrap_or 0 (checked_sub participant_deposit (rd_contribution_amount rosca)) in
          Inr (deposit_event
            (DepositDeducted rosca_id participant eligible_claimant
               (ucast (rd_contribution_amount rosca)) True)
            (set_deposit remaining s1)))
      else Inr s)"

definition process_defaulters ::
  "('o, 'a, 'l) config \<Rightarrow> rosca_id \<Rightarrow> ('a, 'l) pallet \<Rightarrow> dispatch_error + ('a, 'l) pallet" where
  "process_defaulters T rosca_id s =
   ok_or (ActiveRoscas s rosca_id) (Module RoscaNotActive) (\<lambda>rosca.
   ok_or (EligibleClaimant s rosca_id) (Module NoEligbleClaimant) (\<lambda>eligible_claimant.
   ok_or (ActiveRoscaParticipantsOrder s rosca_id) (Module RoscaParticipantsNotFound)
     (\<lambda>active_order.
   try_for (process_participant T rosca_id rosca eligible_claimant) active_order s)))"

section \<open>advance_rosca_round\<close>

definition clear_contributions ::
  "('o, 'a, 'l) config \<Rightarrow> rosca_id \<Rightarrow> u32 \<Rightarrow> ('a, 'l) pallet \<Rightarrow> ('a, 'l) pallet" where
  "clear_contributions T rosca_id count_to_clear s =
     s\<lparr>CurrentContributors := (CurrentContributors s)
         (rosca_id := clear_prefix T count_to_clear (CurrentContributors s rosca_id)),
       CurrentContributionCount := (CurrentContributionCount s)(rosca_id := 0)\<rparr>"

definition advance_rosca_round ::
  "('o, 'a, 'l) config \<Rightarrow> rosca_id \<Rightarrow> ('a, 'l) pallet \<Rightarrow> dispatch_error + ('a, 'l) pallet" where
  "advance_rosca_round T rosca_id s =
   ok_or (ActiveRoscas s rosca_id) (Module RoscaNotActive) (\<lambda>rosca.
   ok_or (NextPayByTimestamp s rosca_id) (Module NoNextPayByTimestamp) (\<lambda>next_pay_by.
   ok_or (checked_add next_pay_by (rd_contribution_frequency rosca))
     (Module ArithmeticOverflow) (\<lambda>next_pay_by_timestamp.
   let s1 = s\<lparr>NextPayByTimestamp :=
         (NextPayByTimestamp s)(rosca_id \<mapsto> next_pay_by_timestamp)\<rparr> in
   ok_or (ActiveRoscaParticipantsOrder s1 rosca_id) (Module RoscaParticipantsNotFound)
     (\<lambda>active_order.
   ensure (active_order \<noteq> []) Panicked (
   let new_eligible = active_order ! (length active_order - 1);
       s2 = s1\<lparr>EligibleClaimant := (EligibleClaimant s1)(rosca_id \<mapsto> new_eligible)\<rparr> in
   ok_or (try_rotate_right 1 active_order) (Module ArithmeticError) (\<lambda>active_order.
   let s3 = s2\<lparr>ActiveRoscaParticipantsOrder :=
         (ActiveRoscaParticipantsOrder s2)(rosca_id \<mapsto> active_order)\<rparr>;
       count_to_clear = of_nat (length active_order - 1);
       s4 = clear_contributions T rosca_id count_to_clear s3 in
   Inr (deposit_event (NewRoundStarted rosca_id new_eligible next_pay_by_timestamp) s4)))))))"

section \<open>check_and_complete_rosca\<close>

text \<open>
  The three statements that complete a ROSCA: they stand in \<^verbatim>\<open>check_and_complete_rosca\<close>,
  \<^verbatim>\<open>contribute_to_rosca\<close> and \<^verbatim>\<open>manually_end_rosca\<close>.
\<close>

definition complete_rosca :: "rosca_id \<Rightarrow> ('a, 'l) pallet \<Rightarrow> ('a, 'l) pallet" where
  "complete_rosca rosca_id s =
     deposit_event (RoscaComplete rosca_id)
       (s\<lparr>CompletedRoscas := (CompletedRoscas s)(rosca_id \<mapsto> ()),
          ActiveRoscas := (ActiveRoscas s)(rosca_id := None)\<rparr>)"

definition check_and_complete_rosca ::
  "('o, 'a, 'l) config \<Rightarrow> rosca_id \<Rightarrow> ('a, 'l) pallet
   \<Rightarrow> dispatch_error + (bool \<times> ('a, 'l) pallet)" where
  "check_and_complete_rosca T rosca_id s =
   ok_or (ActiveRoscas s rosca_id) (Module RoscaNotActive) (\<lambda>rosca.
   ok_or (FinalPayByTimestamp s rosca_id) (Module FinalPayByTimestampNotFound)
     (\<lambda>final_pay_by_timestamp.
   ok_or (NextPayByTimestamp s rosca_id) (Module NoNextPayByTimestamp) (\<lambda>next_pay_by_timestamp.
   if final_pay_by_timestamp < next_pay_by_timestamp then Inr (True, complete_rosca rosca_id s)
   else Inr (False, s))))"

section \<open>contribute_to_rosca\<close>

text \<open>
  The locals the catch-up loop of \<^verbatim>\<open>contribute_to_rosca\<close> updates, with the storage. One iteration
  leaves the loop with an error, with the completed state (the early \<open>return Ok(())\<close>), or, when
  the guard fails, with the locals.
\<close>

record ('a, 'l) catch_up =
  cu_next_pay_by :: moment
  cu_order :: "'a list"
  cu_claimant :: 'a
  cu_state :: "('a, 'l) pallet"

datatype ('a, 'l) catch_up_exit = Completed "('a, 'l) pallet" | CaughtUp "('a, 'l) catch_up"

definition catch_up_iteration ::
  "('o, 'a, 'l) config \<Rightarrow> rosca_id \<Rightarrow> moment \<Rightarrow> ('a, 'l) catch_up
   \<Rightarrow> dispatch_error + (('a, 'l) catch_up_exit + ('a, 'l) catch_up)" where
  "catch_up_iteration T rosca_id current_timestamp c =
     (if cu_next_pay_by c \<le> current_timestamp then
        try_do (process_defaulters T rosca_id (cu_state c)) (\<lambda>s1.
        try_do (advance_rosca_round T rosca_id s1) (\<lambda>s2.
        try_do (check_and_complete_rosca T rosca_id s2) (\<lambda>(completed, s3).
        if completed then Inr (Inl (Completed s3))
        else
          ok_or (NextPayByTimestamp s3 rosca_id) (Module NoNextPayByTimestamp) (\<lambda>next_pay_by.
          ok_or (ActiveRoscaParticipantsOrder s3 rosca_id) (Module RoscaParticipantsNotFound)
            (\<lambda>order.
          ok_or (EligibleClaimant s3 rosca_id) (Module NoEligbleClaimant) (\<lambda>claimant.
          Inr (Inr \<lparr>cu_next_pay_by = next_pay_by, cu_order = order, cu_claimant = claimant,
                    cu_state = s3\<rparr>)))))))
      else Inr (Inl (CaughtUp c)))"

definition catch_up_body ::
  "('o, 'a, 'l) config \<Rightarrow> rosca_id \<Rightarrow> moment \<Rightarrow> ('a, 'l) catch_up
   \<Rightarrow> (dispatch_error + ('a, 'l) catch_up_exit) + ('a, 'l) catch_up" where
  "catch_up_body T rosca_id current_timestamp c =
     (case catch_up_iteration T rosca_id current_timestamp c of
        Inl e \<Rightarrow> Inl (Inl e)
      | Inr (Inl x) \<Rightarrow> Inl (Inr x)
      | Inr (Inr c') \<Rightarrow> Inr c')"

text \<open>The guards before the loop: the details of the ROSCA, its final cutoff and the initial locals.\<close>

definition contribute_guards ::
  "'a \<Rightarrow> rosca_id \<Rightarrow> ('a, 'l) pallet
   \<Rightarrow> dispatch_error + (RoscaDetails \<times> moment \<times> ('a, 'l) catch_up)" where
  "contribute_guards signer rosca_id s =
   ensure (RoscaParticipants s rosca_id signer \<noteq> None) (Module NotAParticipant) (
   ensure (CompletedRoscas s rosca_id = None) (Module RoscaAlreadyCompleted) (
   ok_or (ActiveRoscas s rosca_id) (Module RoscaNotActive) (\<lambda>rosca.
   ok_or (EligibleClaimant s rosca_id) (Module NoEligbleClaimant) (\<lambda>eligible_claimant.
   ensure (eligible_claimant \<noteq> signer) (Module CantContributeToSelf) (
   ensure (CurrentContributors s rosca_id signer = None) (Module AlreadyContributed) (
   ok_or (FinalPayByTimestamp s rosca_id) (Module FinalPayByTimestampNotFound)
     (\<lambda>final_pay_by_timestamp.
   ok_or (NextPayByTimestamp s rosca_id) (Module NoNextPayByTimestamp) (\<lambda>next_pay_by_timestamp.
   ok_or (ActiveRoscaParticipantsOrder s rosca_id) (Module RoscaParticipantsNotFound) (\<lambda>order.
   Inr (rosca, final_pay_by_timestamp,
        \<lparr>cu_next_pay_by = next_pay_by_timestamp, cu_order = order,
         cu_claimant = eligible_claimant, cu_state = s\<rparr>))))))))))"

text \<open>
  What follows the loop: the payment, and the end of the round when everybody has paid.
  \<open>(order.len() - 1) as u32\<close> is a subtraction on the 32-bit \<open>usize\<close>.
\<close>

definition contribute_payment ::
  "('o, 'a, 'l) config \<Rightarrow> 'a \<Rightarrow> rosca_id \<Rightarrow> RoscaDetails \<Rightarrow> moment \<Rightarrow> ('a, 'l) catch_up
   \<Rightarrow> dispatch_error + ('a, 'l) pallet" where
  "contribute_payment T signer rosca_id rosca final_pay_by_timestamp c =
   (let eligible_claimant = cu_claimant c; order = cu_order c; s = cu_state c in
   try_do (currency_transfer T (asset_id (rd_payment_asset rosca)) signer eligible_claimant
             (ucast (rd_contribution_amount rosca)) s) (\<lambda>s1.
   let s2 = s1\<lparr>CurrentContributors := (CurrentContributors s1)
         (rosca_id := (CurrentContributors s1 rosca_id)(signer \<mapsto> ()))\<rparr> in
   ok_or (checked_add (CurrentContributionCount s2 rosca_id) 1) (Module ArithmeticOverflow)
     (\<lambda>current_contribution_count.
   let s3 = deposit_event
         (ContributionMade rosca_id signer eligible_claimant (ucast (rd_contribution_amount rosca)))
         (s2\<lparr>CurrentContributionCount :=
            (CurrentContributionCount s2)(rosca_id := current_contribution_count)\<rparr>) in
   if current_contribution_count = of_nat (length order) - 1 then
     ok_or (checked_add (cu_next_pay_by c) (rd_contribution_frequency rosca))
       (Module ArithmeticOverflow) (\<lambda>next_pay_by_timestamp.
     if final_pay_by_timestamp < next_pay_by_timestamp then Inr (complete_rosca rosca_id s3)
     else ensure (order \<noteq> []) Panicked (
       let s4 = s3\<lparr>NextPayByTimestamp :=
             (NextPayByTimestamp s3)(rosca_id \<mapsto> next_pay_by_timestamp)\<rparr>;
           new_claimant = order ! (length order - 1);
           s5 = s4\<lparr>EligibleClaimant := (EligibleClaimant s4)(rosca_id \<mapsto> new_claimant)\<rparr> in
       ok_or (try_rotate_right 1 order) (Module ArithmeticError) (\<lambda>rotated.
       let s6 = s5\<lparr>ActiveRoscaParticipantsOrder :=
             (ActiveRoscaParticipantsOrder s5)(rosca_id \<mapsto> rotated)\<rparr>;
           s7 = clear_contributions T rosca_id (of_nat (length rotated - 1)) s6 in
       Inr (deposit_event (NewRoundStarted rosca_id new_claimant next_pay_by_timestamp) s7))))
   else Inr s3)))"

definition contribute_to_rosca ::
  "('o, 'a, 'l) config \<Rightarrow> 'o \<Rightarrow> rosca_id \<Rightarrow> ('a, 'l) pallet
   \<Rightarrow> (dispatch_error + ('a, 'l) pallet) option" where
  "contribute_to_rosca T origin rosca_id s =
     (case try_do (ensure_signed T origin) (\<lambda>signer.
             try_do (contribute_guards signer rosca_id s) (\<lambda>g. Inr (signer, g))) of
        Inl e \<Rightarrow> Some (Inl e)
      | Inr (signer, rosca, final_pay_by_timestamp, c) \<Rightarrow>
          (case run_loop (catch_up_body T rosca_id (Now s)) c of
             None \<Rightarrow> None
           | Some (Inl e) \<Rightarrow> Some (Inl e)
           | Some (Inr (Completed s')) \<Rightarrow> Some (Inr s')
           | Some (Inr (CaughtUp c')) \<Rightarrow>
               Some (contribute_payment T signer rosca_id rosca final_pay_by_timestamp c')))"

section \<open>manually_end_rosca\<close>

text \<open>
  One iteration of \<open>while let Some(next_pay_by) = ..\<close>: the loop ends when there is no next cutoff,
  at the \<open>break\<close>, or with an error.
\<close>

definition end_rounds_body ::
  "('o, 'a, 'l) config \<Rightarrow> rosca_id \<Rightarrow> moment \<Rightarrow> ('a, 'l) pallet
   \<Rightarrow> (dispatch_error + ('a, 'l) pallet) + ('a, 'l) pallet" where
  "end_rounds_body T rosca_id final_pay_by_timestamp s =
     (case NextPayByTimestamp s rosca_id of
        None \<Rightarrow> Inl (Inr s)
      | Some next_pay_by \<Rightarrow>
          if next_pay_by \<le> final_pay_by_timestamp then
            (case try_do (process_defaulters T rosca_id s) (advance_rosca_round T rosca_id) of
               Inl e \<Rightarrow> Inl (Inl e)
             | Inr s' \<Rightarrow> Inr s')
          else Inl (Inr s))"

definition manually_end_rosca ::
  "('o, 'a, 'l) config \<Rightarrow> 'o \<Rightarrow> rosca_id \<Rightarrow> ('a, 'l) pallet
   \<Rightarrow> (dispatch_error + ('a, 'l) pallet) option" where
  "manually_end_rosca T origin rosca_id s =
     (case try_do (ensure_signed T origin) (\<lambda>_.
             ok_or (ActiveRoscas s rosca_id) (Module RoscaNotActive) (\<lambda>rosca.
             ok_or (FinalPayByTimestamp s rosca_id) (Module FinalPayByTimestampNotFound)
               (\<lambda>final_pay_by_timestamp.
             ensure (final_pay_by_timestamp < Now s) (Module FinalPayByTimestampMustBePast)
               (Inr (rosca, final_pay_by_timestamp))))) of
        Inl e \<Rightarrow> Some (Inl e)
      | Inr (rosca, final_pay_by_timestamp) \<Rightarrow>
          (case run_loop (end_rounds_body T rosca_id final_pay_by_timestamp) s of
             None \<Rightarrow> None
           | Some (Inl e) \<Rightarrow> Some (Inl e)
           | Some (Inr s') \<Rightarrow> Some (
               ok_or (NextPayByTimestamp s' rosca_id) (Module NoNextPayByTimestamp) (\<lambda>next_pay_by.
               ok_or (checked_add final_pay_by_timestamp (rd_contribution_frequency rosca))
                 (Module ArithmeticOverflow) (\<lambda>expected.
               ensure (next_pay_by = expected) (Module ArithmeticError)
                 (Inr (complete_rosca rosca_id s')))))))"

section \<open>claim_security_deposit\<close>

definition claim_security_deposit ::
  "('o, 'a, 'l) config \<Rightarrow> 'o \<Rightarrow> rosca_id \<Rightarrow> PaymentAssets \<Rightarrow> ('a, 'l) pallet
   \<Rightarrow> dispatch_error + ('a, 'l) pallet" where
  "claim_security_deposit T origin rosca_id asset s =
   try_do (ensure_signed T origin) (\<lambda>signer.
   ok_or (FinalPayByTimestamp s rosca_id) (Module FinalPayByTimestampNotFound)
     (\<lambda>final_pay_by_timestamp.
   ensure (final_pay_by_timestamp < Now s) (Module FinalPayByTimestampMustBePast) (
   ensure (PendingRoscaDetails s rosca_id \<noteq> None \<or> CompletedRoscas s rosca_id \<noteq> None)
     (Module RoscaStillActive) (
   ok_or (RoscaSecurityDeposits s rosca_id signer) (Module SecurityDepositNotFound)
     (\<lambda>participant_deposit.
   ensure (0 < participant_deposit) (Module SecurityDepositIsZero) (
   try_do (currency_transfer T (asset_id asset) (rosca_account_id T rosca_id) signer
             (ucast participant_deposit) s) (\<lambda>s1.
   Inr (deposit_event (SecurityDepositClaimed rosca_id signer (ucast participant_deposit))
     (s1\<lparr>RoscaSecurityDeposits := (RoscaSecurityDeposits s1)
        (rosca_id := (RoscaSecurityDeposits s1 rosca_id)(signer := None))\<rparr>)))))))))"

section \<open>add_to_security_deposit\<close>

definition add_to_security_deposit ::
  "('o, 'a, 'l) config \<Rightarrow> 'o \<Rightarrow> rosca_id \<Rightarrow> u32 \<Rightarrow> ('a, 'l) pallet
   \<Rightarrow> dispatch_error + ('a, 'l) pallet" where
  "add_to_security_deposit T origin rosca_id amount s =
   try_do (ensure_signed T origin) (\<lambda>signer.
   ensure (RoscaParticipants s rosca_id signer \<noteq> None) (Module NotAParticipant) (
   ensure (CompletedRoscas s rosca_id = None) (Module RoscaAlreadyCompleted) (
   ok_or (case ActiveRoscas s rosca_id of
            Some d \<Rightarrow> Some d | None \<Rightarrow> PendingRoscaDetails s rosca_id)
     (Module RoscaNotFound) (\<lambda>rosca.
   try_do (currency_transfer T (asset_id (rd_payment_asset rosca)) signer
             (rosca_account_id T rosca_id) (ucast amount) s) (\<lambda>s1.
   let participant_deposit = unwrap_or 0 (RoscaSecurityDeposits s1 rosca_id signer) in
   ok_or (checked_add participant_deposit amount) (Module ArithmeticOverflow)
     (\<lambda>new_deposit_balance.
   Inr (deposit_event (SecurityDepositContribution rosca_id signer (ucast amount))
     (s1\<lparr>RoscaSecurityDeposits := (RoscaSecurityDeposits s1)
        (rosca_id := (RoscaSecurityDeposits s1 rosca_id)(signer \<mapsto> new_deposit_balance))\<rparr>))))))))"

section \<open>The call enumeration\<close>

text \<open>
  \<open>#[pallet::call]\<close> makes one constructor per dispatchable, in the order of its \<open>call_index\<close>; a
  call is dispatched to the function of the same name.
\<close>

datatype 'a rosca_call =
    Call_create_rosca bool "'a list" u32 u32 PaymentAssets moment moment "u32 option" "u8 list"
  | Call_join_rosca rosca_id "u32 option"
  | Call_leave_rosca rosca_id
  | Call_start_rosca rosca_id
  | Call_contribute_to_rosca rosca_id
  | Call_manually_end_rosca rosca_id
  | Call_claim_security_deposit rosca_id PaymentAssets
  | Call_add_to_security_deposit rosca_id u32

fun dispatch_call ::
  "('o, 'a::linorder, 'l) config \<Rightarrow> 'o \<Rightarrow> 'a rosca_call \<Rightarrow> ('a, 'l) pallet
   \<Rightarrow> (dispatch_error + ('a, 'l) pallet) option" where
  "dispatch_call T origin (Call_create_rosca random_order invited threshold amount asset frequency
     start_by position name) s =
     Some (create_rosca T origin random_order invited threshold amount asset frequency start_by
       position name s)"
| "dispatch_call T origin (Call_join_rosca rosca_id position) s =
     Some (join_rosca T origin rosca_id position s)"
| "dispatch_call T origin (Call_leave_rosca rosca_id) s = Some (leave_rosca T origin rosca_id s)"
| "dispatch_call T origin (Call_start_rosca rosca_id) s = Some (start_rosca T origin rosca_id s)"
| "dispatch_call T origin (Call_contribute_to_rosca rosca_id) s =
     contribute_to_rosca T origin rosca_id s"
| "dispatch_call T origin (Call_manually_end_rosca rosca_id) s =
     manually_end_rosca T origin rosca_id s"
| "dispatch_call T origin (Call_claim_security_deposit rosca_id asset) s =
     Some (claim_security_deposit T origin rosca_id asset s)"
| "dispatch_call T origin (Call_add_to_security_deposit rosca_id amount) s =
     Some (add_to_security_deposit T origin rosca_id amount s)"

end
