(* ===== verification/Rosca_Invariant.thy ===== *)
theory Rosca_Invariant
  imports Rosca_Pallet
begin

text \<open>
  The well-formedness invariant of the pallet's storage and its preservation by every
  dispatchable. A ROSCA is fresh, pending, active or completed; the invariant relates the storage
  items of a ROSCA in each phase. Every operation on a ROSCA leaves the storage of all others
  alone, so preservation is shown for one ROSCA and carried over to all.
\<close>

section \<open>What the pallet relies on\<close>

text \<open>
  \<open>clear_prefix(k, limit, None)\<close> removes every entry below \<open>k\<close> when there are at most \<open>limit\<close>
  (FRAME documents \<open>limit\<close> as the maximum number of deletions).
\<close>

definition clears_prefix :: "('o, 'a, 'l) config \<Rightarrow> bool" where
  "clears_prefix T \<longleftrightarrow>
     (\<forall>limit m. finite (dom m) \<longrightarrow> card (dom m) \<le> unat limit \<longrightarrow> clear_prefix T limit m = Map.empty)"

section \<open>The invariant\<close>

text \<open>The positions of a pending ROSCA and the participants map describe each other.\<close>

definition slots_ok :: "'a option list \<Rightarrow> ('a \<Rightarrow> u32 option) \<Rightarrow> bool" where
  "slots_ok order parts \<longleftrightarrow>
     (\<forall>a p. parts a = Some p \<longleftrightarrow> unat p < length order \<and> order ! unat p = Some a)"

definition terms_ok :: "RoscaDetails \<Rightarrow> bool" where
  "terms_ok d \<longleftrightarrow> 0 < rd_contribution_frequency d \<and> 0 < rd_contribution_amount d"

definition pending_ok ::
  "('o, 'a, 'l) config \<Rightarrow> ('a, 'l) pallet \<Rightarrow> rosca_id \<Rightarrow> RoscaDetails \<Rightarrow> bool" where
  "pending_ok T s r d \<longleftrightarrow>
     terms_ok d \<and> ActiveRoscas s r = None \<and> CompletedRoscas s r = None \<and>
     CurrentContributors s r = Map.empty \<and> CurrentContributionCount s r = 0 \<and>
     rd_minimum_participant_threshold d \<le> rd_number_of_participants d \<and>
     rd_number_of_participants d \<le> MaxParticipants T \<and>
     (\<exists>order c. PendingRoscaParticipantsOrder s r = Some order \<and>
        length order = unat (rd_number_of_participants d) \<and>
        slots_ok order (RoscaParticipants s r) \<and>
        RoscaParticipantsCount s r = Some c \<and> unat c = card (dom (RoscaParticipants s r)))"

text \<open>
  The payout order of an active ROSCA starts with the current claimant, with \<open>k\<close> rounds to
  go, the current one included, the cutoff of the current round is \<open>k\<close> periods before the end (one
  period after the final cutoff), and the round is not yet fully paid.
\<close>

definition round_ok ::
  "('o, 'a, 'l) config \<Rightarrow> ('a, 'l) pallet \<Rightarrow> rosca_id \<Rightarrow> RoscaDetails
   \<Rightarrow> 'a list \<Rightarrow> moment \<Rightarrow> moment \<Rightarrow> nat \<Rightarrow> bool" where
  "round_ok T s r d xs n f k \<longleftrightarrow>
     ActiveRoscaParticipantsOrder s r = Some xs \<and> xs \<noteq> [] \<and> distinct xs \<and>
     set xs = dom (RoscaParticipants s r) \<and> length xs \<le> unat (MaxParticipants T) \<and>
     EligibleClaimant s r = Some (hd xs) \<and>
     NextPayByTimestamp s r = Some n \<and> FinalPayByTimestamp s r = Some f \<and>
     unat f + unat (rd_contribution_frequency d) =
       unat n + k * unat (rd_contribution_frequency d) \<and> k \<le> length xs \<and>
     unat f + unat (rd_contribution_frequency d) < 2 ^ 64 \<and>
     dom (CurrentContributors s r) \<subseteq> set xs \<and>
     card (dom (CurrentContributors s r)) = unat (CurrentContributionCount s r) \<and>
     unat (CurrentContributionCount s r) + 1 < max 2 (length xs)"

definition active_ok ::
  "('o, 'a, 'l) config \<Rightarrow> ('a, 'l) pallet \<Rightarrow> rosca_id \<Rightarrow> RoscaDetails \<Rightarrow> bool" where
  "active_ok T s r d \<longleftrightarrow>
     terms_ok d \<and> PendingRoscaDetails s r = None \<and> CompletedRoscas s r = None \<and>
     (\<exists>xs n f k. round_ok T s r d xs n f k \<and> 0 < k)"

definition rosca_inv :: "('o, 'a, 'l) config \<Rightarrow> ('a, 'l) pallet \<Rightarrow> rosca_id \<Rightarrow> bool" where
  "rosca_inv T s r \<longleftrightarrow>
     finite (dom (RoscaSecurityDeposits s r)) \<and>
     (\<forall>d. PendingRoscaDetails s r = Some d \<longrightarrow> pending_ok T s r d) \<and>
     (\<forall>d. ActiveRoscas s r = Some d \<longrightarrow> active_ok T s r d)"

text \<open>Nothing is stored for an identifier that has not been given out.\<close>

definition fresh_at :: "('a, 'l) pallet \<Rightarrow> rosca_id \<Rightarrow> bool" where
  "fresh_at s r \<longleftrightarrow>
     ActiveRoscas s r = None \<and> CompletedRoscas s r = None \<and> PendingRoscaDetails s r = None \<and>
     RoscaParticipants s r = Map.empty \<and> RoscaInvitedPreverifiedParticipants s r = Map.empty \<and>
     RoscaParticipantsCount s r = None \<and> RoscaSecurityDeposits s r = Map.empty \<and>
     PendingRoscaParticipantsOrder s r = None \<and> ActiveRoscaParticipantsOrder s r = None \<and>
     NextPayByTimestamp s r = None \<and> FinalPayByTimestamp s r = None \<and>
     EligibleClaimant s r = None \<and> CurrentContributors s r = Map.empty \<and>
     CurrentContributionCount s r = 0"

definition pallet_inv :: "('o, 'a, 'l) config \<Rightarrow> ('a, 'l) pallet \<Rightarrow> bool" where
  "pallet_inv T s \<longleftrightarrow>
     (\<forall>r. rosca_inv T s r) \<and> (\<forall>r. NextRoscaId s \<le> r \<longrightarrow> fresh_at s r)"

section \<open>Operations act on one ROSCA\<close>

definition same_at :: "('a, 'l) pallet \<Rightarrow> ('a, 'l) pallet \<Rightarrow> rosca_id \<Rightarrow> bool" where
  "same_at s t q \<longleftrightarrow>
     ActiveRoscas t q = ActiveRoscas s q \<and> CompletedRoscas t q = CompletedRoscas s q \<and>
     RoscaParticipants t q = RoscaParticipants s q \<and>
     RoscaInvitedPreverifiedParticipants t q = RoscaInvitedPreverifiedParticipants s q \<and>
     RoscaParticipantsCount t q = RoscaParticipantsCount s q \<and>
     RoscaSecurityDeposits t q = RoscaSecurityDeposits s q \<and>
     PendingRoscaParticipantsOrder t q = PendingRoscaParticipantsOrder s q \<and>
     ActiveRoscaParticipantsOrder t q = ActiveRoscaParticipantsOrder s q \<and>
     PendingRoscaDetails t q = PendingRoscaDetails s q \<and>
     NextPayByTimestamp t q = NextPayByTimestamp s q \<and>
     FinalPayByTimestamp t q = FinalPayByTimestamp s q \<and>
     EligibleClaimant t q = EligibleClaimant s q \<and> RoscaAccounts t q = RoscaAccounts s q \<and>
     CurrentContributors t q = CurrentContributors s q \<and>
     CurrentContributionCount t q = CurrentContributionCount s q \<and>
     DefaultCount t q = DefaultCount s q"

definition acts_at :: "rosca_id \<Rightarrow> ('a, 'l) pallet \<Rightarrow> ('a, 'l) pallet \<Rightarrow> bool" where
  "acts_at r s t \<longleftrightarrow> (\<forall>q. q \<noteq> r \<longrightarrow> same_at s t q) \<and> Now t = Now s \<and> BlockNumber t = BlockNumber s"

lemma acts_at_refl [simp]: "acts_at r s s"
  by (simp add: acts_at_def same_at_def)

lemma acts_at_trans: "acts_at r s t \<Longrightarrow> acts_at r t u \<Longrightarrow> acts_at r s u"
  by (simp add: acts_at_def same_at_def)

lemma rosca_inv_cong: "same_at s t q \<Longrightarrow> rosca_inv T t q = rosca_inv T s q"
  by (simp add: same_at_def rosca_inv_def pending_ok_def active_ok_def round_ok_def)

lemma fresh_at_cong: "same_at s t q \<Longrightarrow> fresh_at t q = fresh_at s q"
  by (simp add: same_at_def fresh_at_def)

lemma pallet_inv_acts_at:
  assumes "pallet_inv T s" and "acts_at r s t" and "NextRoscaId t = NextRoscaId s"
    and "rosca_inv T t r" and "\<not> fresh_at s r"
  shows "pallet_inv T t"
  using assms unfolding pallet_inv_def acts_at_def
  by (metis fresh_at_cong rosca_inv_cong)

end
