(* ===== verification/Rosca_Membership.thy ===== *)
theory Rosca_Membership
  imports Rosca_Invariant
begin

text \<open>
  The life of a ROSCA up to its start: \<^verbatim>\<open>create_rosca\<close>, \<^verbatim>\<open>join_rosca\<close>, \<^verbatim>\<open>leave_rosca\<close> and
  \<^verbatim>\<open>start_rosca\<close>. For each operation, what a successful call has checked and stored, and that
  it keeps the invariant.
\<close>

section \<open>create_rosca\<close>

lemma invite_all_shape:
  "\<exists>I. fst (invite_all T r xs (s, acc)) = s\<lparr>RoscaInvitedPreverifiedParticipants := I\<rparr> \<and>
     (\<forall>q. q \<noteq> r \<longrightarrow> I q = RoscaInvitedPreverifiedParticipants s q) \<and>
     I r = (\<lambda>a. if a \<in> set xs then Some () else RoscaInvitedPreverifiedParticipants s r a)"
proof (induction xs arbitrary: s acc)
  case Nil
  show ?case
    by (rule exI [of _ "RoscaInvitedPreverifiedParticipants s"]) simp
next
  case (Cons x xs)
  let ?s = "s\<lparr>RoscaInvitedPreverifiedParticipants := (RoscaInvitedPreverifiedParticipants s)
      (r := (RoscaInvitedPreverifiedParticipants s r)(x \<mapsto> ()))\<rparr>"
  obtain I where "fst (invite_all T r xs (?s, try_push (MaxParticipants T) acc x)) =
        ?s\<lparr>RoscaInvitedPreverifiedParticipants := I\<rparr>"
    and "\<forall>q. q \<noteq> r \<longrightarrow> I q = RoscaInvitedPreverifiedParticipants ?s q"
    and "I r = (\<lambda>a. if a \<in> set xs then Some () else RoscaInvitedPreverifiedParticipants ?s r a)"
    using Cons.IH [of ?s] by blast
  then show ?case
    by (intro exI [of _ I]) (auto simp: fun_eq_iff)
qed

text \<open>What a successful \<^verbatim>\<open>create_rosca\<close> has checked and stored.\<close>

lemma create_rosca_effect:
  assumes "create_rosca T origin random_order invited threshold amount asset frequency start_by
    position name s = Inr t"
  obtains signer n I d where
    "ensure_signed T origin = Inr signer" "signer \<notin> set invited"
    "n = card (set invited) + 1" "n < 2 ^ 32" "n \<le> unat (MaxParticipants T)"
    "unat (unwrap_or 0 position) < n"
    "d = \<lparr>rd_random_order = random_order, rd_number_of_participants = of_nat n,
         rd_minimum_participant_threshold = threshold, rd_contribution_amount = amount,
         rd_payment_asset = asset, rd_contribution_frequency = frequency,
         rd_start_by_timestamp = start_by, rd_name = name\<rparr>"
    "terms_ok d" "threshold \<le> of_nat n" "Now s < start_by"
    "t = deposit_event
       (RoscaCreated (NextRoscaId s) (ucast amount) asset frequency random_order name (of_nat n)
          threshold start_by
          (snd (invite_all T (NextRoscaId s) (signer # remdups_adj (sort invited)) (s, []))) signer)
       (s\<lparr>RoscaInvitedPreverifiedParticipants := I,
          PendingRoscaParticipantsOrder := (PendingRoscaParticipantsOrder s)
            (NextRoscaId s \<mapsto> (replicate n None)[unat (unwrap_or 0 position) := Some signer]),
          RoscaParticipants := (RoscaParticipants s)(NextRoscaId s :=
            (RoscaParticipants s (NextRoscaId s))(signer \<mapsto> unwrap_or 0 position)),
          RoscaParticipantsCount := (RoscaParticipantsCount s)(NextRoscaId s \<mapsto> 1),
          PendingRoscaDetails := (PendingRoscaDetails s)(NextRoscaId s \<mapsto> d),
          NextRoscaId := NextRoscaId s + 1\<rparr>)"
    "\<forall>q. q \<noteq> NextRoscaId s \<longrightarrow> I q = RoscaInvitedPreverifiedParticipants s q"
    "I (NextRoscaId s) = (\<lambda>a. if a = signer \<or> a \<in> set invited then Some ()
       else RoscaInvitedPreverifiedParticipants s (NextRoscaId s) a)"
proof -
  let ?r = "NextRoscaId s"
  from assms obtain signer where signer: "ensure_signed T origin = Inr signer"
    by (auto simp: create_rosca_def)
  let ?xs = "signer # remdups_adj (sort invited)"
  obtain I where I: "fst (invite_all T ?r ?xs (s, [])) = s\<lparr>RoscaInvitedPreverifiedParticipants := I\<rparr>"
    "\<forall>q. q \<noteq> ?r \<longrightarrow> I q = RoscaInvitedPreverifiedParticipants s q"
    "I ?r = (\<lambda>a. if a \<in> set ?xs then Some () else RoscaInvitedPreverifiedParticipants s ?r a)"
    using invite_all_shape [of T ?r ?xs s "[]"] by blast
  obtain acc where inv: "invite_all T ?r ?xs (s, []) =
      (s\<lparr>RoscaInvitedPreverifiedParticipants := I\<rparr>, acc)"
    using I(1) by (metis prod.collapse)
  define n where "n = card (set invited) + 1"
  have c: "usize_checked_add (length (remdups_adj (sort invited))) (Suc 0) =
      (if n < 2 ^ 32 then Some n else None)"
    by (simp add: usize_checked_add_def card_remdups_adj_sort n_def)
  from assms signer have small: "n < 2 ^ 32"
    by (auto simp: create_rosca_def Let_def c split: if_splits)
  then have un: "unat (of_nat n :: u32) = n"
    by (simp add: unat_of_nat)
  show thesis
    apply (rule that [of signer n _ I])
    using assms signer I(2,3) small un
    apply (auto simp: create_rosca_def Let_def inv c terms_ok_def simp del: invite_all.simps)
    apply (simp add: n_def)
    done
qed

lemma slots_ok_single:
  "unat p < n \<Longrightarrow> slots_ok ((replicate n None)[unat p := Some a]) [a \<mapsto> p]"
  by (auto simp: slots_ok_def nth_list_update word_unat_eq_iff split: if_splits)

lemma create_rosca_inv:
  assumes inv: "pallet_inv T s" and more: "NextRoscaId s \<noteq> - 1"
    and run: "create_rosca T origin random_order invited threshold amount asset frequency start_by
      position name s = Inr t"
  shows "pallet_inv T t"
proof -
  let ?r = "NextRoscaId s" and ?p = "unwrap_or 0 position"
  from run show ?thesis
  proof (rule create_rosca_effect)
    fix signer n I d
    assume n: "n < 2 ^ 32" "n \<le> unat (MaxParticipants T)" "unat ?p < n"
      and d: "d = \<lparr>rd_random_order = random_order, rd_number_of_participants = of_nat n,
         rd_minimum_participant_threshold = threshold, rd_contribution_amount = amount,
         rd_payment_asset = asset, rd_contribution_frequency = frequency,
         rd_start_by_timestamp = start_by, rd_name = name\<rparr>"
        "terms_ok d" "threshold \<le> of_nat n"
      and t: "t = deposit_event
       (RoscaCreated ?r (ucast amount) asset frequency random_order name (of_nat n)
          threshold start_by
          (snd (invite_all T ?r (signer # remdups_adj (sort invited)) (s, []))) signer)
       (s\<lparr>RoscaInvitedPreverifiedParticipants := I,
          PendingRoscaParticipantsOrder := (PendingRoscaParticipantsOrder s)
            (?r \<mapsto> (replicate n None)[unat ?p := Some signer]),
          RoscaParticipants := (RoscaParticipants s)(?r := (RoscaParticipants s ?r)(signer \<mapsto> ?p)),
          RoscaParticipantsCount := (RoscaParticipantsCount s)(?r \<mapsto> 1),
          PendingRoscaDetails := (PendingRoscaDetails s)(?r \<mapsto> d),
          NextRoscaId := ?r + 1\<rparr>)"
      and I: "\<forall>q. q \<noteq> ?r \<longrightarrow> I q = RoscaInvitedPreverifiedParticipants s q"
    have fresh: "fresh_at s ?r" and others: "\<And>q. rosca_inv T s q"
      using inv by (simp_all add: pallet_inv_def)
    have un: "unat (of_nat n :: u32) = n"
      using n by (simp add: unat_of_nat)
    have same: "same_at s t q" if "q \<noteq> ?r" for q
      using that I by (simp add: t same_at_def deposit_event_def)
    have "pending_ok T t ?r d"
      using fresh n un d slots_ok_single [OF n(3), of signer]
      by (simp add: pending_ok_def t deposit_event_def fresh_at_def word_le_nat_alt)
    then have here: "rosca_inv T t ?r"
      using fresh by (simp add: rosca_inv_def t deposit_event_def fresh_at_def)
    have "rosca_inv T t q" for q
      using here others rosca_inv_cong [OF same] by (cases "q = ?r") auto
    moreover have "fresh_at t q" if "?r + 1 \<le> q" for q
    proof -
      have "?r < q"
        using more that by (rule word_next_le_imp_less)
      then show ?thesis
        using inv fresh_at_cong [OF same, of q] by (auto simp: pallet_inv_def)
    qed
    ultimately show "pallet_inv T t"
      by (simp add: pallet_inv_def t deposit_event_def)
  qed
qed

section \<open>Positions of a pending ROSCA\<close>

lemma first_free_Some:
  "first_free xs = Some i \<Longrightarrow> i < length xs \<and> xs ! i = None \<and> (\<forall>j < i. xs ! j \<noteq> None)"
proof (induction xs arbitrary: i rule: first_free.induct)
  case (3 x xs)
  then show ?case by (auto simp: nth_Cons split: nat.splits)
qed auto

lemma first_free_None: "first_free xs = None \<longleftrightarrow> None \<notin> set xs"
  by (induction xs rule: first_free.induct) auto

lemma claim_position_Inr:
  assumes "claim_position signer position order = Inr (order', p)" and "length order < 2 ^ 32"
  shows "unat p < length order" "order ! unat p = None" "order' = order[unat p := Some signer]"
proof -
  have un: "unat (of_nat i :: u32) = i" if "i < length order" for i
    using that assms(2) by (simp add: unat_of_nat)
  show "unat p < length order" "order ! unat p = None" "order' = order[unat p := Some signer]"
    using assms(1) first_free_Some [of order] un
    by (auto simp: claim_position_def split: option.splits)
qed

lemma slots_ok_dom: "slots_ok order parts \<Longrightarrow> length order < 2 ^ 32 \<Longrightarrow> dom parts = {a. Some a \<in> set order}"
proof -
  assume ok: "slots_ok order parts" and len: "length order < 2 ^ 32"
  have "\<exists>p. parts a = Some p" if "i < length order" "order ! i = Some a" for a i
    using ok that len by (intro exI [of _ "of_nat i"]) (simp add: slots_ok_def unat_of_nat)
  then show ?thesis
    using ok by (auto simp: slots_ok_def in_set_conv_nth)
qed

lemma finite_slots: "finite {a. Some a \<in> set order}"
proof -
  have "{a. Some a \<in> set order} \<subseteq> the ` set order"
    by (auto intro: rev_image_eqI)
  then show ?thesis
    by (rule finite_subset) simp
qed

lemma slots_ok_iff:
  "slots_ok order parts \<Longrightarrow> parts b = Some q \<longleftrightarrow> unat q < length order \<and> order ! unat q = Some b"
  by (simp add: slots_ok_def)

lemma slots_ok_place:
  assumes "slots_ok order parts" and "unat p < length order" and "order ! unat p = None"
    and "parts a = None"
  shows "slots_ok (order[unat p := Some a]) (parts(a \<mapsto> p))"
  unfolding slots_ok_def
proof (intro allI)
  fix b q
  show "(parts(a \<mapsto> p)) b = Some q \<longleftrightarrow>
      unat q < length (order[unat p := Some a]) \<and> order[unat p := Some a] ! unat q = Some b"
    using assms(2-4) slots_ok_iff [OF assms(1), of b q] slots_ok_iff [OF assms(1), of a q]
    by (cases "q = p") (auto simp: nth_list_update word_unat_eq_iff)
qed

lemma slots_ok_remove:
  assumes "slots_ok order parts" and "parts a = Some p"
  shows "slots_ok (order[unat p := None]) (parts(a := None))"
  unfolding slots_ok_def
proof (intro allI)
  fix b q
  show "(parts(a := None)) b = Some q \<longleftrightarrow>
      unat q < length (order[unat p := None]) \<and> order[unat p := None] ! unat q = Some b"
    using assms(2) slots_ok_iff [OF assms(1), of b q] slots_ok_iff [OF assms(1), of a q]
      slots_ok_iff [OF assms(1), of a p]
    by (cases "q = p") (auto simp: nth_list_update word_unat_eq_iff)
qed

lemma pending_shape:
  assumes "pallet_inv T s" and "PendingRoscaDetails s r = Some d"
    and "PendingRoscaParticipantsOrder s r = Some order" and "RoscaParticipantsCount s r = Some c"
  shows "rosca_inv T s r" "pending_ok T s r d"
    "length order = unat (rd_number_of_participants d)"
    "slots_ok order (RoscaParticipants s r)" "unat c = card (dom (RoscaParticipants s r))"
    "length order < 2 ^ 32" "finite (dom (RoscaParticipants s r))"
proof -
  show r: "rosca_inv T s r"
    using assms(1) by (simp add: pallet_inv_def)
  then show ok: "pending_ok T s r d"
    using assms(2) by (simp add: rosca_inv_def)
  then show len: "length order = unat (rd_number_of_participants d)"
    and slots: "slots_ok order (RoscaParticipants s r)"
    and "unat c = card (dom (RoscaParticipants s r))"
    using assms(3,4) by (auto simp: pending_ok_def)
  show small: "length order < 2 ^ 32"
    using len unsigned_less [of "rd_number_of_participants d"] by simp
  show "finite (dom (RoscaParticipants s r))"
    using slots_ok_dom [OF slots small] finite_slots by simp
qed

section \<open>join_rosca and leave_rosca\<close>

lemma join_rosca_effect:
  assumes "join_rosca T origin r position s = Inr t"
  obtains signer d order order' p c c' where
    "ensure_signed T origin = Inr signer" "ActiveRoscas s r = None"
    "RoscaParticipants s r signer = None" "RoscaInvitedPreverifiedParticipants s r signer \<noteq> None"
    "PendingRoscaDetails s r = Some d" "Now s < rd_start_by_timestamp d"
    "PendingRoscaParticipantsOrder s r = Some order"
    "claim_position signer position order = Inr (order', p)"
    "RoscaParticipantsCount s r = Some c" "checked_add c 1 = Some c'"
    "t = deposit_event (JoinedRosca r signer)
       (s\<lparr>PendingRoscaParticipantsOrder := (PendingRoscaParticipantsOrder s)(r \<mapsto> order'),
          RoscaParticipants := (RoscaParticipants s)(r := (RoscaParticipants s r)(signer \<mapsto> p)),
          RoscaParticipantsCount := (RoscaParticipantsCount s)(r \<mapsto> c')\<rparr>)"
  using assms unfolding join_rosca_def Let_def
  by clarsimp

lemma join_rosca_inv:
  assumes inv: "pallet_inv T s" and run: "join_rosca T origin r position s = Inr t"
  shows "pallet_inv T t"
proof -
  from run show ?thesis
  proof (rule join_rosca_effect)
    fix signer d order order' p c c'
    assume a: "RoscaParticipants s r signer = None" "PendingRoscaDetails s r = Some d"
        "PendingRoscaParticipantsOrder s r = Some order"
        "claim_position signer position order = Inr (order', p)"
        "RoscaParticipantsCount s r = Some c" "checked_add c 1 = Some c'"
      and t: "t = deposit_event (JoinedRosca r signer)
       (s\<lparr>PendingRoscaParticipantsOrder := (PendingRoscaParticipantsOrder s)(r \<mapsto> order'),
          RoscaParticipants := (RoscaParticipants s)(r := (RoscaParticipants s r)(signer \<mapsto> p)),
          RoscaParticipantsCount := (RoscaParticipantsCount s)(r \<mapsto> c')\<rparr>)"
    note shape = pending_shape [OF inv \<open>PendingRoscaDetails s r = Some d\<close>
        \<open>PendingRoscaParticipantsOrder s r = Some order\<close> \<open>RoscaParticipantsCount s r = Some c\<close>]
    note r = shape(1) and ok = shape(2) and len = shape(3) and slots = shape(4) and c = shape(5)
      and small = shape(6) and fin = shape(7)
    note place = claim_position_Inr [OF a(4) small]
    have slots': "slots_ok order' ((RoscaParticipants s r)(signer \<mapsto> p))"
      using slots_ok_place [OF slots place(1,2) a(1)] place(3) by simp
    have "unat c' = card (dom ((RoscaParticipants s r)(signer \<mapsto> p)))"
      using a(1,6) c fin by (simp add: checked_add_Some_iff domIff)
    then have "pending_ok T t r d"
      using ok a len slots' place by (simp add: pending_ok_def t deposit_event_def)
    then have "rosca_inv T t r"
      using r ok a by (simp add: rosca_inv_def t deposit_event_def pending_ok_def)
    moreover have "acts_at r s t" "NextRoscaId t = NextRoscaId s" "\<not> fresh_at s r"
      using a by (simp_all add: t acts_at_def same_at_def deposit_event_def fresh_at_def)
    ultimately show ?thesis
      by (blast intro: pallet_inv_acts_at [OF inv])
  qed
qed

lemma currency_transfer_Inr:
  "currency_transfer T asset x y amount s = Inr t \<longleftrightarrow>
     (\<exists>l. transfer T asset x y amount (Ledger s) = Inr l \<and> t = s\<lparr>Ledger := l\<rparr>)"
  by (auto simp: currency_transfer_def)

lemma refund_deposit_effect:
  assumes "refund_deposit T r signer d s = Inr t"
  obtains D E l dep where
    "t = s\<lparr>RoscaSecurityDeposits := D, Events := E, Ledger := l\<rparr>"
    "dep = unwrap_or 0 (RoscaSecurityDeposits s r signer)"
    "if 0 < dep then
       transfer T (asset_id (rd_payment_asset d)) (rosca_account_id T r) signer (ucast dep)
         (Ledger s) = Inr l \<and>
       D = (RoscaSecurityDeposits s)(r := (RoscaSecurityDeposits s r)(signer := None))
     else l = Ledger s \<and> D = RoscaSecurityDeposits s"
proof (cases "0 < unwrap_or 0 (RoscaSecurityDeposits s r signer)")
  case True
  with assms obtain l E where l: "transfer T (asset_id (rd_payment_asset d)) (rosca_account_id T r)
      signer (ucast (unwrap_or 0 (RoscaSecurityDeposits s r signer))) (Ledger s) = Inr l"
    and t: "t = s\<lparr>Ledger := l, RoscaSecurityDeposits :=
      (RoscaSecurityDeposits s)(r := (RoscaSecurityDeposits s r)(signer := None)), Events := E\<rparr>"
    by (auto simp: refund_deposit_def Let_def currency_transfer_Inr deposit_event_def)
  show thesis
    by (rule that [where E = E and l = l, OF _ refl]) (simp_all add: t l True)
next
  case False
  with assms have "t = s"
    by (simp add: refund_deposit_def Let_def)
  show thesis
  proof (rule that)
    show "t = s\<lparr>RoscaSecurityDeposits := RoscaSecurityDeposits s, Events := Events s,
        Ledger := Ledger s\<rparr>"
      using \<open>t = s\<close> by simp
  qed (use False in auto)
qed

lemma leave_rosca_effect:
  assumes "leave_rosca T origin r s = Inr t"
  obtains signer d order p c c' s1 where
    "ensure_signed T origin = Inr signer" "ActiveRoscas s r = None"
    "RoscaParticipants s r signer = Some p" "PendingRoscaDetails s r = Some d"
    "PendingRoscaParticipantsOrder s r = Some order" "unat p < length order"
    "RoscaParticipantsCount s r = Some c" "checked_sub c 1 = Some c'"
    "refund_deposit T r signer d
       (s\<lparr>RoscaParticipants := (RoscaParticipants s)(r := (RoscaParticipants s r)(signer := None)),
          PendingRoscaParticipantsOrder :=
            (PendingRoscaParticipantsOrder s)(r \<mapsto> order[unat p := None]),
          RoscaParticipantsCount := (RoscaParticipantsCount s)(r \<mapsto> c')\<rparr>) = Inr s1"
    "t = deposit_event (LeftRosca r signer) s1"
  using assms unfolding leave_rosca_def Let_def
  by clarsimp

lemma leave_rosca_inv:
  assumes inv: "pallet_inv T s" and run: "leave_rosca T origin r s = Inr t"
  shows "pallet_inv T t"
proof -
  from run show ?thesis
  proof (rule leave_rosca_effect)
    fix signer d order p c c' s1
    assume a: "RoscaParticipants s r signer = Some p" "PendingRoscaDetails s r = Some d"
        "PendingRoscaParticipantsOrder s r = Some order" "unat p < length order"
        "RoscaParticipantsCount s r = Some c" "checked_sub c 1 = Some c'"
      and refund: "refund_deposit T r signer d
       (s\<lparr>RoscaParticipants := (RoscaParticipants s)(r := (RoscaParticipants s r)(signer := None)),
          PendingRoscaParticipantsOrder :=
            (PendingRoscaParticipantsOrder s)(r \<mapsto> order[unat p := None]),
          RoscaParticipantsCount := (RoscaParticipantsCount s)(r \<mapsto> c')\<rparr>) = Inr s1"
        (is "refund_deposit T r signer d ?s = _")
      and t: "t = deposit_event (LeftRosca r signer) s1"
    from refund obtain D E l dep where
      s1: "s1 = ?s\<lparr>RoscaSecurityDeposits := D, Events := E, Ledger := l\<rparr>"
      and "dep = unwrap_or 0 (RoscaSecurityDeposits ?s r signer)"
      and D: "if 0 < dep then
        transfer T (asset_id (rd_payment_asset d)) (rosca_account_id T r) signer (ucast dep)
         (Ledger ?s) = Inr l \<and>
        D = (RoscaSecurityDeposits ?s)(r := (RoscaSecurityDeposits ?s r)(signer := None))
       else l = Ledger ?s \<and> D = RoscaSecurityDeposits ?s"
      by (rule refund_deposit_effect)
    have Dr: "dom (D r) \<subseteq> dom (RoscaSecurityDeposits s r)"
      and Dq: "q \<noteq> r \<Longrightarrow> D q = RoscaSecurityDeposits s q" for q
      using D by (auto split: if_splits)
    note shape = pending_shape [OF inv \<open>PendingRoscaDetails s r = Some d\<close>
        \<open>PendingRoscaParticipantsOrder s r = Some order\<close> \<open>RoscaParticipantsCount s r = Some c\<close>]
    note r = shape(1) and ok = shape(2) and len = shape(3) and slots = shape(4) and c = shape(5)
      and small = shape(6) and fin = shape(7)
    have "unat c' = card (dom ((RoscaParticipants s r)(signer := None)))"
      using a(1,6) c fin by (simp add: checked_sub_Some_iff domI)
    then have "pending_ok T t r d"
      using ok a len slots_ok_remove [OF slots a(1)]
      by (simp add: pending_ok_def t s1 deposit_event_def)
    moreover have "finite (dom (D r))"
      using r Dr by (auto simp: rosca_inv_def intro: finite_subset)
    ultimately have "rosca_inv T t r"
      using ok a by (simp add: rosca_inv_def t s1 deposit_event_def pending_ok_def)
    moreover have "acts_at r s t" "NextRoscaId t = NextRoscaId s" "\<not> fresh_at s r"
      using a Dq by (simp_all add: t s1 acts_at_def same_at_def deposit_event_def fresh_at_def)
    ultimately show ?thesis
      by (blast intro: pallet_inv_acts_at [OF inv])
  qed
qed

section \<open>start_rosca\<close>

lemma add_periods_Inr: "add_periods frequency t n = Inr u \<longleftrightarrow> unat u = unat t + n * unat frequency"
proof (induction n arbitrary: t)
  case 0
  then show ?case by (auto simp: word_unat_eq_iff)
next
  case (Suc n)
  have "(\<exists>t'::u64. unat t' = unat t + unat frequency \<and> unat u = unat t' + n * unat frequency) \<longleftrightarrow>
      unat u = unat t + Suc n * unat frequency"
  proof
    assume "unat u = unat t + Suc n * unat frequency"
    then have "unat t + unat frequency \<le> unat u"
      by simp
    moreover have "unat u < 2 ^ 64"
      using unsigned_less [of u] by simp
    ultimately have "unat t + unat frequency < 2 ^ 64"
      by (rule le_less_trans)
    then have "unat (t + frequency) = unat t + unat frequency"
      by (simp add: unat_plus_no_overflow)
    then have "unat (t + frequency) = unat t + unat frequency \<and>
        unat u = unat (t + frequency) + n * unat frequency"
      using \<open>unat u = _\<close> by simp
    then show "\<exists>t'::u64. unat t' = unat t + unat frequency \<and> unat u = unat t' + n * unat frequency"
      by blast
  qed auto
  then show ?case
    by (simp add: Suc.IH checked_add_Some_iff)
qed

lemma distinct_somes:
  assumes "slots_ok order parts" and "length order < 2 ^ 32"
  shows "distinct (List.map_filter (\<lambda>p. p) (rev order))"
proof -
  have "i = j" if "i < length order" "j < length order" "order ! i = order ! j" "order ! i \<noteq> None" for i j
  proof -
    obtain a where a: "order ! i = Some a"
      using \<open>order ! i \<noteq> None\<close> by blast
    have u: "unat (of_nat i :: u32) = i" "unat (of_nat j :: u32) = j"
      using that assms(2) by (simp_all add: unat_of_nat)
    have "parts a = Some (of_nat i)" "parts a = Some (of_nat j)"
      using that a u by (simp_all add: slots_ok_iff [OF assms(1)])
    then show ?thesis
      using u by (metis option.inject)
  qed
  then have "distinct (filter (\<lambda>p. p \<noteq> None) order)"
    by (rule distinct_filter_somes)
  then show ?thesis
    by (auto simp: somes_conv rev_filter [symmetric] distinct_map rev_map inj_on_def)
qed

text \<open>The state a successful \<^verbatim>\<open>start_rosca\<close> leaves, for the payout order \<open>xs\<close>.\<close>

definition started ::
  "rosca_id \<Rightarrow> 'a \<Rightarrow> RoscaDetails \<Rightarrow> 'a list \<Rightarrow> 'a RoscaRounds \<Rightarrow> moment \<Rightarrow> moment
   \<Rightarrow> ('a, 'l) pallet \<Rightarrow> ('a, 'l) pallet" where
  "started r signer d xs rs n f s =
     deposit_event (RoscaStarted r signer rs (last xs) n)
       (s\<lparr>EligibleClaimant := (EligibleClaimant s)(r \<mapsto> last xs),
          ActiveRoscaParticipantsOrder :=
            (ActiveRoscaParticipantsOrder s)(r \<mapsto> last xs # butlast xs),
          NextPayByTimestamp := (NextPayByTimestamp s)(r \<mapsto> n),
          FinalPayByTimestamp := (FinalPayByTimestamp s)(r \<mapsto> f),
          ActiveRoscas := (ActiveRoscas s)(r \<mapsto> d),
          PendingRoscaDetails := (PendingRoscaDetails s)(r := None)\<rparr>)"

lemma start_rosca_effect:
  assumes "start_rosca T origin r s = Inr t"
  obtains signer p d order c xs0 xs rs n f where
    "ensure_signed T origin = Inr signer" "ActiveRoscas s r = None"
    "RoscaParticipants s r signer = Some p" "PendingRoscaDetails s r = Some d"
    "PendingRoscaParticipantsOrder s r = Some order"
    "Now s < rd_start_by_timestamp d" "RoscaParticipantsCount s r = Some c"
    "rd_minimum_participant_threshold d \<le> c"
    "xs0 = List.map_filter (\<lambda>p. p) (rev order)" "length xs0 \<le> unat (MaxParticipants T)"
    "xs = (if rd_random_order d then shuffle_participants T s xs0 else xs0)"
    "generate_rounds T xs (Now s) (rd_contribution_frequency d) = Inr rs" "xs \<noteq> []"
    "checked_add (Now s) (rd_contribution_frequency d) = Some n"
    "add_periods (rd_contribution_frequency d) n (unat c - 1) = Inr f"
    "t = started r signer d xs rs n f s"
  using assms unfolding start_rosca_def Let_def started_def
  by (clarsimp simp: nth_length_minus_1 [simplified])

lemma final_cutoff:
  assumes "length xs = unat c" and "xs \<noteq> []" and "unat n = unat now + unat frequency"
    and "add_periods frequency n (unat c - 1) = Inr f"
    and "unat now + (length xs + 1) * unat frequency < 2 ^ 64"
  shows "unat f + unat frequency < 2 ^ 64"
    and "unat f + unat frequency = unat n + length xs * unat frequency"
proof -
  obtain m where m: "length xs = Suc m"
    using assms(2) by (cases xs) auto
  have f: "unat f = unat n + m * unat frequency"
    using assms(4) unfolding assms(1) [symmetric] m by (simp add: add_periods_Inr)
  show "unat f + unat frequency < 2 ^ 64"
    using assms(3,5) f m by (simp add: algebra_simps)
  show "unat f + unat frequency = unat n + length xs * unat frequency"
    using f m by simp
qed

text \<open>The payout order is an arrangement of the participants, and the first round is under way.\<close>

lemma start_rosca_started:
  assumes inv: "pallet_inv T s" and run: "start_rosca T origin r s = Inr t"
  obtains signer d xs n f where
    "PendingRoscaDetails s r = Some d" "pending_ok T s r d"
    "xs \<noteq> []" "distinct xs" "set xs = dom (RoscaParticipants s r)"
    "unat n = unat (Now s) + unat (rd_contribution_frequency d)"
    "t = started r signer d xs (round_plan xs (Now s) (rd_contribution_frequency d)) n f s"
    "round_ok T t r d (last xs # butlast xs) n f (length xs)"
  using run
proof (rule start_rosca_effect)
  fix signer p d order c xs0 xs rs n f
  assume a: "PendingRoscaDetails s r = Some d" "PendingRoscaParticipantsOrder s r = Some order"
      "RoscaParticipantsCount s r = Some c" "xs0 = List.map_filter (\<lambda>p. p) (rev order)"
      "length xs0 \<le> unat (MaxParticipants T)"
      "xs = (if rd_random_order d then shuffle_participants T s xs0 else xs0)"
      "generate_rounds T xs (Now s) (rd_contribution_frequency d) = Inr rs" "xs \<noteq> []"
      "checked_add (Now s) (rd_contribution_frequency d) = Some n"
      "add_periods (rd_contribution_frequency d) n (unat c - 1) = Inr f"
    and t: "t = started r signer d xs rs n f s"
  note shape = pending_shape [OF inv a(1-3)]
  have set_xs: "set xs = dom (RoscaParticipants s r)"
    using a(4,6) by (simp add: set_somes slots_ok_dom [OF shape(4,6)])
  have dist: "distinct xs"
    using a(4,6) distinct_somes [OF shape(4,6)] by simp
  have len: "length xs = unat c"
    using shape(5) set_xs dist by (metis distinct_card)
  have n: "unat n = unat (Now s) + unat (rd_contribution_frequency d)"
    using a(9) by (simp add: checked_add_Some_iff)
  have rs: "rs = round_plan xs (Now s) (rd_contribution_frequency d)"
    "unat (Now s) + (length xs + 1) * unat (rd_contribution_frequency d) < 2 ^ 64"
    using a(7) by (simp_all add: generate_rounds_Inr_iff)
  have "round_ok T t r d (last xs # butlast xs) n f (length xs)"
    using a shape(2) set_xs dist final_cutoff [OF len a(8) n a(10) rs(2)]
    by (simp add: round_ok_def t started_def deposit_event_def pending_ok_def set_last_butlast
        distinct_last_butlast [simplified])
  then show thesis
    using that a(1,8) shape(2) dist set_xs n t rs(1) by blast
qed

lemma start_rosca_inv:
  assumes inv: "pallet_inv T s" and run: "start_rosca T origin r s = Inr t"
  shows "pallet_inv T t"
  using assms
proof (rule start_rosca_started)
  fix signer d xs n f
  assume d: "PendingRoscaDetails s r = Some d" "pending_ok T s r d" "xs \<noteq> []"
    and t: "t = started r signer d xs (round_plan xs (Now s) (rd_contribution_frequency d)) n f s"
    and round: "round_ok T t r d (last xs # butlast xs) n f (length xs)"
  have "active_ok T t r d"
    using round d unfolding active_ok_def
    by (auto simp: t started_def deposit_event_def pending_ok_def)
  moreover have "rosca_inv T s r"
    using inv by (simp add: pallet_inv_def)
  ultimately have "rosca_inv T t r"
    by (simp add: rosca_inv_def t started_def deposit_event_def)
  moreover have "acts_at r s t" "NextRoscaId t = NextRoscaId s" "\<not> fresh_at s r"
    using d by (simp_all add: t started_def acts_at_def same_at_def deposit_event_def fresh_at_def)
  ultimately show ?thesis
    by (blast intro: pallet_inv_acts_at [OF inv])
qed

end
