(* ===== verification/Rosca_Settlement.thy ===== *)
theory Rosca_Settlement
  imports Rosca_Membership
begin

text \<open>
  \<^verbatim>\<open>process_defaulters\<close> against a reference: who owes the current round, what is taken from
  their deposit and whose default count goes up. The loop over the payout order computes exactly
  this settlement, whatever the order is.
\<close>

section \<open>process_defaulters\<close>

definition owes :: "('a, 'l) pallet \<Rightarrow> rosca_id \<Rightarrow> 'a \<Rightarrow> 'a \<Rightarrow> bool" where
  "owes s r claimant p \<longleftrightarrow> p \<noteq> claimant \<and> CurrentContributors s r p = None"

definition charged :: "u32 \<Rightarrow> u32 option \<Rightarrow> u32 option" where
  "charged amount v =
     (case v of None \<Rightarrow> None | Some dep \<Rightarrow> Some (if dep < amount then 0 else dep - amount))"

definition settled_deposits ::
  "('a, 'l) pallet \<Rightarrow> rosca_id \<Rightarrow> u32 \<Rightarrow> 'a set \<Rightarrow> 'a \<Rightarrow> u32 option" where
  "settled_deposits s r amount P = (\<lambda>p. if p \<in> P then charged amount (RoscaSecurityDeposits s r p)
     else RoscaSecurityDeposits s r p)"

definition settled_defaults ::
  "('a, 'l) pallet \<Rightarrow> rosca_id \<Rightarrow> u32 \<Rightarrow> 'a set \<Rightarrow> 'a \<Rightarrow> u32" where
  "settled_defaults s r amount P =
     (\<lambda>p. if p \<in> P \<and> unwrap_or 0 (RoscaSecurityDeposits s r p) < amount
       then saturating_add (DefaultCount s r p) 1 else DefaultCount s r p)"

definition settles ::
  "rosca_id \<Rightarrow> u32 \<Rightarrow> 'a set \<Rightarrow> ('a, 'l) pallet \<Rightarrow> ('a, 'l) pallet \<Rightarrow> bool" where
  "settles r amount P s t \<longleftrightarrow>
     t = s\<lparr>RoscaSecurityDeposits :=
              (RoscaSecurityDeposits s)(r := settled_deposits s r amount P),
            DefaultCount := (DefaultCount s)(r := settled_defaults s r amount P),
            Events := Events t, Ledger := Ledger t\<rparr>"

lemma settles_empty: "settles r amount {} s s"
  by (simp add: settles_def settled_deposits_def settled_defaults_def)

lemma settlesE:
  assumes "settles r amount P s t"
  obtains E l where "t = s\<lparr>RoscaSecurityDeposits :=
              (RoscaSecurityDeposits s)(r := settled_deposits s r amount P),
            DefaultCount := (DefaultCount s)(r := settled_defaults s r amount P),
            Events := E, Ledger := l\<rparr>"
  using assms that unfolding settles_def by blast

lemma settles_union:
  assumes "settles r amount P s t" and "settles r amount Q t u" and "P \<inter> Q = {}"
  shows "settles r amount (P \<union> Q) s u"
proof -
  from assms(1) obtain E l where t: "t = s\<lparr>RoscaSecurityDeposits :=
              (RoscaSecurityDeposits s)(r := settled_deposits s r amount P),
            DefaultCount := (DefaultCount s)(r := settled_defaults s r amount P),
            Events := E, Ledger := l\<rparr>"
    by (rule settlesE)
  have "settled_deposits t r amount Q = settled_deposits s r amount (P \<union> Q)"
    using assms(3) by (auto simp: t settled_deposits_def fun_eq_iff)
  moreover have "settled_defaults t r amount Q = settled_defaults s r amount (P \<union> Q)"
    using assms(3) by (auto simp: t settled_defaults_def settled_deposits_def fun_eq_iff)
  ultimately show ?thesis
    using assms(2) by (simp add: settles_def t)
qed

lemma process_participant_settles:
  assumes "process_participant T r d claimant p s = Inr t" and "0 < rd_contribution_amount d"
  shows "settles r (rd_contribution_amount d) (if owes s r claimant p then {p} else {}) s t"
proof (cases "owes s r claimant p")
  case False
  then have "t = s"
    using assms(1) by (auto simp: process_participant_def owes_def split: if_splits)
  then show ?thesis
    using False settles_empty by simp
next
  case True
  let ?dep = "unwrap_or 0 (RoscaSecurityDeposits s r p)" and ?a = "rd_contribution_amount d"
  have only: "settled_deposits s r ?a {p} = (if RoscaSecurityDeposits s r p = None
        then RoscaSecurityDeposits s r
        else (RoscaSecurityDeposits s r)(p \<mapsto> if ?dep < ?a then 0 else ?dep - ?a))"
    "settled_defaults s r ?a {p} = (if ?dep < ?a
        then (DefaultCount s r)(p := saturating_add (DefaultCount s r p) 1) else DefaultCount s r)"
    by (auto simp: settled_deposits_def settled_defaults_def charged_def fun_eq_iff
        split: option.splits)
  consider (none) "?dep = 0" "?dep < ?a" | (short) "0 < ?dep" "?dep < ?a" | (full) "\<not> ?dep < ?a"
    by (metis word_neq_0_conv)
  then show ?thesis
  proof cases
    case none
    then have "t = deposit_event (ParticipantDefaulted r claimant p) (s\<lparr>DefaultCount :=
        (DefaultCount s)(r := (DefaultCount s r)(p := saturating_add (DefaultCount s r p) 1))\<rparr>)"
      using assms True by (auto simp: process_participant_def owes_def Let_def)
    then show ?thesis
      using True none
      by (auto simp: settles_def only deposit_event_def fun_eq_iff intro!: pallet.equality)
  next
    case short
    then obtain l E where "t = s\<lparr>Ledger := l, RoscaSecurityDeposits :=
        (RoscaSecurityDeposits s)(r := (RoscaSecurityDeposits s r)(p \<mapsto> 0)), DefaultCount :=
        (DefaultCount s)(r := (DefaultCount s r)(p := saturating_add (DefaultCount s r p) 1)),
        Events := E\<rparr>"
      using assms True
      by (auto simp: process_participant_def owes_def Let_def currency_transfer_Inr
          deposit_event_def)
    then show ?thesis
      using True short by (auto simp: settles_def only intro!: pallet.equality)
  next
    case full
    then have sub: "unwrap_or 0 (checked_sub ?dep ?a) = ?dep - ?a"
      by (simp add: checked_sub_def not_less)
    from full obtain l E where "t = s\<lparr>Ledger := l, RoscaSecurityDeposits :=
        (RoscaSecurityDeposits s)(r := (RoscaSecurityDeposits s r)(p \<mapsto> ?dep - ?a)), Events := E\<rparr>"
      using assms True
      by (auto simp: process_participant_def owes_def Let_def currency_transfer_Inr
          deposit_event_def sub)
    then show ?thesis
      using True full assms(2) by (auto simp: settles_def only intro!: pallet.equality)
  qed
qed

lemma try_for_settles:
  assumes "try_for (process_participant T r d claimant) order s = Inr t" and "distinct order"
    and "0 < rd_contribution_amount d"
  shows "settles r (rd_contribution_amount d) {p \<in> set order. owes s r claimant p} s t"
  using assms
proof (induction order arbitrary: s)
  case Nil
  then show ?case by (simp add: settles_empty)
next
  case (Cons p order)
  then obtain s1 where s1: "process_participant T r d claimant p s = Inr s1"
    and rest: "try_for (process_participant T r d claimant) order s1 = Inr t"
    by auto
  note one = process_participant_settles [OF s1 Cons.prems(3)]
  have "CurrentContributors s1 r = CurrentContributors s r"
    using one by (rule settlesE) simp
  then have "settles r (rd_contribution_amount d) {p \<in> set order. owes s r claimant p} s1 t"
    using Cons.IH [OF rest] Cons.prems by (simp add: owes_def)
  moreover have "{q \<in> set (p # order). owes s r claimant q} =
      (if owes s r claimant p then {p} else {}) \<union> {q \<in> set order. owes s r claimant q}"
    by auto
  ultimately show ?case
    using settles_union [OF one] Cons.prems(2) by auto
qed

end
