(* ===== verification/Rosca_Progress.thy ===== *)
theory Rosca_Progress
  imports Rosca_Settlement
begin

text \<open>
  The rounds of an active ROSCA: \<^verbatim>\<open>advance_rosca_round\<close>, the catch-up loop and the payment of
  \<^verbatim>\<open>contribute_to_rosca\<close>, and the loop of \<^verbatim>\<open>manually_end_rosca\<close>. Both loops are instances of the
  ranked loop: the cutoff of the round grows with every turn, so they return, and what they return
  from is a state of the invariant.
\<close>

lemma round_ok_settles:
  assumes "settles r amount P s t"
  shows "round_ok T t r d xs n f k = round_ok T s r d xs n f k"
  using assms by (rule settlesE) (simp add: round_ok_def)

lemma process_defaulters_settles:
  assumes "round_ok T s r d xs n f k" and "ActiveRoscas s r = Some d" and "terms_ok d"
    and "process_defaulters T r s = Inr t"
  shows "settles r (rd_contribution_amount d) {p \<in> set xs. owes s r (hd xs) p} s t"
  using assms try_for_settles [of T r d "hd xs" xs s t]
  by (auto simp: process_defaulters_def round_ok_def terms_ok_def)

section \<open>advance_rosca_round\<close>

lemma round_ok_clears:
  assumes "clears_prefix T" and "finite C" and "dom m = C" and "card C + 1 \<le> n" and "n \<le> unat (MaxParticipants T)"
  shows "clear_prefix T (of_nat (n - 1)) m = Map.empty"
proof -
  have "n < 2 ^ 32"
    using le_less_trans [OF assms(5) unsigned_less] by simp
  then have "unat (of_nat (n - 1) :: u32) = n - 1"
    by (simp add: unat_of_nat)
  then show ?thesis
    using assms by (simp add: clears_prefix_def)
qed

text \<open>The state \<^verbatim>\<open>advance_rosca_round\<close> reaches from a round with order \<open>xs\<close> and cutoff \<open>n\<close>.\<close>

definition round_after ::
  "rosca_id \<Rightarrow> RoscaDetails \<Rightarrow> 'a list \<Rightarrow> moment \<Rightarrow> ('a, 'l) pallet \<Rightarrow> ('a, 'l) pallet" where
  "round_after r d xs n s = deposit_event
     (NewRoundStarted r (last xs) (n + rd_contribution_frequency d))
     (s\<lparr>NextPayByTimestamp := (NextPayByTimestamp s)(r \<mapsto> n + rd_contribution_frequency d),
        EligibleClaimant := (EligibleClaimant s)(r \<mapsto> last xs),
        ActiveRoscaParticipantsOrder :=
          (ActiveRoscaParticipantsOrder s)(r \<mapsto> last xs # butlast xs),
        CurrentContributors := (CurrentContributors s)(r := Map.empty),
        CurrentContributionCount := (CurrentContributionCount s)(r := 0)\<rparr>)"

lemma round_ok_next_cutoff:
  assumes ok: "round_ok T s r d xs n f k" and k: "0 < k"
  shows "unat n + unat (rd_contribution_frequency d) < 2 ^ 64"
    and "unat (n + rd_contribution_frequency d) = unat n + unat (rd_contribution_frequency d)"
proof -
  obtain m where m: "k = Suc m"
    using k by (cases k) auto
  have "unat n + unat (rd_contribution_frequency d) \<le> unat f + unat (rd_contribution_frequency d)"
    using ok m by (simp add: round_ok_def)
  also have "\<dots> < 2 ^ 64"
    using ok by (simp add: round_ok_def)
  finally show "unat n + unat (rd_contribution_frequency d) < 2 ^ 64" .
  then show "unat (n + rd_contribution_frequency d) = unat n + unat (rd_contribution_frequency d)"
    by (simp add: unat_plus_no_overflow)
qed

lemma advance_rosca_round_eq:
  assumes ok: "round_ok T s r d xs n f k" and k: "0 < k" and active: "ActiveRoscas s r = Some d"
    and cp: "clears_prefix T"
  shows "advance_rosca_round T r s = Inr (round_after r d xs n s)"
proof -
  have xs: "xs \<noteq> []" "ActiveRoscaParticipantsOrder s r = Some xs" "NextPayByTimestamp s r = Some n"
    using ok by (simp_all add: round_ok_def)
  have "finite (dom (CurrentContributors s r))"
    using ok by (auto simp: round_ok_def intro: finite_subset)
  moreover have "card (dom (CurrentContributors s r)) + 1 \<le> length xs"
      "length xs \<le> unat (MaxParticipants T)"
    using ok by (auto simp: round_ok_def max_def Suc_le_eq split: if_splits)
  ultimately have "clear_prefix T (of_nat (length xs - 1)) (CurrentContributors s r) = Map.empty"
    by (rule round_ok_clears [OF cp _ refl])
  then show ?thesis
    using xs round_ok_next_cutoff(1) [OF ok k] active
    by (simp add: advance_rosca_round_def checked_add_def clear_contributions_def last_conv_nth
        Let_def round_after_def)
qed

lemma round_ok_round_after:
  assumes ok: "round_ok T s r d xs n f k" and k: "0 < k"
  shows "round_ok T (round_after r d xs n s) r d (last xs # butlast xs)
    (n + rd_contribution_frequency d) f (k - 1)"
proof -
  obtain m where m: "k = Suc m"
    using k by (cases k) auto
  show ?thesis
    using ok m round_ok_next_cutoff(2) [OF ok k]
    by (simp add: round_ok_def round_after_def deposit_event_def set_last_butlast
        distinct_last_butlast [simplified])
qed

lemma cutoff_le_final_iff:
  assumes "round_ok T s r d xs n f k" and "terms_ok d"
  shows "n \<le> f \<longleftrightarrow> 0 < k"
proof -
  have "unat f + unat (rd_contribution_frequency d) = unat n + k * unat (rd_contribution_frequency d)"
    and "0 < unat (rd_contribution_frequency d)"
    using assms by (simp_all add: round_ok_def terms_ok_def word_less_nat_alt)
  then show ?thesis
    unfolding word_le_nat_alt by (cases k) auto
qed

section \<open>One turn: settle the round and open the next\<close>

definition playing ::
  "('o, 'a, 'l) config \<Rightarrow> ('a, 'l) pallet \<Rightarrow> rosca_id \<Rightarrow> RoscaDetails
   \<Rightarrow> 'a list \<Rightarrow> moment \<Rightarrow> moment \<Rightarrow> nat \<Rightarrow> bool" where
  "playing T s r d xs n f k \<longleftrightarrow>
     ActiveRoscas s r = Some d \<and> PendingRoscaDetails s r = None \<and> CompletedRoscas s r = None \<and>
     finite (dom (RoscaSecurityDeposits s r)) \<and> terms_ok d \<and> round_ok T s r d xs n f k"

lemma playing_active:
  assumes "pallet_inv T s" and "ActiveRoscas s r = Some d"
  obtains xs n f k where "playing T s r d xs n f k" "0 < k"
  using assms by (fastforce simp: pallet_inv_def rosca_inv_def active_ok_def playing_def)

lemma playing_reads:
  assumes "playing T s r d xs n f k"
  shows "ActiveRoscas s r = Some d" "EligibleClaimant s r = Some (hd xs)"
    "ActiveRoscaParticipantsOrder s r = Some xs" "NextPayByTimestamp s r = Some n"
    "FinalPayByTimestamp s r = Some f" "xs \<noteq> []"
  using assms by (simp_all add: playing_def round_ok_def)

lemma playing_cutoff_iff: "playing T s r d xs n f k \<Longrightarrow> n \<le> f \<longleftrightarrow> 0 < k"
  using cutoff_le_final_iff [of T s r d xs n f k] by (simp add: playing_def)

definition frame :: "rosca_id \<Rightarrow> ('a, 'l) pallet \<Rightarrow> ('a, 'l) pallet \<Rightarrow> bool" where
  "frame r s t \<longleftrightarrow>
     acts_at r s t \<and> NextRoscaId t = NextRoscaId s \<and>
     RoscaParticipants t r = RoscaParticipants s r \<and>
     dom (CurrentContributors t r) \<subseteq> dom (CurrentContributors s r)"

lemma frame_refl [simp]: "frame r s s"
  by (simp add: frame_def)

lemma frame_trans: "frame r s t \<Longrightarrow> frame r t u \<Longrightarrow> frame r s u"
  unfolding frame_def by (metis acts_at_trans subset_trans)

lemma pallet_inv_playing:
  assumes "pallet_inv T s" and "ActiveRoscas s r \<noteq> None" and "acts_at r s t"
    and "NextRoscaId t = NextRoscaId s" and "playing T t r d xs n f k" and "0 < k"
  shows "pallet_inv T t"
proof -
  have "rosca_inv T t r"
    using assms(5,6) by (auto simp: rosca_inv_def playing_def active_ok_def)
  then show ?thesis
    using assms by (intro pallet_inv_acts_at [OF assms(1)]) (auto simp: fresh_at_def)
qed

lemma pallet_inv_complete:
  assumes "pallet_inv T s" and "ActiveRoscas s r \<noteq> None" and "acts_at r s t"
    and "NextRoscaId t = NextRoscaId s" and "PendingRoscaDetails t r = None"
    and "finite (dom (RoscaSecurityDeposits t r))"
  shows "pallet_inv T (complete_rosca r t)"
proof -
  have "rosca_inv T (complete_rosca r t) r"
    using assms(5,6) by (simp add: rosca_inv_def complete_rosca_def deposit_event_def)
  moreover have "acts_at r s (complete_rosca r t)" "NextRoscaId (complete_rosca r t) = NextRoscaId s"
    using assms(3,4)
    by (simp_all add: acts_at_def same_at_def complete_rosca_def deposit_event_def)
  ultimately show ?thesis
    using assms by (intro pallet_inv_acts_at [OF assms(1)]) (auto simp: fresh_at_def)
qed

lemma playing_settles:
  assumes "playing T s r d xs n f k" and "settles r amount P s t"
  shows "playing T t r d xs n f k" "frame r s t"
proof -
  have "dom (settled_deposits s r amount P) \<subseteq> dom (RoscaSecurityDeposits s r)"
    by (auto simp: settled_deposits_def charged_def split: if_splits option.splits)
  then have "finite (dom (settled_deposits s r amount P))"
    using assms(1) by (auto simp: playing_def intro: finite_subset)
  then show "playing T t r d xs n f k"
    using assms(1) round_ok_settles [OF assms(2), of T d xs n f k] assms(2)
    by (elim settlesE) (simp add: playing_def)
  show "frame r s t"
    using assms(2) by (rule settlesE) (simp add: frame_def acts_at_def same_at_def)
qed

lemma playing_round_after:
  assumes "playing T s r d xs n f k" and "0 < k"
  shows "playing T (round_after r d xs n s) r d (last xs # butlast xs)
      (n + rd_contribution_frequency d) f (k - 1)" "frame r s (round_after r d xs n s)"
  using assms round_ok_round_after [of T s r d xs n f k]
  by (simp_all add: playing_def round_after_def deposit_event_def frame_def acts_at_def same_at_def)

lemma turn:
  assumes "playing T s r d xs n f k" and "0 < k" and "clears_prefix T"
    and "process_defaulters T r s = Inr s1"
  shows "advance_rosca_round T r s1 = Inr (round_after r d xs n s1)"
    and "playing T (round_after r d xs n s1) r d (last xs # butlast xs)
      (n + rd_contribution_frequency d) f (k - 1)"
    and "frame r s (round_after r d xs n s1)"
    and "n < n + rd_contribution_frequency d"
proof -
  have s: "round_ok T s r d xs n f k" "ActiveRoscas s r = Some d" "terms_ok d"
    using assms(1) by (simp_all add: playing_def)
  note settle = playing_settles [OF assms(1) process_defaulters_settles [OF s assms(4)]]
  note after = playing_round_after [OF settle(1) assms(2)]
  show "playing T (round_after r d xs n s1) r d (last xs # butlast xs)
      (n + rd_contribution_frequency d) f (k - 1)"
    by (rule after)
  show "frame r s (round_after r d xs n s1)"
    using settle(2) after(2) by (rule frame_trans)
  show "advance_rosca_round T r s1 = Inr (round_after r d xs n s1)"
    using settle(1) assms(2,3) advance_rosca_round_eq [of T s1 r d xs n f k]
    by (simp add: playing_def)
  show "n < n + rd_contribution_frequency d"
    using round_ok_next_cutoff(2) [OF s(1) assms(2)] s(3)
    by (simp add: word_less_nat_alt terms_ok_def)
qed

section \<open>The loops return\<close>

definition loop_rank :: "moment \<Rightarrow> nat" where
  "loop_rank n = 2 ^ 64 - unat n"

lemma loop_rank_less: "n < m \<Longrightarrow> loop_rank m < loop_rank n"
  using less_le_trans [OF _ less_imp_le [OF unsigned_less [of m]], of "unat n"]
  by (simp add: loop_rank_def word_less_nat_alt diff_less_mono2)

definition catch_up_inv ::
  "('o, 'a, 'l) config \<Rightarrow> rosca_id \<Rightarrow> RoscaDetails \<Rightarrow> moment \<Rightarrow> ('a, 'l) pallet
   \<Rightarrow> ('a, 'l) catch_up \<Rightarrow> bool" where
  "catch_up_inv T r d f s c \<longleftrightarrow>
     clears_prefix T \<and> frame r s (cu_state c) \<and> cu_claimant c = hd (cu_order c) \<and>
     (\<exists>k > 0. playing T (cu_state c) r d (cu_order c) (cu_next_pay_by c) f k)"

lemma catch_up_iteration_cases:
  assumes "catch_up_inv T r d f s c" and "catch_up_iteration T r now c = Inr x"
  shows "(case x of
      Inl (CaughtUp c') \<Rightarrow> c' = c \<and> now < cu_next_pay_by c
    | Inl (Completed t) \<Rightarrow> \<exists>u xs n. t = complete_rosca r u \<and> frame r s u \<and> playing T u r d xs n f 0
    | Inr c' \<Rightarrow> catch_up_inv T r d f s c' \<and> cu_next_pay_by c < cu_next_pay_by c')"
proof (cases "cu_next_pay_by c \<le> now")
  case False
  then show ?thesis
    using assms(2) by (auto simp: catch_up_iteration_def)
next
  case True
  obtain k where k: "0 < k" "playing T (cu_state c) r d (cu_order c) (cu_next_pay_by c) f k"
    using assms(1) by (auto simp: catch_up_inv_def)
  have cp: "clears_prefix T" and fr: "frame r s (cu_state c)"
    using assms(1) by (simp_all add: catch_up_inv_def)
  obtain s1 where s1: "process_defaulters T r (cu_state c) = Inr s1"
    using assms(2) True by (auto simp: catch_up_iteration_def)
  note t = turn [OF k(2,1) cp s1]
  let ?u = "round_after r d (cu_order c) (cu_next_pay_by c) s1"
  note reads = playing_reads [OF t(2)]
  have u: "frame r s ?u"
    using fr t(3) by (rule frame_trans)
  have le: "(cu_next_pay_by c + rd_contribution_frequency d \<le> f) = (0 < k - 1)"
    using t(2) by (rule playing_cutoff_iff)
  show ?thesis
  proof (cases "k - 1")
    case 0
    then have "x = Inl (Completed (complete_rosca r ?u))"
      using assms(2) True s1 t(1) reads le
      by (auto simp: catch_up_iteration_def check_and_complete_rosca_def not_le)
    then show ?thesis
      using u t(2) 0 by auto
  next
    case (Suc m)
    then have "x = Inr \<lparr>cu_next_pay_by = cu_next_pay_by c + rd_contribution_frequency d,
        cu_order = last (cu_order c) # butlast (cu_order c), cu_claimant = last (cu_order c),
        cu_state = ?u\<rparr>"
      using assms(2) True s1 t(1) reads le
      by (auto simp: catch_up_iteration_def check_and_complete_rosca_def not_le [symmetric])
    then show ?thesis
      using u t(2,4) Suc cp by (auto simp: catch_up_inv_def)
  qed
qed

text \<open>In an active ROSCA nothing but a refused transfer while settling a round stops a loop.\<close>

definition settling_fails ::
  "('o, 'a, 'l) config \<Rightarrow> rosca_id \<Rightarrow> RoscaDetails \<Rightarrow> moment \<Rightarrow> dispatch_error \<Rightarrow> bool" where
  "settling_fails T r d f e \<longleftrightarrow>
     (\<exists>s xs n k. playing T s r d xs n f k \<and> process_defaulters T r s = Inl e)"

lemma catch_up_failure_at:
  assumes "catch_up_inv T r d f s c" and "catch_up_iteration T r now c = Inl e"
  shows "process_defaulters T r (cu_state c) = Inl e"
proof (cases "process_defaulters T r (cu_state c)")
  case (Inl e')
  then show ?thesis
    using assms(2) by (auto simp: catch_up_iteration_def split: if_splits)
next
  case (Inr s1)
  obtain k where k: "0 < k" "playing T (cu_state c) r d (cu_order c) (cu_next_pay_by c) f k"
    and cp: "clears_prefix T"
    using assms(1) by (auto simp: catch_up_inv_def)
  note t = turn [OF k(2,1) cp Inr]
  show ?thesis
    using assms(2) Inr t(1) playing_reads [OF t(2)]
    by (auto simp: catch_up_iteration_def check_and_complete_rosca_def split: if_splits)
qed

lemma catch_up_failure:
  assumes "catch_up_inv T r d f s c" and "catch_up_iteration T r now c = Inl e"
  shows "settling_fails T r d f e"
  using assms catch_up_failure_at [OF assms] by (auto simp: settling_fails_def catch_up_inv_def)

interpretation catch_up_loop: ranked_loop "catch_up_body T r now" "catch_up_inv T r d f s"
  "\<lambda>c. loop_rank (cu_next_pay_by c)" for T r now d f s
proof
  fix c c'
  assume inv: "catch_up_inv T r d f s c" and "catch_up_body T r now c = Inr c'"
  then have "catch_up_iteration T r now c = Inr (Inr c')"
    by (auto simp: catch_up_body_def split: sum.splits)
  from catch_up_iteration_cases [OF inv this]
  show "catch_up_inv T r d f s c'" "loop_rank (cu_next_pay_by c') < loop_rank (cu_next_pay_by c)"
    by (simp_all add: loop_rank_less)
qed

definition end_rounds_inv ::
  "('o, 'a, 'l) config \<Rightarrow> rosca_id \<Rightarrow> RoscaDetails \<Rightarrow> moment \<Rightarrow> ('a, 'l) pallet
   \<Rightarrow> ('a, 'l) pallet \<Rightarrow> bool" where
  "end_rounds_inv T r d f s t \<longleftrightarrow>
     clears_prefix T \<and> frame r s t \<and> (\<exists>xs n k. playing T t r d xs n f k)"

lemma end_rounds_body_cases:
  assumes "end_rounds_inv T r d f s t"
  shows "case end_rounds_body T r f t of
      Inr u \<Rightarrow> end_rounds_inv T r d f s u \<and>
        loop_rank (the (NextPayByTimestamp u r)) < loop_rank (the (NextPayByTimestamp t r))
    | Inl (Inr u) \<Rightarrow> u = t \<and> (\<exists>xs n. playing T t r d xs n f 0)
    | Inl (Inl e) \<Rightarrow> process_defaulters T r t = Inl e"
proof -
  obtain xs n k where t: "playing T t r d xs n f k" and cp: "clears_prefix T" and fr: "frame r s t"
    using assms by (auto simp: end_rounds_inv_def)
  note reads = playing_reads [OF t] and le = playing_cutoff_iff [OF t]
  show ?thesis
  proof (cases "process_defaulters T r t")
    case (Inl e)
    then show ?thesis
      using t reads le by (auto simp: end_rounds_body_def)
  next
    case (Inr s1)
    show ?thesis
    proof (cases "0 < k")
      case True
      note u = turn [OF t True cp Inr]
      have "end_rounds_inv T r d f s (round_after r d xs n s1)"
        using cp frame_trans [OF fr u(3)] u(2) by (auto simp: end_rounds_inv_def)
      then show ?thesis
        using True reads le Inr u(1) loop_rank_less [OF u(4)] playing_reads(4) [OF u(2)]
        by (simp add: end_rounds_body_def)
    next
      case False
      then show ?thesis
        using t reads le by (auto simp: end_rounds_body_def)
    qed
  qed
qed

interpretation end_rounds_loop: ranked_loop "end_rounds_body T r f" "end_rounds_inv T r d f s"
  "\<lambda>t. loop_rank (the (NextPayByTimestamp t r))" for T r d f s
proof
  fix t u
  assume inv: "end_rounds_inv T r d f s t" and "end_rounds_body T r f t = Inr u"
  with end_rounds_body_cases [OF inv]
  show "end_rounds_inv T r d f s u"
    "loop_rank (the (NextPayByTimestamp u r)) < loop_rank (the (NextPayByTimestamp t r))"
    by simp_all
qed

section \<open>manually_end_rosca\<close>

text \<open>Past the final cutoff, the rest of the call is the loop, then completion.\<close>

lemma manually_end_rosca_cases:
  assumes inv: "pallet_inv T s" and cp: "clears_prefix T"
  obtains e where "manually_end_rosca T origin r s = Some (Inl e)"
    "ensure_signed T origin = Inl e \<or>
     (ActiveRoscas s r = None \<and> e = Module RoscaNotActive) \<or>
     (FinalPayByTimestamp s r = None \<and> e = Module FinalPayByTimestampNotFound) \<or>
     (\<exists>f. FinalPayByTimestamp s r = Some f \<and> \<not> f < Now s \<and>
        e = Module FinalPayByTimestampMustBePast) \<or>
     (\<exists>d f. settling_fails T r d f e)"
  | d f u xs n where "manually_end_rosca T origin r s = Some (Inr (complete_rosca r u))"
    "ActiveRoscas s r = Some d" "FinalPayByTimestamp s r = Some f" "f < Now s"
    "run_loop (end_rounds_body T r f) s = Some (Inr u)"
    "frame r s u" "playing T u r d xs n f 0"
proof (cases "\<exists>signer d f. ensure_signed T origin = Inr signer \<and> ActiveRoscas s r = Some d \<and>
    FinalPayByTimestamp s r = Some f \<and> f < Now s")
  case False
  then have "\<exists>e. manually_end_rosca T origin r s = Some (Inl e) \<and>
    (ensure_signed T origin = Inl e \<or>
     (ActiveRoscas s r = None \<and> e = Module RoscaNotActive) \<or>
     (FinalPayByTimestamp s r = None \<and> e = Module FinalPayByTimestampNotFound) \<or>
     (\<exists>f. FinalPayByTimestamp s r = Some f \<and> \<not> f < Now s \<and>
        e = Module FinalPayByTimestampMustBePast))"
    by (cases "ensure_signed T origin"; cases "ActiveRoscas s r"; cases "FinalPayByTimestamp s r")
      (auto simp: manually_end_rosca_def)
  then show ?thesis
    using that(1) by blast
next
  case True
  then obtain signer d f where g: "ensure_signed T origin = Inr signer" "ActiveRoscas s r = Some d"
    "FinalPayByTimestamp s r = Some f" "f < Now s"
    by blast
  from inv g(2) obtain xs n f' k where p: "playing T s r d xs n f' k"
    by (rule playing_active)
  then have "f' = f"
    using g(3) playing_reads(5) by fastforce
  then have start: "end_rounds_inv T r d f s s"
    using p cp by (auto simp: end_rounds_inv_def)
  obtain u x where u: "end_rounds_inv T r d f s u" "end_rounds_body T r f u = Inl x"
    "run_loop (end_rounds_body T r f) s = Some x"
    using end_rounds_loop.returns_from [OF start] by blast
  show ?thesis
  proof (cases x)
    case (Inl e)
    then have "process_defaulters T r u = Inl e"
      using end_rounds_body_cases [OF u(1)] u(2) by simp
    then have "settling_fails T r d f e"
      using u(1) by (auto simp: end_rounds_inv_def settling_fails_def)
    then show ?thesis
      using that(1) [of e] g u(3) Inl by (auto simp: manually_end_rosca_def)
  next
    case (Inr v)
    then obtain ys m where v: "v = u" "playing T u r d ys m f 0"
      using end_rounds_body_cases [OF u(1)] u(2) by auto
    have m: "unat m = unat f + unat (rd_contribution_frequency d)"
      using v(2) by (simp add: playing_def round_ok_def)
    then have "checked_add f (rd_contribution_frequency d) = Some m"
      by (simp add: checked_add_Some_iff)
    then have "manually_end_rosca T origin r s = Some (Inr (complete_rosca r u))"
      using g u(3) Inr v playing_reads [OF v(2)] by (simp add: manually_end_rosca_def)
    then show ?thesis
      using that(2) g u Inr v by (auto simp: end_rounds_inv_def)
  qed
qed

lemma manually_end_rosca_inv:
  assumes inv: "pallet_inv T s" and cp: "clears_prefix T"
    and run: "manually_end_rosca T origin r s = Some (Inr t)"
  shows "pallet_inv T t"
  using inv cp
proof (cases rule: manually_end_rosca_cases [of T s origin r])
  case (2 d f u xs n)
  then show ?thesis
    using run pallet_inv_complete [OF inv, of r u] by (simp add: frame_def playing_def)
qed (use run in simp)

section \<open>contribute_to_rosca\<close>

lemma contribute_guards_Inr:
  assumes "pallet_inv T s" and "contribute_guards signer r s = Inr (d, f, c)"
  obtains k where "playing T s r d (cu_order c) (cu_next_pay_by c) f k" "0 < k"
    "cu_claimant c = hd (cu_order c)" "cu_state c = s" "signer \<in> set (cu_order c)"
    "signer \<noteq> hd (cu_order c)" "CurrentContributors s r signer = None"
proof -
  have active: "ActiveRoscas s r = Some d"
    using assms(2) by (auto simp: contribute_guards_def)
  from assms(1) active obtain xs n f' k where p: "playing T s r d xs n f' k" "0 < k"
    by (rule playing_active)
  have "set xs = dom (RoscaParticipants s r)"
    using p by (simp add: playing_def round_ok_def)
  then show thesis
    using that p assms(2) playing_reads [OF p(1)] by (force simp: contribute_guards_def)
qed

text \<open>The state after the payment itself, before the round is closed.\<close>

definition paid ::
  "rosca_id \<Rightarrow> RoscaDetails \<Rightarrow> 'a \<Rightarrow> 'a \<Rightarrow> ('a, 'l) pallet \<Rightarrow> ('a, 'l) pallet" where
  "paid r d signer claimant s =
     deposit_event (ContributionMade r signer claimant (ucast (rd_contribution_amount d)))
       (s\<lparr>CurrentContributors := (CurrentContributors s)
            (r := (CurrentContributors s r)(signer \<mapsto> ())),
          CurrentContributionCount := (CurrentContributionCount s)
            (r := CurrentContributionCount s r + 1)\<rparr>)"

lemma round_ok_count:
  assumes ok: "round_ok T s r d xs n f k" and len: "2 \<le> length xs"
  shows "unat (CurrentContributionCount s r) + 1 < length xs"
    and "checked_add (CurrentContributionCount s r) 1 = Some (CurrentContributionCount s r + 1)"
    and "unat (CurrentContributionCount s r + 1) = unat (CurrentContributionCount s r) + 1"
    and "CurrentContributionCount s r + 1 = of_nat (length xs) - 1 \<longleftrightarrow>
      \<not> unat (CurrentContributionCount s r) + 2 < length xs"
proof -
  let ?count = "CurrentContributionCount s r"
  have max: "length xs \<le> unat (MaxParticipants T)"
    using ok by (simp add: round_ok_def)
  show count: "unat ?count + 1 < length xs"
    using ok len by (auto simp: round_ok_def)
  have small: "length xs < 2 ^ 32"
    using le_less_trans [OF max unsigned_less] by simp
  show add: "checked_add ?count 1 = Some (?count + 1)"
    using count small by (simp add: checked_add_def)
  then show cnt: "unat (?count + 1) = unat ?count + 1"
    by (simp add: checked_add_Some_iff)
  have "unat (of_nat (length xs) - 1 :: u32) = length xs - 1"
    using len small by (simp add: unat_sub word_le_nat_alt unat_of_nat)
  then show "?count + 1 = of_nat (length xs) - 1 \<longleftrightarrow> \<not> unat ?count + 2 < length xs"
    using cnt count by (simp add: word_unat_eq_iff) linarith
qed

lemma contribute_payment_eq:
  assumes p: "playing T (cu_state c) r d (cu_order c) (cu_next_pay_by c) f k" and k: "0 < k"
    and cp: "clears_prefix T" and len: "2 \<le> length (cu_order c)" and new: "CurrentContributors (cu_state c) r signer = None"
  shows "contribute_payment T signer r d f c =
    try_do (currency_transfer T (asset_id (rd_payment_asset d)) signer (cu_claimant c)
        (ucast (rd_contribution_amount d)) (cu_state c)) (\<lambda>s1.
      let u = paid r d signer (cu_claimant c) s1 in
      Inr (if unat (CurrentContributionCount (cu_state c) r) + 2 < length (cu_order c) then u
           else if k = 1 then complete_rosca r u
           else round_after r d (cu_order c) (cu_next_pay_by c) u))"
proof -
  let ?s = "cu_state c" and ?xs = "cu_order c" and ?n = "cu_next_pay_by c"
  let ?count = "CurrentContributionCount ?s r" and ?fr = "rd_contribution_frequency d"
  have ok: "round_ok T ?s r d ?xs ?n f k" and terms: "terms_ok d"
    using p by (simp_all add: playing_def)
  note count = round_ok_count [OF ok len]
  have max: "length ?xs \<le> unat (MaxParticipants T)"
    and card: "card (dom (CurrentContributors ?s r)) = unat ?count"
    and fin: "finite (dom (CurrentContributors ?s r))"
    using ok by (auto simp: round_ok_def intro: finite_subset)
  have next_: "checked_add ?n ?fr = Some (?n + ?fr)"
    using round_ok_next_cutoff [OF ok k] by (simp add: checked_add_def)
  have last: "(?n + ?fr \<le> f) = (0 < k - 1)"
    using cutoff_le_final_iff [OF round_ok_round_after [OF ok k] terms] .
  have clear: "clear_prefix T (of_nat (length ?xs - 1)) ((CurrentContributors ?s r)(signer \<mapsto> ())) =
      Map.empty" if "\<not> unat ?count + 2 < length ?xs"
    using that count(1) card fin new max
    by (intro round_ok_clears [OF cp _ refl]) (simp_all add: domIff)
  show ?thesis
  proof (cases "currency_transfer T (asset_id (rd_payment_asset d)) signer (cu_claimant c)
      (ucast (rd_contribution_amount d)) ?s")
    case (Inl e)
    then show ?thesis by (simp add: contribute_payment_def Let_def)
  next
    case (Inr s1)
    then obtain l where s1: "s1 = ?s\<lparr>Ledger := l\<rparr>"
      by (auto simp: currency_transfer_Inr)
    have xs: "?xs \<noteq> []" "try_rotate_right (Suc 0) ?xs = Some (last ?xs # butlast ?xs)"
      using len by auto
    consider (paying) "unat ?count + 2 < length ?xs"
      | (finished) "\<not> unat ?count + 2 < length ?xs" "k = 1"
      | (again) "\<not> unat ?count + 2 < length ?xs" "1 < k"
      using k by linarith
    then show ?thesis
    proof cases
      case paying
      then show ?thesis
        by (simp add: contribute_payment_def Let_def Inr s1 count(2,4) paid_def)
    next
      case finished
      then have "f < ?n + ?fr"
        using last by (simp add: not_le [symmetric])
      then show ?thesis
        using finished by (simp add: contribute_payment_def Let_def Inr s1 count(2,4) paid_def next_)
    next
      case again
      then have "\<not> f < ?n + ?fr"
        using last by (simp add: not_less)
      then show ?thesis
        using again xs clear
        by (simp add: contribute_payment_def Let_def Inr s1 count(2,4) paid_def next_
            clear_contributions_def round_after_def last_conv_nth deposit_event_def)
    qed
  qed
qed

lemma playing_Ledger [simp]:
  "playing T (s\<lparr>Ledger := l\<rparr>) r d xs n f k = playing T s r d xs n f k"
  by (simp add: playing_def round_ok_def)

lemma playing_paid:
  assumes "playing T s r d xs n f k" and "2 \<le> length xs" and "signer \<in> set xs"
    and "CurrentContributors s r signer = None"
    and "unat (CurrentContributionCount s r) + 2 < length xs"
  shows "playing T (paid r d signer claimant s) r d xs n f k"
proof -
  have ok: "round_ok T s r d xs n f k"
    using assms(1) by (simp add: playing_def)
  moreover have "finite (dom (CurrentContributors s r))"
    using ok by (auto simp: round_ok_def intro: finite_subset)
  ultimately show ?thesis
    using assms round_ok_count(3) [OF ok assms(2)]
    by (simp add: playing_def round_ok_def paid_def deposit_event_def domIff)
qed

lemma playing_round_after_paid:
  assumes "playing T s r d xs n f k" and "0 < k"
  shows "playing T (round_after r d xs n (paid r d signer claimant (s\<lparr>Ledger := l\<rparr>))) r d
    (last xs # butlast xs) (n + rd_contribution_frequency d) f (k - 1)"
  using playing_round_after(1) [OF assms]
  by (simp add: playing_def round_ok_def round_after_def paid_def deposit_event_def)

lemma contribute_payment_Inr:
  assumes p: "playing T (cu_state c) r d (cu_order c) (cu_next_pay_by c) f k" and k: "0 < k"
    and cp: "clears_prefix T" and len: "2 \<le> length (cu_order c)"
    and new: "CurrentContributors (cu_state c) r signer = None"
    and run: "contribute_payment T signer r d f c = Inr t"
  obtains l u where
    "transfer T (asset_id (rd_payment_asset d)) signer (cu_claimant c)
       (ucast (rd_contribution_amount d)) (Ledger (cu_state c)) = Inr l"
    "u = paid r d signer (cu_claimant c) (cu_state c\<lparr>Ledger := l\<rparr>)"
    "unat (CurrentContributionCount (cu_state c) r) + 2 < length (cu_order c) \<and> t = u \<or>
     \<not> unat (CurrentContributionCount (cu_state c) r) + 2 < length (cu_order c) \<and> k = 1 \<and>
       t = complete_rosca r u \<or>
     \<not> unat (CurrentContributionCount (cu_state c) r) + 2 < length (cu_order c) \<and> 1 < k \<and>
       t = round_after r d (cu_order c) (cu_next_pay_by c) u"
proof -
  from run obtain l where l: "transfer T (asset_id (rd_payment_asset d)) signer (cu_claimant c)
       (ucast (rd_contribution_amount d)) (Ledger (cu_state c)) = Inr l"
    and t: "t = (let u = paid r d signer (cu_claimant c) (cu_state c\<lparr>Ledger := l\<rparr>) in
      if unat (CurrentContributionCount (cu_state c) r) + 2 < length (cu_order c) then u
      else if k = 1 then complete_rosca r u
      else round_after r d (cu_order c) (cu_next_pay_by c) u)"
    unfolding contribute_payment_eq [OF p k cp len new]
    by (auto simp: currency_transfer_Inr Let_def)
  show thesis
    using k by (intro that [OF l refl]) (auto simp: t Let_def)
qed

lemma acts_at_paid:
  "acts_at r s t \<Longrightarrow> acts_at r s (paid r d signer claimant (t\<lparr>Ledger := l\<rparr>))"
  by (simp add: acts_at_def same_at_def paid_def deposit_event_def)

lemma acts_at_round_after: "acts_at r s t \<Longrightarrow> acts_at r s (round_after r d xs n t)"
  by (simp add: acts_at_def same_at_def round_after_def deposit_event_def)

lemma acts_at_complete: "acts_at r s t \<Longrightarrow> acts_at r s (complete_rosca r t)"
  by (simp add: acts_at_def same_at_def complete_rosca_def deposit_event_def)

lemma contribute_payment_inv:
  assumes inv: "pallet_inv T s" and active: "ActiveRoscas s r \<noteq> None"
    and fr: "frame r s (cu_state c)"
    and p: "playing T (cu_state c) r d (cu_order c) (cu_next_pay_by c) f k" and k: "0 < k"
    and cp: "clears_prefix T" and len: "2 \<le> length (cu_order c)"
    and signer: "signer \<in> set (cu_order c)" "CurrentContributors (cu_state c) r signer = None"
    and run: "contribute_payment T signer r d f c = Inr t"
  shows "pallet_inv T t"
  using p k cp len signer(2) run
proof (rule contribute_payment_Inr)
  fix l u
  assume u: "u = paid r d signer (cu_claimant c) (cu_state c\<lparr>Ledger := l\<rparr>)"
    and t: "unat (CurrentContributionCount (cu_state c) r) + 2 < length (cu_order c) \<and> t = u \<or>
     \<not> unat (CurrentContributionCount (cu_state c) r) + 2 < length (cu_order c) \<and> k = 1 \<and>
       t = complete_rosca r u \<or>
     \<not> unat (CurrentContributionCount (cu_state c) r) + 2 < length (cu_order c) \<and> 1 < k \<and>
       t = round_after r d (cu_order c) (cu_next_pay_by c) u"
  have acts: "acts_at r s u" "NextRoscaId u = NextRoscaId s"
    using fr by (simp_all add: frame_def u acts_at_paid) (simp add: paid_def deposit_event_def)
  show ?thesis
    using t
  proof (elim disjE conjE)
    assume few: "unat (CurrentContributionCount (cu_state c) r) + 2 < length (cu_order c)" "t = u"
    have "playing T u r d (cu_order c) (cu_next_pay_by c) f k"
      unfolding u using few(1) signer p len by (intro playing_paid) simp_all
    then show ?thesis
      unfolding few(2) using pallet_inv_playing [OF inv active acts] k by blast
  next
    assume t: "t = complete_rosca r u"
    have "PendingRoscaDetails u r = None" "finite (dom (RoscaSecurityDeposits u r))"
      using p by (simp_all add: u playing_def paid_def deposit_event_def)
    then show ?thesis
      unfolding t by (rule pallet_inv_complete [OF inv active acts])
  next
    assume t: "1 < k" "t = round_after r d (cu_order c) (cu_next_pay_by c) u"
    have "NextRoscaId t = NextRoscaId s"
      using acts by (simp add: t(2) round_after_def deposit_event_def)
    then show ?thesis
      using pallet_inv_playing [OF inv active _ _ playing_round_after_paid [OF p k]]
        acts_at_round_after [OF acts(1)] t(1) unfolding t(2) u by simp
  qed
qed

lemma payer_frame:
  assumes "playing T s r d xs n f k" and "playing T t r d ys m f j" and "frame r s t"
    and "signer \<in> set xs" and "signer \<noteq> hd xs" and "CurrentContributors s r signer = None"
  shows "signer \<in> set ys" "2 \<le> length ys" "CurrentContributors t r signer = None"
proof -
  have same: "set ys = set xs" "distinct ys"
    using assms(1-3) by (simp_all add: playing_def round_ok_def frame_def)
  then show "signer \<in> set ys"
    using assms(4) by simp
  have "hd xs \<in> set xs"
    using assms(4) by (cases xs) auto
  then have "card {signer, hd xs} \<le> card (set ys)"
    using assms(4) same by (intro card_mono) auto
  then show "2 \<le> length ys"
    using assms(5) same(2) by (simp add: distinct_card)
  show "CurrentContributors t r signer = None"
    using assms(3,6) by (auto simp: frame_def domIff)
qed

text \<open>How a call of \<^verbatim>\<open>contribute_to_rosca\<close> ends.\<close>

lemma contribute_to_rosca_cases:
  assumes inv: "pallet_inv T s" and cp: "clears_prefix T"
  obtains e where "contribute_to_rosca T origin r s = Some (Inl e)"
    "ensure_signed T origin = Inl e \<or>
     (\<exists>signer. ensure_signed T origin = Inr signer \<and> contribute_guards signer r s = Inl e) \<or>
     (\<exists>d f. settling_fails T r d f e)"
  | u d xs n f where "contribute_to_rosca T origin r s = Some (Inr (complete_rosca r u))"
    "frame r s u" "ActiveRoscas s r = Some d" "playing T u r d xs n f 0"
  | signer d f c k where
    "contribute_to_rosca T origin r s = Some (contribute_payment T signer r d f c)"
    "ensure_signed T origin = Inr signer" "ActiveRoscas s r = Some d" "frame r s (cu_state c)"
    "playing T (cu_state c) r d (cu_order c) (cu_next_pay_by c) f k" "0 < k"
    "cu_claimant c = hd (cu_order c)" "Now s < cu_next_pay_by c"
    "signer \<in> set (cu_order c)" "2 \<le> length (cu_order c)"
    "CurrentContributors (cu_state c) r signer = None"
proof -
  consider (stopped) e where "contribute_to_rosca T origin r s = Some (Inl e)"
        "ensure_signed T origin = Inl e \<or>
         (\<exists>signer. ensure_signed T origin = Inr signer \<and> contribute_guards signer r s = Inl e)"
    | (looping) signer d f c where "ensure_signed T origin = Inr signer"
        "contribute_guards signer r s = Inr (d, f, c)"
    by (cases "ensure_signed T origin"; cases "contribute_guards (projr (ensure_signed T origin)) r s")
      (auto simp: contribute_to_rosca_def)
  then show thesis
  proof cases
    case stopped
    then show ?thesis using that(1) by blast
  next
    case looping
    from inv looping(2) obtain k where c: "playing T s r d (cu_order c) (cu_next_pay_by c) f k"
      "0 < k" "cu_claimant c = hd (cu_order c)" "cu_state c = s" "signer \<in> set (cu_order c)"
      "signer \<noteq> hd (cu_order c)" "CurrentContributors s r signer = None"
      by (rule contribute_guards_Inr)
    have "catch_up_inv T r d f s c"
      using c cp by (auto simp: catch_up_inv_def)
    then obtain c' x where c': "catch_up_inv T r d f s c'" "catch_up_body T r (Now s) c' = Inl x"
      "run_loop (catch_up_body T r (Now s)) c = Some x"
      using catch_up_loop.returns_from by blast
    have active: "ActiveRoscas s r = Some d"
      using c(1) by (simp add: playing_def)
    show ?thesis
    proof (cases x)
      case (Inl e)
      then have "catch_up_iteration T r (Now s) c' = Inl e"
        using c'(2) by (auto simp: catch_up_body_def split: sum.splits)
      then have "settling_fails T r d f e"
        by (rule catch_up_failure [OF c'(1)])
      then show ?thesis
        using that(1) [of e] looping c'(3) Inl by (auto simp: contribute_to_rosca_def)
    next
      case x: (Inr y)
      then have it: "catch_up_iteration T r (Now s) c' = Inr (Inl y)"
        using c'(2) by (auto simp: catch_up_body_def split: sum.splits)
      note out = catch_up_iteration_cases [OF c'(1) it]
      show ?thesis
      proof (cases y)
        case (Completed t)
        then show ?thesis
          using that(2) looping c'(3) x out active
          by (auto simp: contribute_to_rosca_def)
      next
        case (CaughtUp c2)
        then have "c2 = c'" "Now s < cu_next_pay_by c'"
          using out by simp_all
        obtain j where j: "0 < j" "playing T (cu_state c') r d (cu_order c') (cu_next_pay_by c') f j"
          and fr: "frame r s (cu_state c')" and hd: "cu_claimant c' = hd (cu_order c')"
          using c'(1) by (auto simp: catch_up_inv_def)
        note payer = payer_frame [OF c(1) j(2) fr c(5,6,7)]
        have "contribute_to_rosca T origin r s = Some (contribute_payment T signer r d f c')"
          using looping c'(3) x CaughtUp \<open>c2 = c'\<close> by (simp add: contribute_to_rosca_def)
        then show ?thesis
          using that(3) looping(1) active fr j hd \<open>Now s < _\<close> payer by blast
      qed
    qed
  qed
qed

lemma contribute_to_rosca_inv:
  assumes inv: "pallet_inv T s" and cp: "clears_prefix T"
    and run: "contribute_to_rosca T origin r s = Some (Inr t)"
  shows "pallet_inv T t"
  using inv cp
proof (cases rule: contribute_to_rosca_cases [of T s origin r])
  case (2 u d xs n f)
  then show ?thesis
    using run pallet_inv_complete [OF inv, of r u] by (simp add: frame_def playing_def)
next
  case (3 signer d f c k)
  then show ?thesis
    using run contribute_payment_inv [OF inv _ 3(4-6) cp 3(10,9,11)] by simp
qed (use run in simp)

end
