(* ===== verification/Rosca_Life.thy ===== *)
theory Rosca_Life
  imports Rosca_Progress
begin

text \<open>
  The two deposit operations, the life of a ROSCA as an abstract state machine that the storage
  refines, and the contract every dispatchable keeps: it returns, preserves the invariant and moves
  each ROSCA along its life. The contract is a locale, interpreted on each dispatchable and on the
  dispatch of a call.
\<close>

section \<open>claim_security_deposit and add_to_security_deposit\<close>

lemma claim_security_deposit_effect:
  assumes "claim_security_deposit T origin r asset s = Inr t"
  obtains signer f dep l where
    "ensure_signed T origin = Inr signer" "FinalPayByTimestamp s r = Some f" "f < Now s"
    "PendingRoscaDetails s r \<noteq> None \<or> CompletedRoscas s r \<noteq> None"
    "RoscaSecurityDeposits s r signer = Some dep" "0 < dep"
    "transfer T (asset_id asset) (rosca_account_id T r) signer (ucast dep) (Ledger s) = Inr l"
    "t = deposit_event (SecurityDepositClaimed r signer (ucast dep))
       (s\<lparr>Ledger := l, RoscaSecurityDeposits := (RoscaSecurityDeposits s)
          (r := (RoscaSecurityDeposits s r)(signer := None))\<rparr>)"
  using assms unfolding claim_security_deposit_def
  by (clarsimp simp: currency_transfer_Inr)

lemma add_to_security_deposit_effect:
  assumes "add_to_security_deposit T origin r amount s = Inr t"
  obtains signer p d l dep where
    "ensure_signed T origin = Inr signer" "RoscaParticipants s r signer = Some p"
    "CompletedRoscas s r = None"
    "(case ActiveRoscas s r of Some d \<Rightarrow> Some d | None \<Rightarrow> PendingRoscaDetails s r) = Some d"
    "transfer T (asset_id (rd_payment_asset d)) signer (rosca_account_id T r) (ucast amount)
       (Ledger s) = Inr l"
    "checked_add (unwrap_or 0 (RoscaSecurityDeposits s r signer)) amount = Some dep"
    "t = deposit_event (SecurityDepositContribution r signer (ucast amount))
       (s\<lparr>Ledger := l, RoscaSecurityDeposits := (RoscaSecurityDeposits s)
          (r := (RoscaSecurityDeposits s r)(signer \<mapsto> dep))\<rparr>)"
  using assms unfolding add_to_security_deposit_def Let_def
  by (clarsimp simp: currency_transfer_Inr)

lemma rosca_inv_deposits:
  assumes "rosca_inv T s r" and "finite (dom D)"
  shows "rosca_inv T (deposit_event e (s\<lparr>Ledger := l,
    RoscaSecurityDeposits := (RoscaSecurityDeposits s)(r := D)\<rparr>)) r"
  using assms
  by (simp add: rosca_inv_def pending_ok_def active_ok_def round_ok_def deposit_event_def)

lemma pallet_inv_deposits:
  assumes "pallet_inv T s" and "finite (dom D)" and "\<not> fresh_at s r"
  shows "pallet_inv T (deposit_event e (s\<lparr>Ledger := l,
    RoscaSecurityDeposits := (RoscaSecurityDeposits s)(r := D)\<rparr>))"
proof -
  have "rosca_inv T s r"
    using assms(1) by (simp add: pallet_inv_def)
  note here = rosca_inv_deposits [OF this assms(2)]
  show ?thesis
    by (rule pallet_inv_acts_at [OF assms(1) _ _ here assms(3)])
      (simp_all add: acts_at_def same_at_def deposit_event_def)
qed

lemma claim_security_deposit_inv:
  assumes "pallet_inv T s" and "claim_security_deposit T origin r asset s = Inr t"
  shows "pallet_inv T t"
  using assms(2)
proof (rule claim_security_deposit_effect)
  fix signer dep l
  assume dep: "RoscaSecurityDeposits s r signer = Some dep"
    and t: "t = deposit_event (SecurityDepositClaimed r signer (ucast dep))
       (s\<lparr>Ledger := l, RoscaSecurityDeposits := (RoscaSecurityDeposits s)
          (r := (RoscaSecurityDeposits s r)(signer := None))\<rparr>)"
  have "finite (dom (RoscaSecurityDeposits s r))"
    using assms(1) by (simp add: pallet_inv_def rosca_inv_def)
  then show ?thesis
    unfolding t using dep
    by (intro pallet_inv_deposits [OF assms(1)]) (auto simp: fresh_at_def)
qed

lemma add_to_security_deposit_inv:
  assumes "pallet_inv T s" and "add_to_security_deposit T origin r amount s = Inr t"
  shows "pallet_inv T t"
  using assms(2)
proof (rule add_to_security_deposit_effect)
  fix signer p l dep
  assume part: "RoscaParticipants s r signer = Some p"
    and t: "t = deposit_event (SecurityDepositContribution r signer (ucast amount))
       (s\<lparr>Ledger := l, RoscaSecurityDeposits := (RoscaSecurityDeposits s)
          (r := (RoscaSecurityDeposits s r)(signer \<mapsto> dep))\<rparr>)"
  have "finite (dom (RoscaSecurityDeposits s r))"
    using assms(1) by (simp add: pallet_inv_def rosca_inv_def)
  then show ?thesis
    unfolding t using part
    by (intro pallet_inv_deposits [OF assms(1)]) (auto simp: fresh_at_def)
qed

section \<open>The life of a ROSCA\<close>

datatype phase = Unused | Open | Running | Ended

definition phase_of :: "('a, 'l) pallet \<Rightarrow> rosca_id \<Rightarrow> phase" where
  "phase_of s r =
     (if CompletedRoscas s r \<noteq> None then Ended
      else if ActiveRoscas s r \<noteq> None then Running
      else if PendingRoscaDetails s r \<noteq> None then Open
      else Unused)"

inductive phase_step :: "phase \<Rightarrow> phase \<Rightarrow> bool" where
  stay: "phase_step p p"
| create: "phase_step Unused Open"
| start: "phase_step Open Running"
| finish: "phase_step Running Ended"

inductive_simps phase_step_Ended [simp]: "phase_step Ended p"
inductive_simps phase_step_Running [simp]: "phase_step Running p"
inductive_simps phase_step_Open [simp]: "phase_step Open p"

lemma phase_of_same_at: "same_at s t q \<Longrightarrow> phase_of t q = phase_of s q"
  by (simp add: same_at_def phase_of_def)

lemma phase_step_acts_at:
  assumes "acts_at r s t" and "phase_step (phase_of s r) (phase_of t r)"
  shows "phase_step (phase_of s q) (phase_of t q)"
proof (cases "q = r")
  case False
  then have "phase_of t q = phase_of s q"
    using assms(1) by (intro phase_of_same_at) (simp add: acts_at_def)
  then show ?thesis
    by (simp add: phase_step.stay)
qed (use assms(2) in simp)

lemma phase_playing: "playing T s r d xs n f k \<Longrightarrow> phase_of s r = Running"
  by (simp add: playing_def phase_of_def)

lemma phase_complete: "phase_of (complete_rosca r u) r = Ended"
  by (simp add: phase_of_def complete_rosca_def deposit_event_def)

lemma create_rosca_phase:
  assumes "pallet_inv T s" and "create_rosca T origin random_order invited threshold amount asset
    frequency start_by position name s = Inr t"
  shows "phase_step (phase_of s q) (phase_of t q)"
  using assms(2)
proof (rule create_rosca_effect)
  fix signer n I d
  assume t: "t = deposit_event
       (RoscaCreated (NextRoscaId s) (ucast amount) asset frequency random_order name (of_nat n)
          threshold start_by
          (snd (invite_all T (NextRoscaId s) (signer # remdups_adj (sort invited)) (s, []))) signer)
       (s\<lparr>RoscaInvitedPreverifiedParticipants := I,
          PendingRoscaParticipantsOrder := (PendingRoscaParticipantsOrder s)
            (NextRoscaId s \<mapsto> (replicate n None)[unat (unwrap_or 0 position) := Some signer]),
          RoscaParticipants := (RoscaParticipants s)(NextRoscaId s :=
            (RoscaParticipants s (NextRoscaId s))(signer \<mapsto> unwrap_or 0 position)),
          RoscaParticipantsCount := (RoscaParticipantsCount s)(NextRoscaId s \<mapsto> 1),
          PendingRoscaDetails := (PendingRoscaDetails s)(NextRoscaId s \<mapsto> d),
          NextRoscaId := NextRoscaId s + 1\<rparr>)"
  have "fresh_at s (NextRoscaId s)"
    using assms(1) by (simp add: pallet_inv_def)
  then show ?thesis
    by (cases "q = NextRoscaId s")
      (auto simp: t phase_of_def fresh_at_def deposit_event_def intro: phase_step.intros)
qed

lemma join_rosca_phase: "join_rosca T origin r p s = Inr t \<Longrightarrow> phase_of t q = phase_of s q"
  by (erule join_rosca_effect) (simp add: phase_of_def deposit_event_def)

lemma leave_rosca_phase: "leave_rosca T origin r s = Inr t \<Longrightarrow> phase_of t q = phase_of s q"
  by (erule leave_rosca_effect, erule refund_deposit_effect) (simp add: phase_of_def deposit_event_def)

lemma start_rosca_phase:
  assumes "pallet_inv T s" and "start_rosca T origin r s = Inr t"
  shows "phase_step (phase_of s q) (phase_of t q)"
  using assms(2)
  by (rule start_rosca_effect)
    (auto simp: phase_of_def deposit_event_def started_def intro: phase_step.intros)

lemma contribute_payment_phase:
  assumes p: "playing T (cu_state c) r d (cu_order c) (cu_next_pay_by c) f k" and "0 < k"
    and "clears_prefix T" and "2 \<le> length (cu_order c)"
    and "CurrentContributors (cu_state c) r signer = None"
    and "contribute_payment T signer r d f c = Inr t"
  shows "acts_at r (cu_state c) t \<and> phase_of t r \<in> {Running, Ended}"
  using assms
proof (rule contribute_payment_Inr)
  fix l u
  assume u: "u = paid r d signer (cu_claimant c) (cu_state c\<lparr>Ledger := l\<rparr>)"
  have "acts_at r (cu_state c) u" "phase_of u r = Running"
    "phase_of (round_after r d (cu_order c) (cu_next_pay_by c) u) r = Running"
    using p by (simp_all add: u acts_at_paid)
      (simp_all add: paid_def round_after_def deposit_event_def phase_of_def playing_def)
  then show "unat (CurrentContributionCount (cu_state c) r) + 2 < length (cu_order c) \<and> t = u \<or>
     \<not> unat (CurrentContributionCount (cu_state c) r) + 2 < length (cu_order c) \<and> k = 1 \<and>
       t = complete_rosca r u \<or>
     \<not> unat (CurrentContributionCount (cu_state c) r) + 2 < length (cu_order c) \<and> 1 < k \<and>
       t = round_after r d (cu_order c) (cu_next_pay_by c) u \<Longrightarrow> ?thesis"
    by (elim disjE conjE) (simp_all add: acts_at_complete acts_at_round_after phase_complete)
qed

lemma phase_active: "pallet_inv T s \<Longrightarrow> ActiveRoscas s r = Some d \<Longrightarrow> phase_of s r = Running"
  by (metis playing_active phase_playing)

lemma contribute_to_rosca_phase:
  assumes inv: "pallet_inv T s" and cp: "clears_prefix T"
    and run: "contribute_to_rosca T origin r s = Some (Inr t)"
  shows "phase_step (phase_of s q) (phase_of t q)"
  using inv cp
proof (cases rule: contribute_to_rosca_cases [of T s origin r])
  case (2 u d xs n f)
  have t: "t = complete_rosca r u"
    using run 2(1) by simp
  have "acts_at r s t"
    unfolding t using \<open>frame r s u\<close> by (simp add: frame_def acts_at_complete)
  then show ?thesis
    by (rule phase_step_acts_at) (simp add: t phase_complete phase_active [OF inv \<open>ActiveRoscas s r = Some d\<close>])
next
  case (3 signer d f c k)
  then have "contribute_payment T signer r d f c = Inr t"
    using run by simp
  note pay = contribute_payment_phase [OF 3(5,6) cp 3(10,11) this]
  have "acts_at r s t"
    using 3(4) pay acts_at_trans unfolding frame_def by blast
  then show ?thesis
    using phase_active [OF inv 3(3)] pay by - (rule phase_step_acts_at, auto)
qed (use run in simp)

lemma manually_end_rosca_phase:
  assumes inv: "pallet_inv T s" and cp: "clears_prefix T"
    and run: "manually_end_rosca T origin r s = Some (Inr t)"
  shows "phase_step (phase_of s q) (phase_of t q)"
  using inv cp
proof (cases rule: manually_end_rosca_cases [of T s origin r])
  case (2 d f u xs n)
  have t: "t = complete_rosca r u"
    using run 2(1) by simp
  have "acts_at r s t"
    unfolding t using \<open>frame r s u\<close> by (simp add: frame_def acts_at_complete)
  then show ?thesis
    by (rule phase_step_acts_at) (simp add: t phase_complete phase_active [OF inv \<open>ActiveRoscas s r = Some d\<close>])
qed (use run in simp)

lemma claim_security_deposit_phase:
  "claim_security_deposit T origin r asset s = Inr t \<Longrightarrow> phase_of t q = phase_of s q"
  by (erule claim_security_deposit_effect) (simp add: phase_of_def deposit_event_def)

lemma add_to_security_deposit_phase:
  "add_to_security_deposit T origin r amount s = Inr t \<Longrightarrow> phase_of t q = phase_of s q"
  by (erule add_to_security_deposit_effect) (simp add: phase_of_def deposit_event_def)

lemma contribute_to_rosca_returns:
  assumes "pallet_inv T s" and "clears_prefix T"
  shows "\<exists>x. contribute_to_rosca T origin r s = Some x"
  using assms by (cases rule: contribute_to_rosca_cases [of T s origin r]) simp_all

lemma manually_end_rosca_returns:
  assumes "pallet_inv T s" and "clears_prefix T"
  shows "\<exists>x. manually_end_rosca T origin r s = Some x"
  using assms by (cases rule: manually_end_rosca_cases [of T s origin r]) simp_all

section \<open>The contract of a dispatchable\<close>

text \<open>
  What every dispatchable promises when the identifiers are not exhausted: it returns, keeps the
  invariant when it succeeds, and moves each ROSCA along its life.
\<close>

locale dispatchable =
  fixes call :: "('o, 'a, 'l) config \<Rightarrow> 'o \<Rightarrow> ('a, 'l) pallet
    \<Rightarrow> (dispatch_error + ('a, 'l) pallet) option"
  assumes returns: "pallet_inv T s \<Longrightarrow> clears_prefix T \<Longrightarrow> \<exists>x. call T origin s = Some x"
    and keeps: "pallet_inv T s \<Longrightarrow> clears_prefix T \<Longrightarrow> NextRoscaId s \<noteq> - 1 \<Longrightarrow>
      call T origin s = Some (Inr t) \<Longrightarrow> pallet_inv T t"
    and moves: "pallet_inv T s \<Longrightarrow> clears_prefix T \<Longrightarrow> call T origin s = Some (Inr t) \<Longrightarrow>
      phase_step (phase_of s q) (phase_of t q)"
begin

text \<open>A call that fails is rolled back, so a transaction always leaves a state behind.\<close>

definition transact :: "('o, 'a, 'l) config \<Rightarrow> 'o \<Rightarrow> ('a, 'l) pallet \<Rightarrow> ('a, 'l) pallet" where
  "transact T origin s = (case call T origin s of Some (Inr t) \<Rightarrow> t | _ \<Rightarrow> s)"

lemma transact_keeps:
  "pallet_inv T s \<Longrightarrow> clears_prefix T \<Longrightarrow> NextRoscaId s \<noteq> - 1 \<Longrightarrow> pallet_inv T (transact T origin s)"
  by (auto simp: transact_def keeps split: option.splits sum.splits)

lemma transact_moves:
  "pallet_inv T s \<Longrightarrow> clears_prefix T \<Longrightarrow> phase_step (phase_of s q) (phase_of (transact T origin s) q)"
  by (auto simp: transact_def moves phase_step.stay split: option.splits sum.splits)

lemma ended_for_good:
  "pallet_inv T s \<Longrightarrow> clears_prefix T \<Longrightarrow> phase_of s q = Ended \<Longrightarrow> phase_of (transact T origin s) q = Ended"
  by (metis transact_moves phase_step_Ended)

end

interpretation create: dispatchable "\<lambda>T origin s. Some (create_rosca T origin random_order invited
    threshold amount asset frequency start_by position name s)"
  for random_order invited threshold amount asset frequency start_by position name
  by unfold_locales (auto intro: create_rosca_inv create_rosca_phase)

interpretation join: dispatchable "\<lambda>T origin s. Some (join_rosca T origin r p s)" for r p
  by unfold_locales (auto intro: join_rosca_inv phase_step.stay simp: join_rosca_phase)

interpretation leave: dispatchable "\<lambda>T origin s. Some (leave_rosca T origin r s)" for r
  by unfold_locales (auto intro: leave_rosca_inv phase_step.stay simp: leave_rosca_phase)

interpretation start: dispatchable "\<lambda>T origin s. Some (start_rosca T origin r s)" for r
  by unfold_locales (auto intro: start_rosca_inv start_rosca_phase)

interpretation contribute: dispatchable "\<lambda>T origin s. contribute_to_rosca T origin r s" for r
  by unfold_locales
    (rule contribute_to_rosca_returns contribute_to_rosca_inv contribute_to_rosca_phase; assumption)+

interpretation manual_end: dispatchable "\<lambda>T origin s. manually_end_rosca T origin r s" for r
  by unfold_locales
    (rule manually_end_rosca_returns manually_end_rosca_inv manually_end_rosca_phase; assumption)+

interpretation claim: dispatchable "\<lambda>T origin s. Some (claim_security_deposit T origin r asset s)"
  for r asset
  by unfold_locales
    (auto intro: claim_security_deposit_inv phase_step.stay simp: claim_security_deposit_phase)

interpretation add_deposit:
  dispatchable "\<lambda>T origin s. Some (add_to_security_deposit T origin r amount s)" for r amount
  by unfold_locales
    (auto intro: add_to_security_deposit_inv phase_step.stay simp: add_to_security_deposit_phase)

lemma dispatch_call_cases:
  assumes "\<And>random_order invited threshold amount asset frequency start_by position name.
      P (\<lambda>T origin s. Some (create_rosca T origin random_order invited threshold amount asset
        frequency start_by position name s))"
    and "\<And>r p. P (\<lambda>T origin s. Some (join_rosca T origin r p s))"
    and "\<And>r. P (\<lambda>T origin s. Some (leave_rosca T origin r s))"
    and "\<And>r. P (\<lambda>T origin s. Some (start_rosca T origin r s))"
    and "\<And>r. P (\<lambda>T origin s. contribute_to_rosca T origin r s)"
    and "\<And>r. P (\<lambda>T origin s. manually_end_rosca T origin r s)"
    and "\<And>r asset. P (\<lambda>T origin s. Some (claim_security_deposit T origin r asset s))"
    and "\<And>r amount. P (\<lambda>T origin s. Some (add_to_security_deposit T origin r amount s))"
  shows "P (\<lambda>T origin s. dispatch_call T origin c s)"
  by (cases c) (simp_all add: assms)

interpretation dispatch: dispatchable "\<lambda>T origin s. dispatch_call T origin c s" for c
  by (rule dispatch_call_cases) (rule create.dispatchable_axioms join.dispatchable_axioms
      leave.dispatchable_axioms start.dispatchable_axioms contribute.dispatchable_axioms
      manual_end.dispatchable_axioms claim.dispatchable_axioms add_deposit.dispatchable_axioms)+

end
