(* ===== verification/Rosca_Chain.thy ===== *)
theory Rosca_Chain
  imports Rosca_Life
begin

text \<open>
  The pallet on a chain: the states that calls, new blocks and the other pallets reach from an empty
  storage, the invariant and the life of a ROSCA along such a run, and which calls can panic.
\<close>

section \<open>Reachable states\<close>

definition genesis :: "moment \<Rightarrow> u32 \<Rightarrow> 'l \<Rightarrow> ('a, 'l) pallet" where
  "genesis now block l =
     \<lparr>NextRoscaId = 0, ActiveRoscas = Map.empty, CompletedRoscas = Map.empty,
      RoscaParticipants = (\<lambda>_. Map.empty),
      RoscaInvitedPreverifiedParticipants = (\<lambda>_. Map.empty),
      RoscaParticipantsCount = Map.empty, RoscaSecurityDeposits = (\<lambda>_. Map.empty),
      PendingRoscaParticipantsOrder = Map.empty, ActiveRoscaParticipantsOrder = Map.empty,
      PendingRoscaDetails = Map.empty, NextPayByTimestamp = Map.empty,
      FinalPayByTimestamp = Map.empty, EligibleClaimant = Map.empty, RoscaAccounts = Map.empty,
      CurrentContributors = (\<lambda>_. Map.empty), CurrentContributionCount = (\<lambda>_. 0),
      DefaultCount = (\<lambda>_ _. 0), Events = [], Now = now, BlockNumber = block, Ledger = l\<rparr>"

inductive chain_step ::
  "('o, 'a::linorder, 'l) config \<Rightarrow> ('a, 'l) pallet \<Rightarrow> ('a, 'l) pallet \<Rightarrow> bool" for T where
  applied: "dispatch_call T origin c s = Some (Inr t) \<Longrightarrow> NextRoscaId s \<noteq> - 1 \<Longrightarrow> chain_step T s t"
| rolled_back: "dispatch_call T origin c s = Some (Inl e) \<Longrightarrow> chain_step T s s"
| new_block: "Now s \<le> now \<Longrightarrow> chain_step T s (s\<lparr>Now := now, BlockNumber := block, Events := []\<rparr>)"
| other_pallets: "chain_step T s (s\<lparr>Ledger := l\<rparr>)"

inductive reachable :: "('o, 'a::linorder, 'l) config \<Rightarrow> ('a, 'l) pallet \<Rightarrow> bool" for T where
  genesis: "reachable T (genesis now block l)"
| step: "reachable T s \<Longrightarrow> chain_step T s t \<Longrightarrow> reachable T t"

inductive_cases chain_stepE: "chain_step T s t"

lemma pallet_inv_genesis: "pallet_inv T (genesis now block l)"
  by (simp add: pallet_inv_def rosca_inv_def fresh_at_def genesis_def)

lemma pallet_inv_environment:
  "pallet_inv T (s\<lparr>Now := now, BlockNumber := block, Events := E\<rparr>) = pallet_inv T s"
  "pallet_inv T (s\<lparr>Ledger := l\<rparr>) = pallet_inv T s"
  "pallet_inv T (s\<lparr>Now := now\<rparr>) = pallet_inv T s"
  by (simp_all add: pallet_inv_def rosca_inv_def fresh_at_def pending_ok_def active_ok_def
      round_ok_def)

lemma chain_step_inv:
  assumes "chain_step T s t" and "clears_prefix T" and "pallet_inv T s"
  shows "pallet_inv T t"
  using assms(1)
proof (cases rule: chain_step.cases)
  case (applied origin c)
  then show ?thesis
    using dispatch.keeps [OF assms(3,2) applied(2,1)] by simp
qed (simp_all add: pallet_inv_environment assms(3))

lemma chain_step_phase:
  assumes "chain_step T s t" and "clears_prefix T" and "pallet_inv T s"
  shows "phase_step (phase_of s r) (phase_of t r)"
  using assms(1)
proof (cases rule: chain_step.cases)
  case (applied origin c)
  then show ?thesis
    using dispatch.moves [OF assms(3,2) applied(1)] by simp
qed (simp_all add: phase_of_def phase_step.stay)

lemma ended_stays:
  assumes "(chain_step T)\<^sup>*\<^sup>* s t" and "clears_prefix T" and "pallet_inv T s" and "phase_of s r = Ended"
  shows "pallet_inv T t \<and> phase_of t r = Ended"
  using assms
proof (induction rule: rtranclp_induct)
  case (step t u)
  then show ?case
    using chain_step_phase [of T t u r] chain_step_inv [of T t u] by auto
qed simp

section \<open>No panic\<close>

definition foreign_calls_return :: "('o, 'a, 'l) config \<Rightarrow> bool" where
  "foreign_calls_return T \<longleftrightarrow>
     (\<forall>origin. ensure_signed T origin \<noteq> Inl Panicked) \<and>
     (\<forall>asset x y amount l. transfer T asset x y amount l \<noteq> Inl Panicked)"

lemma transfer_no_panic:
  "foreign_calls_return T \<Longrightarrow> currency_transfer T asset x y amount s \<noteq> Inl Panicked"
  by (auto simp: foreign_calls_return_def currency_transfer_def failure_iffs)

lemma signed_no_panic: "foreign_calls_return T \<Longrightarrow> ensure_signed T origin \<noteq> Inl Panicked"
  by (simp add: foreign_calls_return_def)

lemma join_rosca_no_panic:
  assumes "foreign_calls_return T"
  shows "join_rosca T origin r p s \<noteq> Inl Panicked"
  using signed_no_panic [OF assms]
  by (auto simp: join_rosca_def claim_position_def failure_iffs Let_def split: if_splits option.splits)

lemma refund_deposit_no_panic:
  assumes "foreign_calls_return T"
  shows "refund_deposit T r signer d s \<noteq> Inl Panicked"
  using transfer_no_panic [OF assms]
  by (auto simp: refund_deposit_def failure_iffs Let_def split: if_splits)

lemma leave_rosca_no_panic:
  assumes "foreign_calls_return T" and inv: "pallet_inv T s"
  shows "leave_rosca T origin r s \<noteq> Inl Panicked"
proof -
  have slot: "unat p < length order"
    if "PendingRoscaDetails s r = Some d" "PendingRoscaParticipantsOrder s r = Some order"
      "RoscaParticipants s r a = Some p" for d order a p
    using inv that by (force simp: pallet_inv_def rosca_inv_def pending_ok_def slots_ok_def)
  show ?thesis
    using signed_no_panic [OF assms(1)] refund_deposit_no_panic [OF assms(1)] slot
    by (auto simp: leave_rosca_def failure_iffs Let_def split: if_splits)
qed

lemma generate_rounds_no_panic: "map_err Module x \<noteq> Inl Panicked"
  by (cases x) simp_all

lemma add_periods_no_panic: "add_periods frequency t n \<noteq> Inl Panicked"
  by (induction n arbitrary: t) (auto simp: failure_iffs)

lemma shuffle_participants_Nil [simp]: "shuffle_participants T s xs = [] \<longleftrightarrow> xs = []"
  by (metis length_shuffle_participants length_0_conv)

lemma start_rosca_no_panic:
  assumes "foreign_calls_return T" and inv: "pallet_inv T s"
  shows "start_rosca T origin r s \<noteq> Inl Panicked"
proof
  have nonempty: "List.map_filter (\<lambda>p. p) (rev order) \<noteq> []"
    if "PendingRoscaDetails s r = Some d" "PendingRoscaParticipantsOrder s r = Some order"
      "RoscaParticipants s r a = Some p" for d order a p
  proof -
    have "unat p < length order \<and> order ! unat p = Some a"
      using inv that by (force simp: pallet_inv_def rosca_inv_def pending_ok_def slots_ok_def)
    then have "a \<in> set (List.map_filter (\<lambda>p. p) (rev order))"
      unfolding set_somes using nth_mem by force
    then show ?thesis
      by (metis empty_iff empty_set)
  qed
  assume "start_rosca T origin r s = Inl Panicked"
  moreover have "(if b then shuffle_participants T s xs else xs) = [] \<longleftrightarrow> xs = []" for b xs
    by simp
  ultimately show False
    unfolding start_rosca_def Let_def
    by (clarsimp simp: failure_iffs generate_rounds_no_panic add_periods_no_panic nonempty
        signed_no_panic [OF assms(1)] simp del: if_split)
qed

lemma process_participant_no_panic:
  assumes "foreign_calls_return T"
  shows "process_participant T r d claimant p s \<noteq> Inl Panicked"
  using transfer_no_panic [OF assms]
  by (auto simp: process_participant_def Let_def failure_iffs split: if_splits)

lemma process_defaulters_no_panic:
  assumes "foreign_calls_return T"
  shows "process_defaulters T r s \<noteq> Inl Panicked"
  using process_participant_no_panic [OF assms]
  by (auto simp: process_defaulters_def failure_iffs dest!: try_for_failure)

lemma contribute_guards_no_panic: "contribute_guards signer r s \<noteq> Inl Panicked"
  by (auto simp: contribute_guards_def failure_iffs)

lemma settling_no_panic: "foreign_calls_return T \<Longrightarrow> \<not> settling_fails T r d f Panicked"
  by (simp add: settling_fails_def process_defaulters_no_panic)

lemma contribute_to_rosca_no_panic:
  assumes foreign: "foreign_calls_return T" and inv: "pallet_inv T s" and cp: "clears_prefix T"
  shows "contribute_to_rosca T origin r s \<noteq> Some (Inl Panicked)"
  using inv cp
proof (cases rule: contribute_to_rosca_cases [of T s origin r])
  case (1 e)
  then show ?thesis
    using signed_no_panic [OF foreign] contribute_guards_no_panic [of _ r s] settling_no_panic [OF foreign]
    by auto
next
  case (3 signer d f c k)
  then show ?thesis
    using transfer_no_panic [OF foreign] contribute_payment_eq [OF 3(5,6) cp 3(10,11)]
    by (auto simp: try_do_Inl_iff Let_def)
qed simp

lemma manually_end_rosca_no_panic:
  assumes foreign: "foreign_calls_return T" and inv: "pallet_inv T s" and cp: "clears_prefix T"
  shows "manually_end_rosca T origin r s \<noteq> Some (Inl Panicked)"
  using inv cp
proof (cases rule: manually_end_rosca_cases [of T s origin r])
  case (1 e)
  then show ?thesis
    using signed_no_panic [OF foreign] settling_no_panic [OF foreign] by auto
qed simp

lemma claim_security_deposit_no_panic:
  assumes "foreign_calls_return T"
  shows "claim_security_deposit T origin r asset s \<noteq> Inl Panicked"
  using signed_no_panic [OF assms] transfer_no_panic [OF assms]
  by (auto simp: claim_security_deposit_def failure_iffs)

lemma add_to_security_deposit_no_panic:
  assumes "foreign_calls_return T"
  shows "add_to_security_deposit T origin r amount s \<noteq> Inl Panicked"
  using signed_no_panic [OF assms] transfer_no_panic [OF assms]
  by (auto simp: add_to_security_deposit_def failure_iffs Let_def)

text \<open>The one call that can panic.\<close>

fun is_create :: "'a rosca_call \<Rightarrow> bool" where
  "is_create (Call_create_rosca _ _ _ _ _ _ _ _ _) = True"
| "is_create _ = False"

section \<open>A call touches one ROSCA\<close>

fun call_target :: "'a rosca_call \<Rightarrow> ('a, 'l) pallet \<Rightarrow> rosca_id" where
  "call_target (Call_create_rosca _ _ _ _ _ _ _ _ _) s = NextRoscaId s"
| "call_target (Call_join_rosca r _) s = r"
| "call_target (Call_leave_rosca r) s = r"
| "call_target (Call_start_rosca r) s = r"
| "call_target (Call_contribute_to_rosca r) s = r"
| "call_target (Call_manually_end_rosca r) s = r"
| "call_target (Call_claim_security_deposit r _) s = r"
| "call_target (Call_add_to_security_deposit r _) s = r"

lemma create_rosca_acts_at:
  assumes "create_rosca T origin random_order invited threshold amount asset frequency start_by
      position name s = Inr t"
  shows "acts_at (NextRoscaId s) s t"
  using assms by (rule create_rosca_effect) (auto simp: acts_at_def same_at_def deposit_event_def)

lemma join_rosca_acts_at: "join_rosca T origin r p s = Inr t \<Longrightarrow> acts_at r s t"
  by (erule join_rosca_effect) (simp add: acts_at_def same_at_def deposit_event_def)

lemma leave_rosca_acts_at: "leave_rosca T origin r s = Inr t \<Longrightarrow> acts_at r s t"
  by (erule leave_rosca_effect, erule refund_deposit_effect)
    (auto simp: acts_at_def same_at_def deposit_event_def split: if_splits)

lemma start_rosca_acts_at: "start_rosca T origin r s = Inr t \<Longrightarrow> acts_at r s t"
  by (erule start_rosca_effect) (simp add: acts_at_def same_at_def deposit_event_def started_def)

lemma contribute_to_rosca_acts_at:
  assumes "pallet_inv T s" and cp: "clears_prefix T"
    and run: "contribute_to_rosca T origin r s = Some (Inr t)"
  shows "acts_at r s t"
  using assms(1,2)
proof (cases rule: contribute_to_rosca_cases [of T s origin r])
  case (2 u d xs n f)
  then show ?thesis
    using run acts_at_complete [of r s u] by (simp add: frame_def)
next
  case (3 signer d f c k)
  then have "contribute_payment T signer r d f c = Inr t"
    using run by simp
  from contribute_payment_phase [OF 3(5,6) cp 3(10,11) this] 3(4) show ?thesis
    using acts_at_trans unfolding frame_def by blast
qed (use run in simp)

lemma manually_end_rosca_acts_at:
  assumes "pallet_inv T s" and "clears_prefix T"
    and run: "manually_end_rosca T origin r s = Some (Inr t)"
  shows "acts_at r s t"
  using assms(1,2)
proof (cases rule: manually_end_rosca_cases [of T s origin r])
  case (2 d f u xs n)
  then show ?thesis
    using run acts_at_complete [of r s u] by (simp add: frame_def)
qed (use run in simp)

lemma claim_security_deposit_acts_at:
  "claim_security_deposit T origin r asset s = Inr t \<Longrightarrow> acts_at r s t"
  by (erule claim_security_deposit_effect) (simp add: acts_at_def same_at_def deposit_event_def)

lemma add_to_security_deposit_acts_at:
  "add_to_security_deposit T origin r amount s = Inr t \<Longrightarrow> acts_at r s t"
  by (erule add_to_security_deposit_effect) (simp add: acts_at_def same_at_def deposit_event_def)

lemma dispatch_acts_at:
  assumes "pallet_inv T s" and "clears_prefix T" and "dispatch_call T origin c s = Some (Inr t)"
  shows "acts_at (call_target c s) s t"
  using assms
  by (cases c) (simp_all add: create_rosca_acts_at join_rosca_acts_at leave_rosca_acts_at
      start_rosca_acts_at contribute_to_rosca_acts_at manually_end_rosca_acts_at
      claim_security_deposit_acts_at add_to_security_deposit_acts_at)

end
