(* ===== verification/Rosca_Solvency.thy ===== *)
theory Rosca_Solvency
  imports Rosca_Chain
begin

text \<open>
  The pot of a ROSCA always covers the security deposits recorded for it. The balances are those of
  the assets pallet, read by a function; a transfer that succeeds moves exactly its amount. Every
  dispatchable leaves the margin between each pot and its deposits at least as large.
\<close>

section \<open>What the pallet relies on\<close>

text \<open>A transfer that succeeds moves exactly the amount, out of an account that has it.\<close>

definition exact_transfers :: "('o, 'a, 'l) config \<Rightarrow> ('l \<Rightarrow> u32 \<Rightarrow> 'a \<Rightarrow> nat) \<Rightarrow> bool" where
  "exact_transfers T balance \<longleftrightarrow>
     (\<forall>asset x y amount l l'. transfer T asset x y amount l = Inr l' \<longrightarrow>
        unat amount \<le> balance l asset x \<and>
        (let debited = (balance l asset)(x := balance l asset x - unat amount) in
         balance l' = (balance l)(asset := debited(y := debited y + unat amount))))"

text \<open>Every ROSCA has a pot of its own, for which nobody can sign.\<close>

definition pots_apart :: "('o, 'a, 'l) config \<Rightarrow> bool" where
  "pots_apart T \<longleftrightarrow>
     (\<forall>r q. rosca_account_id T r = rosca_account_id T q \<longrightarrow> r = q) \<and>
     (\<forall>origin signer r. ensure_signed T origin = Inr signer \<longrightarrow> signer \<noteq> rosca_account_id T r)"

section \<open>Deposits held and the pot\<close>

definition held :: "('a \<Rightarrow> u32 option) \<Rightarrow> nat" where
  "held D = (\<Sum>p\<in>dom D. unat (the (D p)))"

lemma held_update:
  assumes "finite (dom D)"
  shows "held (D(p \<mapsto> v)) + unat (unwrap_or 0 (D p)) = held D + unat v"
    and "held (D(p := None)) + unat (unwrap_or 0 (D p)) = held D"
proof -
  have rest: "(\<Sum>q\<in>dom D - {p}. unat (the ((D(p := w)) q))) = (\<Sum>q\<in>dom D - {p}. unat (the (D q)))" for w
    by (rule sum.cong) auto
  have split: "held D = unat (unwrap_or 0 (D p)) + (\<Sum>q\<in>dom D - {p}. unat (the (D q)))"
  proof (cases "p \<in> dom D")
    case True
    then show ?thesis
      using sum.remove [OF assms True, of "\<lambda>q. unat (the (D q))"] by (auto simp: held_def)
  next
    case False
    then show ?thesis by (simp add: held_def domIff)
  qed
  have "held (D(p \<mapsto> v)) = unat v + (\<Sum>q\<in>dom D - {p}. unat (the (D q)))"
    using sum.insert_remove [OF assms, of "\<lambda>q. unat (the ((D(p \<mapsto> v)) q))" p] rest [of "Some v"]
    by (simp add: held_def)
  then show "held (D(p \<mapsto> v)) + unat (unwrap_or 0 (D p)) = held D + unat v"
    using split by simp
  show "held (D(p := None)) + unat (unwrap_or 0 (D p)) = held D"
    using split rest [of None] by (simp add: held_def)
qed

text \<open>\<open>A\<close> gives the asset a ROSCA was created with, which storage forgets when it completes.\<close>

definition solvent ::
  "('o, 'a, 'l) config \<Rightarrow> ('l \<Rightarrow> u32 \<Rightarrow> 'a \<Rightarrow> nat) \<Rightarrow> (rosca_id \<Rightarrow> PaymentAssets)
   \<Rightarrow> ('a, 'l) pallet \<Rightarrow> bool" where
  "solvent T balance A s \<longleftrightarrow>
     (\<forall>r. finite (dom (RoscaSecurityDeposits s r)) \<and>
        held (RoscaSecurityDeposits s r) \<le> balance (Ledger s) (asset_id (A r)) (rosca_account_id T r) \<and>
        (\<forall>d. PendingRoscaDetails s r = Some d \<or> ActiveRoscas s r = Some d \<longrightarrow>
           rd_payment_asset d = A r))"

text \<open>
  A step that leaves the margin between the pots and the deposits at least as large and introduces
  no new terms.
\<close>

definition no_worse ::
  "('o, 'a, 'l) config \<Rightarrow> ('l \<Rightarrow> u32 \<Rightarrow> 'a \<Rightarrow> nat) \<Rightarrow> (rosca_id \<Rightarrow> PaymentAssets)
   \<Rightarrow> ('a, 'l) pallet \<Rightarrow> ('a, 'l) pallet \<Rightarrow> bool" where
  "no_worse T balance A s t \<longleftrightarrow>
     (\<forall>r. finite (dom (RoscaSecurityDeposits t r)) \<and>
        held (RoscaSecurityDeposits t r) + balance (Ledger s) (asset_id (A r)) (rosca_account_id T r)
          \<le> held (RoscaSecurityDeposits s r)
            + balance (Ledger t) (asset_id (A r)) (rosca_account_id T r) \<and>
        (\<forall>d. PendingRoscaDetails t r = Some d \<or> ActiveRoscas t r = Some d \<longrightarrow>
           PendingRoscaDetails s r = Some d \<or> ActiveRoscas s r = Some d))"

lemma no_worse_refl: "solvent T balance A s \<Longrightarrow> no_worse T balance A s s"
  by (simp add: no_worse_def solvent_def)

lemma no_worse_trans:
  assumes "no_worse T balance A s t" and "no_worse T balance A t u"
  shows "no_worse T balance A s u"
  unfolding no_worse_def
proof
  fix r
  let ?b = "\<lambda>s. balance (Ledger s) (asset_id (A r)) (rosca_account_id T r)"
    and ?h = "\<lambda>s. held (RoscaSecurityDeposits s r)"
  have "?h t + ?b s \<le> ?h s + ?b t" "?h u + ?b t \<le> ?h t + ?b u"
    using assms by (simp_all add: no_worse_def)
  then have "?h u + ?b s \<le> ?h s + ?b u"
    by linarith
  moreover have "finite (dom (RoscaSecurityDeposits u r))"
    using assms by (simp add: no_worse_def)
  moreover have "\<forall>d. PendingRoscaDetails u r = Some d \<or> ActiveRoscas u r = Some d \<longrightarrow>
         PendingRoscaDetails s r = Some d \<or> ActiveRoscas s r = Some d"
    using assms unfolding no_worse_def by blast
  ultimately show "finite (dom (RoscaSecurityDeposits u r)) \<and> ?h u + ?b s \<le> ?h s + ?b u \<and>
      (\<forall>d. PendingRoscaDetails u r = Some d \<or> ActiveRoscas u r = Some d \<longrightarrow>
         PendingRoscaDetails s r = Some d \<or> ActiveRoscas s r = Some d)"
    by blast
qed

lemma solvent_no_worse:
  assumes "solvent T balance A s" and "no_worse T balance A s t"
  shows "solvent T balance A t"
  unfolding solvent_def
proof
  fix r
  have "held (RoscaSecurityDeposits s r) \<le> balance (Ledger s) (asset_id (A r)) (rosca_account_id T r)"
    using assms(1) by (simp add: solvent_def)
  moreover have "held (RoscaSecurityDeposits t r)
        + balance (Ledger s) (asset_id (A r)) (rosca_account_id T r)
      \<le> held (RoscaSecurityDeposits s r) + balance (Ledger t) (asset_id (A r)) (rosca_account_id T r)"
    using assms(2) by (simp add: no_worse_def)
  ultimately have "held (RoscaSecurityDeposits t r)
      \<le> balance (Ledger t) (asset_id (A r)) (rosca_account_id T r)"
    by linarith
  then show "finite (dom (RoscaSecurityDeposits t r)) \<and>
      held (RoscaSecurityDeposits t r) \<le> balance (Ledger t) (asset_id (A r)) (rosca_account_id T r) \<and>
      (\<forall>d. PendingRoscaDetails t r = Some d \<or> ActiveRoscas t r = Some d \<longrightarrow> rd_payment_asset d = A r)"
    using assms unfolding no_worse_def solvent_def by blast
qed

lemma no_worse_same:
  assumes "solvent T balance A s" and "Ledger t = Ledger s"
    and "RoscaSecurityDeposits t = RoscaSecurityDeposits s"
    and "\<And>r d. PendingRoscaDetails t r = Some d \<or> ActiveRoscas t r = Some d \<Longrightarrow>
      PendingRoscaDetails s r = Some d \<or> ActiveRoscas s r = Some d"
  shows "no_worse T balance A s t"
  using assms by (simp add: no_worse_def solvent_def)

lemma unat_ucast_u128 [simp]: "unat (ucast (x :: u32) :: u128) = unat x"
  using less_trans [OF unsigned_less [of x], of "2 ^ 128"]
  by (simp add: unsigned_ucast_eq take_bit_nat_eq_self_iff)

section \<open>Payments and the pots\<close>

text \<open>What a payment out of the pot of \<open>r\<close> and a payment by a signer do to every pot.\<close>

lemma payout_pots:
  assumes "exact_transfers T balance" and "pots_apart T"
    and "transfer T asset (rosca_account_id T r) y amount l = Inr l'"
  shows "balance l a (rosca_account_id T q)
    \<le> balance l' a (rosca_account_id T q) + (if q = r then unat amount else 0)"
proof -
  have "unat amount \<le> balance l asset (rosca_account_id T r)"
    and l': "balance l' = (balance l)(asset :=
      ((balance l asset)(rosca_account_id T r := balance l asset (rosca_account_id T r) - unat amount))
        (y := ((balance l asset)(rosca_account_id T r :=
          balance l asset (rosca_account_id T r) - unat amount)) y + unat amount))"
    using assms(1,3) unfolding exact_transfers_def Let_def by blast+
  then show ?thesis
    using assms(2) unfolding l' pots_apart_def by auto
qed

lemma payment_pots:
  assumes "exact_transfers T balance" and "pots_apart T" and "ensure_signed T origin = Inr signer"
    and "transfer T asset signer y amount l = Inr l'"
  shows "balance l a (rosca_account_id T q)
      + (if y = rosca_account_id T q \<and> a = asset then unat amount else 0)
    \<le> balance l' a (rosca_account_id T q)"
proof -
  have l': "balance l' = (balance l)(asset :=
      ((balance l asset)(signer := balance l asset signer - unat amount))
        (y := ((balance l asset)(signer := balance l asset signer - unat amount)) y + unat amount))"
    using assms(1,4) unfolding exact_transfers_def Let_def by blast
  have "signer \<noteq> rosca_account_id T q"
    using assms(2,3) by (simp add: pots_apart_def)
  then show ?thesis
    unfolding l' by auto
qed

text \<open>Taking an amount off one deposit while paying at most that much out of its pot.\<close>

lemma no_worse_payout:
  assumes ex: "exact_transfers T balance" and apart: "pots_apart T" and ok: "solvent T balance A s"
    and pay: "transfer T asset (rosca_account_id T r) y amount (Ledger s) = Inr l"
    and fin: "finite (dom D)"
    and less: "held D + unat amount \<le> held (RoscaSecurityDeposits s r)"
    and t: "Ledger t = l" "RoscaSecurityDeposits t = (RoscaSecurityDeposits s)(r := D)"
      "PendingRoscaDetails t = PendingRoscaDetails s" "ActiveRoscas t = ActiveRoscas s"
  shows "no_worse T balance A s t"
  unfolding no_worse_def
proof
  fix q
  have "finite (dom (RoscaSecurityDeposits s q))"
    using ok by (simp add: solvent_def)
  then show "finite (dom (RoscaSecurityDeposits t q)) \<and>
      held (RoscaSecurityDeposits t q) + balance (Ledger s) (asset_id (A q)) (rosca_account_id T q)
      \<le> held (RoscaSecurityDeposits s q) + balance (Ledger t) (asset_id (A q)) (rosca_account_id T q) \<and>
      (\<forall>d. PendingRoscaDetails t q = Some d \<or> ActiveRoscas t q = Some d \<longrightarrow>
         PendingRoscaDetails s q = Some d \<or> ActiveRoscas s q = Some d)"
    using payout_pots [OF ex apart pay, of "asset_id (A q)" q] fin less
    by (cases "q = r") (simp_all add: t)
qed

lemma solvent_finite: "solvent T balance A s \<Longrightarrow> finite (dom (RoscaSecurityDeposits s r))"
  by (simp add: solvent_def)

lemma refund_no_worse:
  assumes ex: "exact_transfers T balance" "pots_apart T" and ok: "solvent T balance A s"
    and run: "refund_deposit T r signer d s = Inr t"
  shows "no_worse T balance A s t"
  using run
proof (rule refund_deposit_effect)
  fix D E l dep
  assume t: "t = s\<lparr>RoscaSecurityDeposits := D, Events := E, Ledger := l\<rparr>"
    and dep: "dep = unwrap_or 0 (RoscaSecurityDeposits s r signer)"
    and D: "if 0 < dep then
       transfer T (asset_id (rd_payment_asset d)) (rosca_account_id T r) signer (ucast dep)
         (Ledger s) = Inr l \<and>
       D = (RoscaSecurityDeposits s)(r := (RoscaSecurityDeposits s r)(signer := None))
     else l = Ledger s \<and> D = RoscaSecurityDeposits s"
  show ?thesis
  proof (cases "0 < dep")
    case True
    then have pay: "transfer T (asset_id (rd_payment_asset d)) (rosca_account_id T r) signer
        (ucast dep) (Ledger s) = Inr l"
      and D: "D = (RoscaSecurityDeposits s)(r := (RoscaSecurityDeposits s r)(signer := None))"
      using D by simp_all
    show ?thesis
      by (rule no_worse_payout [OF ex ok pay, where D = "(RoscaSecurityDeposits s r)(signer := None)"])
        (use held_update(2) [OF solvent_finite [OF ok], of r signer] solvent_finite [OF ok, of r] in
          \<open>simp_all add: t D dep\<close>)
  next
    case False
    then show ?thesis
      using D by (intro no_worse_same [OF ok]) (simp_all add: t)
  qed
qed

lemma process_participant_no_worse:
  assumes ex: "exact_transfers T balance" "pots_apart T" and ok: "solvent T balance A s"
    and run: "process_participant T r d claimant p s = Inr t"
  shows "no_worse T balance A s t"
proof -
  let ?dep = "unwrap_or 0 (RoscaSecurityDeposits s r p)" and ?a = "rd_contribution_amount d"
  let ?pay = "\<lambda>amount l. transfer T (asset_id (rd_payment_asset d)) (rosca_account_id T r) claimant
    (ucast (amount :: u32)) (Ledger s) = Inr l"
  have take: "no_worse T balance A s t"
    if "?pay amount l" "unat v + unat amount = unat ?dep"
      "Ledger t = l" "RoscaSecurityDeposits t = (RoscaSecurityDeposits s)(r := (RoscaSecurityDeposits s r)(p \<mapsto> v))"
      "PendingRoscaDetails t = PendingRoscaDetails s" "ActiveRoscas t = ActiveRoscas s" for amount l v
    by (rule no_worse_payout [OF ex ok that(1), where D = "(RoscaSecurityDeposits s r)(p \<mapsto> v)"])
      (use that held_update(1) [OF solvent_finite [OF ok], of r p v] solvent_finite [OF ok, of r]
        in simp_all)
  consider (skip) "p = claimant \<or> CurrentContributors s r p \<noteq> None"
    | (none) "p \<noteq> claimant" "CurrentContributors s r p = None" "?dep < ?a" "\<not> 0 < ?dep"
    | (short) "p \<noteq> claimant" "CurrentContributors s r p = None" "?dep < ?a" "0 < ?dep"
    | (full) "p \<noteq> claimant" "CurrentContributors s r p = None" "\<not> ?dep < ?a"
    by blast
  then show ?thesis
  proof cases
    case skip
    then have "t = s"
      using run by (auto simp: process_participant_def split: if_splits)
    then show ?thesis
      using no_worse_refl [OF ok] by simp
  next
    case none
    then show ?thesis
      using run by (intro no_worse_same [OF ok])
        (auto simp: process_participant_def Let_def deposit_event_def)
  next
    case short
    then obtain l where l: "?pay ?dep l"
      and t: "Ledger t = l" "RoscaSecurityDeposits t =
        (RoscaSecurityDeposits s)(r := (RoscaSecurityDeposits s r)(p \<mapsto> 0))"
        "PendingRoscaDetails t = PendingRoscaDetails s" "ActiveRoscas t = ActiveRoscas s"
      using run by (auto simp: process_participant_def Let_def currency_transfer_Inr deposit_event_def)
    show ?thesis
      by (rule take [OF l _ t]) simp
  next
    case full
    then have le: "?a \<le> ?dep"
      by (simp add: not_less)
    then have "checked_sub ?dep ?a = Some (?dep - ?a)"
      by (simp add: checked_sub_def)
    then obtain l where l: "?pay ?a l"
      and t: "Ledger t = l" "RoscaSecurityDeposits t =
        (RoscaSecurityDeposits s)(r := (RoscaSecurityDeposits s r)(p \<mapsto> ?dep - ?a))"
        "PendingRoscaDetails t = PendingRoscaDetails s" "ActiveRoscas t = ActiveRoscas s"
      using run full
      by (auto simp: process_participant_def Let_def currency_transfer_Inr deposit_event_def)
    have "unat (?dep - ?a) + unat ?a = unat ?dep"
      using le by (simp add: unat_sub word_le_nat_alt)
    then show ?thesis
      by (rule take [OF l _ t])
  qed
qed

lemma process_defaulters_no_worse:
  assumes ex: "exact_transfers T balance" "pots_apart T" and ok: "solvent T balance A s"
    and run: "process_defaulters T r s = Inr t"
  shows "no_worse T balance A s t"
proof -
  obtain d claimant order where "try_for (process_participant T r d claimant) order s = Inr t"
    using run by (auto simp: process_defaulters_def)
  then have "no_worse T balance A s t"
  proof (rule try_for_invariant)
    show "no_worse T balance A s s"
      by (rule no_worse_refl [OF ok])
    fix p u v
    assume "no_worse T balance A s u" "process_participant T r d claimant p u = Inr v"
    then show "no_worse T balance A s v"
      using solvent_no_worse [OF ok] process_participant_no_worse [OF ex] no_worse_trans by blast
  qed
  then show ?thesis .
qed

lemma round_after_no_worse: "no_worse T balance A s u \<Longrightarrow> no_worse T balance A s (round_after r d xs n u)"
  by (simp add: no_worse_def round_after_def deposit_event_def)

lemma complete_no_worse: "no_worse T balance A s u \<Longrightarrow> no_worse T balance A s (complete_rosca r u)"
  by (simp add: no_worse_def complete_rosca_def deposit_event_def)

lemma turn_no_worse:
  assumes "exact_transfers T balance" "pots_apart T" "solvent T balance A s"
    and "no_worse T balance A s u" and "process_defaulters T r u = Inr v"
  shows "no_worse T balance A s (round_after r d xs n v)"
  using assms solvent_no_worse process_defaulters_no_worse no_worse_trans round_after_no_worse
  by metis

text \<open>The loops of \<^verbatim>\<open>contribute_to_rosca\<close> and \<^verbatim>\<open>manually_end_rosca\<close>.\<close>

lemma catch_up_no_worse:
  assumes ex: "exact_transfers T balance" "pots_apart T" "solvent T balance A s"
    and c: "catch_up_inv T r d f s c" "no_worse T balance A s (cu_state c)"
    and run: "catch_up_iteration T r now c = Inr x"
  shows "case x of
      Inl (CaughtUp c') \<Rightarrow> c' = c
    | Inl (Completed t) \<Rightarrow> no_worse T balance A s t
    | Inr c' \<Rightarrow> no_worse T balance A s (cu_state c')"
proof (cases "cu_next_pay_by c \<le> now")
  case False
  then show ?thesis
    using run by (auto simp: catch_up_iteration_def)
next
  case True
  obtain k where k: "0 < k" "playing T (cu_state c) r d (cu_order c) (cu_next_pay_by c) f k"
    and cp: "clears_prefix T"
    using c(1) by (auto simp: catch_up_inv_def)
  obtain s1 where s1: "process_defaulters T r (cu_state c) = Inr s1"
    using run True by (auto simp: catch_up_iteration_def)
  note t = turn [OF k(2,1) cp s1]
  let ?u = "round_after r d (cu_order c) (cu_next_pay_by c) s1"
  have u: "no_worse T balance A s ?u"
    by (rule turn_no_worse [OF ex c(2) s1])
  have "x = Inl (Completed (complete_rosca r ?u)) \<or> (\<exists>c'. x = Inr c' \<and> cu_state c' = ?u)"
    using run True s1 t(1) playing_reads [OF t(2)]
    by (auto simp: catch_up_iteration_def check_and_complete_rosca_def split: if_splits)
  then show ?thesis
    using u complete_no_worse [OF u] by auto
qed

lemma no_worse_payment:
  assumes ex: "exact_transfers T balance" "pots_apart T" and ok: "no_worse T balance A s u"
    and signer: "ensure_signed T origin = Inr signer"
    and pay: "transfer T asset signer y amount (Ledger u) = Inr l"
    and t: "Ledger t = l" "RoscaSecurityDeposits t = RoscaSecurityDeposits u"
      "PendingRoscaDetails t = PendingRoscaDetails u" "ActiveRoscas t = ActiveRoscas u"
  shows "no_worse T balance A s t"
  unfolding no_worse_def
proof
  fix q
  have "balance (Ledger u) (asset_id (A q)) (rosca_account_id T q)
      \<le> balance l (asset_id (A q)) (rosca_account_id T q)"
    using payment_pots [OF ex signer pay, of "asset_id (A q)" q] by simp
  moreover have "held (RoscaSecurityDeposits u q)
        + balance (Ledger s) (asset_id (A q)) (rosca_account_id T q)
      \<le> held (RoscaSecurityDeposits s q) + balance (Ledger u) (asset_id (A q)) (rosca_account_id T q)"
    using ok by (simp add: no_worse_def)
  ultimately have "held (RoscaSecurityDeposits u q)
        + balance (Ledger s) (asset_id (A q)) (rosca_account_id T q)
      \<le> held (RoscaSecurityDeposits s q) + balance l (asset_id (A q)) (rosca_account_id T q)"
    by linarith
  then show "finite (dom (RoscaSecurityDeposits t q)) \<and>
      held (RoscaSecurityDeposits t q) + balance (Ledger s) (asset_id (A q)) (rosca_account_id T q)
      \<le> held (RoscaSecurityDeposits s q) + balance (Ledger t) (asset_id (A q)) (rosca_account_id T q) \<and>
      (\<forall>d. PendingRoscaDetails t q = Some d \<or> ActiveRoscas t q = Some d \<longrightarrow>
         PendingRoscaDetails s q = Some d \<or> ActiveRoscas s q = Some d)"
    using ok by (simp add: t no_worse_def)
qed

lemma contribute_payment_no_worse:
  assumes ex: "exact_transfers T balance" "pots_apart T" and ok: "no_worse T balance A s (cu_state c)"
    and signer: "ensure_signed T origin = Inr signer"
    and p: "playing T (cu_state c) r d (cu_order c) (cu_next_pay_by c) f k" "0 < k"
    and rest: "clears_prefix T" "2 \<le> length (cu_order c)"
      "CurrentContributors (cu_state c) r signer = None"
    and run: "contribute_payment T signer r d f c = Inr t"
  shows "no_worse T balance A s t"
  using p rest run
proof (rule contribute_payment_Inr)
  fix l u
  assume pay: "transfer T (asset_id (rd_payment_asset d)) signer (cu_claimant c)
       (ucast (rd_contribution_amount d)) (Ledger (cu_state c)) = Inr l"
    and u: "u = paid r d signer (cu_claimant c) (cu_state c\<lparr>Ledger := l\<rparr>)"
  have "no_worse T balance A s u"
    by (rule no_worse_payment [OF ex ok signer pay]) (simp_all add: u paid_def deposit_event_def)
  then show "unat (CurrentContributionCount (cu_state c) r) + 2 < length (cu_order c) \<and> t = u \<or>
     \<not> unat (CurrentContributionCount (cu_state c) r) + 2 < length (cu_order c) \<and> k = 1 \<and>
       t = complete_rosca r u \<or>
     \<not> unat (CurrentContributionCount (cu_state c) r) + 2 < length (cu_order c) \<and> 1 < k \<and>
       t = round_after r d (cu_order c) (cu_next_pay_by c) u \<Longrightarrow> ?thesis"
    using complete_no_worse round_after_no_worse by blast
qed

lemma contribute_to_rosca_no_worse:
  assumes ex: "exact_transfers T balance" "pots_apart T" "solvent T balance A s"
    and inv: "pallet_inv T s" "clears_prefix T"
    and run: "contribute_to_rosca T origin r s = Some (Inr t)"
  shows "no_worse T balance A s t"
proof -
  obtain signer d f c where signer: "ensure_signed T origin = Inr signer"
    and g: "contribute_guards signer r s = Inr (d, f, c)"
    using run by (cases "ensure_signed T origin";
        cases "contribute_guards (projr (ensure_signed T origin)) r s")
      (auto simp: contribute_to_rosca_def)
  from inv(1) g obtain k where c: "playing T s r d (cu_order c) (cu_next_pay_by c) f k"
      "0 < k" "cu_claimant c = hd (cu_order c)" "cu_state c = s" "signer \<in> set (cu_order c)"
      "signer \<noteq> hd (cu_order c)" "CurrentContributors s r signer = None"
    by (rule contribute_guards_Inr)
  have start: "catch_up_inv T r d f s c" "no_worse T balance A s (cu_state c)"
    using c inv(2) no_worse_refl [OF ex(3)] by (auto simp: catch_up_inv_def)
  have again: "no_worse T balance A s (cu_state b)"
    if "catch_up_inv T r d f s a" "no_worse T balance A s (cu_state a)"
      "catch_up_body T r (Now s) a = Inr b" for a b
    using catch_up_no_worse [OF ex that(1,2), of "Now s" "Inr b"] that(3)
    by (auto simp: catch_up_body_def split: sum.splits)
  obtain c' x where c': "catch_up_inv T r d f s c'" "no_worse T balance A s (cu_state c')"
      "catch_up_body T r (Now s) c' = Inl x" "run_loop (catch_up_body T r (Now s)) c = Some x"
    using catch_up_loop.exit_state_with [OF start(1), of "\<lambda>c. no_worse T balance A s (cu_state c)"]
      start(2) again by blast
  obtain y where x: "x = Inr y"
    using run signer g c'(4) by (cases x) (auto simp: contribute_to_rosca_def)
  then have it: "catch_up_iteration T r (Now s) c' = Inr (Inl y)"
    using c'(3) by (auto simp: catch_up_body_def split: sum.splits)
  note out = catch_up_no_worse [OF ex c'(1,2) it]
  show ?thesis
  proof (cases y)
    case (Completed v)
    then show ?thesis
      using run signer g c'(4) x out by (simp add: contribute_to_rosca_def)
  next
    case (CaughtUp c2)
    then have pay: "contribute_payment T signer r d f c' = Inr t"
      using run signer g c'(4) x out by (simp add: contribute_to_rosca_def)
    obtain j where j: "0 < j" "playing T (cu_state c') r d (cu_order c') (cu_next_pay_by c') f j"
      and fr: "frame r s (cu_state c')"
      using c'(1) by (auto simp: catch_up_inv_def)
    note payer = payer_frame [OF c(1) j(2) fr c(5,6,7)]
    show ?thesis
      by (rule contribute_payment_no_worse [OF ex(1,2) c'(2) signer j(2,1) inv(2) payer(2,3) pay])
  qed
qed

lemma end_rounds_no_worse:
  assumes ex: "exact_transfers T balance" "pots_apart T" "solvent T balance A s"
    and t: "end_rounds_inv T r d f s t" "no_worse T balance A s t"
    and run: "end_rounds_body T r f t = Inr u"
  shows "no_worse T balance A s u"
proof -
  obtain xs n k where p: "playing T t r d xs n f k" and cp: "clears_prefix T"
    using t(1) by (auto simp: end_rounds_inv_def)
  have k: "0 < k"
    using run playing_reads [OF p] playing_cutoff_iff [OF p]
    by (auto simp: end_rounds_body_def split: if_splits)
  obtain s1 where s1: "process_defaulters T r t = Inr s1"
    using run playing_reads [OF p] by (auto simp: end_rounds_body_def try_do_def split: if_splits sum.splits)
  have "u = round_after r d xs n s1"
    using run s1 turn(1) [OF p k cp s1] playing_reads [OF p] playing_cutoff_iff [OF p] k
    by (simp add: end_rounds_body_def)
  then show ?thesis
    using turn_no_worse [OF ex t(2) s1] by simp
qed

lemma manually_end_rosca_no_worse:
  assumes ex: "exact_transfers T balance" "pots_apart T" "solvent T balance A s"
    and inv: "pallet_inv T s" "clears_prefix T"
    and run: "manually_end_rosca T origin r s = Some (Inr t)"
  shows "no_worse T balance A s t"
  using inv
proof (cases rule: manually_end_rosca_cases [of T s origin r])
  case (2 d f u xs n)
  from inv(1) 2(2) obtain ys m g k where p: "playing T s r d ys m g k"
    by (rule playing_active)
  then have "g = f"
    using 2(3) playing_reads(5) [OF p] by simp
  then have start: "end_rounds_inv T r d f s s"
    using p inv(2) by (auto simp: end_rounds_inv_def)
  obtain v x where v: "end_rounds_inv T r d f s v" "no_worse T balance A s v"
      "end_rounds_body T r f v = Inl x" "run_loop (end_rounds_body T r f) s = Some x"
    using end_rounds_loop.exit_state_with [OF start, of "no_worse T balance A s"]
      no_worse_refl [OF ex(3)] end_rounds_no_worse [OF ex] by blast
  then have "v = u"
    using end_rounds_body_cases [OF v(1)] 2(5) by auto
  then show ?thesis
    using run 2(1) complete_no_worse [OF v(2), of r] by simp
qed (use run in simp)

lemma create_rosca_solvent:
  assumes ok: "solvent T balance A s" and inv: "pallet_inv T s"
    and run: "create_rosca T origin random_order invited threshold amount asset frequency start_by
      position name s = Inr t"
  shows "solvent T balance (A(NextRoscaId s := asset)) t"
  using run
proof (rule create_rosca_effect)
  fix signer n I d
  assume d: "d = \<lparr>rd_random_order = random_order, rd_number_of_participants = of_nat n,
         rd_minimum_participant_threshold = threshold, rd_contribution_amount = amount,
         rd_payment_asset = asset, rd_contribution_frequency = frequency,
         rd_start_by_timestamp = start_by, rd_name = name\<rparr>"
    and t: "t = deposit_event
       (RoscaCreated (NextRoscaId s) (ucast amount) asset frequency random_order name (of_nat n)
          threshold start_by
          (snd (invite_all T (NextRoscaId s) (signer # remdups_adj (sort invited)) (s, []))) signer)
       (s\<lparr>RoscaInvitedPreverifiedParticipants := I,
          PendingRoscaParticipantsOrder := (PendingRoscaParticipantsOrder s)
            (NextRoscaId s \<mapsto> (replicate n None)[unat (unwrap_or 0 position) := Some signer]),
          RoscaParticipants := (RoscaParticipants s)(NextRoscaId s :=
            (RoscaParticipants s (NextRoscaId s))(signer \<mapsto> unwrap_or 0 position)),
          RoscaParticipantsCount := (RoscaParticipantsCount s)(NextRoscaId s \<mapsto> 1),
          PendingRoscaDetails := (PendingRoscaDetails s)(NextRoscaId s \<mapsto> d),
          NextRoscaId := NextRoscaId s + 1\<rparr>)"
  have fresh: "RoscaSecurityDeposits s (NextRoscaId s) = Map.empty" "ActiveRoscas s (NextRoscaId s) = None"
    using inv by (simp_all add: pallet_inv_def fresh_at_def)
  show ?thesis
    unfolding solvent_def
  proof
    fix r
    show "finite (dom (RoscaSecurityDeposits t r)) \<and>
      held (RoscaSecurityDeposits t r)
        \<le> balance (Ledger t) (asset_id ((A(NextRoscaId s := asset)) r)) (rosca_account_id T r) \<and>
      (\<forall>d. PendingRoscaDetails t r = Some d \<or> ActiveRoscas t r = Some d \<longrightarrow>
        rd_payment_asset d = (A(NextRoscaId s := asset)) r)"
      using ok fresh by (cases "r = NextRoscaId s")
        (simp_all add: solvent_def t d deposit_event_def held_def)
  qed
qed

lemma join_rosca_no_worse:
  assumes "solvent T balance A s" and "join_rosca T origin r p s = Inr t"
  shows "no_worse T balance A s t"
  using assms(2)
  by (rule join_rosca_effect) (intro no_worse_same [OF assms(1)], simp_all add: deposit_event_def)

lemma start_rosca_no_worse:
  assumes "solvent T balance A s" and "start_rosca T origin r s = Inr t"
  shows "no_worse T balance A s t"
  using assms(2)
  by (rule start_rosca_effect)
    (intro no_worse_same [OF assms(1)], auto simp: deposit_event_def started_def split: if_splits)

lemma leave_rosca_no_worse:
  assumes ex: "exact_transfers T balance" "pots_apart T" and ok: "solvent T balance A s"
    and run: "leave_rosca T origin r s = Inr t"
  shows "no_worse T balance A s t"
  using run
proof (rule leave_rosca_effect)
  fix signer d order p c' s1
  assume refund: "refund_deposit T r signer d
       (s\<lparr>RoscaParticipants := (RoscaParticipants s)(r := (RoscaParticipants s r)(signer := None)),
          PendingRoscaParticipantsOrder :=
            (PendingRoscaParticipantsOrder s)(r \<mapsto> order[unat p := None]),
          RoscaParticipantsCount := (RoscaParticipantsCount s)(r \<mapsto> c')\<rparr>) = Inr s1"
      (is "refund_deposit T r signer d ?s = _")
    and t: "t = deposit_event (LeftRosca r signer) s1"
  have "no_worse T balance A s ?s"
    by (rule no_worse_same [OF ok]) simp_all
  then have "no_worse T balance A s s1"
    using refund_no_worse [OF ex solvent_no_worse [OF ok] refund] no_worse_trans by blast
  then show ?thesis
    by (simp add: t no_worse_def deposit_event_def)
qed

lemma claim_security_deposit_no_worse:
  assumes ex: "exact_transfers T balance" "pots_apart T" and ok: "solvent T balance A s"
    and run: "claim_security_deposit T origin r asset s = Inr t"
  shows "no_worse T balance A s t"
  using run
proof (rule claim_security_deposit_effect)
  fix signer dep l
  assume dep: "RoscaSecurityDeposits s r signer = Some dep"
    and pay: "transfer T (asset_id asset) (rosca_account_id T r) signer (ucast dep) (Ledger s) = Inr l"
    and t: "t = deposit_event (SecurityDepositClaimed r signer (ucast dep))
       (s\<lparr>Ledger := l, RoscaSecurityDeposits := (RoscaSecurityDeposits s)
          (r := (RoscaSecurityDeposits s r)(signer := None))\<rparr>)"
  show ?thesis
    by (rule no_worse_payout [OF ex ok pay, where D = "(RoscaSecurityDeposits s r)(signer := None)"])
      (use held_update(2) [OF solvent_finite [OF ok], of r signer] solvent_finite [OF ok, of r] dep in
        \<open>simp_all add: t deposit_event_def\<close>)
qed

lemma add_to_security_deposit_no_worse:
  assumes ex: "exact_transfers T balance" "pots_apart T" and ok: "solvent T balance A s"
    and run: "add_to_security_deposit T origin r amount s = Inr t"
  shows "no_worse T balance A s t"
  using run
proof (rule add_to_security_deposit_effect)
  fix signer p d l dep
  assume signer: "ensure_signed T origin = Inr signer"
    and terms: "(case ActiveRoscas s r of Some d \<Rightarrow> Some d | None \<Rightarrow> PendingRoscaDetails s r) = Some d"
    and pay: "transfer T (asset_id (rd_payment_asset d)) signer (rosca_account_id T r) (ucast amount)
       (Ledger s) = Inr l"
    and dep: "checked_add (unwrap_or 0 (RoscaSecurityDeposits s r signer)) amount = Some dep"
    and t: "t = deposit_event (SecurityDepositContribution r signer (ucast amount))
       (s\<lparr>Ledger := l, RoscaSecurityDeposits := (RoscaSecurityDeposits s)
          (r := (RoscaSecurityDeposits s r)(signer \<mapsto> dep))\<rparr>)"
  have asset: "rd_payment_asset d = A r"
    using ok terms by (auto simp: solvent_def split: option.splits)
  have sum: "held ((RoscaSecurityDeposits s r)(signer \<mapsto> dep)) =
      held (RoscaSecurityDeposits s r) + unat amount"
    using held_update(1) [OF solvent_finite [OF ok], of r signer dep] dep
    by (simp add: checked_add_Some_iff)
  show ?thesis
    unfolding no_worse_def
  proof
    fix q
    show "finite (dom (RoscaSecurityDeposits t q)) \<and>
      held (RoscaSecurityDeposits t q) + balance (Ledger s) (asset_id (A q)) (rosca_account_id T q)
      \<le> held (RoscaSecurityDeposits s q) + balance (Ledger t) (asset_id (A q)) (rosca_account_id T q) \<and>
      (\<forall>d. PendingRoscaDetails t q = Some d \<or> ActiveRoscas t q = Some d \<longrightarrow>
         PendingRoscaDetails s q = Some d \<or> ActiveRoscas s q = Some d)"
      using payment_pots [OF ex signer pay, of "asset_id (A q)" q] asset sum
        solvent_finite [OF ok, of q]
      by (cases "q = r") (auto simp: t deposit_event_def split: if_splits)
  qed
qed

end
