(* ===== verification/Rosca_Liveness.thy ===== *)
theory Rosca_Liveness
  imports Rosca_Solvency
begin

text \<open>
  What an active ROSCA gets done: the schedule published at the start is the one the rounds follow,
  and a round can be settled as long as the pot covers the deposits.
\<close>

section \<open>The published schedule\<close>

text \<open>\<open>k\<close> rounds later, when nobody does anything but let rounds pass.\<close>

fun rounds_later ::
  "('o, 'a, 'l) config \<Rightarrow> rosca_id \<Rightarrow> nat \<Rightarrow> ('a, 'l) pallet \<Rightarrow> dispatch_error + ('a, 'l) pallet" where
  "rounds_later T r 0 s = Inr s"
| "rounds_later T r (Suc k) s = try_do (rounds_later T r k s) (advance_rosca_round T r)"

lemma rounds_later_playing:
  assumes p: "playing T s r d xs n f k" and cp: "clears_prefix T" and j: "j < k"
  shows "\<exists>u. rounds_later T r j s = Inr u \<and>
    playing T u r d (rotate_right j xs) (n + of_nat j * rd_contribution_frequency d) f (k - j)"
  using j
proof (induction j)
  case 0
  then show ?case
    using p by (simp add: rotate_right_def)
next
  case (Suc j)
  then obtain u where u: "rounds_later T r j s = Inr u"
    "playing T u r d (rotate_right j xs) (n + of_nat j * rd_contribution_frequency d) f (k - j)"
    by auto
  let ?v = "round_after r d (rotate_right j xs) (n + of_nat j * rd_contribution_frequency d) u"
  have "k \<le> length xs"
    using p by (simp add: playing_def round_ok_def)
  then have rot: "rotate_right (Suc j) xs = last (rotate_right j xs) # butlast (rotate_right j xs)"
    using Suc.prems by (intro rotate_right_Suc) simp
  have "advance_rosca_round T r u = Inr ?v"
    using u(2) Suc.prems cp by (intro advance_rosca_round_eq [of T u r d _ _ f "k - j"])
      (simp_all add: playing_def)
  moreover have "playing T ?v r d (rotate_right (Suc j) xs)
      (n + of_nat (Suc j) * rd_contribution_frequency d) f (k - Suc j)"
    using playing_round_after(1) [OF u(2)] Suc.prems unfolding rot by (simp add: algebra_simps)
  ultimately show ?case
    using u(1) by auto
qed

lemma started_playing:
  assumes "pallet_inv T s" and "pending_ok T s r d" and "t = started r signer d xs rs n f s"
    and "round_ok T t r d (last xs # butlast xs) n f (length xs)"
  shows "playing T t r d (last xs # butlast xs) n f (length xs)"
  using assms
  by (simp add: playing_def started_def deposit_event_def pending_ok_def pallet_inv_def rosca_inv_def)

section \<open>Contributions before the cutoff\<close>

text \<open>Before the cutoff the catch-up loop does nothing, and the call goes on to the payment.\<close>

lemma contribute_before_cutoff:
  assumes p: "playing T s r d xs n f k" and signed: "ensure_signed T origin = Inr signer"
    and sg: "signer \<in> set xs" "signer \<noteq> hd xs" "CurrentContributors s r signer = None" and time: "Now s < n"
  shows "contribute_to_rosca T origin r s = Some (contribute_payment T signer r d f
    \<lparr>cu_next_pay_by = n, cu_order = xs, cu_claimant = hd xs, cu_state = s\<rparr>)" and "2 \<le> length xs"
proof -
  let ?c = "\<lparr>cu_next_pay_by = n, cu_order = xs, cu_claimant = hd xs, cu_state = s\<rparr>"
  have "contribute_guards signer r s = Inr (d, f, ?c)"
    using p sg by (auto simp: contribute_guards_def playing_def round_ok_def)
  moreover have "run_loop (catch_up_body T r (Now s)) ?c = Some (Inr (CaughtUp ?c))"
    using time [unfolded not_le [symmetric]]
    by (intro run_loop_exit) (simp add: catch_up_body_def catch_up_iteration_def)
  ultimately show "contribute_to_rosca T origin r s = Some (contribute_payment T signer r d f ?c)"
    using signed by (simp add: contribute_to_rosca_def)
  show "2 \<le> length xs"
    by (rule payer_frame(2) [OF p p frame_refl sg])
qed

section \<open>Settling a round succeeds when the pot covers the deposits\<close>

text \<open>A transfer out of an account that has the amount succeeds.\<close>

definition funded_transfers_succeed ::
  "('o, 'a, 'l) config \<Rightarrow> ('l \<Rightarrow> u32 \<Rightarrow> 'a \<Rightarrow> nat) \<Rightarrow> bool" where
  "funded_transfers_succeed T balance \<longleftrightarrow>
     (\<forall>asset x y amount l. unat amount \<le> balance l asset x \<longrightarrow>
        (\<exists>l'. transfer T asset x y amount l = Inr l'))"

lemma pot_covers_deposit:
  assumes "solvent T balance A s"
  shows "unat (unwrap_or 0 (RoscaSecurityDeposits s r p))
    \<le> balance (Ledger s) (asset_id (A r)) (rosca_account_id T r)"
proof -
  have "unat (unwrap_or 0 (RoscaSecurityDeposits s r p)) \<le> held (RoscaSecurityDeposits s r)"
    using held_update(2) [OF solvent_finite [OF assms], of r p] by linarith
  also have "\<dots> \<le> balance (Ledger s) (asset_id (A r)) (rosca_account_id T r)"
    using assms by (simp add: solvent_def)
  finally show ?thesis .
qed

lemma process_participant_succeeds:
  assumes funded: "funded_transfers_succeed T balance" and ok: "solvent T balance A s"
    and asset: "rd_payment_asset d = A r"
  shows "\<exists>t. process_participant T r d claimant p s = Inr t"
proof -
  let ?dep = "unwrap_or 0 (RoscaSecurityDeposits s r p)"
  have "\<exists>t. currency_transfer T (asset_id (rd_payment_asset d)) (rosca_account_id T r) claimant
      (ucast amount) s = Inr t" if "amount \<le> ?dep" for amount :: u32
  proof -
    have "unat amount \<le> balance (Ledger s) (asset_id (A r)) (rosca_account_id T r)"
      using that pot_covers_deposit [OF ok, of r p] by (simp add: word_le_nat_alt)
    then have "\<exists>l. transfer T (asset_id (A r)) (rosca_account_id T r) claimant (ucast amount)
        (Ledger s) = Inr l"
      using funded by (simp add: funded_transfers_succeed_def)
    then show ?thesis
      by (auto simp: currency_transfer_Inr asset)
  qed
  from this [of ?dep] this [of "rd_contribution_amount d"] show ?thesis
    by (auto simp: process_participant_def Let_def not_less)
qed

lemma process_defaulters_succeeds:
  assumes ex: "exact_transfers T balance" "pots_apart T" and funded: "funded_transfers_succeed T balance"
    and ok: "solvent T balance A s" and p: "playing T s r d xs n f k"
  shows "\<exists>t. process_defaulters T r s = Inr t"
proof -
  note reads = playing_reads [OF p]
  have asset: "rd_payment_asset d = A r"
    using ok reads(1) by (simp add: solvent_def)
  have "\<exists>t. process_participant T r d (hd xs) x u = Inr t \<and> solvent T balance A t"
    if "solvent T balance A u" for x u
    using process_participant_succeeds [OF funded that asset]
      solvent_no_worse [OF that process_participant_no_worse [OF ex that]] by blast
  then have "\<exists>t. try_for (process_participant T r d (hd xs)) xs s = Inr t"
    using ok by (rule try_for_succeeds)
  then show ?thesis
    using reads by (simp add: process_defaulters_def)
qed

end
