(* ===== verification/Rosca_Example.thy ===== *)
theory Rosca_Example
  imports Rosca_Liveness
begin

text \<open>
  One concrete environment for the pallet and one ROSCA in it, open, running and past its final
  cutoff: the inputs at which the properties of the pallet are applied. The environment meets every
  hypothesis made about the code outside the repository.
\<close>

section \<open>A concrete environment\<close>

text \<open>
  Accounts are numbers: 0 to 999 can sign, the pot of ROSCA \<open>r\<close> is \<open>1000 + r\<close>. The ledger is the
  balance itself, and a transfer fails exactly when the source does not have the amount.
\<close>

type_synonym demo_ledger = "u32 \<Rightarrow> nat \<Rightarrow> nat"

definition demo_transfer ::
  "u32 \<Rightarrow> nat \<Rightarrow> nat \<Rightarrow> u128 \<Rightarrow> demo_ledger \<Rightarrow> dispatch_error + demo_ledger" where
  "demo_transfer asset x y amount l =
     (if unat amount \<le> l asset x then
        let debited = (l asset)(x := l asset x - unat amount) in
        Inr (l(asset := debited(y := debited y + unat amount)))
      else Inl (Foreign 1))"

definition demo :: "(nat, nat, demo_ledger) config" where
  "demo =
     \<lparr>MaxParticipants = 10, MaxInvitedParticipants = 9, StringLimit = 20,
      ensure_signed = (\<lambda>origin. if origin < 1000 then Inr origin else Inl (Foreign 0)),
      transfer = demo_transfer, into_sub_account = (\<lambda>r. 1000 + unat r),
      blake2_128 = (\<lambda>bytes. rev bytes), block_hash = (\<lambda>n. [ucast n, 7]),
      clear_prefix = (\<lambda>limit m. Map.empty)\<rparr>"

lemma demo_clears_prefix: "clears_prefix demo"
  by (simp add: clears_prefix_def demo_def)

lemma demo_foreign_calls_return: "foreign_calls_return demo"
  by (simp add: foreign_calls_return_def demo_def demo_transfer_def Let_def)

lemma demo_exact_transfers: "exact_transfers demo (\<lambda>l. l)"
  by (simp add: exact_transfers_def demo_def demo_transfer_def Let_def split: if_splits)

lemma demo_funded: "funded_transfers_succeed demo (\<lambda>l. l)"
  by (simp add: funded_transfers_succeed_def demo_def demo_transfer_def Let_def)

lemma demo_pots_apart: "pots_apart demo"
  by (simp add: pots_apart_def demo_def rosca_account_id_def word_unat_eq_iff)

section \<open>States of one ROSCA\<close>

text \<open>Three participants, a contribution of 10 USDT every 100 ms; account 12 has a deposit of 15.\<close>

definition demo_terms :: RoscaDetails where
  "demo_terms =
     \<lparr>rd_random_order = False, rd_number_of_participants = 3,
      rd_minimum_participant_threshold = 2, rd_contribution_amount = 10,
      rd_payment_asset = USDT, rd_contribution_frequency = 100,
      rd_start_by_timestamp = 50, rd_name = [65]\<rparr>"

definition demo_genesis :: "(nat, demo_ledger) pallet" where
  "demo_genesis = genesis 5 1 (\<lambda>_ _. 100)"

definition demo_open :: "(nat, demo_ledger) pallet" where
  "demo_open = demo_genesis\<lparr>
     NextRoscaId := 1,
     PendingRoscaDetails := [0 \<mapsto> demo_terms],
     PendingRoscaParticipantsOrder := [0 \<mapsto> [Some 11, Some 12, Some 13]],
     RoscaParticipants := (\<lambda>_. Map.empty)(0 := [11 \<mapsto> 0, 12 \<mapsto> 1, 13 \<mapsto> 2]),
     RoscaParticipantsCount := [0 \<mapsto> 3],
     RoscaSecurityDeposits := (\<lambda>_. Map.empty)(0 := [12 \<mapsto> 15])\<rparr>"

definition demo_running :: "(nat, demo_ledger) pallet" where
  "demo_running = demo_open\<lparr>
     PendingRoscaDetails := Map.empty,
     ActiveRoscas := [0 \<mapsto> demo_terms],
     ActiveRoscaParticipantsOrder := [0 \<mapsto> [11, 13, 12]],
     EligibleClaimant := [0 \<mapsto> 11],
     NextPayByTimestamp := [0 \<mapsto> 105],
     FinalPayByTimestamp := [0 \<mapsto> 305]\<rparr>"

definition demo_late :: "(nat, demo_ledger) pallet" where
  "demo_late = demo_running\<lparr>Now := 1000\<rparr>"

definition demo_ended :: "(nat, demo_ledger) pallet" where
  "demo_ended = demo_late\<lparr>ActiveRoscas := Map.empty, CompletedRoscas := [0 \<mapsto> ()]\<rparr>"

definition demo_joinable :: "(nat, demo_ledger) pallet" where
  "demo_joinable = demo_genesis\<lparr>
     NextRoscaId := 1,
     PendingRoscaDetails := [0 \<mapsto> demo_terms],
     PendingRoscaParticipantsOrder := [0 \<mapsto> [Some 11, None, None]],
     RoscaParticipants := (\<lambda>_. Map.empty)(0 := [11 \<mapsto> 0]),
     RoscaInvitedPreverifiedParticipants := (\<lambda>_. Map.empty)(0 := [11 \<mapsto> (), 12 \<mapsto> (), 13 \<mapsto> ()]),
     RoscaParticipantsCount := [0 \<mapsto> 1]\<rparr>"

lemmas demo_defs = demo_ended_def demo_late_def demo_running_def demo_open_def demo_genesis_def genesis_def
  demo_terms_def demo_def

lemma demo_slots: "slots_ok [Some (11 :: nat), Some 12, Some 13] [11 \<mapsto> 0, 12 \<mapsto> 1, 13 \<mapsto> 2]"
  unfolding slots_ok_def
proof (intro allI)
  fix a :: nat and p :: u32
  have "unat p < 3 \<longleftrightarrow> p = 0 \<or> p = 1 \<or> p = 2"
    by (auto simp: word_unat_eq_iff)
  then show "([11 \<mapsto> 0, 12 \<mapsto> 1, 13 \<mapsto> 2] :: nat \<Rightarrow> u32 option) a = Some p \<longleftrightarrow>
      unat p < length [Some 11, Some 12, Some 13] \<and> [Some 11, Some 12, Some 13] ! unat p = Some a"
    by auto
qed

lemma demo_open_inv: "pallet_inv demo demo_open"
  unfolding pallet_inv_def
proof (intro conjI allI impI)
  fix r
  show "rosca_inv demo demo_open r"
    using demo_slots
    by (cases "r = 0") (auto simp: rosca_inv_def pending_ok_def terms_ok_def demo_defs)
next
  fix r :: rosca_id
  assume "NextRoscaId demo_open \<le> r"
  then have "r \<noteq> 0"
    by (auto simp: demo_defs)
  then show "fresh_at demo_open r"
    by (simp add: fresh_at_def demo_defs)
qed

lemma demo_joinable_inv: "pallet_inv demo demo_joinable"
  unfolding pallet_inv_def
proof (intro conjI allI impI)
  fix r
  have "slots_ok [Some (11 :: nat), None, None] [11 \<mapsto> 0]"
    using slots_ok_single [of 0 3 "11 :: nat"] by (simp add: numeral_3_eq_3)
  then show "rosca_inv demo demo_joinable r"
    by (cases "r = 0")
      (auto simp: rosca_inv_def pending_ok_def terms_ok_def demo_joinable_def demo_defs)
next
  fix r :: rosca_id
  assume "NextRoscaId demo_joinable \<le> r"
  then have "r \<noteq> 0"
    by (auto simp: demo_joinable_def)
  then show "fresh_at demo_joinable r"
    by (simp add: fresh_at_def demo_joinable_def demo_defs)
qed

lemma demo_running_round: "round_ok demo demo_running 0 demo_terms [11, 13, 12] 105 305 3"
  by (auto simp: round_ok_def demo_defs)

lemma demo_running_inv: "pallet_inv demo demo_running"
  unfolding pallet_inv_def
proof (intro conjI allI impI)
  fix r
  have "active_ok demo demo_running 0 demo_terms"
    unfolding active_ok_def
    using demo_running_round by (fastforce simp: terms_ok_def demo_running_def demo_open_def
        demo_genesis_def genesis_def demo_terms_def)
  then show "rosca_inv demo demo_running r"
    by (cases "r = 0")
      (auto simp: rosca_inv_def demo_running_def demo_open_def demo_genesis_def genesis_def)
next
  fix r :: rosca_id
  assume "NextRoscaId demo_running \<le> r"
  then have "r \<noteq> 0"
    by (auto simp: demo_defs)
  then show "fresh_at demo_running r"
    by (simp add: fresh_at_def demo_defs)
qed

lemma demo_late_inv: "pallet_inv demo demo_late"
  unfolding demo_late_def pallet_inv_environment(3) by (rule demo_running_inv)

lemma demo_ended_inv: "pallet_inv demo demo_ended"
  unfolding pallet_inv_def
proof (intro conjI allI impI)
  fix r :: rosca_id
  show "rosca_inv demo demo_ended r"
    by (simp add: rosca_inv_def demo_defs)
  assume "NextRoscaId demo_ended \<le> r"
  then have "r \<noteq> 0"
    by (auto simp: demo_defs)
  then show "fresh_at demo_ended r"
    by (simp add: fresh_at_def demo_defs)
qed

lemma demo_solvent:
  "solvent demo (\<lambda>l. l) (\<lambda>_. USDT) demo_open"
  "solvent demo (\<lambda>l. l) (\<lambda>_. USDT) demo_running"
  "solvent demo (\<lambda>l. l) (\<lambda>_. USDT) demo_late"
  "solvent demo (\<lambda>l. l) (\<lambda>_. USDT) demo_ended"
  by (auto simp: solvent_def demo_defs held_def split: if_splits)

text \<open>
  What starting the open ROSCA gives, and the states one turn and one contribution into the running
  one.
\<close>

lemma demo_periods: "add_periods 100 105 2 = Inr 305"
  by (simp add: add_periods_Inr)

lemma demo_start:
  "start_rosca demo 13 0 demo_open = Inr (demo_running\<lparr>Events :=
     [RoscaStarted 0 13
        [\<lparr>ri_round_number = 1, ri_payment_cutoff = 105,
          ri_expected_contributors = [13, 12], ri_recipient = 11\<rparr>,
         \<lparr>ri_round_number = 2, ri_payment_cutoff = 205,
          ri_expected_contributors = [13, 11], ri_recipient = 12\<rparr>,
         \<lparr>ri_round_number = 3, ri_payment_cutoff = 305,
          ri_expected_contributors = [12, 11], ri_recipient = 13\<rparr>] 11 105]\<rparr>)"
  by (simp add: start_rosca_def demo_defs Let_def generate_rounds_def checked_add_def
      deposit_event_def demo_periods)

lemma demo_settle:
  "\<exists>t. process_defaulters demo 0 demo_running = Inr t"
  by (simp add: process_defaulters_def process_participant_def demo_defs demo_transfer_def
      Let_def deposit_event_def currency_transfer_def rosca_account_id_def checked_sub_def)

end
