(* ===== verification/Rosca_Properties.thy ===== *)
theory Rosca_Properties
  imports Rosca_Example
begin

text \<open>
  The properties of the ROSCA pallet: what holds in every reachable state, what happens to the
  money, what gets done, and three places where the code does something its comments and errors do
  not announce. Each is applied at a concrete state of the example environment.
\<close>

section \<open>Every reachable state\<close>



text \<open>C8. Along any run, the storage of a ROSCA refines its life: unused, open, running, ended, in
  this order and without a way back.\<close>

theorem run_refines_life:
  assumes "(chain_step T)\<^sup>*\<^sup>* s t" and "clears_prefix T" and "pallet_inv T s"
  shows "phase_step\<^sup>*\<^sup>* (phase_of s r) (phase_of t r)"
proof -
  have "pallet_inv T t \<and> phase_step\<^sup>*\<^sup>* (phase_of s r) (phase_of t r)"
    using assms
  proof (induction rule: rtranclp_induct)
    case (step t u)
    then show ?case
      using chain_step_inv [of T t u] chain_step_phase [of T t u r] by auto
  qed simp
  then show ?thesis ..
qed

theorem run_refines_life_witness:
  "phase_step\<^sup>*\<^sup>* (phase_of demo_open 0) (phase_of demo_running 0)"
proof -
  let ?t = "projr (start_rosca demo 13 0 demo_open)"
  have "dispatch_call demo 13 (Call_start_rosca 0) demo_open = Some (Inr ?t)"
    by (simp add: demo_start)
  then have "chain_step demo demo_open ?t"
    by (rule chain_step.applied) (simp add: demo_defs)
  then have "phase_step\<^sup>*\<^sup>* (phase_of demo_open 0) (phase_of ?t 0)"
    by (intro run_refines_life [OF _ demo_clears_prefix demo_open_inv] r_into_rtranclp)
  moreover have "phase_of ?t 0 = phase_of demo_running 0"
    unfolding demo_start sum.sel by (simp add: phase_of_def demo_defs)
  ultimately show ?thesis
    by simp
qed

text \<open>A ROSCA that has ended stays ended, whatever happens on the chain.\<close>

theorem ended_for_ever:
  assumes "(chain_step T)\<^sup>*\<^sup>* s t" and "clears_prefix T" and "pallet_inv T s"
    and "CompletedRoscas s r \<noteq> None"
  shows "CompletedRoscas t r \<noteq> None \<and> ActiveRoscas t r = None \<and> PendingRoscaDetails t r = None"
proof -
  have "phase_of s r = Ended"
    using assms(4) by (simp add: phase_of_def)
  then have t: "pallet_inv T t" "phase_of t r = Ended"
    using ended_stays [OF assms(1-3)] by simp_all
  then have "rosca_inv T t r" "CompletedRoscas t r \<noteq> None"
    by (auto simp: pallet_inv_def phase_of_def split: if_splits)
  then show ?thesis
    by (auto simp: rosca_inv_def pending_ok_def active_ok_def)
qed

theorem ended_for_ever_witness:
  "CompletedRoscas (demo_ended\<lparr>Ledger := (\<lambda>_ _. 7)\<rparr>) 0 \<noteq> None \<and>
   ActiveRoscas (demo_ended\<lparr>Ledger := (\<lambda>_ _. 7)\<rparr>) 0 = None \<and>
   PendingRoscaDetails (demo_ended\<lparr>Ledger := (\<lambda>_ _. 7)\<rparr>) 0 = None"
proof (rule ended_for_ever [OF r_into_rtranclp demo_clears_prefix demo_ended_inv])
  show "chain_step demo demo_ended (demo_ended\<lparr>Ledger := (\<lambda>_ _. 7)\<rparr>)"
    by (rule chain_step.other_pallets)
qed (simp add: demo_ended_def)

text \<open>C6. Every call returns: the catch-up loop of \<^verbatim>\<open>contribute_to_rosca\<close> and the loop of
  \<^verbatim>\<open>manually_end_rosca\<close> end in every well-formed state, at every timestamp.\<close>

theorem calls_return:
  assumes "pallet_inv T s" and "clears_prefix T"
  shows "\<exists>result. dispatch_call T origin c s = Some result"
  using assms by (rule dispatch.returns)

theorem calls_return_witness:
  "\<exists>result. dispatch_call demo 13 (Call_contribute_to_rosca 0) demo_late = Some result"
  by (rule calls_return [OF demo_late_inv demo_clears_prefix])

text \<open>C11. No call but \<^verbatim>\<open>create_rosca\<close> can panic in a well-formed state.\<close>

theorem only_create_panics:
  assumes "foreign_calls_return T" and "pallet_inv T s" and "clears_prefix T" and "\<not> is_create c"
  shows "dispatch_call T origin c s \<noteq> Some (Inl Panicked)"
  using assms
  by (cases c) (simp_all add: join_rosca_no_panic leave_rosca_no_panic start_rosca_no_panic
      contribute_to_rosca_no_panic manually_end_rosca_no_panic claim_security_deposit_no_panic
      add_to_security_deposit_no_panic)

theorem only_create_panics_witness:
  "dispatch_call demo 13 (Call_leave_rosca 0) demo_open \<noteq> Some (Inl Panicked)"
  by (rule only_create_panics [OF demo_foreign_calls_return demo_open_inv demo_clears_prefix]) simp

text \<open>C12. \<^verbatim>\<open>create_rosca\<close> panics exactly when its other checks pass and the creator asks for a position
  that is below \<^verbatim>\<open>MaxParticipants\<close> but not below the number of participants.\<close>

theorem create_panics_iff:
  assumes "foreign_calls_return T"
  shows "create_rosca T origin random_order invited threshold amount asset frequency start_by
      position name s = Inl Panicked \<longleftrightarrow>
    (\<exists>signer. ensure_signed T origin = Inr signer \<and> signer \<notin> set invited) \<and>
    0 < amount \<and> 0 < frequency \<and> MaxInvitedParticipants T < MaxParticipants T \<and>
    card (set invited) + 1 < 2 ^ 32 \<and> unat threshold \<le> card (set invited) + 1 \<and>
    Now s < start_by \<and>
    card (set invited) + 1 \<le> unat (unwrap_or 0 position) \<and> unwrap_or 0 position < MaxParticipants T"
proof (cases "ensure_signed T origin")
  case (Inl e)
  then show ?thesis
    using signed_no_panic [OF assms, of origin] by (simp add: create_rosca_def)
next
  case (Inr signer)
  have u: "card (set invited) + 1 < 2 ^ 32 \<Longrightarrow>
      unat (1 + word_of_nat (card (set invited)) :: u32) = Suc (card (set invited))"
    by (simp add: unat_word_ariths unat_of_nat)
  show ?thesis
    using Inr u
    by (auto simp: create_rosca_def Let_def failure_iffs usize_checked_add_def
        card_remdups_adj_sort word_le_nat_alt split: prod.splits)
qed

theorem create_panics_iff_witness:
  "create_rosca demo 11 False [12] 1 10 USDT 100 50 (Some 2) [65] demo_genesis = Inl Panicked"
  unfolding create_panics_iff [OF demo_foreign_calls_return] by (simp add: demo_defs)

section \<open>Money\<close>



text \<open>C3. Settling a round takes from the deposit of everyone who owes the contribution the
  contribution or what there is, leaves every other deposit alone, and counts a default for exactly
  those whose deposit did not cover the contribution.\<close>

theorem settlement_exact:
  assumes "pallet_inv T s" and "ActiveRoscas s r = Some d" and "EligibleClaimant s r = Some claimant"
    and "process_defaulters T r s = Inr t"
  shows "RoscaSecurityDeposits t r p =
      (if p \<in> dom (RoscaParticipants s r) \<and> owes s r claimant p
       then charged (rd_contribution_amount d) (RoscaSecurityDeposits s r p)
       else RoscaSecurityDeposits s r p) \<and>
    DefaultCount t r p =
      (if p \<in> dom (RoscaParticipants s r) \<and> owes s r claimant p \<and>
          unwrap_or 0 (RoscaSecurityDeposits s r p) < rd_contribution_amount d
       then saturating_add (DefaultCount s r p) 1 else DefaultCount s r p)"
proof -
  from assms(1,2) obtain xs n f k where p: "playing T s r d xs n f k" "0 < k"
    by (rule playing_active)
  have "hd xs = claimant"
    using playing_reads(2) [OF p(1)] assms(3) by simp
  moreover have "settles r (rd_contribution_amount d) {p \<in> set xs. owes s r (hd xs) p} s t"
    using p(1) assms(2,4) by (intro process_defaulters_settles) (auto simp: playing_def)
  moreover have "set xs = dom (RoscaParticipants s r)"
    using p(1) by (simp add: playing_def round_ok_def)
  ultimately have "settles r (rd_contribution_amount d)
      {p \<in> dom (RoscaParticipants s r). owes s r claimant p} s t"
    by simp
  then show ?thesis
    by (rule settlesE) (simp add: settled_deposits_def settled_defaults_def)
qed

theorem settlement_exact_witness:
  "\<exists>t. process_defaulters demo 0 demo_running = Inr t \<and>
    RoscaSecurityDeposits t 0 12 = Some 5 \<and> DefaultCount t 0 13 = 1 \<and> DefaultCount t 0 12 = 0"
proof -
  obtain t where t: "process_defaulters demo 0 demo_running = Inr t"
    using demo_settle by blast
  have d: "ActiveRoscas demo_running 0 = Some demo_terms" "EligibleClaimant demo_running 0 = Some 11"
    by (simp_all add: demo_running_def)
  note exact = settlement_exact [OF demo_running_inv d t]
  show ?thesis
    using t exact [of 12] exact [of 13]
    by (simp add: demo_defs owes_def charged_def saturating_add_def)
qed

text \<open>C10. A contribution made before the cutoff, by a participant other than the claimant who has
  not contributed yet, pays the claimant and is recorded; the last one of a round opens the next round,
  and the last one of the last round completes the ROSCA. It fails only if the transfer fails.\<close>

theorem contribute_on_time:
  assumes inv: "pallet_inv T s" "clears_prefix T" and signer: "ensure_signed T origin = Inr signer"
    and active: "ActiveRoscas s r = Some d" and part: "RoscaParticipants s r signer \<noteq> None"
    and claimant: "EligibleClaimant s r = Some claimant" "claimant \<noteq> signer"
    and new: "CurrentContributors s r signer = None"
    and next_pay: "NextPayByTimestamp s r = Some n" "Now s < n"
    and final: "FinalPayByTimestamp s r = Some f"
    and order: "ActiveRoscaParticipantsOrder s r = Some xs"
  shows "contribute_to_rosca T origin r s = Some (
    try_do (currency_transfer T (asset_id (rd_payment_asset d)) signer claimant
        (ucast (rd_contribution_amount d)) s) (\<lambda>s1.
      let u = paid r d signer claimant s1 in
      Inr (if unat (CurrentContributionCount s r) + 2 < length xs then u
           else if n = f then complete_rosca r u else round_after r d xs n u)))"
proof -
  let ?c = "\<lparr>cu_next_pay_by = n, cu_order = xs, cu_claimant = claimant, cu_state = s\<rparr>"
  from inv(1) active obtain ys m g k where "playing T s r d ys m g k" and k: "0 < k"
    by (rule playing_active)
  then have p: "playing T s r d xs n f k"
    using playing_reads [of T s r d ys m g k] next_pay(1) final order by simp
  have hd: "claimant = hd xs" and mem: "signer \<in> set xs"
    using p claimant(1) part by (auto simp: playing_def round_ok_def)
  note before = contribute_before_cutoff [OF p signer mem _ new next_pay(2)]
  have "contribute_to_rosca T origin r s = Some (contribute_payment T signer r d f ?c)" "2 \<le> length xs"
    using before claimant(2) by (simp_all add: hd)
  moreover have "n = f \<longleftrightarrow> k = 1"
    using p k by (auto simp: playing_def round_ok_def terms_ok_def word_unat_eq_iff word_less_nat_alt)
  ultimately show ?thesis
    using contribute_payment_eq [of T ?c r d f k signer] p k inv(2) new by (simp cong: if_cong)
qed

theorem contribute_on_time_witness:
  "\<exists>t. contribute_to_rosca demo 12 0 demo_running = Some (Inr t) \<and>
     CurrentContributors t 0 12 = Some () \<and> Ledger t 1984 11 = 110"
proof -
  have "contribute_to_rosca demo 12 0 demo_running = Some (
    try_do (currency_transfer demo (asset_id (rd_payment_asset demo_terms)) 12 11
        (ucast (rd_contribution_amount demo_terms)) demo_running) (\<lambda>s1.
      let u = paid 0 demo_terms 12 11 s1 in
      Inr (if unat (CurrentContributionCount demo_running 0) + 2 < length [11::nat, 13, 12] then u
           else if (105::moment) = 305 then complete_rosca 0 u
           else round_after 0 demo_terms [11, 13, 12] 105 u)))"
    by (rule contribute_on_time [OF demo_running_inv demo_clears_prefix]) (simp_all add: demo_defs)
  then show ?thesis
    by (simp add: demo_defs currency_transfer_def demo_transfer_def Let_def paid_def deposit_event_def)
qed

text \<open>C19. A claimed deposit is paid out of the ROSCA's pot in the asset the caller names: storage
  no longer knows the asset of a completed ROSCA, and the call does not ask for it.\<close>

theorem claim_pays_named_asset:
  assumes "claim_security_deposit T origin r asset s = Inr t"
  shows "\<exists>signer dep. ensure_signed T origin = Inr signer \<and>
    RoscaSecurityDeposits s r signer = Some dep \<and> 0 < dep \<and>
    transfer T (asset_id asset) (rosca_account_id T r) signer (ucast dep) (Ledger s) = Inr (Ledger t) \<and>
    RoscaSecurityDeposits t r signer = None"
  using assms by (rule claim_security_deposit_effect) (auto simp: deposit_event_def)

theorem claim_pays_named_asset_witness:
  "\<exists>t. claim_security_deposit demo 12 0 USDC demo_ended = Inr t \<and>
    RoscaSecurityDeposits t 0 12 = None"
proof -
  obtain t where t: "claim_security_deposit demo 12 0 USDC demo_ended = Inr t"
    by (simp add: claim_security_deposit_def currency_transfer_def demo_transfer_def demo_defs
        rosca_account_id_def Let_def)
  from claim_pays_named_asset [OF t] have "RoscaSecurityDeposits t 0 12 = None"
    by (auto simp: demo_def)
  with t show ?thesis by blast
qed

section \<open>Progress\<close>







text \<open>C13. In the schedule of a started ROSCA every participant is the recipient of exactly one
  round, and all others are expected to contribute to it.\<close>

theorem everyone_receives_once:
  assumes "pallet_inv T s" and "start_rosca T origin r s = Inr t"
    and "last (Events t) = RoscaStarted r signer rs claimant cutoff"
  shows "distinct (map ri_recipient rs) \<and>
    set (map ri_recipient rs) = dom (RoscaParticipants s r) \<and>
    (\<forall>round \<in> set rs. set (ri_expected_contributors round) =
       dom (RoscaParticipants s r) - {ri_recipient round})"
  using assms(1,2)
proof (rule start_rosca_started)
  fix signer' d xs n f
  assume xs: "distinct xs" "set xs = dom (RoscaParticipants s r)"
    and t: "t = started r signer' d xs (round_plan xs (Now s) (rd_contribution_frequency d)) n f s"
  have rs: "rs = round_plan xs (Now s) (rd_contribution_frequency d)"
    using assms(3) by (simp add: t started_def deposit_event_def)
  have "set (ri_expected_contributors round) = set xs - {ri_recipient round}" if "round \<in> set rs" for round
    using that unfolding rs by (auto simp: round_plan_def)
  moreover have "map ri_recipient rs = rev xs"
    unfolding rs by (rule recipients_round_plan)
  ultimately show ?thesis
    using xs by simp
qed

theorem everyone_receives_once_witness:
  "\<exists>rs. last (Events (projr (start_rosca demo 13 0 demo_open))) = RoscaStarted 0 13 rs 11 105 \<and>
    set (map ri_recipient rs) = {11, 12, 13}"
proof -
  let ?t = "projr (start_rosca demo 13 0 demo_open)"
  have run: "start_rosca demo 13 0 demo_open = Inr ?t"
    by (simp add: demo_start)
  obtain rs where rs: "last (Events ?t) = RoscaStarted 0 13 rs 11 105"
    by (simp add: demo_start)
  have "dom (RoscaParticipants demo_open 0) = {11, 12, 13}"
    by (auto simp: demo_open_def)
  then show ?thesis
    using rs everyone_receives_once [OF demo_open_inv run rs] by auto
qed

section \<open>Membership\<close>

text \<open>C15. Leaving undoes joining: but for the two events, the state is the one before.\<close>

theorem leave_undoes_join:
  assumes inv: "pallet_inv T s" and join: "join_rosca T origin r position s = Inr t"
    and signer: "ensure_signed T origin = Inr signer"
    and no_deposit: "unwrap_or 0 (RoscaSecurityDeposits s r signer) = 0"
  shows "leave_rosca T origin r t =
    Inr (s\<lparr>Events := Events s @ [JoinedRosca r signer, LeftRosca r signer]\<rparr>)"
  using join
proof (rule join_rosca_effect)
  fix signer' d order order' p c c'
  assume a: "ensure_signed T origin = Inr signer'" "ActiveRoscas s r = None"
      "RoscaParticipants s r signer' = None" "PendingRoscaDetails s r = Some d"
      "PendingRoscaParticipantsOrder s r = Some order"
      "claim_position signer' position order = Inr (order', p)"
      "RoscaParticipantsCount s r = Some c" "checked_add c 1 = Some c'"
    and t: "t = deposit_event (JoinedRosca r signer')
       (s\<lparr>PendingRoscaParticipantsOrder := (PendingRoscaParticipantsOrder s)(r \<mapsto> order'),
          RoscaParticipants := (RoscaParticipants s)(r := (RoscaParticipants s r)(signer' \<mapsto> p)),
          RoscaParticipantsCount := (RoscaParticipantsCount s)(r \<mapsto> c')\<rparr>)"
  have eq: "signer' = signer"
    using a(1) signer by simp
  note shape = pending_shape [OF inv a(4,5,7)]
  note place = claim_position_Inr [OF a(6) shape(6)]
  have restored: "order'[unat p := None] = order"
    using place by (metis list_update_id list_update_overwrite)
  have sub: "checked_sub c' 1 = Some c"
    using a(8) by (simp add: checked_add_Some_iff checked_sub_Some_iff word_le_nat_alt)
  have upd: "(RoscaParticipants s r)(signer := None) = RoscaParticipants s r"
    using a(3) eq by (simp add: fun_upd_idem)
  show ?thesis
    using a signer eq place(1,3) restored sub no_deposit upd
    by (auto simp: leave_rosca_def t deposit_event_def Let_def refund_deposit_def fun_upd_idem
        intro!: pallet.equality)
qed

theorem leave_undoes_join_witness:
  "\<exists>t. join_rosca demo 13 0 None demo_joinable = Inr t \<and>
    leave_rosca demo 13 0 t = Inr (demo_joinable\<lparr>Events := [JoinedRosca 0 13, LeftRosca 0 13]\<rparr>)"
proof -
  obtain t where t: "join_rosca demo 13 0 None demo_joinable = Inr t"
    by (simp add: join_rosca_def claim_position_def demo_joinable_def demo_defs checked_add_def Let_def)
  have "leave_rosca demo 13 0 t =
      Inr (demo_joinable\<lparr>Events := Events demo_joinable @ [JoinedRosca 0 13, LeftRosca 0 13]\<rparr>)"
    by (rule leave_undoes_join [OF demo_joinable_inv t]) (simp_all add: demo_joinable_def demo_defs)
  with t show ?thesis
    by (simp add: demo_joinable_def demo_defs)
qed

text \<open>The participants of an open ROSCA are counted exactly, and neither they nor the payout
  order of a running one exceed \<^verbatim>\<open>MaxParticipants\<close>.\<close>

theorem participants_bounded:
  assumes "pallet_inv T s"
  shows "(\<forall>d. PendingRoscaDetails s r = Some d \<longrightarrow>
      (\<exists>c. RoscaParticipantsCount s r = Some c \<and> unat c = card (dom (RoscaParticipants s r)) \<and>
         c \<le> rd_number_of_participants d \<and> c \<le> MaxParticipants T)) \<and>
    (\<forall>d. ActiveRoscas s r = Some d \<longrightarrow>
      (\<exists>xs. ActiveRoscaParticipantsOrder s r = Some xs \<and>
         card (dom (RoscaParticipants s r)) = length xs \<and> length xs \<le> unat (MaxParticipants T)))"
proof (intro conjI allI impI)
  fix d
  assume d: "PendingRoscaDetails s r = Some d"
  then have ok: "pending_ok T s r d"
    using assms by (simp add: pallet_inv_def rosca_inv_def)
  then obtain order c where order: "PendingRoscaParticipantsOrder s r = Some order"
    and c: "RoscaParticipantsCount s r = Some c"
    by (auto simp: pending_ok_def)
  note shape = pending_shape [OF assms d order c]
  have "card (dom (RoscaParticipants s r)) \<le> length order"
    unfolding slots_ok_dom [OF shape(4,6)] by (rule card_somes_le)
  then have "c \<le> rd_number_of_participants d"
    using shape(3,5) by (simp add: word_le_nat_alt)
  moreover have "rd_number_of_participants d \<le> MaxParticipants T"
    using ok by (simp add: pending_ok_def)
  ultimately show "\<exists>c. RoscaParticipantsCount s r = Some c \<and>
      unat c = card (dom (RoscaParticipants s r)) \<and>
      c \<le> rd_number_of_participants d \<and> c \<le> MaxParticipants T"
    using c shape(5) by auto
next
  fix d
  assume "ActiveRoscas s r = Some d"
  with assms obtain xs n f k where "playing T s r d xs n f k"
    by (rule playing_active)
  then have "ActiveRoscaParticipantsOrder s r = Some xs" "length xs \<le> unat (MaxParticipants T)"
    "set xs = dom (RoscaParticipants s r)" "distinct xs"
    by (simp_all add: playing_def round_ok_def)
  then show "\<exists>xs. ActiveRoscaParticipantsOrder s r = Some xs \<and>
      card (dom (RoscaParticipants s r)) = length xs \<and> length xs \<le> unat (MaxParticipants T)"
    by (metis distinct_card)
qed

theorem participants_bounded_witness:
  "card (dom (RoscaParticipants demo_running 0)) = 3"
  using participants_bounded [OF demo_running_inv, of 0] by (simp add: demo_running_def)

text \<open>C16. A call changes the storage of one ROSCA only: the one it names, or the new one.\<close>

theorem other_roscas_untouched:
  assumes "pallet_inv T s" and "clears_prefix T" and "dispatch_call T origin c s = Some (Inr t)"
    and "q \<noteq> call_target c s"
  shows "same_at s t q"
  using dispatch_acts_at [OF assms(1-3)] assms(4) by (simp add: acts_at_def)

theorem other_roscas_untouched_witness:
  "same_at demo_open (projr (start_rosca demo 13 0 demo_open)) 5"
proof (rule other_roscas_untouched [OF demo_open_inv demo_clears_prefix])
  show "dispatch_call demo 13 (Call_start_rosca 0) demo_open =
      Some (Inr (projr (start_rosca demo 13 0 demo_open)))"
    by (simp add: demo_start)
qed simp

section \<open>Where the code surprises\<close>

text \<open>After the last identifier the counter wraps: the next ROSCA is created under identifier 0,
  on top of whatever is stored there.\<close>

theorem create_id_wraps:
  assumes "create_rosca T origin random_order invited threshold amount asset frequency start_by
      position name s = Inr t"
    and "NextRoscaId s = - 1"
  shows "NextRoscaId t = 0 \<and> PendingRoscaDetails t (- 1) \<noteq> None"
  using assms(1) by (rule create_rosca_effect) (simp add: assms(2) deposit_event_def)

theorem create_id_wraps_witness:
  "\<exists>t. create_rosca demo 11 False [] 1 10 USDT 100 50 None [65] (demo_genesis\<lparr>NextRoscaId := - 1\<rparr>) =
    Inr t \<and> NextRoscaId t = 0"
proof -
  let ?s = "demo_genesis\<lparr>NextRoscaId := - 1\<rparr>"
  obtain t where t: "create_rosca demo 11 False [] 1 10 USDT 100 50 None [65] ?s = Inr t"
    by (simp add: create_rosca_def usize_checked_add_def demo_defs Let_def)
  then show ?thesis
    using create_id_wraps [OF t] by simp
qed

text \<open>C20. The checks of \<^verbatim>\<open>contribute_to_rosca\<close> are made before it catches up. A participant who
  is last in the payout order and calls it after the cutoff becomes the claimant during the call
  and then pays the contribution to themselves, which counts as a contribution of the new round.\<close>

theorem late_contribution_to_self:
  assumes inv: "pallet_inv T s" "clears_prefix T" and signer: "ensure_signed T origin = Inr signer"
    and p: "playing T s r d xs n f k" and last: "signer = last xs" "2 \<le> length xs"
    and new: "CurrentContributors s r signer = None"
    and late: "n \<le> Now s" "Now s < n + rd_contribution_frequency d" "n < f"
    and settled: "process_defaulters T r s = Inr s1"
  shows "contribute_to_rosca T origin r s = Some (contribute_payment T signer r d f
    \<lparr>cu_next_pay_by = n + rd_contribution_frequency d, cu_order = signer # butlast xs,
     cu_claimant = signer, cu_state = round_after r d xs n s1\<rparr>)"
proof -
  let ?c = "\<lparr>cu_next_pay_by = n, cu_order = xs, cu_claimant = hd xs, cu_state = s\<rparr>"
  let ?c' = "\<lparr>cu_next_pay_by = n + rd_contribution_frequency d, cu_order = signer # butlast xs,
     cu_claimant = signer, cu_state = round_after r d xs n s1\<rparr>"
  note reads = playing_reads [OF p]
  have k: "0 < k"
    using playing_cutoff_iff [OF p] less_imp_le [OF late(3)] by simp
  have ok: "CompletedRoscas s r = None" "set xs = dom (RoscaParticipants s r)" "distinct xs"
    using p by (simp_all add: playing_def round_ok_def)
  obtain x ys where xs: "xs = x # ys" "ys \<noteq> []"
    using last(2) by (cases xs) fastforce+
  then have "last xs \<in> set xs" "last xs \<noteq> hd xs"
    using ok(3) last_in_set [OF xs(2)] by auto
  then have guards: "contribute_guards signer r s = Inr (d, f, ?c)"
    using reads ok new last(1) by (auto simp: contribute_guards_def)
  note t = turn [OF p k inv(2) settled]
  have "k \<noteq> 1"
    using p late(3) by (auto simp: playing_def round_ok_def word_less_nat_alt)
  then have "n + rd_contribution_frequency d \<le> f"
    using playing_cutoff_iff [OF t(2)] k by simp
  then have again: "catch_up_body T r (Now s) ?c = Inr ?c'"
    using late(1) settled t(1) playing_reads [OF t(2)] last(1)
    by (simp add: catch_up_body_def catch_up_iteration_def check_and_complete_rosca_def
        not_le [symmetric])
  have exit: "catch_up_body T r (Now s) ?c' = Inl (Inr (CaughtUp ?c'))"
    using late(2) [unfolded not_le [symmetric]] by (simp add: catch_up_body_def catch_up_iteration_def)
  have "run_loop (catch_up_body T r (Now s)) ?c = Some (Inr (CaughtUp ?c'))"
    using run_loop_again [of "catch_up_body T r (Now s)", OF again]
      run_loop_exit [of "catch_up_body T r (Now s)", OF exit] by simp
  then show ?thesis
    using signer guards by (simp add: contribute_to_rosca_def)
qed

theorem late_contribution_to_self_witness:
  "\<exists>t. contribute_to_rosca demo 12 0 (demo_running\<lparr>Now := 150\<rparr>) = Some (Inr t) \<and>
    EligibleClaimant t 0 = Some 12 \<and> CurrentContributors t 0 12 = Some ()"
proof -
  let ?s = "demo_running\<lparr>Now := 150\<rparr>"
  have p: "playing demo ?s 0 demo_terms [11, 13, 12] 105 305 3"
    using demo_running_round
    by (simp add: playing_def round_ok_def terms_ok_def demo_running_def demo_open_def
        demo_genesis_def genesis_def demo_terms_def)
  have inv: "pallet_inv demo ?s"
    using demo_running_inv pallet_inv_environment(3) by blast
  obtain s1 where s1: "process_defaulters demo 0 ?s = Inr s1" "Ledger s1 1984 12 = 100"
    by (simp add: process_defaulters_def process_participant_def demo_defs demo_transfer_def
        Let_def deposit_event_def currency_transfer_def rosca_account_id_def checked_sub_def)
  have "contribute_to_rosca demo 12 0 ?s = Some (contribute_payment demo 12 0 demo_terms 305
    \<lparr>cu_next_pay_by = 105 + rd_contribution_frequency demo_terms, cu_order = 12 # butlast [11, 13, 12],
     cu_claimant = 12, cu_state = round_after 0 demo_terms [11, 13, 12] 105 s1\<rparr>)"
    by (rule late_contribution_to_self [OF inv demo_clears_prefix _ p _ _ _ _ _ _ s1(1)])
      (simp_all add: demo_defs)
  then show ?thesis
    using s1(2)
    by (simp add: contribute_payment_def currency_transfer_def round_after_def deposit_event_def
        checked_add_def Let_def demo_def demo_terms_def demo_transfer_def)
qed

section \<open>Witnesses for the order and the plan of rounds\<close>

theorem shuffle_determined_by_one_byte_witness:
  "shuffle_participants (demo\<lparr>block_hash := (\<lambda>n. [1, 7])\<rparr>) demo_open [11, 12, 13] =
   shuffle_participants (demo\<lparr>block_hash := (\<lambda>n. [1, 8, 9])\<rparr>) demo_running [11, 12, 13]"
  by (rule shuffle_determined_by_one_byte) (simp add: demo_def)

theorem generate_rounds_is_plan_witness:
  "generate_rounds demo [13, 12, 11] 5 100 = Inr (round_plan [13, 12, 11] 5 100)"
  unfolding generate_rounds_is_plan by (simp add: demo_def)

end
