(* ===== verification/Rosca_Fairness.thy ===== *)
theory Rosca_Fairness
  imports Rosca_Example
begin

text \<open>
  What a circle is for: when everybody contributes on time, everybody gets back what they gave. The state of a
  running ROSCA determines how often each participant has given and received so far; contributions keep the
  balances in step with these numbers, and after the last round the two are equal for everyone.
\<close>

section \<open>Contributions on time\<close>

text \<open>The contributions to a ROSCA before the cutoff of their round, as time passes.\<close>

inductive on_time :: "('o, 'a, 'l) config \<Rightarrow> rosca_id \<Rightarrow> ('a, 'l) pallet \<Rightarrow> ('a, 'l) pallet \<Rightarrow> bool"
  for T r where
  contribution: "contribute_to_rosca T origin r s = Some (Inr t) \<Longrightarrow> NextPayByTimestamp s r = Some n \<Longrightarrow> Now s < n
    \<Longrightarrow> on_time T r s t"
| new_block: "on_time T r s (s\<lparr>Now := now, BlockNumber := block, Events := []\<rparr>)"

lemma contribution_effect:
  assumes inv: "pallet_inv T s" "clears_prefix T"
    and run: "contribute_to_rosca T origin r s = Some (Inr t)" "NextPayByTimestamp s r = Some n" "Now s < n"
  obtains signer d xs f k l u where "playing T s r d xs n f k" "0 < k"
    "signer \<in> set xs" "signer \<noteq> hd xs" "CurrentContributors s r signer = None"
    "transfer T (asset_id (rd_payment_asset d)) signer (hd xs) (ucast (rd_contribution_amount d)) (Ledger s) = Inr l"
    "u = paid r d signer (hd xs) (s\<lparr>Ledger := l\<rparr>)"
    "unat (CurrentContributionCount s r) + 2 < length xs \<and> t = u \<or>
     \<not> unat (CurrentContributionCount s r) + 2 < length xs \<and> k = 1 \<and> t = complete_rosca r u \<or>
     \<not> unat (CurrentContributionCount s r) + 2 < length xs \<and> 1 < k \<and> t = round_after r d xs n u"
proof -
  obtain signer d f c where sg: "ensure_signed T origin = Inr signer" and g: "contribute_guards signer r s = Inr (d, f, c)"
    using run(1) by (auto simp: contribute_to_rosca_def split: sum.splits option.splits catch_up_exit.splits)
  from inv(1) g obtain k where c: "playing T s r d (cu_order c) (cu_next_pay_by c) f k" "0 < k"
    "cu_claimant c = hd (cu_order c)" "cu_state c = s" "signer \<in> set (cu_order c)"
    "signer \<noteq> hd (cu_order c)" "CurrentContributors s r signer = None"
    by (rule contribute_guards_Inr)
  have n: "cu_next_pay_by c = n"
    using playing_reads [OF c(1)] run(2) by simp
  let ?c = "\<lparr>cu_next_pay_by = n, cu_order = cu_order c, cu_claimant = hd (cu_order c), cu_state = s\<rparr>"
  have p: "playing T s r d (cu_order c) n f k" using c(1) n by simp
  note before = contribute_before_cutoff [OF p sg c(5-7) run(3)]
  have "contribute_payment T signer r d f ?c = Inr t"
    using before(1) run(1) by simp
  then show thesis
    using contribute_payment_Inr [of T ?c r d f k signer t thesis] p c(2,5-7) inv(2) before(2) that by simp
qed

section \<open>Giving and receiving\<close>

text \<open>
  After \<open>j\<close> rounds with order \<open>xs\<close> and contributors \<open>C\<close>: the claimants of the earlier rounds follow the current one
  in the order.
\<close>

definition given :: "nat \<Rightarrow> 'a list \<Rightarrow> 'a set \<Rightarrow> 'a \<Rightarrow> nat" where
  "given j xs C a = (if a \<in> set (take j (tl xs)) then j - 1 else j) + (if a \<in> C then 1 else 0)"

definition received :: "nat \<Rightarrow> 'a list \<Rightarrow> 'a set \<Rightarrow> 'a \<Rightarrow> nat" where
  "received j xs C a = (if a \<in> set (take j (tl xs)) then length xs - 1 else 0) + (if a = hd xs then card C else 0)"

lemma count_contribution:
  assumes "finite C" and "signer \<notin> C"
  shows "given j xs (insert signer C) a = given j xs C a + (if a = signer then 1 else 0)"
    and "received j xs (insert signer C) a = received j xs C a + (if a = hd xs then 1 else 0)"
  using assms by (auto simp: given_def received_def)

lemma take_tl_rotated:
  assumes "xs \<noteq> []" and "Suc j < length xs"
  shows "take (Suc j) (tl (last xs # butlast xs)) = hd xs # take j (tl xs)"
proof -
  obtain x ys where xs: "xs = x # ys" using assms(1) by (cases xs) auto
  with assms(2) have "ys \<noteq> []" "j < length ys" by auto
  then show ?thesis by (simp add: xs take_butlast)
qed

lemma take_tl_pos: "a \<in> set (take j ys) \<Longrightarrow> 0 < j"
  by (cases j) auto

lemma count_round:
  assumes "distinct xs" and "xs \<noteq> []" and "Suc j < length xs" and "a \<in> set xs"
  shows "given (Suc j) (last xs # butlast xs) {} a = given j xs (set xs - {hd xs}) a"
    and "received (Suc j) (last xs # butlast xs) {} a = received j xs (set xs - {hd xs}) a"
proof -
  have hd: "hd xs \<notin> set (take j (tl xs))"
    using assms(1,2) by (cases xs) (auto dest: in_set_takeD)
  show "given (Suc j) (last xs # butlast xs) {} a = given j xs (set xs - {hd xs}) a"
    using assms hd take_tl_pos [of a j "tl xs"] by (auto simp: given_def take_tl_rotated simp del: take_Suc_Cons list.sel)
  show "received (Suc j) (last xs # butlast xs) {} a = received j xs (set xs - {hd xs}) a"
    using assms hd by (auto simp: received_def take_tl_rotated distinct_card simp del: take_Suc_Cons list.sel)
qed

lemma count_end:
  assumes "distinct xs" and "xs \<noteq> []" and "Suc j = length xs" and "a \<in> set xs"
  shows "given j xs (set xs - {hd xs}) a = received j xs (set xs - {hd xs}) a"
proof -
  obtain x ys where xs: "xs = x # ys" using assms(2) by (cases xs) auto
  with assms have "j = length ys" "x \<notin> set ys" "distinct ys" by auto
  then show ?thesis
    using assms(4) by (cases ys) (auto simp: given_def received_def xs distinct_card)
qed

section \<open>The balances follow\<close>

text \<open>The ledger \<open>l\<close> differs from that of \<open>s\<close> by what has been given and received.\<close>

definition balanced ::
  "('l \<Rightarrow> u32 \<Rightarrow> 'a \<Rightarrow> nat) \<Rightarrow> RoscaDetails \<Rightarrow> ('a, 'l) pallet \<Rightarrow> 'l \<Rightarrow> 'a list \<Rightarrow> nat \<Rightarrow> 'a set \<Rightarrow> bool" where
  "balanced balance d s l xs j C \<longleftrightarrow> (\<forall>a \<in> set xs.
     balance l (asset_id (rd_payment_asset d)) a + unat (rd_contribution_amount d) * given j xs C a =
     balance (Ledger s) (asset_id (rd_payment_asset d)) a + unat (rd_contribution_amount d) * received j xs C a)"

definition in_step ::
  "('o, 'a, 'l) config \<Rightarrow> ('l \<Rightarrow> u32 \<Rightarrow> 'a \<Rightarrow> nat) \<Rightarrow> rosca_id \<Rightarrow> RoscaDetails \<Rightarrow> ('a, 'l) pallet \<Rightarrow> ('a, 'l) pallet \<Rightarrow> bool" where
  "in_step T balance r d s u \<longleftrightarrow> (\<exists>xs n f k j. playing T u r d xs n f k \<and> 0 < k \<and> j + k = length xs \<and>
     hd xs \<notin> dom (CurrentContributors u r) \<and> balanced balance d s (Ledger u) xs j (dom (CurrentContributors u r)))"

definition broke_even ::
  "('l \<Rightarrow> u32 \<Rightarrow> 'a \<Rightarrow> nat) \<Rightarrow> rosca_id \<Rightarrow> RoscaDetails \<Rightarrow> ('a, 'l) pallet \<Rightarrow> ('a, 'l) pallet \<Rightarrow> bool" where
  "broke_even balance r d s u \<longleftrightarrow> phase_of u r = Ended \<and> (\<forall>a \<in> dom (RoscaParticipants u r).
     balance (Ledger u) (asset_id (rd_payment_asset d)) a = balance (Ledger s) (asset_id (rd_payment_asset d)) a)"

lemma balanced_paid:
  assumes ex: "exact_transfers T balance"
    and l: "transfer T (asset_id (rd_payment_asset d)) signer (hd xs) (ucast (rd_contribution_amount d)) (Ledger u) = Inr l"
    and C: "finite C" "signer \<notin> C" "signer \<noteq> hd xs" and bal: "balanced balance d s (Ledger u) xs j C"
  shows "balanced balance d s l xs j (insert signer C)"
  unfolding balanced_def
proof
  let ?asset = "asset_id (rd_payment_asset d)" and ?A = "unat (rd_contribution_amount d)"
  fix a assume a: "a \<in> set xs"
  have "?A \<le> balance (Ledger u) ?asset signer"
    "balance l ?asset a = (if a = hd xs then balance (Ledger u) ?asset a + ?A
       else if a = signer then balance (Ledger u) ?asset a - ?A else balance (Ledger u) ?asset a)"
    using ex l C(3) unfolding exact_transfers_def by (fastforce simp: Let_def)+
  with bal a C show "balance l ?asset a + ?A * given j xs (insert signer C) a =
      balance (Ledger s) ?asset a + ?A * received j xs (insert signer C) a"
    by (auto simp: balanced_def count_contribution algebra_simps)
qed

lemma balanced_turned:
  assumes "balanced balance d s l xs j (set xs - {hd xs})" and "distinct xs" and "xs \<noteq> []" and "Suc j < length xs"
  shows "balanced balance d s l (last xs # butlast xs) (Suc j) {}"
  using assms count_round [OF assms(2-4)] set_last_butlast [OF assms(3)] unfolding balanced_def by simp

lemma balanced_ended:
  assumes "balanced balance d s l xs j (set xs - {hd xs})" and "distinct xs" and "xs \<noteq> []" and "Suc j = length xs" and "a \<in> set xs"
  shows "balance l (asset_id (rd_payment_asset d)) a = balance (Ledger s) (asset_id (rd_payment_asset d)) a"
  using assms(1,5) count_end [OF assms(2-5)] unfolding balanced_def by (metis add_right_cancel)

lemma playing_rounds_left:
  "playing T u r d xs n f k \<Longrightarrow> playing T u r d' xs' n' f' k' \<Longrightarrow> d' = d \<and> xs' = xs \<and> n' = n \<and> f' = f \<and> k' = k"
  by (auto simp: playing_def round_ok_def terms_ok_def word_less_nat_alt)

lemma last_contributor:
  assumes p: "playing T u r d xs n f k" and sg: "signer \<in> set xs" "signer \<noteq> hd xs" "CurrentContributors u r signer = None"
    and hd: "hd xs \<notin> dom (CurrentContributors u r)" and full: "\<not> unat (CurrentContributionCount u r) + 2 < length xs"
  shows "insert signer (dom (CurrentContributors u r)) = set xs - {hd xs}"
proof (rule card_subset_eq)
  let ?C = "dom (CurrentContributors u r)"
  have ok: "?C \<subseteq> set xs" "card ?C = unat (CurrentContributionCount u r)" "distinct xs" "xs \<noteq> []"
    using p by (auto simp: playing_def round_ok_def)
  then have fin: "finite ?C" by (auto intro: finite_subset)
  show sub: "insert signer ?C \<subseteq> set xs - {hd xs}" using ok(1) sg hd by auto
  have "card (insert signer ?C) = unat (CurrentContributionCount u r) + 1"
    using fin sg(3) ok(2) by (simp add: domIff)
  moreover have "card (set xs - {hd xs}) = length xs - 1"
    using ok(3,4) by (simp add: distinct_card)
  moreover have "card (insert signer ?C) \<le> card (set xs - {hd xs})"
    by (rule card_mono [OF _ sub]) simp
  ultimately show "card (insert signer ?C) = card (set xs - {hd xs})" using full by linarith
qed simp

lemma contribution_in_step:
  assumes inv: "pallet_inv T u" "clears_prefix T" and ex: "exact_transfers T balance" and step: "in_step T balance r d s u"
    and run: "contribute_to_rosca T origin r u = Some (Inr t)" "NextPayByTimestamp u r = Some n" "Now u < n"
  shows "in_step T balance r d s t \<or> broke_even balance r d s t"
  using inv run
proof (rule contribution_effect)
  fix signer d' xs f k l v
  assume p': "playing T u r d' xs n f k" and k: "0 < k" and sg: "signer \<in> set xs" "signer \<noteq> hd xs"
    "CurrentContributors u r signer = None"
    and l': "transfer T (asset_id (rd_payment_asset d')) signer (hd xs) (ucast (rd_contribution_amount d')) (Ledger u) = Inr l"
    and v': "v = paid r d' signer (hd xs) (u\<lparr>Ledger := l\<rparr>)"
    and t': "unat (CurrentContributionCount u r) + 2 < length xs \<and> t = v \<or>
     \<not> unat (CurrentContributionCount u r) + 2 < length xs \<and> k = 1 \<and> t = complete_rosca r v \<or>
     \<not> unat (CurrentContributionCount u r) + 2 < length xs \<and> 1 < k \<and> t = round_after r d' xs n v"
  let ?C = "dom (CurrentContributors u r)"
  obtain j where d: "d' = d" and p: "playing T u r d xs n f k" and j: "j + k = length xs" and hd: "hd xs \<notin> ?C"
    and bal: "balanced balance d s (Ledger u) xs j ?C"
    using step playing_rounds_left [OF p'] p' unfolding in_step_def by metis
  note l = l' [unfolded d] and v = v' [unfolded d] and t = t' [unfolded d]
  have xs: "distinct xs" "xs \<noteq> []" "finite ?C" "set xs = dom (RoscaParticipants u r)"
    using p by (auto simp: playing_def round_ok_def intro: finite_subset)
  have bal': "balanced balance d s l xs j (insert signer ?C)"
    using balanced_paid [OF ex l xs(3) _ sg(2) bal] sg(3) by blast
  have v_reads: "CurrentContributors v r = (CurrentContributors u r)(signer \<mapsto> ())" "Ledger v = l"
    "RoscaParticipants v r = RoscaParticipants u r"
    by (simp_all add: v paid_def deposit_event_def)
  show ?thesis
    using t
  proof (elim disjE conjE)
    assume "unat (CurrentContributionCount u r) + 2 < length xs" and tv: "t = v"
    then have "playing T v r d xs n f k"
      unfolding v by (intro playing_paid) (use p sg payer_frame(2) [OF p p frame_refl sg] in simp_all)
    then have "in_step T balance r d s t"
      unfolding in_step_def tv using k j hd sg(2) bal'
      by (intro exI [of _ xs] exI [of _ n] exI [of _ f] exI [of _ k] exI [of _ j]) (auto simp: v_reads)
    then show ?thesis ..
  next
    assume full: "\<not> unat (CurrentContributionCount u r) + 2 < length xs" and "k = 1" and tv: "t = complete_rosca r v"
    then show ?thesis
      using balanced_ended [OF bal' [unfolded last_contributor [OF p sg hd full]] xs(1,2)] j xs(4) v_reads phase_complete [of r v]
      by (simp add: broke_even_def complete_rosca_def deposit_event_def)
  next
    assume full: "\<not> unat (CurrentContributionCount u r) + 2 < length xs" and k1: "1 < k" and tv: "t = round_after r d xs n v"
    have "playing T t r d (last xs # butlast xs) (n + rd_contribution_frequency d) f (k - 1)"
      unfolding tv v by (rule playing_round_after_paid [OF p k])
    moreover have "balanced balance d s l (last xs # butlast xs) (Suc j) {}"
      using balanced_turned [OF bal' [unfolded last_contributor [OF p sg hd full]] xs(1,2)] j k1 by simp
    ultimately have "in_step T balance r d s t"
      unfolding in_step_def using k1 j xs(2) v_reads(2)
      by (intro exI [of _ "last xs # butlast xs"] exI [of _ "n + rd_contribution_frequency d"] exI [of _ f] exI [of _ "k - 1"]
          exI [of _ "Suc j"]) (simp add: tv round_after_def deposit_event_def)
    then show ?thesis ..
  qed
qed

section \<open>The circle closes\<close>

definition fair_so_far ::
  "('o, 'a, 'l) config \<Rightarrow> ('l \<Rightarrow> u32 \<Rightarrow> 'a \<Rightarrow> nat) \<Rightarrow> rosca_id \<Rightarrow> RoscaDetails \<Rightarrow> ('a, 'l) pallet \<Rightarrow> ('a, 'l) pallet \<Rightarrow> bool" where
  "fair_so_far T balance r d s u \<longleftrightarrow> pallet_inv T u \<and> RoscaParticipants u r = RoscaParticipants s r \<and>
     RoscaSecurityDeposits u r = RoscaSecurityDeposits s r \<and> DefaultCount u r = DefaultCount s r \<and>
     (in_step T balance r d s u \<or> broke_even balance r d s u)"

lemma contribution_fair:
  assumes "fair_so_far T balance r d s u" and "clears_prefix T" and "exact_transfers T balance"
    and run: "contribute_to_rosca T origin r u = Some (Inr t)" "NextPayByTimestamp u r = Some n" "Now u < n"
  shows "fair_so_far T balance r d s t"
proof -
  have inv: "pallet_inv T u" using assms(1) by (simp add: fair_so_far_def)
  obtain signer d' xs f k l v where p: "playing T u r d' xs n f k" and v: "v = paid r d' signer (hd xs) (u\<lparr>Ledger := l\<rparr>)"
    and t: "t = v \<or> t = complete_rosca r v \<or> t = round_after r d' xs n v"
    by (rule contribution_effect [OF inv assms(2) run]) blast
  have "\<not> broke_even balance r d s u"
    using p by (auto simp: broke_even_def phase_of_def playing_def split: if_splits)
  then have "in_step T balance r d s t \<or> broke_even balance r d s t"
    using contribution_in_step [OF inv assms(2,3) _ run] assms(1) by (auto simp: fair_so_far_def)
  moreover have "RoscaParticipants t r = RoscaParticipants u r" "RoscaSecurityDeposits t r = RoscaSecurityDeposits u r"
    "DefaultCount t r = DefaultCount u r"
    using t by (auto simp: v complete_rosca_def round_after_def paid_def deposit_event_def)
  moreover have "pallet_inv T t"
    by (rule contribute_to_rosca_inv [OF inv assms(2) run(1)])
  ultimately show ?thesis
    using assms(1) by (simp add: fair_so_far_def)
qed

lemma start_fair:
  assumes inv: "pallet_inv T s" and start: "start_rosca T origin r s = Inr t" and d: "PendingRoscaDetails s r = Some d"
  shows "fair_so_far T balance r d s t"
  using inv start
proof (rule start_rosca_started)
  fix signer d' xs n f
  assume a: "PendingRoscaDetails s r = Some d'" "pending_ok T s r d'" "xs \<noteq> []"
    "t = started r signer d' xs (round_plan xs (Now s) (rd_contribution_frequency d')) n f s"
    "round_ok T t r d' (last xs # butlast xs) n f (length xs)"
  have d': "d' = d" using a(1) d by simp
  have "playing T t r d (last xs # butlast xs) n f (length xs)"
    using started_playing [OF inv a(2,4,5)] d' by simp
  moreover have t: "CurrentContributors t r = Map.empty" "Ledger t = Ledger s" "RoscaParticipants t r = RoscaParticipants s r"
    "RoscaSecurityDeposits t r = RoscaSecurityDeposits s r" "DefaultCount t r = DefaultCount s r"
    using a(2) by (simp_all add: a(4) started_def deposit_event_def pending_ok_def)
  ultimately have "in_step T balance r d s t"
    using a(3) unfolding in_step_def
    by (intro exI [of _ "last xs # butlast xs"] exI [of _ n] exI [of _ f] exI [of _ "length xs"] exI [of _ 0])
      (simp add: balanced_def given_def received_def)
  with t start_rosca_inv [OF inv start] show ?thesis
    by (simp add: fair_so_far_def)
qed

lemma time_fair:
  assumes "fair_so_far T balance r d s u"
  shows "fair_so_far T balance r d s (u\<lparr>Now := now, BlockNumber := block, Events := []\<rparr>)"
proof -
  let ?u = "u\<lparr>Now := now, BlockNumber := block, Events := []\<rparr>"
  have "playing T ?u r d xs n f k = playing T u r d xs n f k" for xs n f k
    by (simp add: playing_def round_ok_def)
  then have "in_step T balance r d s ?u = in_step T balance r d s u"
    by (simp add: in_step_def)
  moreover have "broke_even balance r d s ?u = broke_even balance r d s u"
    by (simp add: broke_even_def phase_of_def)
  moreover have "pallet_inv T ?u"
    using assms by (simp add: fair_so_far_def pallet_inv_environment)
  ultimately show ?thesis
    using assms by (simp add: fair_so_far_def)
qed

lemma on_time_fair:
  assumes "on_time T r u t" and "fair_so_far T balance r d s u" and "clears_prefix T" and "exact_transfers T balance"
  shows "fair_so_far T balance r d s t"
  using assms(1) by cases (use contribution_fair [OF assms(2-4)] time_fair [OF assms(2)] in auto)

lemma run_fair:
  assumes "pallet_inv T s" and "clears_prefix T" and "exact_transfers T balance"
    and "start_rosca T origin r s = Inr s0" and "PendingRoscaDetails s r = Some d" and "(on_time T r)\<^sup>*\<^sup>* s0 t"
  shows "fair_so_far T balance r d s t"
  using assms(6)
  by (induction rule: rtranclp_induct) (use start_fair [OF assms(1,4,5)] on_time_fair [OF _ _ assms(2,3)] in blast)+

lemma playing_in_step: "fair_so_far T balance r d s u \<Longrightarrow> playing T u r d xs n f k \<Longrightarrow> in_step T balance r d s u"
  by (auto simp: fair_so_far_def broke_even_def phase_of_def playing_def split: if_splits)


section \<open>An honest circle completes\<close>

lemma given_bound:
  assumes "xs \<noteq> []" and "j < length xs" and "a \<in> set xs" and "a \<noteq> hd xs" and "a \<notin> C"
  shows "given j xs C a + 1 < length xs"
proof -
  obtain x ys where xs: "xs = x # ys" using assms(1) by (cases xs) auto
  with assms(3,4) have a: "a \<in> set ys" by auto
  show ?thesis
  proof (cases "a \<in> set (take j ys)")
    case True
    then show ?thesis using take_tl_pos [OF True] assms(2,5) by (simp add: given_def xs)
  next
    case False
    then have "j < length ys" using a by (metis not_less take_all)
    with False assms(5) show ?thesis by (simp add: given_def xs)
  qed
qed

text \<open>Everyone can give once more while it is their turn.\<close>

lemma can_afford:
  assumes step: "in_step T balance r d s u" and p: "playing T u r d xs n f k"
    and a: "a \<in> set xs" "a \<noteq> hd xs" "CurrentContributors u r a = None"
    and rich: "unat (rd_contribution_amount d) * (length xs - 1) \<le> balance (Ledger s) (asset_id (rd_payment_asset d)) a"
  shows "unat (rd_contribution_amount d) \<le> balance (Ledger u) (asset_id (rd_payment_asset d)) a"
proof -
  let ?A = "unat (rd_contribution_amount d)" and ?C = "dom (CurrentContributors u r)" and ?asset = "asset_id (rd_payment_asset d)"
  obtain j where j: "0 < k" "j + k = length xs"
    and bal: "balance (Ledger u) ?asset a + ?A * given j xs ?C a = balance (Ledger s) ?asset a + ?A * received j xs ?C a"
    using step playing_rounds_left [OF p] a(1) unfolding in_step_def balanced_def by metis
  have "xs \<noteq> []" "j < length xs" using a(1) j by auto
  then have "given j xs ?C a + 1 \<le> length xs - 1"
    using given_bound [of xs j a ?C] a by (simp add: domIff)
  then have "?A * (given j xs ?C a + 1) \<le> ?A * (length xs - 1)"
    by (rule mult_le_mono2)
  with rich bal show ?thesis by (simp add: algebra_simps) 
qed

definition rounds_ahead :: "('a, 'l) pallet \<Rightarrow> rosca_id \<Rightarrow> 'a list \<Rightarrow> nat \<Rightarrow> nat" where
  "rounds_ahead u r xs k = k * length xs - card (dom (CurrentContributors u r))"

lemma paid_ahead:
  assumes "finite (dom (CurrentContributors u r))" and "CurrentContributors u r signer = None"
    and "card (dom (CurrentContributors u r)) < k * length xs"
  shows "rounds_ahead (paid r d signer claimant (u\<lparr>Ledger := l\<rparr>)) r xs k < rounds_ahead u r xs k"
  using assms by (simp add: rounds_ahead_def paid_def deposit_event_def domIff)

lemma turned_ahead:
  assumes "card (dom (CurrentContributors u r)) < length xs" and "0 < k"
  shows "rounds_ahead (round_after r d ys n v) r (last xs # butlast xs) (k - 1) < rounds_ahead u r xs k"
proof -
  have "length (last xs # butlast xs) = length xs" using assms(1) by (cases xs) auto
  moreover obtain m where "k = Suc m" using assms(2) by (cases k) auto
  ultimately show ?thesis
    using assms(1) by (simp add: rounds_ahead_def round_after_def deposit_event_def)
qed

lemma missing_contributor:
  assumes "distinct xs" and "C \<subseteq> set xs" and "card C + 1 < length xs"
  shows "\<exists>a \<in> set xs. a \<noteq> hd xs \<and> a \<notin> C"
proof (rule ccontr)
  assume "\<not> ?thesis"
  then have "set xs \<subseteq> insert (hd xs) C" by auto
  then have "card (set xs) \<le> card (insert (hd xs) C)"
    using assms(2) by (intro card_mono) (auto intro: finite_subset)
  also have "\<dots> \<le> card C + 1"
    using assms(2) by (simp add: card_insert_if finite_subset)
  finally show False using assms(1,3) by (simp add: distinct_card)
qed

text \<open>The state after a contribution, and that it is nearer to the end.\<close>

definition contributed ::
  "rosca_id \<Rightarrow> RoscaDetails \<Rightarrow> 'a list \<Rightarrow> moment \<Rightarrow> nat \<Rightarrow> 'a \<Rightarrow> 'l \<Rightarrow> ('a, 'l) pallet \<Rightarrow> ('a, 'l) pallet" where
  "contributed r d xs n k signer l u =
     (let v = paid r d signer (hd xs) (u\<lparr>Ledger := l\<rparr>) in
      if unat (CurrentContributionCount u r) + 2 < length xs then v
      else if k = 1 then complete_rosca r v else round_after r d xs n v)"

lemma contributed_ahead:
  assumes p: "playing T u r d xs n f k" "0 < k" and time: "Now u < n"
    and sg: "signer \<in> set xs" "signer \<noteq> hd xs" "CurrentContributors u r signer = None"
    and t: "t = contributed r d xs n k signer l u"
  shows "phase_of t r = Ended \<or> (\<exists>xs' n' k'. playing T t r d xs' n' f k' \<and> 0 < k' \<and>
     length xs' = length xs \<and> set xs' = set xs \<and> Now t < n' \<and> rounds_ahead t r xs' k' < rounds_ahead u r xs k)"
proof -
  let ?C = "dom (CurrentContributors u r)" and ?v = "paid r d signer (hd xs) (u\<lparr>Ledger := l\<rparr>)"
  let ?w = "round_after r d xs n ?v"
  have len: "2 \<le> length xs" by (rule payer_frame(2) [OF p(1) p(1) frame_refl sg])
  then have ok: "round_ok T u r d xs n f k" "terms_ok d" "finite ?C" "card ?C < length xs"
    using p(1) by (auto simp: playing_def round_ok_def intro: finite_subset)
  have now: "Now ?v = Now u" "Now ?w = Now u"
    by (simp_all add: paid_def round_after_def deposit_event_def)
  consider (paying) "unat (CurrentContributionCount u r) + 2 < length xs" "t = ?v"
    | (ended) "phase_of t r = Ended" | (turned) "k \<noteq> 1" "t = ?w"
    using t phase_complete [of r ?v] by (auto simp: contributed_def Let_def split: if_splits)
  then show ?thesis
  proof cases
    case paying
    have "length xs \<le> k * length xs" using p(2) by simp
    then have "rounds_ahead ?v r xs k < rounds_ahead u r xs k"
      by (intro paid_ahead [OF ok(3) sg(3)]) (use ok(4) in linarith)
    moreover have "playing T ?v r d xs n f k"
      by (rule playing_paid) (use p(1) len sg paying(1) in simp_all)
    ultimately show ?thesis
      using paying(2) p(2) time now by auto
  next
    case turned
    have "playing T ?w r d (last xs # butlast xs) (n + rd_contribution_frequency d) f (k - 1)"
      by (rule playing_round_after_paid [OF p])
    moreover have "rounds_ahead ?w r (last xs # butlast xs) (k - 1) < rounds_ahead u r xs k"
      by (rule turned_ahead [OF ok(4) p(2)])
    moreover have "n < n + rd_contribution_frequency d"
      using round_ok_next_cutoff(2) [OF ok(1) p(2)] ok(2) by (simp add: word_less_nat_alt terms_ok_def)
    moreover have "length (last xs # butlast xs) = length xs" "set (last xs # butlast xs) = set xs"
      using len set_last_butlast [of xs] by (cases xs; simp)+
    ultimately show ?thesis
      using turned p(2) time now
      by (intro disjI2 exI [of _ "last xs # butlast xs"] exI [of _ "n + rd_contribution_frequency d"] exI [of _ "k - 1"]) auto
  qed simp
qed

lemma next_contribution:
  assumes inv: "pallet_inv T u" "clears_prefix T" and step: "in_step T balance r d s u"
    and p: "playing T u r d xs n f k" "0 < k" "2 \<le> length xs" and time: "Now u < n"
    and funded: "funded_transfers_succeed T balance"
    and rich: "\<forall>a \<in> set xs. unat (rd_contribution_amount d) * (length xs - 1) \<le> balance (Ledger s) (asset_id (rd_payment_asset d)) a"
    and sign: "\<forall>a \<in> set xs. \<exists>origin. ensure_signed T origin = Inr a"
  shows "\<exists>t. on_time T r u t \<and> (phase_of t r = Ended \<or> (\<exists>xs' n' k'. playing T t r d xs' n' f k' \<and> 0 < k' \<and>
     length xs' = length xs \<and> set xs' = set xs \<and> Now t < n' \<and> rounds_ahead t r xs' k' < rounds_ahead u r xs k))"
proof -
  let ?C = "dom (CurrentContributors u r)"
  have C: "distinct xs" "?C \<subseteq> set xs" "card ?C + 1 < length xs"
    using p(1,3) by (auto simp: playing_def round_ok_def)
  obtain signer where "signer \<in> set xs" "signer \<noteq> hd xs" "signer \<notin> ?C"
    using missing_contributor [OF C] by blast
  then have sg: "signer \<in> set xs" "signer \<noteq> hd xs" "CurrentContributors u r signer = None"
    by blast+
  obtain origin where signed: "ensure_signed T origin = Inr signer" using sign sg(1) by blast
  have "unat (ucast (rd_contribution_amount d) :: u128) \<le> balance (Ledger u) (asset_id (rd_payment_asset d)) signer"
    using can_afford [OF step p(1) sg] rich sg(1) by simp
  then obtain l where l: "transfer T (asset_id (rd_payment_asset d)) signer (hd xs) (ucast (rd_contribution_amount d)) (Ledger u) = Inr l"
    using funded unfolding funded_transfers_succeed_def by blast
  let ?t = "contributed r d xs n k signer l u"
  have "contribute_to_rosca T origin r u = Some (Inr ?t)"
    using contribute_before_cutoff(1) [OF p(1) signed sg time] l p inv(2) sg(3)
    by (simp add: contribute_payment_eq [where k = k] currency_transfer_def contributed_def Let_def)
  then have "on_time T r u ?t"
    by (rule on_time.contribution [OF _ _ time]) (use playing_reads [OF p(1)] in simp)
  then show ?thesis
    using contributed_ahead [OF p(1,2) time sg refl] by blast
qed

lemma honest_rounds:
  assumes cp: "clears_prefix T" and ex: "exact_transfers T balance" and funded: "funded_transfers_succeed T balance"
    and parts: "2 \<le> card (dom (RoscaParticipants s r))"
    and rich: "\<forall>a \<in> dom (RoscaParticipants s r). unat (rd_contribution_amount d) * (card (dom (RoscaParticipants s r)) - 1)
      \<le> balance (Ledger s) (asset_id (rd_payment_asset d)) a"
    and sign: "\<forall>a \<in> dom (RoscaParticipants s r). \<exists>o'. ensure_signed T o' = Inr a"
    and "fair_so_far T balance r d s u" and "playing T u r d xs n f k" and "0 < k" and "Now u < n"
    and "set xs = dom (RoscaParticipants s r)" and "length xs = card (dom (RoscaParticipants s r))"
  shows "\<exists>t. (on_time T r)\<^sup>*\<^sup>* u t \<and> phase_of t r = Ended"
  using assms(7-)
proof (induction "rounds_ahead u r xs k" arbitrary: u xs n k rule: less_induct)
  case less
  have "pallet_inv T u" "2 \<le> length xs" using less.prems(1,6) parts by (simp_all add: fair_so_far_def)
  then obtain t where t: "on_time T r u t" "phase_of t r = Ended \<or> (\<exists>xs' n' k'. playing T t r d xs' n' f k' \<and> 0 < k' \<and>
      length xs' = length xs \<and> set xs' = set xs \<and> Now t < n' \<and> rounds_ahead t r xs' k' < rounds_ahead u r xs k)"
    using next_contribution [OF _ cp playing_in_step [OF less.prems(1,2)] less.prems(2,3) _ less.prems(4) funded]
      rich sign less.prems(5,6) by (metis (no_types, lifting))
  have "\<exists>v. (on_time T r)\<^sup>*\<^sup>* t v \<and> phase_of v r = Ended"
    using t(2)
  proof (elim disjE exE conjE)
    fix xs' n' k'
    assume "playing T t r d xs' n' f k'" "0 < k'" "length xs' = length xs" "set xs' = set xs" "Now t < n'"
      "rounds_ahead t r xs' k' < rounds_ahead u r xs k"
    then show ?thesis
      using less.hyps [of t xs' k' n'] on_time_fair [OF t(1) less.prems(1) cp ex] less.prems(5,6) by simp
  qed blast
  with t(1) show ?case by (meson converse_rtranclp_into_rtranclp)
qed


section \<open>An example\<close>

text \<open>The six contributions of the three rounds, every one before its cutoff.\<close>

fun contribute_all :: "nat list \<Rightarrow> (nat, demo_ledger) pallet \<Rightarrow> (nat, demo_ledger) pallet option" where
  "contribute_all [] s = Some s"
| "contribute_all (a # as) s = (case NextPayByTimestamp s 0 of None \<Rightarrow> None | Some n \<Rightarrow>
     (case contribute_to_rosca demo a 0 s of
        Some (Inr t) \<Rightarrow> if Now s < n then contribute_all as t else None
      | _ \<Rightarrow> None))"

lemma contribute_all_on_time: "contribute_all as s = Some t \<Longrightarrow> (on_time demo 0)\<^sup>*\<^sup>* s t"
proof (induction as arbitrary: s)
  case (Cons a as)
  then obtain n u where "NextPayByTimestamp s 0 = Some n" "contribute_to_rosca demo a 0 s = Some (Inr u)" "Now s < n"
    "contribute_all as u = Some t"
    by (auto split: option.splits sum.splits if_splits)
  with Cons.IH show ?case
    by (meson converse_rtranclp_into_rtranclp on_time.contribution)
qed simp

lemma demo_all_contribute:
  "\<exists>t. contribute_all [13, 12, 11, 13, 12, 11] (projr (start_rosca demo 13 0 demo_open)) = Some t \<and> phase_of t 0 = Ended"
  unfolding demo_start
  by (simp add: contribute_to_rosca_def contribute_guards_def run_loop_exit catch_up_body_def catch_up_iteration_def
      contribute_payment_def currency_transfer_def demo_transfer_def deposit_event_def clear_contributions_def
      complete_rosca_def checked_add_def try_rotate_right_def rotate_right_def phase_of_def demo_defs Let_def)



end
