(* ===== verification/Weight_Ops.thy ===== *)
theory Weight_Ops
  imports Rust_Prelude
begin

text \<open>
  Weights as the files under \<open>runtime/src/weights\<close> compute them. The type \<open>Weight\<close>, its saturating
  operations and \<open>RuntimeDbWeight\<close> come from the \<open>sp-weights\<close> crate, so a weight function takes them as
  an argument \<open>W\<close>; \<open>sp_weights W\<close> states what that crate documents of them. The database weights
  \<open>T::DbWeight\<close> are a second argument.

  The functions are generic in the weight type, so the same definition can also be run on plain
  pairs of natural numbers (\<open>exact_weights\<close>), where nothing saturates, and on pairs of counters
  (\<open>access_counts\<close>), which gives the number of reads and writes a function charges. The relation
  \<open>tracks\<close> carries a function from one reading to the other, one rule per operation.
\<close>

section \<open>The operations on weights\<close>

record RuntimeDbWeight =
  db_read :: u64
  db_write :: u64

record 'w weight_ops =
  from_parts :: "u64 \<Rightarrow> u64 \<Rightarrow> 'w"
  weight_add :: "'w \<Rightarrow> 'w \<Rightarrow> 'w"
  weight_mul :: "'w \<Rightarrow> u64 \<Rightarrow> 'w"
  db_reads :: "RuntimeDbWeight \<Rightarrow> u64 \<Rightarrow> 'w"
  db_writes :: "RuntimeDbWeight \<Rightarrow> u64 \<Rightarrow> 'w"
  ref_time :: "'w \<Rightarrow> u64"
  proof_size :: "'w \<Rightarrow> u64"

text \<open>
  What \<open>sp-weights\<close> documents: a weight is made of its two parts, \<open>saturating_add\<close> and
  \<open>saturating_mul\<close> work on each part, and a database access costs reference time only.
\<close>

definition sp_weights :: "'w weight_ops \<Rightarrow> bool" where
  "sp_weights W \<longleftrightarrow>
     (\<forall>r p. ref_time W (from_parts W r p) = r \<and> proof_size W (from_parts W r p) = p)
   \<and> (\<forall>x y. ref_time W (weight_add W x y) = saturating_add (ref_time W x) (ref_time W y)
          \<and> proof_size W (weight_add W x y) = saturating_add (proof_size W x) (proof_size W y))
   \<and> (\<forall>x n. ref_time W (weight_mul W x n) = saturating_mul (ref_time W x) n
          \<and> proof_size W (weight_mul W x n) = saturating_mul (proof_size W x) n)
   \<and> (\<forall>d n. ref_time W (db_reads W d n) = saturating_mul (db_read d) n
          \<and> proof_size W (db_reads W d n) = 0)
   \<and> (\<forall>d n. ref_time W (db_writes W d n) = saturating_mul (db_write d) n
          \<and> proof_size W (db_writes W d n) = 0)"

text \<open>The exact reading: no bound on either part.\<close>

definition exact_weights :: "(nat \<times> nat) weight_ops" where
  "exact_weights = \<lparr>
     from_parts = (\<lambda>r p. (unat r, unat p)),
     weight_add = (\<lambda>x y. (fst x + fst y, snd x + snd y)),
     weight_mul = (\<lambda>x n. (fst x * unat n, snd x * unat n)),
     db_reads = (\<lambda>d n. (unat (db_read d) * unat n, 0)),
     db_writes = (\<lambda>d n. (unat (db_write d) * unat n, 0)),
     ref_time = (\<lambda>x. of_nat (fst x)),
     proof_size = (\<lambda>x. of_nat (snd x))\<rparr>"

text \<open>The counting reading: how many reads and writes are charged.\<close>

definition access_counts :: "(nat \<times> nat) weight_ops" where
  "access_counts = \<lparr>
     from_parts = (\<lambda>r p. (0, 0)),
     weight_add = (\<lambda>x y. (fst x + fst y, snd x + snd y)),
     weight_mul = (\<lambda>x n. (fst x * unat n, snd x * unat n)),
     db_reads = (\<lambda>d n. (unat n, 0)),
     db_writes = (\<lambda>d n. (0, unat n)),
     ref_time = (\<lambda>x. 0),
     proof_size = (\<lambda>x. 0)\<rparr>"

text \<open>A pair of words with saturating parts: the instance the crate itself has.\<close>

definition word_weights :: "(u64 \<times> u64) weight_ops" where
  "word_weights = \<lparr>
     from_parts = Pair,
     weight_add = (\<lambda>x y. (saturating_add (fst x) (fst y), saturating_add (snd x) (snd y))),
     weight_mul = (\<lambda>x n. (saturating_mul (fst x) n, saturating_mul (snd x) n)),
     db_reads = (\<lambda>d n. (saturating_mul (db_read d) n, 0)),
     db_writes = (\<lambda>d n. (saturating_mul (db_write d) n, 0)),
     ref_time = fst,
     proof_size = snd\<rparr>"

lemma sp_weights_word_weights: "sp_weights word_weights"
  by (simp add: sp_weights_def word_weights_def)

section \<open>From saturating to exact weights\<close>

definition db_le :: "RuntimeDbWeight \<Rightarrow> RuntimeDbWeight \<Rightarrow> bool" where
  "db_le d d' \<longleftrightarrow> db_read d \<le> db_read d' \<and> db_write d \<le> db_write d'"

definition fits_u64 :: "nat \<times> nat \<Rightarrow> bool" where
  "fits_u64 b \<longleftrightarrow> fst b < 2 ^ 64 \<and> snd b < 2 ^ 64"

definition weight_le :: "nat \<times> nat \<Rightarrow> nat \<times> nat \<Rightarrow> bool" where
  "weight_le a b \<longleftrightarrow> fst a \<le> fst b \<and> snd a \<le> snd b"

definition weighs :: "'w weight_ops \<Rightarrow> 'w \<Rightarrow> nat \<times> nat \<Rightarrow> bool" where
  "weighs W w a \<longleftrightarrow> unat (ref_time W w) = fst a \<and> unat (proof_size W w) = snd a"

text \<open>
  \<open>tracks W w a b\<close>: \<open>a\<close> is below \<open>b\<close>, and \<open>w\<close> is exactly \<open>a\<close> unless \<open>b\<close> leaves the range of \<open>u64\<close>.
\<close>

definition tracks :: "'w weight_ops \<Rightarrow> 'w \<Rightarrow> nat \<times> nat \<Rightarrow> nat \<times> nat \<Rightarrow> bool" where
  "tracks W w a b \<longleftrightarrow> weight_le a b \<and> (fits_u64 b \<longrightarrow> weighs W w a)"

named_theorems tracking \<open>one rule per operation on weights\<close>

lemma tracks_from_parts [tracking]:
  "sp_weights W \<Longrightarrow> tracks W (from_parts W r p) (from_parts exact_weights r p) (from_parts exact_weights r p)"
  by (simp add: tracks_def weight_le_def weighs_def sp_weights_def exact_weights_def)

lemma unat_saturating_add_exact:
  "unat a + unat b < 2 ^ LENGTH('n) \<Longrightarrow> unat (saturating_add a b) = unat a + unat b"
  for a b :: "'n::len word"
  by (simp add: saturating_add_def unat_plus_no_overflow)

lemma unat_saturating_mul_exact:
  "unat a * unat b < 2 ^ LENGTH('n) \<Longrightarrow> unat (saturating_mul a b) = unat a * unat b"
  for a b :: "'n::len word"
  by (simp add: saturating_mul_def unat_word_ariths)

lemma sp_weights_parts:
  assumes "sp_weights W"
  shows "ref_time W (weight_add W x y) = saturating_add (ref_time W x) (ref_time W y)"
    and "proof_size W (weight_add W x y) = saturating_add (proof_size W x) (proof_size W y)"
    and "ref_time W (weight_mul W x n) = saturating_mul (ref_time W x) n"
    and "proof_size W (weight_mul W x n) = saturating_mul (proof_size W x) n"
  using assms by (simp_all add: sp_weights_def)

lemma tracks_add [tracking]:
  assumes "sp_weights W" and x: "tracks W x a b" and y: "tracks W y a' b'"
  shows "tracks W (weight_add W x y) (weight_add exact_weights a a') (weight_add exact_weights b b')"
proof -
  have le: "fst a \<le> fst b" "snd a \<le> snd b" "fst a' \<le> fst b'" "snd a' \<le> snd b'"
    using x y by (simp_all add: tracks_def weight_le_def)
  have "weighs W (weight_add W x y) (fst a + fst a', snd a + snd a')"
    if fits: "fst b + fst b' < 2 ^ 64" "snd b + snd b' < 2 ^ 64"
  proof -
    have "weighs W x a" "weighs W y a'"
      using x y fits by (simp_all add: tracks_def fits_u64_def)
    then show ?thesis
      using le fits by (simp add: weighs_def sp_weights_parts [OF assms(1)] unat_saturating_add_exact)
  qed
  then show ?thesis
    using le by (simp add: tracks_def weight_le_def fits_u64_def exact_weights_def)
qed

lemma tracks_mul [tracking]:
  assumes "sp_weights W" and x: "tracks W x a b" and n: "n \<le> n'"
  shows "tracks W (weight_mul W x n) (weight_mul exact_weights a n) (weight_mul exact_weights b n')"
proof -
  have le: "fst a * unat n \<le> fst b * unat n'" "snd a * unat n \<le> snd b * unat n'"
    using x n by (auto simp: tracks_def weight_le_def word_le_nat_alt intro: mult_le_mono)
  have "weighs W (weight_mul W x n) (fst a * unat n, snd a * unat n)"
    if fits: "fst b * unat n' < 2 ^ 64" "snd b * unat n' < 2 ^ 64"
  proof (cases "unat n = 0")
    case True
    then show ?thesis
      using assms(1) by (simp add: weighs_def sp_weights_def unat_saturating_mul)
  next
    case False
    then have "unat n' \<noteq> 0" using n by (simp add: word_le_nat_alt)
    then have "fst b \<le> fst b * unat n'" "snd b \<le> snd b * unat n'" by simp_all
    then have "fits_u64 b"
      unfolding fits_u64_def by (meson fits le_less_trans)
    then have w: "unat (ref_time W x) = fst a" "unat (proof_size W x) = snd a"
      using x by (simp_all add: tracks_def weighs_def)
    show ?thesis
      using le fits w by (simp add: weighs_def sp_weights_parts [OF assms(1)] unat_saturating_mul_exact)
  qed
  then show ?thesis
    using le by (simp add: tracks_def weight_le_def fits_u64_def exact_weights_def)
qed

lemma tracks_reads [tracking]:
  assumes "sp_weights W" "db_le d d'" "n \<le> n'"
  shows "tracks W (db_reads W d n) (db_reads exact_weights d n) (db_reads exact_weights d' n')"
proof -
  have "unat (db_read d) * unat n \<le> unat (db_read d') * unat n'"
    using assms by (auto simp: db_le_def word_le_nat_alt intro: mult_le_mono)
  then show ?thesis
    using assms(1)
    by (simp add: tracks_def weight_le_def fits_u64_def weighs_def sp_weights_def exact_weights_def
        unat_saturating_mul_exact)
qed

lemma tracks_writes [tracking]:
  assumes "sp_weights W" "db_le d d'" "n \<le> n'"
  shows "tracks W (db_writes W d n) (db_writes exact_weights d n) (db_writes exact_weights d' n')"
proof -
  have "unat (db_write d) * unat n \<le> unat (db_write d') * unat n'"
    using assms by (auto simp: db_le_def word_le_nat_alt intro: mult_le_mono)
  then show ?thesis
    using assms(1)
    by (simp add: tracks_def weight_le_def fits_u64_def weighs_def sp_weights_def exact_weights_def
        unat_saturating_mul_exact)
qed

lemma unat_into_u64: "unat (ucast c :: u64) = unat c" for c :: u32
  by (simp add: unsigned_ucast_eq take_bit_nat_eq_self_iff less_le_trans [OF unsigned_less])

lemma ucast_mono [tracking]: "c \<le> c' \<Longrightarrow> (ucast c :: u64) \<le> ucast c'" for c c' :: u32
  by (simp add: word_le_nat_alt unat_into_u64)

lemma saturating_mul_mono [tracking]: "n \<le> n' \<Longrightarrow> saturating_mul k n \<le> saturating_mul k n'"
  for k n n' :: u64
  unfolding word_le_nat_alt unat_saturating_mul by (intro min.mono mult_le_mono) simp_all

section \<open>Weight functions and their annotations\<close>

text \<open>\<open>x.saturating_add(a).saturating_add(b)\<close> and so on is \<open>saturating_adds W x [a, b]\<close>.\<close>

definition saturating_adds :: "'w weight_ops \<Rightarrow> 'w \<Rightarrow> 'w list \<Rightarrow> 'w" where
  "saturating_adds W = foldl (weight_add W)"

lemma saturating_adds_simps:
  "saturating_adds W x [] = x"
  "saturating_adds W x (y # ys) = saturating_adds W (weight_add W x y) ys"
  by (simp_all add: saturating_adds_def)

text \<open>
  A function of a \<open>WeightInfo\<close> implementation with what the comments around it declare: the range of each
  component, the reads and writes summed over its \<open>Storage\<close> lines, and the line \<open>Estimated\<close> as a constant
  and a coefficient per component.
\<close>

record 'w benchmark =
  bm_name :: string
  bm_range :: "(nat \<times> nat) list"
  bm_storage :: "nat \<times> nat"
  bm_estimate :: "nat \<times> nat list"
  bm_weight :: "'w weight_ops \<Rightarrow> RuntimeDbWeight \<Rightarrow> u32 list \<Rightarrow> 'w"

definition in_range :: "(nat \<times> nat) list \<Rightarrow> u32 list \<Rightarrow> bool" where
  "in_range rs xs \<longleftrightarrow> list_all2 (\<lambda>r x. fst r \<le> unat x \<and> unat x \<le> snd r) rs xs"

definition upper_end :: "(nat \<times> nat) list \<Rightarrow> u32 list" where
  "upper_end rs = map (\<lambda>r. of_nat (snd r)) rs"

definition estimated_size :: "nat \<times> nat list \<Rightarrow> u32 list \<Rightarrow> nat" where
  "estimated_size e xs = fst e + sum_list (map2 (\<lambda>k x. k * unat x) (snd e) xs)"

definition tracked :: "'w weight_ops \<Rightarrow> 'w benchmark \<Rightarrow> (nat \<times> nat) benchmark \<Rightarrow> bool" where
  "tracked W f g \<longleftrightarrow> bm_name f = bm_name g \<and> bm_range f = bm_range g \<and> bm_estimate f = bm_estimate g \<and>
     (\<forall>d d' xs ys. db_le d d' \<longrightarrow> length xs = length (bm_range f) \<longrightarrow> list_all2 (\<le>) xs ys \<longrightarrow>
        tracks W (bm_weight f W d xs) (bm_weight g exact_weights d xs) (bm_weight g exact_weights d' ys))"

definition worst_case :: "RuntimeDbWeight \<Rightarrow> (nat \<times> nat) benchmark \<Rightarrow> nat \<times> nat" where
  "worst_case d f = bm_weight f exact_weights d (upper_end (bm_range f))"

text \<open>
  What the theories below show of each table: no worst case leaves \<open>u64\<close> even when every database
  access takes a millisecond, the ranges are ranges of \<open>u32\<close>, and the proof size is the estimate.
\<close>

definition slow_db :: RuntimeDbWeight where
  "slow_db = \<lparr>db_read = 1000000000, db_write = 1000000000\<rparr>"

definition bounded :: "(nat \<times> nat) benchmark \<Rightarrow> bool" where
  "bounded f \<longleftrightarrow> fits_u64 (worst_case slow_db f) \<and> (\<forall>r\<in>set (bm_range f). snd r < 2 ^ 32)"

definition well_estimated :: "(nat \<times> nat) benchmark \<Rightarrow> bool" where
  "well_estimated f \<longleftrightarrow> (\<forall>d xs. in_range (bm_range f) xs \<longrightarrow>
     snd (bm_weight f exact_weights d xs) = estimated_size (bm_estimate f) xs)"

lemma trackedI:
  assumes "\<And>d d' xs ys. db_le d d' \<Longrightarrow> length xs = length rs \<Longrightarrow> list_all2 (\<le>) xs ys \<Longrightarrow>
     tracks W (f W d xs) (g exact_weights d xs) (g exact_weights d' ys)"
  shows "tracked W \<lparr>bm_name = n, bm_range = rs, bm_storage = s, bm_estimate = e, bm_weight = f\<rparr>
     \<lparr>bm_name = n, bm_range = rs, bm_storage = s, bm_estimate = e, bm_weight = g\<rparr>"
  using assms by (simp add: tracked_def)

lemma nth_le [tracking]: "list_all2 (\<le>) xs ys \<Longrightarrow> i < length xs \<Longrightarrow> xs ! i \<le> ys ! i"
  for xs ys :: "u32 list"
  by (rule list_all2_nthD)

lemma word_le_refl [tracking]: "n \<le> n" for n :: u64
  by simp

lemma in_range_Nil [simp]: "in_range [] xs \<longleftrightarrow> xs = []"
  by (simp add: in_range_def)

lemma in_range_Cons [simp]:
  "in_range (r # rs) xs \<longleftrightarrow> (\<exists>y ys. xs = y # ys \<and> fst r \<le> unat y \<and> unat y \<le> snd r \<and> in_range rs ys)"
  by (auto simp: in_range_def list_all2_Cons1)

lemma in_range_length: "in_range rs xs \<Longrightarrow> length xs = length rs"
  by (simp add: in_range_def list_all2_lengthD [symmetric])

lemma in_range_le_upper_end:
  assumes "in_range rs xs" and "\<forall>r\<in>set rs. snd r < 2 ^ 32"
  shows "list_all2 (\<le>) xs (upper_end rs)"
  using assms
  by (induction rs arbitrary: xs) (auto simp: upper_end_def word_le_nat_alt unat_of_nat)

lemmas weight_eval = saturating_adds_simps exact_weights_def upper_end_def fits_u64_def worst_case_def
  unat_saturating_mul unat_into_u64

lemma tracked_exact:
  assumes "list_all2 (tracked W) T T'" and "list_all bounded T'" and i: "i < length T"
    and rng: "in_range (bm_range (T ! i)) xs" and d: "db_le d slow_db"
  shows "weighs W (bm_weight (T ! i) W d xs) (bm_weight (T' ! i) exact_weights d xs)"
proof -
  have tr: "tracked W (T ! i) (T' ! i)" and b: "bounded (T' ! i)"
    using assms(1,2) i by (auto simp: list_all2_conv_all_nth list_all_length)
  then have "in_range (bm_range (T' ! i)) xs"
    using rng by (simp add: tracked_def)
  moreover have "\<forall>r\<in>set (bm_range (T' ! i)). snd r < 2 ^ 32"
    using b unfolding bounded_def by blast
  ultimately have "list_all2 (\<le>) xs (upper_end (bm_range (T' ! i)))"
    by (rule in_range_le_upper_end)
  then have "tracks W (bm_weight (T ! i) W d xs) (bm_weight (T' ! i) exact_weights d xs)
      (worst_case slow_db (T' ! i))"
    using tr d in_range_length [OF rng] unfolding tracked_def worst_case_def by blast
  then show ?thesis
    using b by (simp add: tracks_def bounded_def)
qed

lemma tracked_le:
  assumes "list_all2 (tracked W) T T'" and i: "i < length T"
    and "length xs = length (bm_range (T ! i))" and "list_all2 (\<le>) xs ys" and "db_le d d'"
  shows "weight_le (bm_weight (T' ! i) exact_weights d xs) (bm_weight (T' ! i) exact_weights d' ys)"
proof -
  have "tracked W (T ! i) (T' ! i)"
    using assms(1) i by (simp add: list_all2_conv_all_nth)
  then show ?thesis
    using assms(3-) by (auto simp: tracked_def tracks_def)
qed

end
