(* ===== verification/Runtime_Constants.thy ===== *)
theory Runtime_Constants
  imports Weight_Ops
begin

text \<open>
  The constants of the runtime: \<open>runtime/src/constants.rs\<close>, the base and database weights of
  \<open>runtime/src/weights\<close>, the fee polynomial of \<open>runtime/src/lib.rs\<close> and the \<open>parameter_types!\<close> of
  \<open>runtime/src/configs/mod.rs\<close> and \<open>configs/governance/mod.rs\<close>. What the sources take from other crates
  (the constants of \<open>sp-weights\<close>, the size of a proof of validity, \<open>Perbill\<close>) is the record
  \<open>primitives\<close>, and \<open>documented E\<close> is what those crates document of it.
\<close>

section \<open>What other crates provide\<close>

datatype dispatch_class = Normal | Operational | Mandatory

record 'w class_settings =
  base_extrinsic :: 'w
  max_total :: "'w option"
  reserved :: "'w option"

record ('w, 'p) primitives =
  weights_of :: "'w weight_ops"
  WEIGHT_REF_TIME_PER_SECOND :: u64
  WEIGHT_REF_TIME_PER_NANOS :: u64
  MAX_POV_SIZE :: u32
  weight_sub :: "'w \<Rightarrow> 'w \<Rightarrow> 'w"
  weight_div :: "'w \<Rightarrow> u64 \<Rightarrow> 'w"
  from_percent :: "u32 \<Rightarrow> 'p"
  from_rational :: "u128 \<Rightarrow> u128 \<Rightarrow> 'p"
  perbill_of :: "'p \<Rightarrow> 'w \<Rightarrow> 'w"
  builder_default :: "dispatch_class \<Rightarrow> 'w class_settings"
  max_block_of :: "(dispatch_class \<Rightarrow> 'w class_settings) \<Rightarrow> 'w"

text \<open>
  \<open>parts E w\<close> reads both parts of a weight as natural numbers.
\<close>

definition parts :: "('w, 'p) primitives \<Rightarrow> 'w \<Rightarrow> nat \<times> nat" where
  "parts E w = (unat (ref_time (weights_of E) w), unat (proof_size (weights_of E) w))"

text \<open>
  A picosecond is the unit of reference time; a percentage of a weight is exact where it is a whole
  number; a difference and a quotient of weights work on each part; the weight of a block is that of
  the class with the largest limit, and mandatory extrinsics have no limit of their own.
\<close>

definition documented :: "('w, 'p) primitives \<Rightarrow> bool" where
  "documented E \<longleftrightarrow> sp_weights (weights_of E)
   \<and> WEIGHT_REF_TIME_PER_SECOND E = 1000000000000 \<and> WEIGHT_REF_TIME_PER_NANOS E = 1000
   \<and> MAX_POV_SIZE E = 5 * 1024 * 1024
   \<and> (\<forall>n w. n \<le> 100 \<longrightarrow> 100 dvd unat n * fst (parts E w) \<longrightarrow> 100 dvd unat n * snd (parts E w) \<longrightarrow>
        parts E (perbill_of E (from_percent E n) w)
          = (unat n * fst (parts E w) div 100, unat n * snd (parts E w) div 100))
   \<and> (\<forall>x y. weight_le (parts E y) (parts E x) \<longrightarrow>
        parts E (weight_sub E x y) = (fst (parts E x) - fst (parts E y), snd (parts E x) - snd (parts E y)))
   \<and> (\<forall>x n. n \<noteq> 0 \<longrightarrow>
        parts E (weight_div E x n) = (fst (parts E x) div unat n, snd (parts E x) div unat n))
   \<and> (\<forall>S c m. max_total (S c) = Some m \<longrightarrow>
        (\<forall>c' m'. max_total (S c') = Some m' \<longrightarrow> weight_le (parts E m') (parts E m)) \<longrightarrow>
        parts E (max_block_of E S) = parts E m)
   \<and> max_total (builder_default E Mandatory) = None"

section \<open>Currency\<close>

type_synonym balance = u128

definition MICROCENTS :: balance where "MICROCENTS = 1000000"
definition MILLICENTS :: balance where "MILLICENTS = 1000000000"
definition CENTS :: balance where "CENTS = 1000 * MILLICENTS"
definition DOLLARS :: balance where "DOLLARS = 100 * CENTS"
definition GRAND :: balance where "GRAND = 1000 * DOLLARS"
definition EXISTENTIAL_DEPOSIT :: balance where "EXISTENTIAL_DEPOSIT = MILLICENTS"

definition deposit :: "u32 \<Rightarrow> u32 \<Rightarrow> balance" where
  "deposit items bytes = ucast items * 15 * CENTS + ucast bytes * 6 * CENTS"

section \<open>Time\<close>

type_synonym block_number = u32

definition MILLISECS_PER_BLOCK :: u64 where "MILLISECS_PER_BLOCK = 6000"
definition SLOT_DURATION :: u64 where "SLOT_DURATION = MILLISECS_PER_BLOCK"
definition MINUTES :: block_number where "MINUTES = 60000 div ucast MILLISECS_PER_BLOCK"
definition HOURS :: block_number where "HOURS = MINUTES * 60"
definition DAYS :: block_number where "DAYS = HOURS * 24"

definition UNINCLUDED_SEGMENT_CAPACITY :: u32 where "UNINCLUDED_SEGMENT_CAPACITY = 3"
definition BLOCK_PROCESSING_VELOCITY :: u32 where "BLOCK_PROCESSING_VELOCITY = 1"
definition RELAY_CHAIN_SLOT_DURATION_MILLIS :: u32 where "RELAY_CHAIN_SLOT_DURATION_MILLIS = 6000"

section \<open>Block limits\<close>

definition AVERAGE_ON_INITIALIZE_RATIO :: "('w, 'p) primitives \<Rightarrow> 'p" where
  "AVERAGE_ON_INITIALIZE_RATIO E = from_percent E 5"

definition NORMAL_DISPATCH_RATIO :: "('w, 'p) primitives \<Rightarrow> 'p" where
  "NORMAL_DISPATCH_RATIO E = from_percent E 75"

definition MAXIMUM_BLOCK_WEIGHT :: "('w, 'p) primitives \<Rightarrow> 'w" where
  "MAXIMUM_BLOCK_WEIGHT E = from_parts (weights_of E)
     (saturating_mul (WEIGHT_REF_TIME_PER_SECOND E) 2) (ucast (MAX_POV_SIZE E))"

definition MAX_BLOCK_LENGTH :: u32 where "MAX_BLOCK_LENGTH = 5 * 1024 * 1024"

definition BlockExecutionWeight :: "('w, 'p) primitives \<Rightarrow> 'w" where
  "BlockExecutionWeight E =
     from_parts (weights_of E) (saturating_mul (WEIGHT_REF_TIME_PER_NANOS E) 5000000) 0"

definition ExtrinsicBaseWeight :: "('w, 'p) primitives \<Rightarrow> 'w" where
  "ExtrinsicBaseWeight E =
     from_parts (weights_of E) (saturating_mul (WEIGHT_REF_TIME_PER_NANOS E) 125000) 0"

definition RocksDbWeight :: "('w, 'p) primitives \<Rightarrow> RuntimeDbWeight" where
  "RocksDbWeight E = \<lparr>db_read = 25000 * WEIGHT_REF_TIME_PER_NANOS E,
     db_write = 100000 * WEIGHT_REF_TIME_PER_NANOS E\<rparr>"

definition ParityDbWeight :: "('w, 'p) primitives \<Rightarrow> RuntimeDbWeight" where
  "ParityDbWeight E = \<lparr>db_read = 8000 * WEIGHT_REF_TIME_PER_NANOS E,
     db_write = 50000 * WEIGHT_REF_TIME_PER_NANOS E\<rparr>"

text \<open>
  The settings \<open>RuntimeBlockWeights\<close> hands to the builder of \<open>frame_system::limits\<close>, by dispatch class.
\<close>

definition RuntimeBlockWeights :: "('w, 'p) primitives \<Rightarrow> dispatch_class \<Rightarrow> 'w class_settings" where
  "RuntimeBlockWeights E c =
     (let normal = perbill_of E (NORMAL_DISPATCH_RATIO E) (MAXIMUM_BLOCK_WEIGHT E);
          weights = (builder_default E c)\<lparr>base_extrinsic := ExtrinsicBaseWeight E\<rparr>
      in case c of
           Normal \<Rightarrow> weights\<lparr>max_total := Some normal\<rparr>
         | Operational \<Rightarrow> weights\<lparr>max_total := Some (MAXIMUM_BLOCK_WEIGHT E),
             reserved := Some (weight_sub E (MAXIMUM_BLOCK_WEIGHT E) normal)\<rparr>
         | Mandatory \<Rightarrow> weights)"

definition MaximumSchedulerWeight :: "('w, 'p) primitives \<Rightarrow> 'w" where
  "MaximumSchedulerWeight E = perbill_of E (from_percent E 80) (max_block_of E (RuntimeBlockWeights E))"

definition MessageQueueServiceWeight :: "('w, 'p) primitives \<Rightarrow> 'w" where
  "MessageQueueServiceWeight E = perbill_of E (from_percent E 35) (max_block_of E (RuntimeBlockWeights E))"

definition ReservedXcmpWeight :: "('w, 'p) primitives \<Rightarrow> 'w" where
  "ReservedXcmpWeight E = weight_div E (MAXIMUM_BLOCK_WEIGHT E) 4"

definition ReservedDmpWeight :: "('w, 'p) primitives \<Rightarrow> 'w" where
  "ReservedDmpWeight E = weight_div E (MAXIMUM_BLOCK_WEIGHT E) 4"

section \<open>Fees\<close>

definition P_FACTOR :: u128 where "P_FACTOR = 10"
definition Q_FACTOR :: u128 where "Q_FACTOR = 100"
definition POLY_DEGREE :: u8 where "POLY_DEGREE = 1"

record 'p WeightToFeeCoefficient =
  degree :: u8
  negative :: bool
  coeff_frac :: 'p
  coeff_integer :: balance

definition polynomial :: "('w, 'p) primitives \<Rightarrow> 'p WeightToFeeCoefficient list" where
  "polynomial E =
     (let p = MILLICENTS div P_FACTOR;
          q = Q_FACTOR * ucast (ref_time (weights_of E) (ExtrinsicBaseWeight E))
      in [\<lparr>degree = POLY_DEGREE, negative = False, coeff_frac = from_rational E (p mod q) q,
           coeff_integer = p div q\<rparr>])"

definition TransactionByteFee :: balance where "TransactionByteFee = 10 * MICROCENTS"
definition OperationalFeeMultiplier :: u8 where "OperationalFeeMultiplier = 5"
definition ToSiblingBaseDeliveryFee :: u128 where "ToSiblingBaseDeliveryFee = saturating_mul CENTS 3"

section \<open>Limits and deposits of the pallets\<close>

definition MaxConsumers :: u32 where "MaxConsumers = 16"
definition MaxScheduledRuntimeCallsPerBlock :: u32 where "MaxScheduledRuntimeCallsPerBlock = 50"
definition PreimageBaseDeposit :: balance where "PreimageBaseDeposit = deposit 2 64"
definition PreimageByteDeposit :: balance where "PreimageByteDeposit = deposit 0 1"
definition MinimumPeriod :: u64 where "MinimumPeriod = SLOT_DURATION div 2"

definition MaxProxies :: u32 where "MaxProxies = 32"
definition MaxPending :: u32 where "MaxPending = 32"
definition ProxyDepositBase :: balance where "ProxyDepositBase = deposit 1 40"
definition AnnouncementDepositBase :: balance where "AnnouncementDepositBase = deposit 1 48"
definition ProxyDepositFactor :: balance where "ProxyDepositFactor = deposit 0 33"
definition AnnouncementDepositFactor :: balance where "AnnouncementDepositFactor = deposit 0 66"

definition ExistentialDeposit :: balance where "ExistentialDeposit = EXISTENTIAL_DEPOSIT"
definition MaxFreezes :: u32 where "MaxFreezes = 0"
definition MaxLocks :: u32 where "MaxLocks = 50"
definition MaxReserves :: u32 where "MaxReserves = 50"

definition AssetDeposit :: balance where "AssetDeposit = 10 * CENTS"
definition AssetAccountDeposit :: balance where "AssetAccountDeposit = deposit 1 16"
definition ApprovalDeposit :: balance where "ApprovalDeposit = EXISTENTIAL_DEPOSIT"
definition AssetsStringLimit :: u32 where "AssetsStringLimit = 50"
definition MetadataDepositBase :: balance where "MetadataDepositBase = deposit 1 68"
definition MetadataDepositPerByte :: balance where "MetadataDepositPerByte = deposit 0 1"
definition RemoveItemsLimit :: u32 where "RemoveItemsLimit = 1000"

definition HeapSize :: u32 where "HeapSize = 64 * 1024"
definition MaxStale :: u32 where "MaxStale = 8"
definition MaxInboundSuspended :: u32 where "MaxInboundSuspended = 1000"

definition DepositBase :: balance where "DepositBase = deposit 1 88"
definition DepositFactor :: balance where "DepositFactor = deposit 0 32"
definition MaxSignatories :: u16 where "MaxSignatories = 100"

definition Period :: u32 where "Period = 6 * HOURS"
definition Offset :: u32 where "Offset = 0"
definition MaxAuthorities :: u32 where "MaxAuthorities = 100000"
definition SessionLength :: block_number where "SessionLength = 6 * HOURS"
definition MaxCandidates :: u32 where "MaxCandidates = 100"
definition MaxInvulnerables :: u32 where "MaxInvulnerables = 20"
definition MinEligibleCollators :: u32 where "MinEligibleCollators = 4"

definition ProposalBondMinimum :: balance where "ProposalBondMinimum = 2 * GRAND"
definition ProposalBondMaximum :: balance where "ProposalBondMaximum = GRAND"
definition SpendPeriod :: block_number where "SpendPeriod = 6 * DAYS"
definition PayoutSpendPeriod :: block_number where "PayoutSpendPeriod = 30 * DAYS"
definition MaxApprovals :: u32 where "MaxApprovals = 100"

definition VoteLockingPeriod :: block_number where "VoteLockingPeriod = 7 * DAYS"
definition MaxVotes :: u32 where "MaxVotes = 512"
definition MaxBalance :: balance where "MaxBalance = - 1"
definition AlarmInterval :: block_number where "AlarmInterval = 1"
definition SubmissionDeposit :: balance where "SubmissionDeposit = 3 * CENTS"
definition UndecidingTimeout :: block_number where "UndecidingTimeout = 14 * DAYS"
definition MaxQueued :: u32 where "MaxQueued = 20"

section \<open>Values\<close>

lemmas currency_defs = MICROCENTS_def MILLICENTS_def CENTS_def DOLLARS_def GRAND_def EXISTENTIAL_DEPOSIT_def
lemmas time_defs = MILLISECS_PER_BLOCK_def SLOT_DURATION_def MINUTES_def HOURS_def DAYS_def

lemma documented_percent:
  assumes "documented E" "n \<le> 100" "100 dvd unat n * fst (parts E w)" "100 dvd unat n * snd (parts E w)"
  shows "parts E (perbill_of E (from_percent E n) w)
    = (unat n * fst (parts E w) div 100, unat n * snd (parts E w) div 100)"
  using assms unfolding documented_def by blast

lemma maximum_block_weight: "documented E \<Longrightarrow> parts E (MAXIMUM_BLOCK_WEIGHT E) = (2000000000000, 5242880)"
  by (simp add: documented_def parts_def sp_weights_def MAXIMUM_BLOCK_WEIGHT_def unat_saturating_mul)

lemma normal_limit:
  "documented E \<Longrightarrow> parts E (perbill_of E (NORMAL_DISPATCH_RATIO E) (MAXIMUM_BLOCK_WEIGHT E))
     = (1500000000000, 3932160)"
  by (simp add: NORMAL_DISPATCH_RATIO_def documented_percent maximum_block_weight)

lemma max_block:
  assumes E: "documented E"
  shows "parts E (max_block_of E (RuntimeBlockWeights E)) = (2000000000000, 5242880)"
proof -
  have op: "max_total (RuntimeBlockWeights E Operational) = Some (MAXIMUM_BLOCK_WEIGHT E)"
    by (simp add: RuntimeBlockWeights_def)
  have "weight_le (parts E m) (parts E (MAXIMUM_BLOCK_WEIGHT E))"
    if "max_total (RuntimeBlockWeights E c) = Some m" for c m
    using that E normal_limit [OF E] maximum_block_weight [OF E]
    by (cases c) (auto simp: RuntimeBlockWeights_def documented_def weight_le_def)
  with op have "parts E (max_block_of E (RuntimeBlockWeights E)) = parts E (MAXIMUM_BLOCK_WEIGHT E)"
    using E unfolding documented_def by blast
  then show ?thesis
    by (simp add: maximum_block_weight [OF E])
qed

lemma scheduler_limit: "documented E \<Longrightarrow> parts E (MaximumSchedulerWeight E) = (1600000000000, 4194304)"
  by (simp add: MaximumSchedulerWeight_def documented_percent max_block)

lemma rocks_db: "documented E \<Longrightarrow> RocksDbWeight E = \<lparr>db_read = 25000000, db_write = 100000000\<rparr>"
  by (simp add: documented_def RocksDbWeight_def)

text \<open>An instance of what the other crates provide, on pairs of words.\<close>

definition largest_limit :: "(dispatch_class \<Rightarrow> (u64 \<times> u64) class_settings) \<Rightarrow> u64 \<times> u64" where
  "largest_limit S = fold (\<lambda>c m. case max_total (S c) of None \<Rightarrow> m
     | Some w \<Rightarrow> (max (fst m) (fst w), max (snd m) (snd w))) [Normal, Operational, Mandatory] (0, 0)"

lemma largest_limit_eq:
  assumes "max_total (S c) = Some m"
    and le: "\<And>c' m'. max_total (S c') = Some m' \<Longrightarrow> fst m' \<le> fst m \<and> snd m' \<le> snd m"
  shows "largest_limit S = m"
  using assms(1) le [of Normal] le [of Operational] le [of Mandatory]
  by (cases c; cases "max_total (S Normal)"; cases "max_total (S Operational)";
      cases "max_total (S Mandatory)") (auto simp: largest_limit_def max_def prod_eq_iff)

definition word_primitives :: "(u64 \<times> u64, nat \<times> nat) primitives" where
  "word_primitives = \<lparr>
     weights_of = word_weights,
     WEIGHT_REF_TIME_PER_SECOND = 1000000000000,
     WEIGHT_REF_TIME_PER_NANOS = 1000,
     MAX_POV_SIZE = 5 * 1024 * 1024,
     weight_sub = (\<lambda>x y. (fst x - fst y, snd x - snd y)),
     weight_div = (\<lambda>x n. (fst x div n, snd x div n)),
     from_percent = (\<lambda>n. (unat n, 100)),
     from_rational = (\<lambda>a b. (unat a, unat b)),
     perbill_of = (\<lambda>p x. (of_nat (fst p * unat (fst x) div snd p), of_nat (fst p * unat (snd x) div snd p))),
     builder_default = (\<lambda>c. \<lparr>base_extrinsic = (0, 0),
       max_total = (if c = Mandatory then None else Some (0, 0)),
       reserved = (if c = Mandatory then None else Some (0, 0))\<rparr>),
     max_block_of = largest_limit\<rparr>"

lemma unat_percent_of: "n \<le> 100 \<Longrightarrow> unat (of_nat (unat n * unat w div 100) :: u64) = unat n * unat w div 100"
  for n :: u32 and w :: u64
proof -
  assume "n \<le> 100"
  then have "unat n \<le> 100" by (simp add: word_le_nat_alt)
  then have "unat n * unat w div 100 \<le> unat w"
    using mult_le_mono1 [of "unat n" 100 "unat w"] by linarith
  then have "unat n * unat w div 100 < 2 ^ 64"
    by (rule le_less_trans) (use unsigned_less [of w] in simp)
  then show ?thesis by (simp add: unat_of_nat)
qed

lemma documented_word_primitives: "documented word_primitives"
proof -
  have max: "parts word_primitives (max_block_of word_primitives S) = parts word_primitives m"
    if c: "max_total (S c) = Some m" and
      ub: "\<forall>c' m'. max_total (S c') = Some m' \<longrightarrow> weight_le (parts word_primitives m') (parts word_primitives m)"
    for S c m
  proof -
    have "fst m' \<le> fst m \<and> snd m' \<le> snd m" if "max_total (S c') = Some m'" for c' m'
      using ub that by (cases m') (simp add: weight_le_def parts_def word_primitives_def word_weights_def word_le_nat_alt)
    with c show ?thesis
      by (simp add: word_primitives_def largest_limit_eq)
  qed
  show ?thesis
    unfolding documented_def
    using max sp_weights_word_weights
    by (auto simp: parts_def weight_le_def word_primitives_def word_weights_def unat_percent_of unat_div
        unat_sub word_le_nat_alt)
qed

end
