(* ===== verification/Weights_Assets.thy ===== *)
theory Weights_Assets
  imports Weight_Ops
begin

text \<open>
  The weight functions of the pallets for fungible assets and balances, one definition per function of the
  \<open>WeightInfo\<close> implementations in
  \<open>runtime/src/weights/pallet_assets.rs\<close>, \<open>runtime/src/weights/pallet_balances.rs\<close>.
  Each table lists the functions of one file with the ranges, storage lines and estimates of its comments.
\<close>

section \<open>\<open>pallet_assets.rs\<close>\<close>

definition assets_create :: "'w weight_ops \<Rightarrow> RuntimeDbWeight \<Rightarrow> 'w" where
  "assets_create W d = saturating_adds W (from_parts W 32453000 0)
     [from_parts W 0 3675, db_reads W d 2, db_writes W d 2]"

definition assets_force_create :: "'w weight_ops \<Rightarrow> RuntimeDbWeight \<Rightarrow> 'w" where
  "assets_force_create W d = saturating_adds W (from_parts W 11986000 0)
     [from_parts W 0 3675, db_reads W d 1, db_writes W d 1]"

definition assets_start_destroy :: "'w weight_ops \<Rightarrow> RuntimeDbWeight \<Rightarrow> 'w" where
  "assets_start_destroy W d = saturating_adds W (from_parts W 14640000 0)
     [from_parts W 0 3675, db_reads W d 1, db_writes W d 1]"

definition assets_destroy_accounts :: "'w weight_ops \<Rightarrow> RuntimeDbWeight \<Rightarrow> u32 \<Rightarrow> 'w" where
  "assets_destroy_accounts W d c = saturating_adds W (from_parts W 18724000 0)
     [from_parts W 0 3675, weight_mul W (from_parts W 15491076 0) (ucast c), db_reads W d 2,
      db_reads W d (saturating_mul 2 (ucast c)), db_writes W d 1,
      db_writes W d (saturating_mul 2 (ucast c)), weight_mul W (from_parts W 0 2609) (ucast c)]"

definition assets_destroy_approvals :: "'w weight_ops \<Rightarrow> RuntimeDbWeight \<Rightarrow> u32 \<Rightarrow> 'w" where
  "assets_destroy_approvals W d a = saturating_adds W (from_parts W 19817000 0)
     [from_parts W 0 3675, weight_mul W (from_parts W 18109816 0) (ucast a), db_reads W d 2,
      db_reads W d (saturating_mul 1 (ucast a)), db_writes W d 1,
      db_writes W d (saturating_mul 1 (ucast a)), weight_mul W (from_parts W 0 2623) (ucast a)]"

definition assets_finish_destroy :: "'w weight_ops \<Rightarrow> RuntimeDbWeight \<Rightarrow> 'w" where
  "assets_finish_destroy W d = saturating_adds W (from_parts W 16106000 0)
     [from_parts W 0 3675, db_reads W d 2, db_writes W d 1]"

definition assets_mint :: "'w weight_ops \<Rightarrow> RuntimeDbWeight \<Rightarrow> 'w" where
  "assets_mint W d = saturating_adds W (from_parts W 28883000 0)
     [from_parts W 0 3675, db_reads W d 2, db_writes W d 2]"

definition assets_burn :: "'w weight_ops \<Rightarrow> RuntimeDbWeight \<Rightarrow> 'w" where
  "assets_burn W d = saturating_adds W (from_parts W 38547000 0)
     [from_parts W 0 3675, db_reads W d 2, db_writes W d 2]"

definition assets_transfer :: "'w weight_ops \<Rightarrow> RuntimeDbWeight \<Rightarrow> 'w" where
  "assets_transfer W d = saturating_adds W (from_parts W 54023000 0)
     [from_parts W 0 6208, db_reads W d 4, db_writes W d 4]"

definition assets_transfer_keep_alive :: "'w weight_ops \<Rightarrow> RuntimeDbWeight \<Rightarrow> 'w" where
  "assets_transfer_keep_alive W d = saturating_adds W (from_parts W 48133000 0)
     [from_parts W 0 6208, db_reads W d 4, db_writes W d 4]"

definition assets_force_transfer :: "'w weight_ops \<Rightarrow> RuntimeDbWeight \<Rightarrow> 'w" where
  "assets_force_transfer W d = saturating_adds W (from_parts W 53975000 0)
     [from_parts W 0 6208, db_reads W d 4, db_writes W d 4]"

definition assets_freeze :: "'w weight_ops \<Rightarrow> RuntimeDbWeight \<Rightarrow> 'w" where
  "assets_freeze W d = saturating_adds W (from_parts W 19547000 0)
     [from_parts W 0 3675, db_reads W d 2, db_writes W d 1]"

definition assets_thaw :: "'w weight_ops \<Rightarrow> RuntimeDbWeight \<Rightarrow> 'w" where
  "assets_thaw W d = saturating_adds W (from_parts W 19447000 0)
     [from_parts W 0 3675, db_reads W d 2, db_writes W d 1]"

definition assets_freeze_asset :: "'w weight_ops \<Rightarrow> RuntimeDbWeight \<Rightarrow> 'w" where
  "assets_freeze_asset W d = saturating_adds W (from_parts W 14463000 0)
     [from_parts W 0 3675, db_reads W d 1, db_writes W d 1]"

definition assets_thaw_asset :: "'w weight_ops \<Rightarrow> RuntimeDbWeight \<Rightarrow> 'w" where
  "assets_thaw_asset W d = saturating_adds W (from_parts W 14506000 0)
     [from_parts W 0 3675, db_reads W d 1, db_writes W d 1]"

definition assets_transfer_ownership :: "'w weight_ops \<Rightarrow> RuntimeDbWeight \<Rightarrow> 'w" where
  "assets_transfer_ownership W d = saturating_adds W (from_parts W 16644000 0)
     [from_parts W 0 3675, db_reads W d 2, db_writes W d 1]"

definition assets_set_team :: "'w weight_ops \<Rightarrow> RuntimeDbWeight \<Rightarrow> 'w" where
  "assets_set_team W d = saturating_adds W (from_parts W 14408000 0)
     [from_parts W 0 3675, db_reads W d 1, db_writes W d 1]"

definition assets_set_metadata :: "'w weight_ops \<Rightarrow> RuntimeDbWeight \<Rightarrow> u32 \<Rightarrow> u32 \<Rightarrow> 'w" where
  "assets_set_metadata W d n s = saturating_adds W (from_parts W 34411513 0)
     [from_parts W 0 3675, weight_mul W (from_parts W 2693 0) (ucast n),
      weight_mul W (from_parts W 1850 0) (ucast s), db_reads W d 2, db_writes W d 1]"

definition assets_clear_metadata :: "'w weight_ops \<Rightarrow> RuntimeDbWeight \<Rightarrow> 'w" where
  "assets_clear_metadata W d = saturating_adds W (from_parts W 34436000 0)
     [from_parts W 0 3675, db_reads W d 2, db_writes W d 1]"

definition assets_force_set_metadata :: "'w weight_ops \<Rightarrow> RuntimeDbWeight \<Rightarrow> u32 \<Rightarrow> u32 \<Rightarrow> 'w" where
  "assets_force_set_metadata W d n s = saturating_adds W (from_parts W 14763895 0)
     [from_parts W 0 3675, weight_mul W (from_parts W 244 0) (ucast n),
      weight_mul W (from_parts W 1085 0) (ucast s), db_reads W d 2, db_writes W d 1]"

definition assets_force_clear_metadata :: "'w weight_ops \<Rightarrow> RuntimeDbWeight \<Rightarrow> 'w" where
  "assets_force_clear_metadata W d = saturating_adds W (from_parts W 33984000 0)
     [from_parts W 0 3675, db_reads W d 2, db_writes W d 1]"

definition assets_force_asset_status :: "'w weight_ops \<Rightarrow> RuntimeDbWeight \<Rightarrow> 'w" where
  "assets_force_asset_status W d = saturating_adds W (from_parts W 13714000 0)
     [from_parts W 0 3675, db_reads W d 1, db_writes W d 1]"

definition assets_approve_transfer :: "'w weight_ops \<Rightarrow> RuntimeDbWeight \<Rightarrow> 'w" where
  "assets_approve_transfer W d = saturating_adds W (from_parts W 39281000 0)
     [from_parts W 0 3675, db_reads W d 2, db_writes W d 2]"

definition assets_transfer_approved :: "'w weight_ops \<Rightarrow> RuntimeDbWeight \<Rightarrow> 'w" where
  "assets_transfer_approved W d = saturating_adds W (from_parts W 80296000 0)
     [from_parts W 0 6208, db_reads W d 5, db_writes W d 5]"

definition assets_cancel_approval :: "'w weight_ops \<Rightarrow> RuntimeDbWeight \<Rightarrow> 'w" where
  "assets_cancel_approval W d = saturating_adds W (from_parts W 41771000 0)
     [from_parts W 0 3675, db_reads W d 2, db_writes W d 2]"

definition assets_force_cancel_approval :: "'w weight_ops \<Rightarrow> RuntimeDbWeight \<Rightarrow> 'w" where
  "assets_force_cancel_approval W d = saturating_adds W (from_parts W 41870000 0)
     [from_parts W 0 3675, db_reads W d 2, db_writes W d 2]"

definition assets_set_min_balance :: "'w weight_ops \<Rightarrow> RuntimeDbWeight \<Rightarrow> 'w" where
  "assets_set_min_balance W d = saturating_adds W (from_parts W 15393000 0)
     [from_parts W 0 3675, db_reads W d 1, db_writes W d 1]"

definition assets_touch :: "'w weight_ops \<Rightarrow> RuntimeDbWeight \<Rightarrow> 'w" where
  "assets_touch W d = saturating_adds W (from_parts W 40258000 0)
     [from_parts W 0 3675, db_reads W d 3, db_writes W d 3]"

definition assets_touch_other :: "'w weight_ops \<Rightarrow> RuntimeDbWeight \<Rightarrow> 'w" where
  "assets_touch_other W d = saturating_adds W (from_parts W 38015000 0)
     [from_parts W 0 3675, db_reads W d 2, db_writes W d 2]"

definition assets_refund :: "'w weight_ops \<Rightarrow> RuntimeDbWeight \<Rightarrow> 'w" where
  "assets_refund W d = saturating_adds W (from_parts W 38449000 0)
     [from_parts W 0 3675, db_reads W d 3, db_writes W d 3]"

definition assets_refund_other :: "'w weight_ops \<Rightarrow> RuntimeDbWeight \<Rightarrow> 'w" where
  "assets_refund_other W d = saturating_adds W (from_parts W 36470000 0)
     [from_parts W 0 3675, db_reads W d 2, db_writes W d 2]"

definition assets_block :: "'w weight_ops \<Rightarrow> RuntimeDbWeight \<Rightarrow> 'w" where
  "assets_block W d = saturating_adds W (from_parts W 19427000 0)
     [from_parts W 0 3675, db_reads W d 2, db_writes W d 1]"

definition assets_weights :: "'w benchmark list" where
  "assets_weights = [
     \<lparr>bm_name = ''pallet_assets::create'', bm_range = [], bm_storage = (2, 2),
      bm_estimate = (3675, []), bm_weight = \<lambda>W d xs. assets_create W d\<rparr>,
     \<lparr>bm_name = ''pallet_assets::force_create'', bm_range = [], bm_storage = (1, 1),
      bm_estimate = (3675, []), bm_weight = \<lambda>W d xs. assets_force_create W d\<rparr>,
     \<lparr>bm_name = ''pallet_assets::start_destroy'', bm_range = [], bm_storage = (1, 1),
      bm_estimate = (3675, []), bm_weight = \<lambda>W d xs. assets_start_destroy W d\<rparr>,
     \<lparr>bm_name = ''pallet_assets::destroy_accounts'', bm_range = [(0, 1000)], bm_storage = (2002, 2001),
      bm_estimate = (3675, [2609]), bm_weight = \<lambda>W d xs. assets_destroy_accounts W d (xs ! 0)\<rparr>,
     \<lparr>bm_name = ''pallet_assets::destroy_approvals'', bm_range = [(0, 1000)], bm_storage = (1002, 1001),
      bm_estimate = (3675, [2623]), bm_weight = \<lambda>W d xs. assets_destroy_approvals W d (xs ! 0)\<rparr>,
     \<lparr>bm_name = ''pallet_assets::finish_destroy'', bm_range = [], bm_storage = (2, 1),
      bm_estimate = (3675, []), bm_weight = \<lambda>W d xs. assets_finish_destroy W d\<rparr>,
     \<lparr>bm_name = ''pallet_assets::mint'', bm_range = [], bm_storage = (2, 2),
      bm_estimate = (3675, []), bm_weight = \<lambda>W d xs. assets_mint W d\<rparr>,
     \<lparr>bm_name = ''pallet_assets::burn'', bm_range = [], bm_storage = (2, 2),
      bm_estimate = (3675, []), bm_weight = \<lambda>W d xs. assets_burn W d\<rparr>,
     \<lparr>bm_name = ''pallet_assets::transfer'', bm_range = [], bm_storage = (4, 4),
      bm_estimate = (6208, []), bm_weight = \<lambda>W d xs. assets_transfer W d\<rparr>,
     \<lparr>bm_name = ''pallet_assets::transfer_keep_alive'', bm_range = [], bm_storage = (4, 4),
      bm_estimate = (6208, []), bm_weight = \<lambda>W d xs. assets_transfer_keep_alive W d\<rparr>,
     \<lparr>bm_name = ''pallet_assets::force_transfer'', bm_range = [], bm_storage = (4, 4),
      bm_estimate = (6208, []), bm_weight = \<lambda>W d xs. assets_force_transfer W d\<rparr>,
     \<lparr>bm_name = ''pallet_assets::freeze'', bm_range = [], bm_storage = (2, 1),
      bm_estimate = (3675, []), bm_weight = \<lambda>W d xs. assets_freeze W d\<rparr>,
     \<lparr>bm_name = ''pallet_assets::thaw'', bm_range = [], bm_storage = (2, 1),
      bm_estimate = (3675, []), bm_weight = \<lambda>W d xs. assets_thaw W d\<rparr>,
     \<lparr>bm_name = ''pallet_assets::freeze_asset'', bm_range = [], bm_storage = (1, 1),
      bm_estimate = (3675, []), bm_weight = \<lambda>W d xs. assets_freeze_asset W d\<rparr>,
     \<lparr>bm_name = ''pallet_assets::thaw_asset'', bm_range = [], bm_storage = (1, 1),
      bm_estimate = (3675, []), bm_weight = \<lambda>W d xs. assets_thaw_asset W d\<rparr>,
     \<lparr>bm_name = ''pallet_assets::transfer_ownership'', bm_range = [], bm_storage = (2, 1),
      bm_estimate = (3675, []), bm_weight = \<lambda>W d xs. assets_transfer_ownership W d\<rparr>,
     \<lparr>bm_name = ''pallet_assets::set_team'', bm_range = [], bm_storage = (1, 1),
      bm_estimate = (3675, []), bm_weight = \<lambda>W d xs. assets_set_team W d\<rparr>,
     \<lparr>bm_name = ''pallet_assets::set_metadata'', bm_range = [(0, 50), (0, 50)], bm_storage = (2, 1),
      bm_estimate = (3675, [0, 0]), bm_weight = \<lambda>W d xs. assets_set_metadata W d (xs ! 0) (xs ! 1)\<rparr>,
     \<lparr>bm_name = ''pallet_assets::clear_metadata'', bm_range = [], bm_storage = (2, 1),
      bm_estimate = (3675, []), bm_weight = \<lambda>W d xs. assets_clear_metadata W d\<rparr>,
     \<lparr>bm_name = ''pallet_assets::force_set_metadata'', bm_range = [(0, 50), (0, 50)], bm_storage = (2, 1),
      bm_estimate = (3675, [0, 0]), bm_weight = \<lambda>W d xs. assets_force_set_metadata W d (xs ! 0) (xs ! 1)\<rparr>,
     \<lparr>bm_name = ''pallet_assets::force_clear_metadata'', bm_range = [], bm_storage = (2, 1),
      bm_estimate = (3675, []), bm_weight = \<lambda>W d xs. assets_force_clear_metadata W d\<rparr>,
     \<lparr>bm_name = ''pallet_assets::force_asset_status'', bm_range = [], bm_storage = (1, 1),
      bm_estimate = (3675, []), bm_weight = \<lambda>W d xs. assets_force_asset_status W d\<rparr>,
     \<lparr>bm_name = ''pallet_assets::approve_transfer'', bm_range = [], bm_storage = (2, 2),
      bm_estimate = (3675, []), bm_weight = \<lambda>W d xs. assets_approve_transfer W d\<rparr>,
     \<lparr>bm_name = ''pallet_assets::transfer_approved'', bm_range = [], bm_storage = (5, 5),
      bm_estimate = (6208, []), bm_weight = \<lambda>W d xs. assets_transfer_approved W d\<rparr>,
     \<lparr>bm_name = ''pallet_assets::cancel_approval'', bm_range = [], bm_storage = (2, 2),
      bm_estimate = (3675, []), bm_weight = \<lambda>W d xs. assets_cancel_approval W d\<rparr>,
     \<lparr>bm_name = ''pallet_assets::force_cancel_approval'', bm_range = [], bm_storage = (2, 2),
      bm_estimate = (3675, []), bm_weight = \<lambda>W d xs. assets_force_cancel_approval W d\<rparr>,
     \<lparr>bm_name = ''pallet_assets::set_min_balance'', bm_range = [], bm_storage = (1, 1),
      bm_estimate = (3675, []), bm_weight = \<lambda>W d xs. assets_set_min_balance W d\<rparr>,
     \<lparr>bm_name = ''pallet_assets::touch'', bm_range = [], bm_storage = (3, 3),
      bm_estimate = (3675, []), bm_weight = \<lambda>W d xs. assets_touch W d\<rparr>,
     \<lparr>bm_name = ''pallet_assets::touch_other'', bm_range = [], bm_storage = (2, 2),
      bm_estimate = (3675, []), bm_weight = \<lambda>W d xs. assets_touch_other W d\<rparr>,
     \<lparr>bm_name = ''pallet_assets::refund'', bm_range = [], bm_storage = (3, 3),
      bm_estimate = (3675, []), bm_weight = \<lambda>W d xs. assets_refund W d\<rparr>,
     \<lparr>bm_name = ''pallet_assets::refund_other'', bm_range = [], bm_storage = (2, 2),
      bm_estimate = (3675, []), bm_weight = \<lambda>W d xs. assets_refund_other W d\<rparr>,
     \<lparr>bm_name = ''pallet_assets::block'', bm_range = [], bm_storage = (2, 1),
      bm_estimate = (3675, []), bm_weight = \<lambda>W d xs. assets_block W d\<rparr>]"

lemmas assets_weight_defs =
  assets_create_def assets_force_create_def assets_start_destroy_def assets_destroy_accounts_def
  assets_destroy_approvals_def assets_finish_destroy_def assets_mint_def assets_burn_def
  assets_transfer_def assets_transfer_keep_alive_def assets_force_transfer_def assets_freeze_def
  assets_thaw_def assets_freeze_asset_def assets_thaw_asset_def assets_transfer_ownership_def
  assets_set_team_def assets_set_metadata_def assets_clear_metadata_def
  assets_force_set_metadata_def assets_force_clear_metadata_def assets_force_asset_status_def
  assets_approve_transfer_def assets_transfer_approved_def assets_cancel_approval_def
  assets_force_cancel_approval_def assets_set_min_balance_def assets_touch_def
  assets_touch_other_def assets_refund_def assets_refund_other_def assets_block_def

lemma assets_tracked: "sp_weights W \<Longrightarrow> list_all2 (tracked W) assets_weights assets_weights"
  unfolding assets_weights_def
  by (intro list.rel_intros conjI trackedI;
      simp only: assets_weight_defs saturating_adds_simps; (rule tracking | assumption | simp)+)

lemma assets_bounded: "list_all bounded assets_weights"
  by (simp add: bounded_def slow_db_def assets_weights_def assets_weight_defs weight_eval)

lemma assets_well_estimated: "list_all well_estimated assets_weights"
  by (auto simp: well_estimated_def estimated_size_def assets_weights_def assets_weight_defs weight_eval)

section \<open>\<open>pallet_balances.rs\<close>\<close>

definition balances_transfer_allow_death :: "'w weight_ops \<Rightarrow> RuntimeDbWeight \<Rightarrow> 'w" where
  "balances_transfer_allow_death W d = saturating_adds W (from_parts W 63689000 0)
     [from_parts W 0 3593, db_reads W d 1, db_writes W d 1]"

definition balances_transfer_keep_alive :: "'w weight_ops \<Rightarrow> RuntimeDbWeight \<Rightarrow> 'w" where
  "balances_transfer_keep_alive W d = saturating_adds W (from_parts W 50316000 0)
     [from_parts W 0 3593, db_reads W d 1, db_writes W d 1]"

definition balances_force_set_balance_creating :: "'w weight_ops \<Rightarrow> RuntimeDbWeight \<Rightarrow> 'w" where
  "balances_force_set_balance_creating W d = saturating_adds W (from_parts W 19224000 0)
     [from_parts W 0 3593, db_reads W d 1, db_writes W d 1]"

definition balances_force_set_balance_killing :: "'w weight_ops \<Rightarrow> RuntimeDbWeight \<Rightarrow> 'w" where
  "balances_force_set_balance_killing W d = saturating_adds W (from_parts W 26321000 0)
     [from_parts W 0 3593, db_reads W d 1, db_writes W d 1]"

definition balances_force_transfer :: "'w weight_ops \<Rightarrow> RuntimeDbWeight \<Rightarrow> 'w" where
  "balances_force_transfer W d = saturating_adds W (from_parts W 65694000 0)
     [from_parts W 0 6196, db_reads W d 2, db_writes W d 2]"

definition balances_transfer_all :: "'w weight_ops \<Rightarrow> RuntimeDbWeight \<Rightarrow> 'w" where
  "balances_transfer_all W d = saturating_adds W (from_parts W 63009000 0)
     [from_parts W 0 3593, db_reads W d 1, db_writes W d 1]"

definition balances_force_unreserve :: "'w weight_ops \<Rightarrow> RuntimeDbWeight \<Rightarrow> 'w" where
  "balances_force_unreserve W d = saturating_adds W (from_parts W 23398000 0)
     [from_parts W 0 3593, db_reads W d 1, db_writes W d 1]"

definition balances_upgrade_accounts :: "'w weight_ops \<Rightarrow> RuntimeDbWeight \<Rightarrow> u32 \<Rightarrow> 'w" where
  "balances_upgrade_accounts W d u = saturating_adds W (from_parts W 21265000 0)
     [from_parts W 0 990, weight_mul W (from_parts W 17574363 0) (ucast u),
      db_reads W d (saturating_mul 1 (ucast u)), db_writes W d (saturating_mul 1 (ucast u)),
      weight_mul W (from_parts W 0 2603) (ucast u)]"

definition balances_force_adjust_total_issuance :: "'w weight_ops \<Rightarrow> RuntimeDbWeight \<Rightarrow> 'w" where
  "balances_force_adjust_total_issuance W d = saturating_adds W (from_parts W 8071000 0)
     [from_parts W 0 0]"

definition balances_weights :: "'w benchmark list" where
  "balances_weights = [
     \<lparr>bm_name = ''pallet_balances::transfer_allow_death'', bm_range = [], bm_storage = (1, 1),
      bm_estimate = (3593, []), bm_weight = \<lambda>W d xs. balances_transfer_allow_death W d\<rparr>,
     \<lparr>bm_name = ''pallet_balances::transfer_keep_alive'', bm_range = [], bm_storage = (1, 1),
      bm_estimate = (3593, []), bm_weight = \<lambda>W d xs. balances_transfer_keep_alive W d\<rparr>,
     \<lparr>bm_name = ''pallet_balances::force_set_balance_creating'', bm_range = [], bm_storage = (1, 1),
      bm_estimate = (3593, []), bm_weight = \<lambda>W d xs. balances_force_set_balance_creating W d\<rparr>,
     \<lparr>bm_name = ''pallet_balances::force_set_balance_killing'', bm_range = [], bm_storage = (1, 1),
      bm_estimate = (3593, []), bm_weight = \<lambda>W d xs. balances_force_set_balance_killing W d\<rparr>,
     \<lparr>bm_name = ''pallet_balances::force_transfer'', bm_range = [], bm_storage = (2, 2),
      bm_estimate = (6196, []), bm_weight = \<lambda>W d xs. balances_force_transfer W d\<rparr>,
     \<lparr>bm_name = ''pallet_balances::transfer_all'', bm_range = [], bm_storage = (1, 1),
      bm_estimate = (3593, []), bm_weight = \<lambda>W d xs. balances_transfer_all W d\<rparr>,
     \<lparr>bm_name = ''pallet_balances::force_unreserve'', bm_range = [], bm_storage = (1, 1),
      bm_estimate = (3593, []), bm_weight = \<lambda>W d xs. balances_force_unreserve W d\<rparr>,
     \<lparr>bm_name = ''pallet_balances::upgrade_accounts'', bm_range = [(1, 1000)], bm_storage = (999, 999),
      bm_estimate = (990, [2603]), bm_weight = \<lambda>W d xs. balances_upgrade_accounts W d (xs ! 0)\<rparr>,
     \<lparr>bm_name = ''pallet_balances::force_adjust_total_issuance'', bm_range = [], bm_storage = (0, 0),
      bm_estimate = (0, []), bm_weight = \<lambda>W d xs. balances_force_adjust_total_issuance W d\<rparr>]"

lemmas balances_weight_defs =
  balances_transfer_allow_death_def balances_transfer_keep_alive_def
  balances_force_set_balance_creating_def balances_force_set_balance_killing_def
  balances_force_transfer_def balances_transfer_all_def balances_force_unreserve_def
  balances_upgrade_accounts_def balances_force_adjust_total_issuance_def

lemma balances_tracked: "sp_weights W \<Longrightarrow> list_all2 (tracked W) balances_weights balances_weights"
  unfolding balances_weights_def
  by (intro list.rel_intros conjI trackedI;
      simp only: balances_weight_defs saturating_adds_simps; (rule tracking | assumption | simp)+)

lemma balances_bounded: "list_all bounded balances_weights"
  by (simp add: bounded_def slow_db_def balances_weights_def balances_weight_defs weight_eval)

lemma balances_well_estimated: "list_all well_estimated balances_weights"
  by (auto simp: well_estimated_def estimated_size_def balances_weights_def balances_weight_defs weight_eval)

end
