(* ===== verification/Weights_Governance.thy ===== *)
theory Weights_Governance
  imports Weight_Ops
begin

text \<open>
  The weight functions of the pallets for referenda, voting, the whitelist and the treasury, one definition per function of the
  \<open>WeightInfo\<close> implementations in
  \<open>runtime/src/weights/pallet_conviction_voting.rs\<close>, \<open>runtime/src/weights/pallet_referenda.rs\<close>, \<open>runtime/src/weights/pallet_treasury.rs\<close>, \<open>runtime/src/weights/pallet_whitelist.rs\<close>.
  Each table lists the functions of one file with the ranges, storage lines and estimates of its comments.
\<close>

section \<open>\<open>pallet_conviction_voting.rs\<close>\<close>

definition conviction_voting_vote_new :: "'w weight_ops \<Rightarrow> RuntimeDbWeight \<Rightarrow> 'w" where
  "conviction_voting_vote_new W d = saturating_adds W (from_parts W 155224000 0)
     [from_parts W 0 42428, db_reads W d 6, db_writes W d 5]"

definition conviction_voting_vote_existing :: "'w weight_ops \<Rightarrow> RuntimeDbWeight \<Rightarrow> 'w" where
  "conviction_voting_vote_existing W d = saturating_adds W (from_parts W 206170000 0)
     [from_parts W 0 83866, db_reads W d 7, db_writes W d 7]"

definition conviction_voting_remove_vote :: "'w weight_ops \<Rightarrow> RuntimeDbWeight \<Rightarrow> 'w" where
  "conviction_voting_remove_vote W d = saturating_adds W (from_parts W 167086000 0)
     [from_parts W 0 83866, db_reads W d 4, db_writes W d 5]"

definition conviction_voting_remove_other_vote :: "'w weight_ops \<Rightarrow> RuntimeDbWeight \<Rightarrow> 'w" where
  "conviction_voting_remove_other_vote W d = saturating_adds W (from_parts W 93476000 0)
     [from_parts W 0 30706, db_reads W d 2, db_writes W d 1]"

definition conviction_voting_delegate :: "'w weight_ops \<Rightarrow> RuntimeDbWeight \<Rightarrow> u32 \<Rightarrow> 'w" where
  "conviction_voting_delegate W d r = saturating_adds W (from_parts W 1127926732 0)
     [from_parts W 0 83866, weight_mul W (from_parts W 26345520 0) (ucast r), db_reads W d 7,
      db_reads W d (saturating_mul 1 (ucast r)), db_writes W d 45,
      db_writes W d (saturating_mul 1 (ucast r)), weight_mul W (from_parts W 0 3411) (ucast r)]"

definition conviction_voting_undelegate :: "'w weight_ops \<Rightarrow> RuntimeDbWeight \<Rightarrow> u32 \<Rightarrow> 'w" where
  "conviction_voting_undelegate W d r = saturating_adds W (from_parts W 1108378747 0)
     [from_parts W 0 83866, weight_mul W (from_parts W 26011311 0) (ucast r), db_reads W d 4,
      db_reads W d (saturating_mul 1 (ucast r)), db_writes W d 43,
      db_writes W d (saturating_mul 1 (ucast r)), weight_mul W (from_parts W 0 3411) (ucast r)]"

definition conviction_voting_unlock :: "'w weight_ops \<Rightarrow> RuntimeDbWeight \<Rightarrow> 'w" where
  "conviction_voting_unlock W d = saturating_adds W (from_parts W 107170000 0)
     [from_parts W 0 30706, db_reads W d 4, db_writes W d 3]"

definition conviction_voting_weights :: "'w benchmark list" where
  "conviction_voting_weights = [
     \<lparr>bm_name = ''pallet_conviction_voting::vote_new'', bm_range = [], bm_storage = (6, 5),
      bm_estimate = (42428, []), bm_weight = \<lambda>W d xs. conviction_voting_vote_new W d\<rparr>,
     \<lparr>bm_name = ''pallet_conviction_voting::vote_existing'', bm_range = [], bm_storage = (7, 7),
      bm_estimate = (83866, []), bm_weight = \<lambda>W d xs. conviction_voting_vote_existing W d\<rparr>,
     \<lparr>bm_name = ''pallet_conviction_voting::remove_vote'', bm_range = [], bm_storage = (4, 5),
      bm_estimate = (83866, []), bm_weight = \<lambda>W d xs. conviction_voting_remove_vote W d\<rparr>,
     \<lparr>bm_name = ''pallet_conviction_voting::remove_other_vote'', bm_range = [], bm_storage = (2, 1),
      bm_estimate = (30706, []), bm_weight = \<lambda>W d xs. conviction_voting_remove_other_vote W d\<rparr>,
     \<lparr>bm_name = ''pallet_conviction_voting::delegate'', bm_range = [(0, 512)], bm_storage = (519, 568),
      bm_estimate = (83866, [3411]), bm_weight = \<lambda>W d xs. conviction_voting_delegate W d (xs ! 0)\<rparr>,
     \<lparr>bm_name = ''pallet_conviction_voting::undelegate'', bm_range = [(0, 512)], bm_storage = (516, 566),
      bm_estimate = (83866, [3411]), bm_weight = \<lambda>W d xs. conviction_voting_undelegate W d (xs ! 0)\<rparr>,
     \<lparr>bm_name = ''pallet_conviction_voting::unlock'', bm_range = [], bm_storage = (4, 3),
      bm_estimate = (30706, []), bm_weight = \<lambda>W d xs. conviction_voting_unlock W d\<rparr>]"

lemmas conviction_voting_weight_defs =
  conviction_voting_vote_new_def conviction_voting_vote_existing_def
  conviction_voting_remove_vote_def conviction_voting_remove_other_vote_def
  conviction_voting_delegate_def conviction_voting_undelegate_def conviction_voting_unlock_def

lemma conviction_voting_tracked: "sp_weights W \<Longrightarrow> list_all2 (tracked W) conviction_voting_weights conviction_voting_weights"
  unfolding conviction_voting_weights_def
  by (intro list.rel_intros conjI trackedI;
      simp only: conviction_voting_weight_defs saturating_adds_simps; (rule tracking | assumption | simp)+)

lemma conviction_voting_bounded: "list_all bounded conviction_voting_weights"
  by (simp add: bounded_def slow_db_def conviction_voting_weights_def conviction_voting_weight_defs weight_eval)

lemma conviction_voting_well_estimated: "list_all well_estimated conviction_voting_weights"
  by (auto simp: well_estimated_def estimated_size_def conviction_voting_weights_def conviction_voting_weight_defs weight_eval)

section \<open>\<open>pallet_referenda.rs\<close>\<close>

definition referenda_submit :: "'w weight_ops \<Rightarrow> RuntimeDbWeight \<Rightarrow> 'w" where
  "referenda_submit W d = saturating_adds W (from_parts W 43579000 0)
     [from_parts W 0 42428, db_reads W d 2, db_writes W d 3]"

definition referenda_place_decision_deposit_preparing :: "'w weight_ops \<Rightarrow> RuntimeDbWeight \<Rightarrow> 'w" where
  "referenda_place_decision_deposit_preparing W d = saturating_adds W (from_parts W 56959000 0)
     [from_parts W 0 83866, db_reads W d 3, db_writes W d 4]"

definition referenda_place_decision_deposit_queued :: "'w weight_ops \<Rightarrow> RuntimeDbWeight \<Rightarrow> 'w" where
  "referenda_place_decision_deposit_queued W d = saturating_adds W (from_parts W 67198000 0)
     [from_parts W 0 42428, db_reads W d 4, db_writes W d 4]"

definition referenda_place_decision_deposit_not_queued :: "'w weight_ops \<Rightarrow> RuntimeDbWeight \<Rightarrow> 'w" where
  "referenda_place_decision_deposit_not_queued W d = saturating_adds W (from_parts W 66951000 0)
     [from_parts W 0 42428, db_reads W d 4, db_writes W d 4]"

definition referenda_place_decision_deposit_passing :: "'w weight_ops \<Rightarrow> RuntimeDbWeight \<Rightarrow> 'w" where
  "referenda_place_decision_deposit_passing W d = saturating_adds W (from_parts W 68725000 0)
     [from_parts W 0 83866, db_reads W d 4, db_writes W d 5]"

definition referenda_place_decision_deposit_failing :: "'w weight_ops \<Rightarrow> RuntimeDbWeight \<Rightarrow> 'w" where
  "referenda_place_decision_deposit_failing W d = saturating_adds W (from_parts W 65950000 0)
     [from_parts W 0 83866, db_reads W d 4, db_writes W d 5]"

definition referenda_refund_decision_deposit :: "'w weight_ops \<Rightarrow> RuntimeDbWeight \<Rightarrow> 'w" where
  "referenda_refund_decision_deposit W d = saturating_adds W (from_parts W 35081000 0)
     [from_parts W 0 4401, db_reads W d 1, db_writes W d 1]"

definition referenda_refund_submission_deposit :: "'w weight_ops \<Rightarrow> RuntimeDbWeight \<Rightarrow> 'w" where
  "referenda_refund_submission_deposit W d = saturating_adds W (from_parts W 35148000 0)
     [from_parts W 0 4401, db_reads W d 1, db_writes W d 1]"

definition referenda_cancel :: "'w weight_ops \<Rightarrow> RuntimeDbWeight \<Rightarrow> 'w" where
  "referenda_cancel W d = saturating_adds W (from_parts W 40836000 0)
     [from_parts W 0 83866, db_reads W d 3, db_writes W d 4]"

definition referenda_kill :: "'w weight_ops \<Rightarrow> RuntimeDbWeight \<Rightarrow> 'w" where
  "referenda_kill W d = saturating_adds W (from_parts W 113294000 0)
     [from_parts W 0 83866, db_reads W d 5, db_writes W d 5]"

definition referenda_one_fewer_deciding_queue_empty :: "'w weight_ops \<Rightarrow> RuntimeDbWeight \<Rightarrow> 'w" where
  "referenda_one_fewer_deciding_queue_empty W d = saturating_adds W (from_parts W 12486000 0)
     [from_parts W 0 3876, db_reads W d 2, db_writes W d 1]"

definition referenda_one_fewer_deciding_failing :: "'w weight_ops \<Rightarrow> RuntimeDbWeight \<Rightarrow> 'w" where
  "referenda_one_fewer_deciding_failing W d = saturating_adds W (from_parts W 43769000 0)
     [from_parts W 0 42428, db_reads W d 3, db_writes W d 3]"

definition referenda_one_fewer_deciding_passing :: "'w weight_ops \<Rightarrow> RuntimeDbWeight \<Rightarrow> 'w" where
  "referenda_one_fewer_deciding_passing W d = saturating_adds W (from_parts W 47437000 0)
     [from_parts W 0 42428, db_reads W d 3, db_writes W d 3]"

definition referenda_nudge_referendum_requeued_insertion :: "'w weight_ops \<Rightarrow> RuntimeDbWeight \<Rightarrow> 'w" where
  "referenda_nudge_referendum_requeued_insertion W d = saturating_adds W (from_parts W 20904000 0)
     [from_parts W 0 4401, db_reads W d 2, db_writes W d 1]"

definition referenda_nudge_referendum_requeued_slide :: "'w weight_ops \<Rightarrow> RuntimeDbWeight \<Rightarrow> 'w" where
  "referenda_nudge_referendum_requeued_slide W d = saturating_adds W (from_parts W 20957000 0)
     [from_parts W 0 4401, db_reads W d 2, db_writes W d 1]"

definition referenda_nudge_referendum_queued :: "'w weight_ops \<Rightarrow> RuntimeDbWeight \<Rightarrow> 'w" where
  "referenda_nudge_referendum_queued W d = saturating_adds W (from_parts W 25591000 0)
     [from_parts W 0 4401, db_reads W d 3, db_writes W d 2]"

definition referenda_nudge_referendum_not_queued :: "'w weight_ops \<Rightarrow> RuntimeDbWeight \<Rightarrow> 'w" where
  "referenda_nudge_referendum_not_queued W d = saturating_adds W (from_parts W 25679000 0)
     [from_parts W 0 4401, db_reads W d 3, db_writes W d 2]"

definition referenda_nudge_referendum_no_deposit :: "'w weight_ops \<Rightarrow> RuntimeDbWeight \<Rightarrow> 'w" where
  "referenda_nudge_referendum_no_deposit W d = saturating_adds W (from_parts W 26312000 0)
     [from_parts W 0 42428, db_reads W d 2, db_writes W d 2]"

definition referenda_nudge_referendum_preparing :: "'w weight_ops \<Rightarrow> RuntimeDbWeight \<Rightarrow> 'w" where
  "referenda_nudge_referendum_preparing W d = saturating_adds W (from_parts W 26602000 0)
     [from_parts W 0 42428, db_reads W d 2, db_writes W d 2]"

definition referenda_nudge_referendum_timed_out :: "'w weight_ops \<Rightarrow> RuntimeDbWeight \<Rightarrow> 'w" where
  "referenda_nudge_referendum_timed_out W d = saturating_adds W (from_parts W 17610000 0)
     [from_parts W 0 4401, db_reads W d 1, db_writes W d 1]"

definition referenda_nudge_referendum_begin_deciding_failing :: "'w weight_ops \<Rightarrow> RuntimeDbWeight \<Rightarrow> 'w" where
  "referenda_nudge_referendum_begin_deciding_failing W d = saturating_adds W (from_parts W 36079000 0)
     [from_parts W 0 42428, db_reads W d 3, db_writes W d 3]"

definition referenda_nudge_referendum_begin_deciding_passing :: "'w weight_ops \<Rightarrow> RuntimeDbWeight \<Rightarrow> 'w" where
  "referenda_nudge_referendum_begin_deciding_passing W d = saturating_adds W (from_parts W 38320000 0)
     [from_parts W 0 42428, db_reads W d 3, db_writes W d 3]"

definition referenda_nudge_referendum_begin_confirming :: "'w weight_ops \<Rightarrow> RuntimeDbWeight \<Rightarrow> 'w" where
  "referenda_nudge_referendum_begin_confirming W d = saturating_adds W (from_parts W 30546000 0)
     [from_parts W 0 42428, db_reads W d 2, db_writes W d 2]"

definition referenda_nudge_referendum_end_confirming :: "'w weight_ops \<Rightarrow> RuntimeDbWeight \<Rightarrow> 'w" where
  "referenda_nudge_referendum_end_confirming W d = saturating_adds W (from_parts W 31145000 0)
     [from_parts W 0 42428, db_reads W d 2, db_writes W d 2]"

definition referenda_nudge_referendum_continue_not_confirming :: "'w weight_ops \<Rightarrow> RuntimeDbWeight \<Rightarrow> 'w" where
  "referenda_nudge_referendum_continue_not_confirming W d = saturating_adds W (from_parts W 29546000 0)
     [from_parts W 0 42428, db_reads W d 2, db_writes W d 2]"

definition referenda_nudge_referendum_continue_confirming :: "'w weight_ops \<Rightarrow> RuntimeDbWeight \<Rightarrow> 'w" where
  "referenda_nudge_referendum_continue_confirming W d = saturating_adds W (from_parts W 28129000 0)
     [from_parts W 0 42428, db_reads W d 2, db_writes W d 2]"

definition referenda_nudge_referendum_approved :: "'w weight_ops \<Rightarrow> RuntimeDbWeight \<Rightarrow> 'w" where
  "referenda_nudge_referendum_approved W d = saturating_adds W (from_parts W 43526000 0)
     [from_parts W 0 83866, db_reads W d 4, db_writes W d 4]"

definition referenda_nudge_referendum_rejected :: "'w weight_ops \<Rightarrow> RuntimeDbWeight \<Rightarrow> 'w" where
  "referenda_nudge_referendum_rejected W d = saturating_adds W (from_parts W 30738000 0)
     [from_parts W 0 42428, db_reads W d 2, db_writes W d 2]"

definition referenda_set_some_metadata :: "'w weight_ops \<Rightarrow> RuntimeDbWeight \<Rightarrow> 'w" where
  "referenda_set_some_metadata W d = saturating_adds W (from_parts W 24882000 0)
     [from_parts W 0 4401, db_reads W d 3, db_writes W d 1]"

definition referenda_clear_metadata :: "'w weight_ops \<Rightarrow> RuntimeDbWeight \<Rightarrow> 'w" where
  "referenda_clear_metadata W d = saturating_adds W (from_parts W 20390000 0)
     [from_parts W 0 4401, db_reads W d 2, db_writes W d 1]"

definition referenda_weights :: "'w benchmark list" where
  "referenda_weights = [
     \<lparr>bm_name = ''pallet_referenda::submit'', bm_range = [], bm_storage = (2, 3),
      bm_estimate = (42428, []), bm_weight = \<lambda>W d xs. referenda_submit W d\<rparr>,
     \<lparr>bm_name = ''pallet_referenda::place_decision_deposit_preparing'', bm_range = [], bm_storage = (3, 4),
      bm_estimate = (83866, []), bm_weight = \<lambda>W d xs. referenda_place_decision_deposit_preparing W d\<rparr>,
     \<lparr>bm_name = ''pallet_referenda::place_decision_deposit_queued'', bm_range = [], bm_storage = (4, 4),
      bm_estimate = (42428, []), bm_weight = \<lambda>W d xs. referenda_place_decision_deposit_queued W d\<rparr>,
     \<lparr>bm_name = ''pallet_referenda::place_decision_deposit_not_queued'', bm_range = [], bm_storage = (4, 4),
      bm_estimate = (42428, []), bm_weight = \<lambda>W d xs. referenda_place_decision_deposit_not_queued W d\<rparr>,
     \<lparr>bm_name = ''pallet_referenda::place_decision_deposit_passing'', bm_range = [], bm_storage = (4, 5),
      bm_estimate = (83866, []), bm_weight = \<lambda>W d xs. referenda_place_decision_deposit_passing W d\<rparr>,
     \<lparr>bm_name = ''pallet_referenda::place_decision_deposit_failing'', bm_range = [], bm_storage = (4, 5),
      bm_estimate = (83866, []), bm_weight = \<lambda>W d xs. referenda_place_decision_deposit_failing W d\<rparr>,
     \<lparr>bm_name = ''pallet_referenda::refund_decision_deposit'', bm_range = [], bm_storage = (1, 1),
      bm_estimate = (4401, []), bm_weight = \<lambda>W d xs. referenda_refund_decision_deposit W d\<rparr>,
     \<lparr>bm_name = ''pallet_referenda::refund_submission_deposit'', bm_range = [], bm_storage = (1, 1),
      bm_estimate = (4401, []), bm_weight = \<lambda>W d xs. referenda_refund_submission_deposit W d\<rparr>,
     \<lparr>bm_name = ''pallet_referenda::cancel'', bm_range = [], bm_storage = (3, 4),
      bm_estimate = (83866, []), bm_weight = \<lambda>W d xs. referenda_cancel W d\<rparr>,
     \<lparr>bm_name = ''pallet_referenda::kill'', bm_range = [], bm_storage = (5, 5),
      bm_estimate = (83866, []), bm_weight = \<lambda>W d xs. referenda_kill W d\<rparr>,
     \<lparr>bm_name = ''pallet_referenda::one_fewer_deciding_queue_empty'', bm_range = [], bm_storage = (2, 1),
      bm_estimate = (3876, []), bm_weight = \<lambda>W d xs. referenda_one_fewer_deciding_queue_empty W d\<rparr>,
     \<lparr>bm_name = ''pallet_referenda::one_fewer_deciding_failing'', bm_range = [], bm_storage = (3, 3),
      bm_estimate = (42428, []), bm_weight = \<lambda>W d xs. referenda_one_fewer_deciding_failing W d\<rparr>,
     \<lparr>bm_name = ''pallet_referenda::one_fewer_deciding_passing'', bm_range = [], bm_storage = (3, 3),
      bm_estimate = (42428, []), bm_weight = \<lambda>W d xs. referenda_one_fewer_deciding_passing W d\<rparr>,
     \<lparr>bm_name = ''pallet_referenda::nudge_referendum_requeued_insertion'', bm_range = [], bm_storage = (2, 1),
      bm_estimate = (4401, []), bm_weight = \<lambda>W d xs. referenda_nudge_referendum_requeued_insertion W d\<rparr>,
     \<lparr>bm_name = ''pallet_referenda::nudge_referendum_requeued_slide'', bm_range = [], bm_storage = (2, 1),
      bm_estimate = (4401, []), bm_weight = \<lambda>W d xs. referenda_nudge_referendum_requeued_slide W d\<rparr>,
     \<lparr>bm_name = ''pallet_referenda::nudge_referendum_queued'', bm_range = [], bm_storage = (3, 2),
      bm_estimate = (4401, []), bm_weight = \<lambda>W d xs. referenda_nudge_referendum_queued W d\<rparr>,
     \<lparr>bm_name = ''pallet_referenda::nudge_referendum_not_queued'', bm_range = [], bm_storage = (3, 2),
      bm_estimate = (4401, []), bm_weight = \<lambda>W d xs. referenda_nudge_referendum_not_queued W d\<rparr>,
     \<lparr>bm_name = ''pallet_referenda::nudge_referendum_no_deposit'', bm_range = [], bm_storage = (2, 2),
      bm_estimate = (42428, []), bm_weight = \<lambda>W d xs. referenda_nudge_referendum_no_deposit W d\<rparr>,
     \<lparr>bm_name = ''pallet_referenda::nudge_referendum_preparing'', bm_range = [], bm_storage = (2, 2),
      bm_estimate = (42428, []), bm_weight = \<lambda>W d xs. referenda_nudge_referendum_preparing W d\<rparr>,
     \<lparr>bm_name = ''pallet_referenda::nudge_referendum_timed_out'', bm_range = [], bm_storage = (1, 1),
      bm_estimate = (4401, []), bm_weight = \<lambda>W d xs. referenda_nudge_referendum_timed_out W d\<rparr>,
     \<lparr>bm_name = ''pallet_referenda::nudge_referendum_begin_deciding_failing'', bm_range = [], bm_storage = (3, 3),
      bm_estimate = (42428, []), bm_weight = \<lambda>W d xs. referenda_nudge_referendum_begin_deciding_failing W d\<rparr>,
     \<lparr>bm_name = ''pallet_referenda::nudge_referendum_begin_deciding_passing'', bm_range = [], bm_storage = (3, 3),
      bm_estimate = (42428, []), bm_weight = \<lambda>W d xs. referenda_nudge_referendum_begin_deciding_passing W d\<rparr>,
     \<lparr>bm_name = ''pallet_referenda::nudge_referendum_begin_confirming'', bm_range = [], bm_storage = (2, 2),
      bm_estimate = (42428, []), bm_weight = \<lambda>W d xs. referenda_nudge_referendum_begin_confirming W d\<rparr>,
     \<lparr>bm_name = ''pallet_referenda::nudge_referendum_end_confirming'', bm_range = [], bm_storage = (2, 2),
      bm_estimate = (42428, []), bm_weight = \<lambda>W d xs. referenda_nudge_referendum_end_confirming W d\<rparr>,
     \<lparr>bm_name = ''pallet_referenda::nudge_referendum_continue_not_confirming'', bm_range = [], bm_storage = (2, 2),
      bm_estimate = (42428, []), bm_weight = \<lambda>W d xs. referenda_nudge_referendum_continue_not_confirming W d\<rparr>,
     \<lparr>bm_name = ''pallet_referenda::nudge_referendum_continue_confirming'', bm_range = [], bm_storage = (2, 2),
      bm_estimate = (42428, []), bm_weight = \<lambda>W d xs. referenda_nudge_referendum_continue_confirming W d\<rparr>,
     \<lparr>bm_name = ''pallet_referenda::nudge_referendum_approved'', bm_range = [], bm_storage = (4, 4),
      bm_estimate = (83866, []), bm_weight = \<lambda>W d xs. referenda_nudge_referendum_approved W d\<rparr>,
     \<lparr>bm_name = ''pallet_referenda::nudge_referendum_rejected'', bm_range = [], bm_storage = (2, 2),
      bm_estimate = (42428, []), bm_weight = \<lambda>W d xs. referenda_nudge_referendum_rejected W d\<rparr>,
     \<lparr>bm_name = ''pallet_referenda::set_some_metadata'', bm_range = [], bm_storage = (3, 1),
      bm_estimate = (4401, []), bm_weight = \<lambda>W d xs. referenda_set_some_metadata W d\<rparr>,
     \<lparr>bm_name = ''pallet_referenda::clear_metadata'', bm_range = [], bm_storage = (2, 1),
      bm_estimate = (4401, []), bm_weight = \<lambda>W d xs. referenda_clear_metadata W d\<rparr>]"

lemmas referenda_weight_defs =
  referenda_submit_def referenda_place_decision_deposit_preparing_def
  referenda_place_decision_deposit_queued_def referenda_place_decision_deposit_not_queued_def
  referenda_place_decision_deposit_passing_def referenda_place_decision_deposit_failing_def
  referenda_refund_decision_deposit_def referenda_refund_submission_deposit_def
  referenda_cancel_def referenda_kill_def referenda_one_fewer_deciding_queue_empty_def
  referenda_one_fewer_deciding_failing_def referenda_one_fewer_deciding_passing_def
  referenda_nudge_referendum_requeued_insertion_def referenda_nudge_referendum_requeued_slide_def
  referenda_nudge_referendum_queued_def referenda_nudge_referendum_not_queued_def
  referenda_nudge_referendum_no_deposit_def referenda_nudge_referendum_preparing_def
  referenda_nudge_referendum_timed_out_def referenda_nudge_referendum_begin_deciding_failing_def
  referenda_nudge_referendum_begin_deciding_passing_def
  referenda_nudge_referendum_begin_confirming_def referenda_nudge_referendum_end_confirming_def
  referenda_nudge_referendum_continue_not_confirming_def
  referenda_nudge_referendum_continue_confirming_def referenda_nudge_referendum_approved_def
  referenda_nudge_referendum_rejected_def referenda_set_some_metadata_def
  referenda_clear_metadata_def

lemma referenda_tracked: "sp_weights W \<Longrightarrow> list_all2 (tracked W) referenda_weights referenda_weights"
  unfolding referenda_weights_def
  by (intro list.rel_intros conjI trackedI;
      simp only: referenda_weight_defs saturating_adds_simps; (rule tracking | assumption | simp)+)

lemma referenda_bounded: "list_all bounded referenda_weights"
  by (simp add: bounded_def slow_db_def referenda_weights_def referenda_weight_defs weight_eval)

lemma referenda_well_estimated: "list_all well_estimated referenda_weights"
  by (auto simp: well_estimated_def estimated_size_def referenda_weights_def referenda_weight_defs weight_eval)

section \<open>\<open>pallet_treasury.rs\<close>\<close>

definition treasury_spend_local :: "'w weight_ops \<Rightarrow> RuntimeDbWeight \<Rightarrow> 'w" where
  "treasury_spend_local W d = saturating_adds W (from_parts W 14006000 0)
     [from_parts W 0 1887, db_reads W d 2, db_writes W d 3]"

definition treasury_propose_spend :: "'w weight_ops \<Rightarrow> RuntimeDbWeight \<Rightarrow> 'w" where
  "treasury_propose_spend W d = saturating_adds W (from_parts W 30762000 0)
     [from_parts W 0 1489, db_reads W d 1, db_writes W d 2]"

definition treasury_reject_proposal :: "'w weight_ops \<Rightarrow> RuntimeDbWeight \<Rightarrow> 'w" where
  "treasury_reject_proposal W d = saturating_adds W (from_parts W 47536000 0)
     [from_parts W 0 6196, db_reads W d 3, db_writes W d 3]"

definition treasury_approve_proposal :: "'w weight_ops \<Rightarrow> RuntimeDbWeight \<Rightarrow> u32 \<Rightarrow> 'w" where
  "treasury_approve_proposal W d p = saturating_adds W (from_parts W 13272306 0)
     [from_parts W 0 3573, weight_mul W (from_parts W 104034 0) (ucast p), db_reads W d 2,
      db_writes W d 1]"

definition treasury_remove_approval :: "'w weight_ops \<Rightarrow> RuntimeDbWeight \<Rightarrow> 'w" where
  "treasury_remove_approval W d = saturating_adds W (from_parts W 7250000 0)
     [from_parts W 0 1887, db_reads W d 1, db_writes W d 1]"

definition treasury_on_initialize_proposals :: "'w weight_ops \<Rightarrow> RuntimeDbWeight \<Rightarrow> u32 \<Rightarrow> 'w" where
  "treasury_on_initialize_proposals W d p = saturating_adds W (from_parts W 178002629 0)
     [from_parts W 0 22019, weight_mul W (from_parts W 4022516 0) (ucast p), db_reads W d 10,
      db_reads W d (saturating_mul 1 (ucast p)), db_writes W d 14,
      weight_mul W (from_parts W 0 2583) (ucast p)]"

definition treasury_spend :: "'w weight_ops \<Rightarrow> RuntimeDbWeight \<Rightarrow> 'w" where
  "treasury_spend W d = saturating_adds W (from_parts W 16698000 0)
     [from_parts W 0 1489, db_reads W d 1, db_writes W d 2]"

definition treasury_payout :: "'w weight_ops \<Rightarrow> RuntimeDbWeight \<Rightarrow> 'w" where
  "treasury_payout W d = saturating_adds W (from_parts W 62416000 0)
     [from_parts W 0 5318, db_reads W d 6, db_writes W d 5]"

definition treasury_check_status :: "'w weight_ops \<Rightarrow> RuntimeDbWeight \<Rightarrow> 'w" where
  "treasury_check_status W d = saturating_adds W (from_parts W 28882000 0)
     [from_parts W 0 5318, db_reads W d 2, db_writes W d 2]"

definition treasury_void_spend :: "'w weight_ops \<Rightarrow> RuntimeDbWeight \<Rightarrow> 'w" where
  "treasury_void_spend W d = saturating_adds W (from_parts W 16801000 0)
     [from_parts W 0 5318, db_reads W d 1, db_writes W d 1]"

definition treasury_weights :: "'w benchmark list" where
  "treasury_weights = [
     \<lparr>bm_name = ''pallet_treasury::spend_local'', bm_range = [], bm_storage = (2, 3),
      bm_estimate = (1887, []), bm_weight = \<lambda>W d xs. treasury_spend_local W d\<rparr>,
     \<lparr>bm_name = ''pallet_treasury::propose_spend'', bm_range = [], bm_storage = (1, 2),
      bm_estimate = (1489, []), bm_weight = \<lambda>W d xs. treasury_propose_spend W d\<rparr>,
     \<lparr>bm_name = ''pallet_treasury::reject_proposal'', bm_range = [], bm_storage = (3, 3),
      bm_estimate = (6196, []), bm_weight = \<lambda>W d xs. treasury_reject_proposal W d\<rparr>,
     \<lparr>bm_name = ''pallet_treasury::approve_proposal'', bm_range = [(0, 99)], bm_storage = (2, 1),
      bm_estimate = (3573, [0]), bm_weight = \<lambda>W d xs. treasury_approve_proposal W d (xs ! 0)\<rparr>,
     \<lparr>bm_name = ''pallet_treasury::remove_approval'', bm_range = [], bm_storage = (1, 1),
      bm_estimate = (1887, []), bm_weight = \<lambda>W d xs. treasury_remove_approval W d\<rparr>,
     \<lparr>bm_name = ''pallet_treasury::on_initialize_proposals'', bm_range = [(0, 99)], bm_storage = (110, 15),
      bm_estimate = (22019, [2583]), bm_weight = \<lambda>W d xs. treasury_on_initialize_proposals W d (xs ! 0)\<rparr>,
     \<lparr>bm_name = ''pallet_treasury::spend'', bm_range = [], bm_storage = (1, 2),
      bm_estimate = (1489, []), bm_weight = \<lambda>W d xs. treasury_spend W d\<rparr>,
     \<lparr>bm_name = ''pallet_treasury::payout'', bm_range = [], bm_storage = (6, 5),
      bm_estimate = (5318, []), bm_weight = \<lambda>W d xs. treasury_payout W d\<rparr>,
     \<lparr>bm_name = ''pallet_treasury::check_status'', bm_range = [], bm_storage = (2, 2),
      bm_estimate = (5318, []), bm_weight = \<lambda>W d xs. treasury_check_status W d\<rparr>,
     \<lparr>bm_name = ''pallet_treasury::void_spend'', bm_range = [], bm_storage = (1, 1),
      bm_estimate = (5318, []), bm_weight = \<lambda>W d xs. treasury_void_spend W d\<rparr>]"

lemmas treasury_weight_defs =
  treasury_spend_local_def treasury_propose_spend_def treasury_reject_proposal_def
  treasury_approve_proposal_def treasury_remove_approval_def treasury_on_initialize_proposals_def
  treasury_spend_def treasury_payout_def treasury_check_status_def treasury_void_spend_def

lemma treasury_tracked: "sp_weights W \<Longrightarrow> list_all2 (tracked W) treasury_weights treasury_weights"
  unfolding treasury_weights_def
  by (intro list.rel_intros conjI trackedI;
      simp only: treasury_weight_defs saturating_adds_simps; (rule tracking | assumption | simp)+)

lemma treasury_bounded: "list_all bounded treasury_weights"
  by (simp add: bounded_def slow_db_def treasury_weights_def treasury_weight_defs weight_eval)

lemma treasury_well_estimated: "list_all well_estimated treasury_weights"
  by (auto simp: well_estimated_def estimated_size_def treasury_weights_def treasury_weight_defs weight_eval)

section \<open>\<open>pallet_whitelist.rs\<close>\<close>

definition whitelist_whitelist_call :: "'w weight_ops \<Rightarrow> RuntimeDbWeight \<Rightarrow> 'w" where
  "whitelist_whitelist_call W d = saturating_adds W (from_parts W 23718000 0)
     [from_parts W 0 3556, db_reads W d 3, db_writes W d 2]"

definition whitelist_remove_whitelisted_call :: "'w weight_ops \<Rightarrow> RuntimeDbWeight \<Rightarrow> 'w" where
  "whitelist_remove_whitelisted_call W d = saturating_adds W (from_parts W 21765000 0)
     [from_parts W 0 3556, db_reads W d 3, db_writes W d 2]"

definition whitelist_dispatch_whitelisted_call :: "'w weight_ops \<Rightarrow> RuntimeDbWeight \<Rightarrow> u32 \<Rightarrow> 'w" where
  "whitelist_dispatch_whitelisted_call W d n = saturating_adds W (from_parts W 35591000 0)
     [from_parts W 0 3716, weight_mul W (from_parts W 1269 0) (ucast n), db_reads W d 4,
      db_writes W d 3, weight_mul W (from_parts W 0 1) (ucast n)]"

definition whitelist_dispatch_whitelisted_call_with_preimage :: "'w weight_ops \<Rightarrow> RuntimeDbWeight \<Rightarrow> u32 \<Rightarrow> 'w" where
  "whitelist_dispatch_whitelisted_call_with_preimage W d n = saturating_adds W (from_parts W 26690528 0)
     [from_parts W 0 3556, weight_mul W (from_parts W 1443 0) (ucast n), db_reads W d 3,
      db_writes W d 2]"

definition whitelist_weights :: "'w benchmark list" where
  "whitelist_weights = [
     \<lparr>bm_name = ''pallet_whitelist::whitelist_call'', bm_range = [], bm_storage = (3, 2),
      bm_estimate = (3556, []), bm_weight = \<lambda>W d xs. whitelist_whitelist_call W d\<rparr>,
     \<lparr>bm_name = ''pallet_whitelist::remove_whitelisted_call'', bm_range = [], bm_storage = (3, 2),
      bm_estimate = (3556, []), bm_weight = \<lambda>W d xs. whitelist_remove_whitelisted_call W d\<rparr>,
     \<lparr>bm_name = ''pallet_whitelist::dispatch_whitelisted_call'', bm_range = [(1, 4194294)], bm_storage = (4, 3),
      bm_estimate = (3716, [1]), bm_weight = \<lambda>W d xs. whitelist_dispatch_whitelisted_call W d (xs ! 0)\<rparr>,
     \<lparr>bm_name = ''pallet_whitelist::dispatch_whitelisted_call_with_preimage'', bm_range = [(1, 10000)], bm_storage = (3, 2),
      bm_estimate = (3556, [0]), bm_weight = \<lambda>W d xs. whitelist_dispatch_whitelisted_call_with_preimage W d (xs ! 0)\<rparr>]"

lemmas whitelist_weight_defs =
  whitelist_whitelist_call_def whitelist_remove_whitelisted_call_def
  whitelist_dispatch_whitelisted_call_def whitelist_dispatch_whitelisted_call_with_preimage_def

lemma whitelist_tracked: "sp_weights W \<Longrightarrow> list_all2 (tracked W) whitelist_weights whitelist_weights"
  unfolding whitelist_weights_def
  by (intro list.rel_intros conjI trackedI;
      simp only: whitelist_weight_defs saturating_adds_simps; (rule tracking | assumption | simp)+)

lemma whitelist_bounded: "list_all bounded whitelist_weights"
  by (simp add: bounded_def slow_db_def whitelist_weights_def whitelist_weight_defs weight_eval)

lemma whitelist_well_estimated: "list_all well_estimated whitelist_weights"
  by (auto simp: well_estimated_def estimated_size_def whitelist_weights_def whitelist_weight_defs weight_eval)

end
