(* ===== verification/Weights_Calls.thy ===== *)
theory Weights_Calls
  imports Weight_Ops
begin

text \<open>
  The weight functions of the pallets for scheduled, batched, proxied and joint calls, one definition per function of the
  \<open>WeightInfo\<close> implementations in
  \<open>runtime/src/weights/pallet_multisig.rs\<close>, \<open>runtime/src/weights/pallet_preimage.rs\<close>, \<open>runtime/src/weights/pallet_proxy.rs\<close>, \<open>runtime/src/weights/pallet_scheduler.rs\<close>, \<open>runtime/src/weights/pallet_utility.rs\<close>.
  Each table lists the functions of one file with the ranges, storage lines and estimates of its comments.
\<close>

section \<open>\<open>pallet_multisig.rs\<close>\<close>

definition multisig_as_multi_threshold_1 :: "'w weight_ops \<Rightarrow> RuntimeDbWeight \<Rightarrow> u32 \<Rightarrow> 'w" where
  "multisig_as_multi_threshold_1 W d z = saturating_adds W (from_parts W 16645891 0)
     [from_parts W 0 0, weight_mul W (from_parts W 544 0) (ucast z)]"

definition multisig_as_multi_create :: "'w weight_ops \<Rightarrow> RuntimeDbWeight \<Rightarrow> u32 \<Rightarrow> u32 \<Rightarrow> 'w" where
  "multisig_as_multi_create W d s z = saturating_adds W (from_parts W 38464817 0)
     [from_parts W 0 6811, weight_mul W (from_parts W 140476 0) (ucast s),
      weight_mul W (from_parts W 1484 0) (ucast z), db_reads W d 1, db_writes W d 1]"

definition multisig_as_multi_approve :: "'w weight_ops \<Rightarrow> RuntimeDbWeight \<Rightarrow> u32 \<Rightarrow> u32 \<Rightarrow> 'w" where
  "multisig_as_multi_approve W d s z = saturating_adds W (from_parts W 21872775 0)
     [from_parts W 0 6811, weight_mul W (from_parts W 122423 0) (ucast s),
      weight_mul W (from_parts W 1436 0) (ucast z), db_reads W d 1, db_writes W d 1]"

definition multisig_as_multi_complete :: "'w weight_ops \<Rightarrow> RuntimeDbWeight \<Rightarrow> u32 \<Rightarrow> u32 \<Rightarrow> 'w" where
  "multisig_as_multi_complete W d s z = saturating_adds W (from_parts W 43156157 0)
     [from_parts W 0 6811, weight_mul W (from_parts W 164099 0) (ucast s),
      weight_mul W (from_parts W 1524 0) (ucast z), db_reads W d 2, db_writes W d 2]"

definition multisig_approve_as_multi_create :: "'w weight_ops \<Rightarrow> RuntimeDbWeight \<Rightarrow> u32 \<Rightarrow> 'w" where
  "multisig_approve_as_multi_create W d s = saturating_adds W (from_parts W 37094076 0)
     [from_parts W 0 6811, weight_mul W (from_parts W 146157 0) (ucast s), db_reads W d 1,
      db_writes W d 1]"

definition multisig_approve_as_multi_approve :: "'w weight_ops \<Rightarrow> RuntimeDbWeight \<Rightarrow> u32 \<Rightarrow> 'w" where
  "multisig_approve_as_multi_approve W d s = saturating_adds W (from_parts W 20611956 0)
     [from_parts W 0 6811, weight_mul W (from_parts W 119122 0) (ucast s), db_reads W d 1,
      db_writes W d 1]"

definition multisig_cancel_as_multi :: "'w weight_ops \<Rightarrow> RuntimeDbWeight \<Rightarrow> u32 \<Rightarrow> 'w" where
  "multisig_cancel_as_multi W d s = saturating_adds W (from_parts W 39254823 0)
     [from_parts W 0 6811, weight_mul W (from_parts W 131867 0) (ucast s), db_reads W d 1,
      db_writes W d 1]"

definition multisig_weights :: "'w benchmark list" where
  "multisig_weights = [
     \<lparr>bm_name = ''pallet_multisig::as_multi_threshold_1'', bm_range = [(0, 10000)], bm_storage = (0, 0),
      bm_estimate = (0, [0]), bm_weight = \<lambda>W d xs. multisig_as_multi_threshold_1 W d (xs ! 0)\<rparr>,
     \<lparr>bm_name = ''pallet_multisig::as_multi_create'', bm_range = [(2, 100), (0, 10000)], bm_storage = (1, 1),
      bm_estimate = (6811, [0, 0]), bm_weight = \<lambda>W d xs. multisig_as_multi_create W d (xs ! 0) (xs ! 1)\<rparr>,
     \<lparr>bm_name = ''pallet_multisig::as_multi_approve'', bm_range = [(3, 100), (0, 10000)], bm_storage = (1, 1),
      bm_estimate = (6811, [0, 0]), bm_weight = \<lambda>W d xs. multisig_as_multi_approve W d (xs ! 0) (xs ! 1)\<rparr>,
     \<lparr>bm_name = ''pallet_multisig::as_multi_complete'', bm_range = [(2, 100), (0, 10000)], bm_storage = (2, 2),
      bm_estimate = (6811, [0, 0]), bm_weight = \<lambda>W d xs. multisig_as_multi_complete W d (xs ! 0) (xs ! 1)\<rparr>,
     \<lparr>bm_name = ''pallet_multisig::approve_as_multi_create'', bm_range = [(2, 100)], bm_storage = (1, 1),
      bm_estimate = (6811, [0]), bm_weight = \<lambda>W d xs. multisig_approve_as_multi_create W d (xs ! 0)\<rparr>,
     \<lparr>bm_name = ''pallet_multisig::approve_as_multi_approve'', bm_range = [(2, 100)], bm_storage = (1, 1),
      bm_estimate = (6811, [0]), bm_weight = \<lambda>W d xs. multisig_approve_as_multi_approve W d (xs ! 0)\<rparr>,
     \<lparr>bm_name = ''pallet_multisig::cancel_as_multi'', bm_range = [(2, 100)], bm_storage = (1, 1),
      bm_estimate = (6811, [0]), bm_weight = \<lambda>W d xs. multisig_cancel_as_multi W d (xs ! 0)\<rparr>]"

lemmas multisig_weight_defs =
  multisig_as_multi_threshold_1_def multisig_as_multi_create_def multisig_as_multi_approve_def
  multisig_as_multi_complete_def multisig_approve_as_multi_create_def
  multisig_approve_as_multi_approve_def multisig_cancel_as_multi_def

lemma multisig_tracked: "sp_weights W \<Longrightarrow> list_all2 (tracked W) multisig_weights multisig_weights"
  unfolding multisig_weights_def
  by (intro list.rel_intros conjI trackedI;
      simp only: multisig_weight_defs saturating_adds_simps; (rule tracking | assumption | simp)+)

lemma multisig_bounded: "list_all bounded multisig_weights"
  by (simp add: bounded_def slow_db_def multisig_weights_def multisig_weight_defs weight_eval)

lemma multisig_well_estimated: "list_all well_estimated multisig_weights"
  by (auto simp: well_estimated_def estimated_size_def multisig_weights_def multisig_weight_defs weight_eval)

section \<open>\<open>pallet_preimage.rs\<close>\<close>

definition preimage_note_preimage :: "'w weight_ops \<Rightarrow> RuntimeDbWeight \<Rightarrow> u32 \<Rightarrow> 'w" where
  "preimage_note_preimage W d s = saturating_adds W (from_parts W 62646000 0)
     [from_parts W 0 3556, weight_mul W (from_parts W 2374 0) (ucast s), db_reads W d 3,
      db_writes W d 3]"

definition preimage_note_requested_preimage :: "'w weight_ops \<Rightarrow> RuntimeDbWeight \<Rightarrow> u32 \<Rightarrow> 'w" where
  "preimage_note_requested_preimage W d s = saturating_adds W (from_parts W 20867000 0)
     [from_parts W 0 3556, weight_mul W (from_parts W 2360 0) (ucast s), db_reads W d 2,
      db_writes W d 2]"

definition preimage_note_no_deposit_preimage :: "'w weight_ops \<Rightarrow> RuntimeDbWeight \<Rightarrow> u32 \<Rightarrow> 'w" where
  "preimage_note_no_deposit_preimage W d s = saturating_adds W (from_parts W 19947000 0)
     [from_parts W 0 3556, weight_mul W (from_parts W 2353 0) (ucast s), db_reads W d 2,
      db_writes W d 2]"

definition preimage_unnote_preimage :: "'w weight_ops \<Rightarrow> RuntimeDbWeight \<Rightarrow> 'w" where
  "preimage_unnote_preimage W d = saturating_adds W (from_parts W 69449000 0)
     [from_parts W 0 3556, db_reads W d 3, db_writes W d 3]"

definition preimage_unnote_no_deposit_preimage :: "'w weight_ops \<Rightarrow> RuntimeDbWeight \<Rightarrow> 'w" where
  "preimage_unnote_no_deposit_preimage W d = saturating_adds W (from_parts W 33647000 0)
     [from_parts W 0 3556, db_reads W d 2, db_writes W d 2]"

definition preimage_request_preimage :: "'w weight_ops \<Rightarrow> RuntimeDbWeight \<Rightarrow> 'w" where
  "preimage_request_preimage W d = saturating_adds W (from_parts W 25279000 0)
     [from_parts W 0 3556, db_reads W d 2, db_writes W d 1]"

definition preimage_request_no_deposit_preimage :: "'w weight_ops \<Rightarrow> RuntimeDbWeight \<Rightarrow> 'w" where
  "preimage_request_no_deposit_preimage W d = saturating_adds W (from_parts W 18494000 0)
     [from_parts W 0 3556, db_reads W d 2, db_writes W d 1]"

definition preimage_request_unnoted_preimage :: "'w weight_ops \<Rightarrow> RuntimeDbWeight \<Rightarrow> 'w" where
  "preimage_request_unnoted_preimage W d = saturating_adds W (from_parts W 19766000 0)
     [from_parts W 0 3556, db_reads W d 2, db_writes W d 1]"

definition preimage_request_requested_preimage :: "'w weight_ops \<Rightarrow> RuntimeDbWeight \<Rightarrow> 'w" where
  "preimage_request_requested_preimage W d = saturating_adds W (from_parts W 14469000 0)
     [from_parts W 0 3556, db_reads W d 2, db_writes W d 1]"

definition preimage_unrequest_preimage :: "'w weight_ops \<Rightarrow> RuntimeDbWeight \<Rightarrow> 'w" where
  "preimage_unrequest_preimage W d = saturating_adds W (from_parts W 32052000 0)
     [from_parts W 0 3556, db_reads W d 2, db_writes W d 2]"

definition preimage_unrequest_unnoted_preimage :: "'w weight_ops \<Rightarrow> RuntimeDbWeight \<Rightarrow> 'w" where
  "preimage_unrequest_unnoted_preimage W d = saturating_adds W (from_parts W 14280000 0)
     [from_parts W 0 3556, db_reads W d 2, db_writes W d 1]"

definition preimage_unrequest_multi_referenced_preimage :: "'w weight_ops \<Rightarrow> RuntimeDbWeight \<Rightarrow> 'w" where
  "preimage_unrequest_multi_referenced_preimage W d = saturating_adds W (from_parts W 14347000 0)
     [from_parts W 0 3556, db_reads W d 2, db_writes W d 1]"

definition preimage_ensure_updated :: "'w weight_ops \<Rightarrow> RuntimeDbWeight \<Rightarrow> u32 \<Rightarrow> 'w" where
  "preimage_ensure_updated W d n = saturating_adds W (from_parts W 70098000 0)
     [from_parts W 0 990, weight_mul W (from_parts W 66716432 0) (ucast n),
      db_reads W d (saturating_mul 3 (ucast n)), db_writes W d (saturating_mul 4 (ucast n)),
      weight_mul W (from_parts W 0 2603) (ucast n)]"

definition preimage_weights :: "'w benchmark list" where
  "preimage_weights = [
     \<lparr>bm_name = ''pallet_preimage::note_preimage'', bm_range = [(0, 4194304)], bm_storage = (3, 3),
      bm_estimate = (3556, [0]), bm_weight = \<lambda>W d xs. preimage_note_preimage W d (xs ! 0)\<rparr>,
     \<lparr>bm_name = ''pallet_preimage::note_requested_preimage'', bm_range = [(0, 4194304)], bm_storage = (2, 2),
      bm_estimate = (3556, [0]), bm_weight = \<lambda>W d xs. preimage_note_requested_preimage W d (xs ! 0)\<rparr>,
     \<lparr>bm_name = ''pallet_preimage::note_no_deposit_preimage'', bm_range = [(0, 4194304)], bm_storage = (2, 2),
      bm_estimate = (3556, [0]), bm_weight = \<lambda>W d xs. preimage_note_no_deposit_preimage W d (xs ! 0)\<rparr>,
     \<lparr>bm_name = ''pallet_preimage::unnote_preimage'', bm_range = [], bm_storage = (3, 3),
      bm_estimate = (3556, []), bm_weight = \<lambda>W d xs. preimage_unnote_preimage W d\<rparr>,
     \<lparr>bm_name = ''pallet_preimage::unnote_no_deposit_preimage'', bm_range = [], bm_storage = (2, 2),
      bm_estimate = (3556, []), bm_weight = \<lambda>W d xs. preimage_unnote_no_deposit_preimage W d\<rparr>,
     \<lparr>bm_name = ''pallet_preimage::request_preimage'', bm_range = [], bm_storage = (2, 1),
      bm_estimate = (3556, []), bm_weight = \<lambda>W d xs. preimage_request_preimage W d\<rparr>,
     \<lparr>bm_name = ''pallet_preimage::request_no_deposit_preimage'', bm_range = [], bm_storage = (2, 1),
      bm_estimate = (3556, []), bm_weight = \<lambda>W d xs. preimage_request_no_deposit_preimage W d\<rparr>,
     \<lparr>bm_name = ''pallet_preimage::request_unnoted_preimage'', bm_range = [], bm_storage = (2, 1),
      bm_estimate = (3556, []), bm_weight = \<lambda>W d xs. preimage_request_unnoted_preimage W d\<rparr>,
     \<lparr>bm_name = ''pallet_preimage::request_requested_preimage'', bm_range = [], bm_storage = (2, 1),
      bm_estimate = (3556, []), bm_weight = \<lambda>W d xs. preimage_request_requested_preimage W d\<rparr>,
     \<lparr>bm_name = ''pallet_preimage::unrequest_preimage'', bm_range = [], bm_storage = (2, 2),
      bm_estimate = (3556, []), bm_weight = \<lambda>W d xs. preimage_unrequest_preimage W d\<rparr>,
     \<lparr>bm_name = ''pallet_preimage::unrequest_unnoted_preimage'', bm_range = [], bm_storage = (2, 1),
      bm_estimate = (3556, []), bm_weight = \<lambda>W d xs. preimage_unrequest_unnoted_preimage W d\<rparr>,
     \<lparr>bm_name = ''pallet_preimage::unrequest_multi_referenced_preimage'', bm_range = [], bm_storage = (2, 1),
      bm_estimate = (3556, []), bm_weight = \<lambda>W d xs. preimage_unrequest_multi_referenced_preimage W d\<rparr>,
     \<lparr>bm_name = ''pallet_preimage::ensure_updated'', bm_range = [(1, 1024)], bm_storage = (3069, 4092),
      bm_estimate = (990, [2603]), bm_weight = \<lambda>W d xs. preimage_ensure_updated W d (xs ! 0)\<rparr>]"

lemmas preimage_weight_defs =
  preimage_note_preimage_def preimage_note_requested_preimage_def
  preimage_note_no_deposit_preimage_def preimage_unnote_preimage_def
  preimage_unnote_no_deposit_preimage_def preimage_request_preimage_def
  preimage_request_no_deposit_preimage_def preimage_request_unnoted_preimage_def
  preimage_request_requested_preimage_def preimage_unrequest_preimage_def
  preimage_unrequest_unnoted_preimage_def preimage_unrequest_multi_referenced_preimage_def
  preimage_ensure_updated_def

lemma preimage_tracked: "sp_weights W \<Longrightarrow> list_all2 (tracked W) preimage_weights preimage_weights"
  unfolding preimage_weights_def
  by (intro list.rel_intros conjI trackedI;
      simp only: preimage_weight_defs saturating_adds_simps; (rule tracking | assumption | simp)+)

lemma preimage_bounded: "list_all bounded preimage_weights"
  by (simp add: bounded_def slow_db_def preimage_weights_def preimage_weight_defs weight_eval)

lemma preimage_well_estimated: "list_all well_estimated preimage_weights"
  by (auto simp: well_estimated_def estimated_size_def preimage_weights_def preimage_weight_defs weight_eval)

section \<open>\<open>pallet_proxy.rs\<close>\<close>

definition proxy_proxy :: "'w weight_ops \<Rightarrow> RuntimeDbWeight \<Rightarrow> u32 \<Rightarrow> 'w" where
  "proxy_proxy W d p = saturating_adds W (from_parts W 18038537 0)
     [from_parts W 0 4706, weight_mul W (from_parts W 35785 0) (ucast p), db_reads W d 1]"

definition proxy_proxy_announced :: "'w weight_ops \<Rightarrow> RuntimeDbWeight \<Rightarrow> u32 \<Rightarrow> u32 \<Rightarrow> 'w" where
  "proxy_proxy_announced W d a p = saturating_adds W (from_parts W 43422090 0)
     [from_parts W 0 5698, weight_mul W (from_parts W 180338 0) (ucast a),
      weight_mul W (from_parts W 37656 0) (ucast p), db_reads W d 3, db_writes W d 2]"

definition proxy_remove_announcement :: "'w weight_ops \<Rightarrow> RuntimeDbWeight \<Rightarrow> u32 \<Rightarrow> u32 \<Rightarrow> 'w" where
  "proxy_remove_announcement W d a p = saturating_adds W (from_parts W 30439765 0)
     [from_parts W 0 5698, weight_mul W (from_parts W 169490 0) (ucast a),
      weight_mul W (from_parts W 4933 0) (ucast p), db_reads W d 2, db_writes W d 2]"

definition proxy_reject_announcement :: "'w weight_ops \<Rightarrow> RuntimeDbWeight \<Rightarrow> u32 \<Rightarrow> u32 \<Rightarrow> 'w" where
  "proxy_reject_announcement W d a p = saturating_adds W (from_parts W 30289212 0)
     [from_parts W 0 5698, weight_mul W (from_parts W 165307 0) (ucast a),
      weight_mul W (from_parts W 5614 0) (ucast p), db_reads W d 2, db_writes W d 2]"

definition proxy_announce :: "'w weight_ops \<Rightarrow> RuntimeDbWeight \<Rightarrow> u32 \<Rightarrow> u32 \<Rightarrow> 'w" where
  "proxy_announce W d a p = saturating_adds W (from_parts W 38472822 0)
     [from_parts W 0 5698, weight_mul W (from_parts W 184426 0) (ucast a),
      weight_mul W (from_parts W 47260 0) (ucast p), db_reads W d 3, db_writes W d 2]"

definition proxy_add_proxy :: "'w weight_ops \<Rightarrow> RuntimeDbWeight \<Rightarrow> u32 \<Rightarrow> 'w" where
  "proxy_add_proxy W d p = saturating_adds W (from_parts W 29859941 0)
     [from_parts W 0 4706, weight_mul W (from_parts W 36055 0) (ucast p), db_reads W d 1,
      db_writes W d 1]"

definition proxy_remove_proxy :: "'w weight_ops \<Rightarrow> RuntimeDbWeight \<Rightarrow> u32 \<Rightarrow> 'w" where
  "proxy_remove_proxy W d p = saturating_adds W (from_parts W 29955778 0)
     [from_parts W 0 4706, weight_mul W (from_parts W 38034 0) (ucast p), db_reads W d 1,
      db_writes W d 1]"

definition proxy_remove_proxies :: "'w weight_ops \<Rightarrow> RuntimeDbWeight \<Rightarrow> u32 \<Rightarrow> 'w" where
  "proxy_remove_proxies W d p = saturating_adds W (from_parts W 28391098 0)
     [from_parts W 0 4706, weight_mul W (from_parts W 45877 0) (ucast p), db_reads W d 1,
      db_writes W d 1]"

definition proxy_create_pure :: "'w weight_ops \<Rightarrow> RuntimeDbWeight \<Rightarrow> u32 \<Rightarrow> 'w" where
  "proxy_create_pure W d p = saturating_adds W (from_parts W 31705111 0)
     [from_parts W 0 4706, weight_mul W (from_parts W 10048 0) (ucast p), db_reads W d 1,
      db_writes W d 1]"

definition proxy_kill_pure :: "'w weight_ops \<Rightarrow> RuntimeDbWeight \<Rightarrow> u32 \<Rightarrow> 'w" where
  "proxy_kill_pure W d p = saturating_adds W (from_parts W 29458879 0)
     [from_parts W 0 4706, weight_mul W (from_parts W 48887 0) (ucast p), db_reads W d 1,
      db_writes W d 1]"

definition proxy_weights :: "'w benchmark list" where
  "proxy_weights = [
     \<lparr>bm_name = ''pallet_proxy::proxy'', bm_range = [(1, 31)], bm_storage = (1, 0),
      bm_estimate = (4706, [0]), bm_weight = \<lambda>W d xs. proxy_proxy W d (xs ! 0)\<rparr>,
     \<lparr>bm_name = ''pallet_proxy::proxy_announced'', bm_range = [(0, 31), (1, 31)], bm_storage = (3, 2),
      bm_estimate = (5698, [0, 0]), bm_weight = \<lambda>W d xs. proxy_proxy_announced W d (xs ! 0) (xs ! 1)\<rparr>,
     \<lparr>bm_name = ''pallet_proxy::remove_announcement'', bm_range = [(0, 31), (1, 31)], bm_storage = (2, 2),
      bm_estimate = (5698, [0, 0]), bm_weight = \<lambda>W d xs. proxy_remove_announcement W d (xs ! 0) (xs ! 1)\<rparr>,
     \<lparr>bm_name = ''pallet_proxy::reject_announcement'', bm_range = [(0, 31), (1, 31)], bm_storage = (2, 2),
      bm_estimate = (5698, [0, 0]), bm_weight = \<lambda>W d xs. proxy_reject_announcement W d (xs ! 0) (xs ! 1)\<rparr>,
     \<lparr>bm_name = ''pallet_proxy::announce'', bm_range = [(0, 31), (1, 31)], bm_storage = (3, 2),
      bm_estimate = (5698, [0, 0]), bm_weight = \<lambda>W d xs. proxy_announce W d (xs ! 0) (xs ! 1)\<rparr>,
     \<lparr>bm_name = ''pallet_proxy::add_proxy'', bm_range = [(1, 31)], bm_storage = (1, 1),
      bm_estimate = (4706, [0]), bm_weight = \<lambda>W d xs. proxy_add_proxy W d (xs ! 0)\<rparr>,
     \<lparr>bm_name = ''pallet_proxy::remove_proxy'', bm_range = [(1, 31)], bm_storage = (1, 1),
      bm_estimate = (4706, [0]), bm_weight = \<lambda>W d xs. proxy_remove_proxy W d (xs ! 0)\<rparr>,
     \<lparr>bm_name = ''pallet_proxy::remove_proxies'', bm_range = [(1, 31)], bm_storage = (1, 1),
      bm_estimate = (4706, [0]), bm_weight = \<lambda>W d xs. proxy_remove_proxies W d (xs ! 0)\<rparr>,
     \<lparr>bm_name = ''pallet_proxy::create_pure'', bm_range = [(1, 31)], bm_storage = (1, 1),
      bm_estimate = (4706, [0]), bm_weight = \<lambda>W d xs. proxy_create_pure W d (xs ! 0)\<rparr>,
     \<lparr>bm_name = ''pallet_proxy::kill_pure'', bm_range = [(0, 30)], bm_storage = (1, 1),
      bm_estimate = (4706, [0]), bm_weight = \<lambda>W d xs. proxy_kill_pure W d (xs ! 0)\<rparr>]"

lemmas proxy_weight_defs =
  proxy_proxy_def proxy_proxy_announced_def proxy_remove_announcement_def
  proxy_reject_announcement_def proxy_announce_def proxy_add_proxy_def proxy_remove_proxy_def
  proxy_remove_proxies_def proxy_create_pure_def proxy_kill_pure_def

lemma proxy_tracked: "sp_weights W \<Longrightarrow> list_all2 (tracked W) proxy_weights proxy_weights"
  unfolding proxy_weights_def
  by (intro list.rel_intros conjI trackedI;
      simp only: proxy_weight_defs saturating_adds_simps; (rule tracking | assumption | simp)+)

lemma proxy_bounded: "list_all bounded proxy_weights"
  by (simp add: bounded_def slow_db_def proxy_weights_def proxy_weight_defs weight_eval)

lemma proxy_well_estimated: "list_all well_estimated proxy_weights"
  by (auto simp: well_estimated_def estimated_size_def proxy_weights_def proxy_weight_defs weight_eval)

section \<open>\<open>pallet_scheduler.rs\<close>\<close>

definition scheduler_service_agendas_base :: "'w weight_ops \<Rightarrow> RuntimeDbWeight \<Rightarrow> 'w" where
  "scheduler_service_agendas_base W d = saturating_adds W (from_parts W 3445000 0)
     [from_parts W 0 1489, db_reads W d 1, db_writes W d 1]"

definition scheduler_service_agenda_base :: "'w weight_ops \<Rightarrow> RuntimeDbWeight \<Rightarrow> u32 \<Rightarrow> 'w" where
  "scheduler_service_agenda_base W d s = saturating_adds W (from_parts W 8210371 0)
     [from_parts W 0 42428, weight_mul W (from_parts W 446196 0) (ucast s), db_reads W d 1,
      db_writes W d 1]"

definition scheduler_service_task_base :: "'w weight_ops \<Rightarrow> RuntimeDbWeight \<Rightarrow> 'w" where
  "scheduler_service_task_base W d = saturating_adds W (from_parts W 4509000 0)
     [from_parts W 0 0]"

definition scheduler_service_task_fetched :: "'w weight_ops \<Rightarrow> RuntimeDbWeight \<Rightarrow> u32 \<Rightarrow> 'w" where
  "scheduler_service_task_fetched W d s = saturating_adds W (from_parts W 23279000 0)
     [from_parts W 0 3644, weight_mul W (from_parts W 1304 0) (ucast s), db_reads W d 3,
      db_writes W d 2, weight_mul W (from_parts W 0 1) (ucast s)]"

definition scheduler_service_task_named :: "'w weight_ops \<Rightarrow> RuntimeDbWeight \<Rightarrow> 'w" where
  "scheduler_service_task_named W d = saturating_adds W (from_parts W 6795000 0)
     [from_parts W 0 0, db_writes W d 1]"

definition scheduler_service_task_periodic :: "'w weight_ops \<Rightarrow> RuntimeDbWeight \<Rightarrow> 'w" where
  "scheduler_service_task_periodic W d = saturating_adds W (from_parts W 4486000 0)
     [from_parts W 0 0]"

definition scheduler_execute_dispatch_signed :: "'w weight_ops \<Rightarrow> RuntimeDbWeight \<Rightarrow> 'w" where
  "scheduler_execute_dispatch_signed W d = saturating_adds W (from_parts W 2983000 0)
     [from_parts W 0 0]"

definition scheduler_execute_dispatch_unsigned :: "'w weight_ops \<Rightarrow> RuntimeDbWeight \<Rightarrow> 'w" where
  "scheduler_execute_dispatch_unsigned W d = saturating_adds W (from_parts W 3058000 0)
     [from_parts W 0 0]"

definition scheduler_schedule :: "'w weight_ops \<Rightarrow> RuntimeDbWeight \<Rightarrow> u32 \<Rightarrow> 'w" where
  "scheduler_schedule W d s = saturating_adds W (from_parts W 16543350 0)
     [from_parts W 0 42428, weight_mul W (from_parts W 487975 0) (ucast s), db_reads W d 1,
      db_writes W d 1]"

definition scheduler_cancel :: "'w weight_ops \<Rightarrow> RuntimeDbWeight \<Rightarrow> u32 \<Rightarrow> 'w" where
  "scheduler_cancel W d s = saturating_adds W (from_parts W 19979432 0)
     [from_parts W 0 42428, weight_mul W (from_parts W 749133 0) (ucast s), db_reads W d 1,
      db_writes W d 3]"

definition scheduler_schedule_named :: "'w weight_ops \<Rightarrow> RuntimeDbWeight \<Rightarrow> u32 \<Rightarrow> 'w" where
  "scheduler_schedule_named W d s = saturating_adds W (from_parts W 22109441 0)
     [from_parts W 0 42428, weight_mul W (from_parts W 523729 0) (ucast s), db_reads W d 2,
      db_writes W d 2]"

definition scheduler_cancel_named :: "'w weight_ops \<Rightarrow> RuntimeDbWeight \<Rightarrow> u32 \<Rightarrow> 'w" where
  "scheduler_cancel_named W d s = saturating_adds W (from_parts W 22880603 0)
     [from_parts W 0 42428, weight_mul W (from_parts W 764730 0) (ucast s), db_reads W d 2,
      db_writes W d 3]"

definition scheduler_schedule_retry :: "'w weight_ops \<Rightarrow> RuntimeDbWeight \<Rightarrow> u32 \<Rightarrow> 'w" where
  "scheduler_schedule_retry W d s = saturating_adds W (from_parts W 12199525 0)
     [from_parts W 0 42428, weight_mul W (from_parts W 34132 0) (ucast s), db_reads W d 1,
      db_writes W d 2]"

definition scheduler_set_retry :: "'w weight_ops \<Rightarrow> RuntimeDbWeight \<Rightarrow> 'w" where
  "scheduler_set_retry W d = saturating_adds W (from_parts W 32988000 0)
     [from_parts W 0 42428, db_reads W d 1, db_writes W d 1]"

definition scheduler_set_retry_named :: "'w weight_ops \<Rightarrow> RuntimeDbWeight \<Rightarrow> 'w" where
  "scheduler_set_retry_named W d = saturating_adds W (from_parts W 40026000 0)
     [from_parts W 0 42428, db_reads W d 2, db_writes W d 1]"

definition scheduler_cancel_retry :: "'w weight_ops \<Rightarrow> RuntimeDbWeight \<Rightarrow> 'w" where
  "scheduler_cancel_retry W d = saturating_adds W (from_parts W 32155000 0)
     [from_parts W 0 42428, db_reads W d 1, db_writes W d 1]"

definition scheduler_cancel_retry_named :: "'w weight_ops \<Rightarrow> RuntimeDbWeight \<Rightarrow> 'w" where
  "scheduler_cancel_retry_named W d = saturating_adds W (from_parts W 38702000 0)
     [from_parts W 0 42428, db_reads W d 2, db_writes W d 1]"

definition scheduler_weights :: "'w benchmark list" where
  "scheduler_weights = [
     \<lparr>bm_name = ''pallet_scheduler::service_agendas_base'', bm_range = [], bm_storage = (1, 1),
      bm_estimate = (1489, []), bm_weight = \<lambda>W d xs. scheduler_service_agendas_base W d\<rparr>,
     \<lparr>bm_name = ''pallet_scheduler::service_agenda_base'', bm_range = [(0, 50)], bm_storage = (1, 1),
      bm_estimate = (42428, [0]), bm_weight = \<lambda>W d xs. scheduler_service_agenda_base W d (xs ! 0)\<rparr>,
     \<lparr>bm_name = ''pallet_scheduler::service_task_base'', bm_range = [], bm_storage = (0, 0),
      bm_estimate = (0, []), bm_weight = \<lambda>W d xs. scheduler_service_task_base W d\<rparr>,
     \<lparr>bm_name = ''pallet_scheduler::service_task_fetched'', bm_range = [(128, 4194304)], bm_storage = (3, 2),
      bm_estimate = (3644, [1]), bm_weight = \<lambda>W d xs. scheduler_service_task_fetched W d (xs ! 0)\<rparr>,
     \<lparr>bm_name = ''pallet_scheduler::service_task_named'', bm_range = [], bm_storage = (0, 1),
      bm_estimate = (0, []), bm_weight = \<lambda>W d xs. scheduler_service_task_named W d\<rparr>,
     \<lparr>bm_name = ''pallet_scheduler::service_task_periodic'', bm_range = [], bm_storage = (0, 0),
      bm_estimate = (0, []), bm_weight = \<lambda>W d xs. scheduler_service_task_periodic W d\<rparr>,
     \<lparr>bm_name = ''pallet_scheduler::execute_dispatch_signed'', bm_range = [], bm_storage = (0, 0),
      bm_estimate = (0, []), bm_weight = \<lambda>W d xs. scheduler_execute_dispatch_signed W d\<rparr>,
     \<lparr>bm_name = ''pallet_scheduler::execute_dispatch_unsigned'', bm_range = [], bm_storage = (0, 0),
      bm_estimate = (0, []), bm_weight = \<lambda>W d xs. scheduler_execute_dispatch_unsigned W d\<rparr>,
     \<lparr>bm_name = ''pallet_scheduler::schedule'', bm_range = [(0, 49)], bm_storage = (1, 1),
      bm_estimate = (42428, [0]), bm_weight = \<lambda>W d xs. scheduler_schedule W d (xs ! 0)\<rparr>,
     \<lparr>bm_name = ''pallet_scheduler::cancel'', bm_range = [(1, 50)], bm_storage = (1, 3),
      bm_estimate = (42428, [0]), bm_weight = \<lambda>W d xs. scheduler_cancel W d (xs ! 0)\<rparr>,
     \<lparr>bm_name = ''pallet_scheduler::schedule_named'', bm_range = [(0, 49)], bm_storage = (2, 2),
      bm_estimate = (42428, [0]), bm_weight = \<lambda>W d xs. scheduler_schedule_named W d (xs ! 0)\<rparr>,
     \<lparr>bm_name = ''pallet_scheduler::cancel_named'', bm_range = [(1, 50)], bm_storage = (2, 3),
      bm_estimate = (42428, [0]), bm_weight = \<lambda>W d xs. scheduler_cancel_named W d (xs ! 0)\<rparr>,
     \<lparr>bm_name = ''pallet_scheduler::schedule_retry'', bm_range = [(1, 50)], bm_storage = (1, 2),
      bm_estimate = (42428, [0]), bm_weight = \<lambda>W d xs. scheduler_schedule_retry W d (xs ! 0)\<rparr>,
     \<lparr>bm_name = ''pallet_scheduler::set_retry'', bm_range = [], bm_storage = (1, 1),
      bm_estimate = (42428, []), bm_weight = \<lambda>W d xs. scheduler_set_retry W d\<rparr>,
     \<lparr>bm_name = ''pallet_scheduler::set_retry_named'', bm_range = [], bm_storage = (2, 1),
      bm_estimate = (42428, []), bm_weight = \<lambda>W d xs. scheduler_set_retry_named W d\<rparr>,
     \<lparr>bm_name = ''pallet_scheduler::cancel_retry'', bm_range = [], bm_storage = (1, 1),
      bm_estimate = (42428, []), bm_weight = \<lambda>W d xs. scheduler_cancel_retry W d\<rparr>,
     \<lparr>bm_name = ''pallet_scheduler::cancel_retry_named'', bm_range = [], bm_storage = (2, 1),
      bm_estimate = (42428, []), bm_weight = \<lambda>W d xs. scheduler_cancel_retry_named W d\<rparr>]"

lemmas scheduler_weight_defs =
  scheduler_service_agendas_base_def scheduler_service_agenda_base_def
  scheduler_service_task_base_def scheduler_service_task_fetched_def
  scheduler_service_task_named_def scheduler_service_task_periodic_def
  scheduler_execute_dispatch_signed_def scheduler_execute_dispatch_unsigned_def
  scheduler_schedule_def scheduler_cancel_def scheduler_schedule_named_def
  scheduler_cancel_named_def scheduler_schedule_retry_def scheduler_set_retry_def
  scheduler_set_retry_named_def scheduler_cancel_retry_def scheduler_cancel_retry_named_def

lemma scheduler_tracked: "sp_weights W \<Longrightarrow> list_all2 (tracked W) scheduler_weights scheduler_weights"
  unfolding scheduler_weights_def
  by (intro list.rel_intros conjI trackedI;
      simp only: scheduler_weight_defs saturating_adds_simps; (rule tracking | assumption | simp)+)

lemma scheduler_bounded: "list_all bounded scheduler_weights"
  by (simp add: bounded_def slow_db_def scheduler_weights_def scheduler_weight_defs weight_eval)

lemma scheduler_well_estimated: "list_all well_estimated scheduler_weights"
  by (auto simp: well_estimated_def estimated_size_def scheduler_weights_def scheduler_weight_defs weight_eval)

section \<open>\<open>pallet_utility.rs\<close>\<close>

definition utility_batch :: "'w weight_ops \<Rightarrow> RuntimeDbWeight \<Rightarrow> u32 \<Rightarrow> 'w" where
  "utility_batch W d c = saturating_adds W (from_parts W 14005294 0)
     [from_parts W 0 0, weight_mul W (from_parts W 4451967 0) (ucast c)]"

definition utility_as_derivative :: "'w weight_ops \<Rightarrow> RuntimeDbWeight \<Rightarrow> 'w" where
  "utility_as_derivative W d = saturating_adds W (from_parts W 6391000 0)
     [from_parts W 0 0]"

definition utility_batch_all :: "'w weight_ops \<Rightarrow> RuntimeDbWeight \<Rightarrow> u32 \<Rightarrow> 'w" where
  "utility_batch_all W d c = saturating_adds W (from_parts W 12829008 0)
     [from_parts W 0 0, weight_mul W (from_parts W 4786428 0) (ucast c)]"

definition utility_dispatch_as :: "'w weight_ops \<Rightarrow> RuntimeDbWeight \<Rightarrow> 'w" where
  "utility_dispatch_as W d = saturating_adds W (from_parts W 9502000 0)
     [from_parts W 0 0]"

definition utility_force_batch :: "'w weight_ops \<Rightarrow> RuntimeDbWeight \<Rightarrow> u32 \<Rightarrow> 'w" where
  "utility_force_batch W d c = saturating_adds W (from_parts W 14744634 0)
     [from_parts W 0 0, weight_mul W (from_parts W 4434967 0) (ucast c)]"

definition utility_weights :: "'w benchmark list" where
  "utility_weights = [
     \<lparr>bm_name = ''pallet_utility::batch'', bm_range = [(0, 1000)], bm_storage = (0, 0),
      bm_estimate = (0, [0]), bm_weight = \<lambda>W d xs. utility_batch W d (xs ! 0)\<rparr>,
     \<lparr>bm_name = ''pallet_utility::as_derivative'', bm_range = [], bm_storage = (0, 0),
      bm_estimate = (0, []), bm_weight = \<lambda>W d xs. utility_as_derivative W d\<rparr>,
     \<lparr>bm_name = ''pallet_utility::batch_all'', bm_range = [(0, 1000)], bm_storage = (0, 0),
      bm_estimate = (0, [0]), bm_weight = \<lambda>W d xs. utility_batch_all W d (xs ! 0)\<rparr>,
     \<lparr>bm_name = ''pallet_utility::dispatch_as'', bm_range = [], bm_storage = (0, 0),
      bm_estimate = (0, []), bm_weight = \<lambda>W d xs. utility_dispatch_as W d\<rparr>,
     \<lparr>bm_name = ''pallet_utility::force_batch'', bm_range = [(0, 1000)], bm_storage = (0, 0),
      bm_estimate = (0, [0]), bm_weight = \<lambda>W d xs. utility_force_batch W d (xs ! 0)\<rparr>]"

lemmas utility_weight_defs =
  utility_batch_def utility_as_derivative_def utility_batch_all_def utility_dispatch_as_def
  utility_force_batch_def

lemma utility_tracked: "sp_weights W \<Longrightarrow> list_all2 (tracked W) utility_weights utility_weights"
  unfolding utility_weights_def
  by (intro list.rel_intros conjI trackedI;
      simp only: utility_weight_defs saturating_adds_simps; (rule tracking | assumption | simp)+)

lemma utility_bounded: "list_all bounded utility_weights"
  by (simp add: bounded_def slow_db_def utility_weights_def utility_weight_defs weight_eval)

lemma utility_well_estimated: "list_all well_estimated utility_weights"
  by (auto simp: well_estimated_def estimated_size_def utility_weights_def utility_weight_defs weight_eval)

end
