(* ===== verification/Weights_System.thy ===== *)
theory Weights_System
  imports Weight_Ops
begin

text \<open>
  The weight functions of the pallets for messaging, collators, sessions, sudo and the clock, one definition per function of the
  \<open>WeightInfo\<close> implementations in
  \<open>runtime/src/weights/cumulus_pallet_parachain_system.rs\<close>, \<open>runtime/src/weights/cumulus_pallet_xcmp_queue.rs\<close>, \<open>runtime/src/weights/pallet_collator_selection.rs\<close>, \<open>runtime/src/weights/pallet_message_queue.rs\<close>, \<open>runtime/src/weights/pallet_session.rs\<close>, \<open>runtime/src/weights/pallet_sudo.rs\<close>, \<open>runtime/src/weights/pallet_timestamp.rs\<close>.
  Each table lists the functions of one file with the ranges, storage lines and estimates of its comments.
\<close>

section \<open>\<open>cumulus_pallet_parachain_system.rs\<close>\<close>

definition parachain_system_enqueue_inbound_downward_messages :: "'w weight_ops \<Rightarrow> RuntimeDbWeight \<Rightarrow> u32 \<Rightarrow> 'w" where
  "parachain_system_enqueue_inbound_downward_messages W d n = saturating_adds W (from_parts W 2802000 0)
     [from_parts W 0 3517, weight_mul W (from_parts W 192444156 0) (ucast n), db_reads W d 3,
      db_writes W d 4, db_writes W d (saturating_mul 1 (ucast n))]"

definition parachain_system_weights :: "'w benchmark list" where
  "parachain_system_weights = [
     \<lparr>bm_name = ''cumulus_pallet_parachain_system::enqueue_inbound_downward_messages'', bm_range = [(0, 1000)], bm_storage = (3, 1004),
      bm_estimate = (3517, [0]), bm_weight = \<lambda>W d xs. parachain_system_enqueue_inbound_downward_messages W d (xs ! 0)\<rparr>]"

lemmas parachain_system_weight_defs =
  parachain_system_enqueue_inbound_downward_messages_def

lemma parachain_system_tracked: "sp_weights W \<Longrightarrow> list_all2 (tracked W) parachain_system_weights parachain_system_weights"
  unfolding parachain_system_weights_def
  by (intro list.rel_intros conjI trackedI;
      simp only: parachain_system_weight_defs saturating_adds_simps; (rule tracking | assumption | simp)+)

lemma parachain_system_bounded: "list_all bounded parachain_system_weights"
  by (simp add: bounded_def slow_db_def parachain_system_weights_def parachain_system_weight_defs weight_eval)

lemma parachain_system_well_estimated: "list_all well_estimated parachain_system_weights"
  by (auto simp: well_estimated_def estimated_size_def parachain_system_weights_def parachain_system_weight_defs weight_eval)

section \<open>\<open>cumulus_pallet_xcmp_queue.rs\<close>\<close>

definition xcmp_queue_set_config_with_u32 :: "'w weight_ops \<Rightarrow> RuntimeDbWeight \<Rightarrow> 'w" where
  "xcmp_queue_set_config_with_u32 W d = saturating_adds W (from_parts W 5950000 0)
     [from_parts W 0 1561, db_reads W d 1, db_writes W d 1]"

definition xcmp_queue_enqueue_xcmp_message :: "'w weight_ops \<Rightarrow> RuntimeDbWeight \<Rightarrow> 'w" where
  "xcmp_queue_enqueue_xcmp_message W d = saturating_adds W (from_parts W 16833000 0)
     [from_parts W 0 3517, db_reads W d 4, db_writes W d 3]"

definition xcmp_queue_suspend_channel :: "'w weight_ops \<Rightarrow> RuntimeDbWeight \<Rightarrow> 'w" where
  "xcmp_queue_suspend_channel W d = saturating_adds W (from_parts W 3443000 0)
     [from_parts W 0 1561, db_reads W d 1, db_writes W d 1]"

definition xcmp_queue_resume_channel :: "'w weight_ops \<Rightarrow> RuntimeDbWeight \<Rightarrow> 'w" where
  "xcmp_queue_resume_channel W d = saturating_adds W (from_parts W 4377000 0)
     [from_parts W 0 1596, db_reads W d 1, db_writes W d 1]"

definition xcmp_queue_take_first_concatenated_xcm :: "'w weight_ops \<Rightarrow> RuntimeDbWeight \<Rightarrow> 'w" where
  "xcmp_queue_take_first_concatenated_xcm W d = saturating_adds W (from_parts W 10188000 0)
     [from_parts W 0 0]"

definition xcmp_queue_on_idle_good_msg :: "'w weight_ops \<Rightarrow> RuntimeDbWeight \<Rightarrow> 'w" where
  "xcmp_queue_on_idle_good_msg W d = saturating_adds W (from_parts W 118206000 0)
     [from_parts W 0 69176, db_reads W d 6, db_writes W d 5]"

definition xcmp_queue_on_idle_large_msg :: "'w weight_ops \<Rightarrow> RuntimeDbWeight \<Rightarrow> 'w" where
  "xcmp_queue_on_idle_large_msg W d = saturating_adds W (from_parts W 57941000 0)
     [from_parts W 0 69175, db_reads W d 2, db_writes W d 2]"

definition xcmp_queue_weights :: "'w benchmark list" where
  "xcmp_queue_weights = [
     \<lparr>bm_name = ''cumulus_pallet_xcmp_queue::set_config_with_u32'', bm_range = [], bm_storage = (1, 1),
      bm_estimate = (1561, []), bm_weight = \<lambda>W d xs. xcmp_queue_set_config_with_u32 W d\<rparr>,
     \<lparr>bm_name = ''cumulus_pallet_xcmp_queue::enqueue_xcmp_message'', bm_range = [], bm_storage = (4, 3),
      bm_estimate = (3517, []), bm_weight = \<lambda>W d xs. xcmp_queue_enqueue_xcmp_message W d\<rparr>,
     \<lparr>bm_name = ''cumulus_pallet_xcmp_queue::suspend_channel'', bm_range = [], bm_storage = (1, 1),
      bm_estimate = (1561, []), bm_weight = \<lambda>W d xs. xcmp_queue_suspend_channel W d\<rparr>,
     \<lparr>bm_name = ''cumulus_pallet_xcmp_queue::resume_channel'', bm_range = [], bm_storage = (1, 1),
      bm_estimate = (1596, []), bm_weight = \<lambda>W d xs. xcmp_queue_resume_channel W d\<rparr>,
     \<lparr>bm_name = ''cumulus_pallet_xcmp_queue::take_first_concatenated_xcm'', bm_range = [], bm_storage = (0, 0),
      bm_estimate = (0, []), bm_weight = \<lambda>W d xs. xcmp_queue_take_first_concatenated_xcm W d\<rparr>,
     \<lparr>bm_name = ''cumulus_pallet_xcmp_queue::on_idle_good_msg'', bm_range = [], bm_storage = (6, 5),
      bm_estimate = (69176, []), bm_weight = \<lambda>W d xs. xcmp_queue_on_idle_good_msg W d\<rparr>,
     \<lparr>bm_name = ''cumulus_pallet_xcmp_queue::on_idle_large_msg'', bm_range = [], bm_storage = (2, 2),
      bm_estimate = (69175, []), bm_weight = \<lambda>W d xs. xcmp_queue_on_idle_large_msg W d\<rparr>]"

lemmas xcmp_queue_weight_defs =
  xcmp_queue_set_config_with_u32_def xcmp_queue_enqueue_xcmp_message_def
  xcmp_queue_suspend_channel_def xcmp_queue_resume_channel_def
  xcmp_queue_take_first_concatenated_xcm_def xcmp_queue_on_idle_good_msg_def
  xcmp_queue_on_idle_large_msg_def

lemma xcmp_queue_tracked: "sp_weights W \<Longrightarrow> list_all2 (tracked W) xcmp_queue_weights xcmp_queue_weights"
  unfolding xcmp_queue_weights_def
  by (intro list.rel_intros conjI trackedI;
      simp only: xcmp_queue_weight_defs saturating_adds_simps; (rule tracking | assumption | simp)+)

lemma xcmp_queue_bounded: "list_all bounded xcmp_queue_weights"
  by (simp add: bounded_def slow_db_def xcmp_queue_weights_def xcmp_queue_weight_defs weight_eval)

lemma xcmp_queue_well_estimated: "list_all well_estimated xcmp_queue_weights"
  by (auto simp: well_estimated_def estimated_size_def xcmp_queue_weights_def xcmp_queue_weight_defs weight_eval)

section \<open>\<open>pallet_collator_selection.rs\<close>\<close>

definition collator_selection_set_invulnerables :: "'w weight_ops \<Rightarrow> RuntimeDbWeight \<Rightarrow> u32 \<Rightarrow> 'w" where
  "collator_selection_set_invulnerables W d b = saturating_adds W (from_parts W 11867268 0)
     [from_parts W 0 1188, weight_mul W (from_parts W 4019723 0) (ucast b),
      db_reads W d (saturating_mul 1 (ucast b)), db_writes W d 1,
      weight_mul W (from_parts W 0 2555) (ucast b)]"

definition collator_selection_add_invulnerable :: "'w weight_ops \<Rightarrow> RuntimeDbWeight \<Rightarrow> u32 \<Rightarrow> u32 \<Rightarrow> 'w" where
  "collator_selection_add_invulnerable W d b c = saturating_adds W (from_parts W 50154893 0)
     [from_parts W 0 6287, weight_mul W (from_parts W 223716 0) (ucast b),
      weight_mul W (from_parts W 161903 0) (ucast c), db_reads W d 4, db_writes W d 3,
      weight_mul W (from_parts W 0 37) (ucast b), weight_mul W (from_parts W 0 53) (ucast c)]"

definition collator_selection_remove_invulnerable :: "'w weight_ops \<Rightarrow> RuntimeDbWeight \<Rightarrow> u32 \<Rightarrow> 'w" where
  "collator_selection_remove_invulnerable W d b = saturating_adds W (from_parts W 14433354 0)
     [from_parts W 0 6287, weight_mul W (from_parts W 227542 0) (ucast b), db_reads W d 2,
      db_writes W d 1]"

definition collator_selection_set_desired_candidates :: "'w weight_ops \<Rightarrow> RuntimeDbWeight \<Rightarrow> 'w" where
  "collator_selection_set_desired_candidates W d = saturating_adds W (from_parts W 6895000 0)
     [from_parts W 0 0, db_writes W d 1]"

definition collator_selection_set_candidacy_bond :: "'w weight_ops \<Rightarrow> RuntimeDbWeight \<Rightarrow> u32 \<Rightarrow> u32 \<Rightarrow> 'w" where
  "collator_selection_set_candidacy_bond W d c k = saturating_adds W (from_parts W 12928000 0)
     [from_parts W 0 6287, weight_mul W (from_parts W 7131904 0) (ucast c),
      weight_mul W (from_parts W 6851552 0) (ucast k), db_reads W d 2, db_writes W d 1,
      db_writes W d (saturating_mul 1 (ucast c)), db_writes W d (saturating_mul 1 (ucast k)),
      weight_mul W (from_parts W 0 901) (ucast c), weight_mul W (from_parts W 0 901) (ucast k)]"

definition collator_selection_update_bond :: "'w weight_ops \<Rightarrow> RuntimeDbWeight \<Rightarrow> u32 \<Rightarrow> 'w" where
  "collator_selection_update_bond W d c = saturating_adds W (from_parts W 36049393 0)
     [from_parts W 0 6287, weight_mul W (from_parts W 140976 0) (ucast c), db_reads W d 2,
      db_writes W d 1]"

definition collator_selection_register_as_candidate :: "'w weight_ops \<Rightarrow> RuntimeDbWeight \<Rightarrow> u32 \<Rightarrow> 'w" where
  "collator_selection_register_as_candidate W d c = saturating_adds W (from_parts W 48727747 0)
     [from_parts W 0 6287, weight_mul W (from_parts W 174129 0) (ucast c), db_reads W d 4,
      db_writes W d 2, weight_mul W (from_parts W 0 54) (ucast c)]"

definition collator_selection_take_candidate_slot :: "'w weight_ops \<Rightarrow> RuntimeDbWeight \<Rightarrow> u32 \<Rightarrow> 'w" where
  "collator_selection_take_candidate_slot W d c = saturating_adds W (from_parts W 72958277 0)
     [from_parts W 0 6287, weight_mul W (from_parts W 190301 0) (ucast c), db_reads W d 5,
      db_writes W d 4, weight_mul W (from_parts W 0 54) (ucast c)]"

definition collator_selection_leave_intent :: "'w weight_ops \<Rightarrow> RuntimeDbWeight \<Rightarrow> u32 \<Rightarrow> 'w" where
  "collator_selection_leave_intent W d c = saturating_adds W (from_parts W 42050095 0)
     [from_parts W 0 6287, weight_mul W (from_parts W 155259 0) (ucast c), db_reads W d 2,
      db_writes W d 2]"

definition collator_selection_note_author :: "'w weight_ops \<Rightarrow> RuntimeDbWeight \<Rightarrow> 'w" where
  "collator_selection_note_author W d = saturating_adds W (from_parts W 58126000 0)
     [from_parts W 0 6196, db_reads W d 2, db_writes W d 3]"

definition collator_selection_new_session :: "'w weight_ops \<Rightarrow> RuntimeDbWeight \<Rightarrow> u32 \<Rightarrow> u32 \<Rightarrow> 'w" where
  "collator_selection_new_session W d r c = saturating_adds W (from_parts W 23703000 0)
     [from_parts W 0 6287, weight_mul W (from_parts W 16132813 0) (ucast c), db_reads W d 4,
      db_reads W d (saturating_mul 1 (ucast c)), db_writes W d (saturating_mul 1 (ucast c)),
      weight_mul W (from_parts W 0 2519) (ucast c), weight_mul W (from_parts W 0 2603) (ucast r)]"

definition collator_selection_weights :: "'w benchmark list" where
  "collator_selection_weights = [
     \<lparr>bm_name = ''pallet_collator_selection::set_invulnerables'', bm_range = [(1, 20)], bm_storage = (20, 1),
      bm_estimate = (1188, [2555]), bm_weight = \<lambda>W d xs. collator_selection_set_invulnerables W d (xs ! 0)\<rparr>,
     \<lparr>bm_name = ''pallet_collator_selection::add_invulnerable'', bm_range = [(1, 19), (1, 99)], bm_storage = (4, 3),
      bm_estimate = (6287, [37, 53]), bm_weight = \<lambda>W d xs. collator_selection_add_invulnerable W d (xs ! 0) (xs ! 1)\<rparr>,
     \<lparr>bm_name = ''pallet_collator_selection::remove_invulnerable'', bm_range = [(5, 20)], bm_storage = (2, 1),
      bm_estimate = (6287, [0]), bm_weight = \<lambda>W d xs. collator_selection_remove_invulnerable W d (xs ! 0)\<rparr>,
     \<lparr>bm_name = ''pallet_collator_selection::set_desired_candidates'', bm_range = [], bm_storage = (0, 1),
      bm_estimate = (0, []), bm_weight = \<lambda>W d xs. collator_selection_set_desired_candidates W d\<rparr>,
     \<lparr>bm_name = ''pallet_collator_selection::set_candidacy_bond'', bm_range = [(0, 100), (0, 100)], bm_storage = (102, 202),
      bm_estimate = (6287, [901, 901]), bm_weight = \<lambda>W d xs. collator_selection_set_candidacy_bond W d (xs ! 0) (xs ! 1)\<rparr>,
     \<lparr>bm_name = ''pallet_collator_selection::update_bond'', bm_range = [(3, 100)], bm_storage = (2, 1),
      bm_estimate = (6287, [0]), bm_weight = \<lambda>W d xs. collator_selection_update_bond W d (xs ! 0)\<rparr>,
     \<lparr>bm_name = ''pallet_collator_selection::register_as_candidate'', bm_range = [(1, 99)], bm_storage = (4, 2),
      bm_estimate = (6287, [54]), bm_weight = \<lambda>W d xs. collator_selection_register_as_candidate W d (xs ! 0)\<rparr>,
     \<lparr>bm_name = ''pallet_collator_selection::take_candidate_slot'', bm_range = [(3, 100)], bm_storage = (5, 4),
      bm_estimate = (6287, [54]), bm_weight = \<lambda>W d xs. collator_selection_take_candidate_slot W d (xs ! 0)\<rparr>,
     \<lparr>bm_name = ''pallet_collator_selection::leave_intent'', bm_range = [(3, 100)], bm_storage = (2, 2),
      bm_estimate = (6287, [0]), bm_weight = \<lambda>W d xs. collator_selection_leave_intent W d (xs ! 0)\<rparr>,
     \<lparr>bm_name = ''pallet_collator_selection::note_author'', bm_range = [], bm_storage = (2, 3),
      bm_estimate = (6196, []), bm_weight = \<lambda>W d xs. collator_selection_note_author W d\<rparr>,
     \<lparr>bm_name = ''pallet_collator_selection::new_session'', bm_range = [(1, 100), (1, 100)], bm_storage = (200, 97),
      bm_estimate = (6287, [2603, 2519]), bm_weight = \<lambda>W d xs. collator_selection_new_session W d (xs ! 0) (xs ! 1)\<rparr>]"

lemmas collator_selection_weight_defs =
  collator_selection_set_invulnerables_def collator_selection_add_invulnerable_def
  collator_selection_remove_invulnerable_def collator_selection_set_desired_candidates_def
  collator_selection_set_candidacy_bond_def collator_selection_update_bond_def
  collator_selection_register_as_candidate_def collator_selection_take_candidate_slot_def
  collator_selection_leave_intent_def collator_selection_note_author_def
  collator_selection_new_session_def

lemma collator_selection_tracked: "sp_weights W \<Longrightarrow> list_all2 (tracked W) collator_selection_weights collator_selection_weights"
  unfolding collator_selection_weights_def
  by (intro list.rel_intros conjI trackedI;
      simp only: collator_selection_weight_defs saturating_adds_simps; (rule tracking | assumption | simp)+)

lemma collator_selection_bounded: "list_all bounded collator_selection_weights"
  by (simp add: bounded_def slow_db_def collator_selection_weights_def collator_selection_weight_defs weight_eval)

lemma collator_selection_well_estimated: "list_all well_estimated collator_selection_weights"
  by (auto simp: well_estimated_def estimated_size_def collator_selection_weights_def collator_selection_weight_defs weight_eval)

section \<open>\<open>pallet_message_queue.rs\<close>\<close>

definition message_queue_ready_ring_knit :: "'w weight_ops \<Rightarrow> RuntimeDbWeight \<Rightarrow> 'w" where
  "message_queue_ready_ring_knit W d = saturating_adds W (from_parts W 15467000 0)
     [from_parts W 0 6044, db_reads W d 3, db_writes W d 2]"

definition message_queue_ready_ring_unknit :: "'w weight_ops \<Rightarrow> RuntimeDbWeight \<Rightarrow> 'w" where
  "message_queue_ready_ring_unknit W d = saturating_adds W (from_parts W 13473000 0)
     [from_parts W 0 6044, db_reads W d 3, db_writes W d 3]"

definition message_queue_service_queue_base :: "'w weight_ops \<Rightarrow> RuntimeDbWeight \<Rightarrow> 'w" where
  "message_queue_service_queue_base W d = saturating_adds W (from_parts W 4969000 0)
     [from_parts W 0 3517, db_reads W d 1, db_writes W d 1]"

definition message_queue_service_page_base_completion :: "'w weight_ops \<Rightarrow> RuntimeDbWeight \<Rightarrow> 'w" where
  "message_queue_service_page_base_completion W d = saturating_adds W (from_parts W 6947000 0)
     [from_parts W 0 69050, db_reads W d 1, db_writes W d 1]"

definition message_queue_service_page_base_no_completion :: "'w weight_ops \<Rightarrow> RuntimeDbWeight \<Rightarrow> 'w" where
  "message_queue_service_page_base_no_completion W d = saturating_adds W (from_parts W 7250000 0)
     [from_parts W 0 69050, db_reads W d 1, db_writes W d 1]"

definition message_queue_service_page_item :: "'w weight_ops \<Rightarrow> RuntimeDbWeight \<Rightarrow> 'w" where
  "message_queue_service_page_item W d = saturating_adds W (from_parts W 164945000 0)
     [from_parts W 0 0, db_writes W d 2]"

definition message_queue_bump_service_head :: "'w weight_ops \<Rightarrow> RuntimeDbWeight \<Rightarrow> 'w" where
  "message_queue_bump_service_head W d = saturating_adds W (from_parts W 8642000 0)
     [from_parts W 0 3517, db_reads W d 2, db_writes W d 1]"

definition message_queue_reap_page :: "'w weight_ops \<Rightarrow> RuntimeDbWeight \<Rightarrow> 'w" where
  "message_queue_reap_page W d = saturating_adds W (from_parts W 60642000 0)
     [from_parts W 0 69050, db_reads W d 2, db_writes W d 2]"

definition message_queue_execute_overweight_page_removed :: "'w weight_ops \<Rightarrow> RuntimeDbWeight \<Rightarrow> 'w" where
  "message_queue_execute_overweight_page_removed W d = saturating_adds W (from_parts W 77378000 0)
     [from_parts W 0 69050, db_reads W d 2, db_writes W d 2]"

definition message_queue_execute_overweight_page_updated :: "'w weight_ops \<Rightarrow> RuntimeDbWeight \<Rightarrow> 'w" where
  "message_queue_execute_overweight_page_updated W d = saturating_adds W (from_parts W 114169000 0)
     [from_parts W 0 69050, db_reads W d 2, db_writes W d 2]"

definition message_queue_weights :: "'w benchmark list" where
  "message_queue_weights = [
     \<lparr>bm_name = ''pallet_message_queue::ready_ring_knit'', bm_range = [], bm_storage = (3, 2),
      bm_estimate = (6044, []), bm_weight = \<lambda>W d xs. message_queue_ready_ring_knit W d\<rparr>,
     \<lparr>bm_name = ''pallet_message_queue::ready_ring_unknit'', bm_range = [], bm_storage = (3, 3),
      bm_estimate = (6044, []), bm_weight = \<lambda>W d xs. message_queue_ready_ring_unknit W d\<rparr>,
     \<lparr>bm_name = ''pallet_message_queue::service_queue_base'', bm_range = [], bm_storage = (1, 1),
      bm_estimate = (3517, []), bm_weight = \<lambda>W d xs. message_queue_service_queue_base W d\<rparr>,
     \<lparr>bm_name = ''pallet_message_queue::service_page_base_completion'', bm_range = [], bm_storage = (1, 1),
      bm_estimate = (69050, []), bm_weight = \<lambda>W d xs. message_queue_service_page_base_completion W d\<rparr>,
     \<lparr>bm_name = ''pallet_message_queue::service_page_base_no_completion'', bm_range = [], bm_storage = (1, 1),
      bm_estimate = (69050, []), bm_weight = \<lambda>W d xs. message_queue_service_page_base_no_completion W d\<rparr>,
     \<lparr>bm_name = ''pallet_message_queue::service_page_item'', bm_range = [], bm_storage = (0, 2),
      bm_estimate = (0, []), bm_weight = \<lambda>W d xs. message_queue_service_page_item W d\<rparr>,
     \<lparr>bm_name = ''pallet_message_queue::bump_service_head'', bm_range = [], bm_storage = (2, 1),
      bm_estimate = (3517, []), bm_weight = \<lambda>W d xs. message_queue_bump_service_head W d\<rparr>,
     \<lparr>bm_name = ''pallet_message_queue::reap_page'', bm_range = [], bm_storage = (2, 2),
      bm_estimate = (69050, []), bm_weight = \<lambda>W d xs. message_queue_reap_page W d\<rparr>,
     \<lparr>bm_name = ''pallet_message_queue::execute_overweight_page_removed'', bm_range = [], bm_storage = (2, 2),
      bm_estimate = (69050, []), bm_weight = \<lambda>W d xs. message_queue_execute_overweight_page_removed W d\<rparr>,
     \<lparr>bm_name = ''pallet_message_queue::execute_overweight_page_updated'', bm_range = [], bm_storage = (2, 2),
      bm_estimate = (69050, []), bm_weight = \<lambda>W d xs. message_queue_execute_overweight_page_updated W d\<rparr>]"

lemmas message_queue_weight_defs =
  message_queue_ready_ring_knit_def message_queue_ready_ring_unknit_def
  message_queue_service_queue_base_def message_queue_service_page_base_completion_def
  message_queue_service_page_base_no_completion_def message_queue_service_page_item_def
  message_queue_bump_service_head_def message_queue_reap_page_def
  message_queue_execute_overweight_page_removed_def
  message_queue_execute_overweight_page_updated_def

lemma message_queue_tracked: "sp_weights W \<Longrightarrow> list_all2 (tracked W) message_queue_weights message_queue_weights"
  unfolding message_queue_weights_def
  by (intro list.rel_intros conjI trackedI;
      simp only: message_queue_weight_defs saturating_adds_simps; (rule tracking | assumption | simp)+)

lemma message_queue_bounded: "list_all bounded message_queue_weights"
  by (simp add: bounded_def slow_db_def message_queue_weights_def message_queue_weight_defs weight_eval)

lemma message_queue_well_estimated: "list_all well_estimated message_queue_weights"
  by (auto simp: well_estimated_def estimated_size_def message_queue_weights_def message_queue_weight_defs weight_eval)

section \<open>\<open>pallet_session.rs\<close>\<close>

definition session_set_keys :: "'w weight_ops \<Rightarrow> RuntimeDbWeight \<Rightarrow> 'w" where
  "session_set_keys W d = saturating_adds W (from_parts W 22180000 0)
     [from_parts W 0 3763, db_reads W d 2, db_writes W d 2]"

definition session_purge_keys :: "'w weight_ops \<Rightarrow> RuntimeDbWeight \<Rightarrow> 'w" where
  "session_purge_keys W d = saturating_adds W (from_parts W 16045000 0)
     [from_parts W 0 3745, db_reads W d 1, db_writes W d 2]"

definition session_weights :: "'w benchmark list" where
  "session_weights = [
     \<lparr>bm_name = ''pallet_session::set_keys'', bm_range = [], bm_storage = (2, 2),
      bm_estimate = (3763, []), bm_weight = \<lambda>W d xs. session_set_keys W d\<rparr>,
     \<lparr>bm_name = ''pallet_session::purge_keys'', bm_range = [], bm_storage = (1, 2),
      bm_estimate = (3745, []), bm_weight = \<lambda>W d xs. session_purge_keys W d\<rparr>]"

lemmas session_weight_defs =
  session_set_keys_def session_purge_keys_def

lemma session_tracked: "sp_weights W \<Longrightarrow> list_all2 (tracked W) session_weights session_weights"
  unfolding session_weights_def
  by (intro list.rel_intros conjI trackedI;
      simp only: session_weight_defs saturating_adds_simps; (rule tracking | assumption | simp)+)

lemma session_bounded: "list_all bounded session_weights"
  by (simp add: bounded_def slow_db_def session_weights_def session_weight_defs weight_eval)

lemma session_well_estimated: "list_all well_estimated session_weights"
  by (auto simp: well_estimated_def estimated_size_def session_weights_def session_weight_defs weight_eval)

section \<open>\<open>pallet_sudo.rs\<close>\<close>

definition sudo_set_key :: "'w weight_ops \<Rightarrow> RuntimeDbWeight \<Rightarrow> 'w" where
  "sudo_set_key W d = saturating_adds W (from_parts W 12485000 0)
     [from_parts W 0 1517, db_reads W d 1, db_writes W d 1]"

definition sudo_sudo :: "'w weight_ops \<Rightarrow> RuntimeDbWeight \<Rightarrow> 'w" where
  "sudo_sudo W d = saturating_adds W (from_parts W 13675000 0)
     [from_parts W 0 1517, db_reads W d 1]"

definition sudo_sudo_as :: "'w weight_ops \<Rightarrow> RuntimeDbWeight \<Rightarrow> 'w" where
  "sudo_sudo_as W d = saturating_adds W (from_parts W 13871000 0)
     [from_parts W 0 1517, db_reads W d 1]"

definition sudo_remove_key :: "'w weight_ops \<Rightarrow> RuntimeDbWeight \<Rightarrow> 'w" where
  "sudo_remove_key W d = saturating_adds W (from_parts W 11534000 0)
     [from_parts W 0 1517, db_reads W d 1, db_writes W d 1]"

definition sudo_weights :: "'w benchmark list" where
  "sudo_weights = [
     \<lparr>bm_name = ''pallet_sudo::set_key'', bm_range = [], bm_storage = (1, 1),
      bm_estimate = (1517, []), bm_weight = \<lambda>W d xs. sudo_set_key W d\<rparr>,
     \<lparr>bm_name = ''pallet_sudo::sudo'', bm_range = [], bm_storage = (1, 0),
      bm_estimate = (1517, []), bm_weight = \<lambda>W d xs. sudo_sudo W d\<rparr>,
     \<lparr>bm_name = ''pallet_sudo::sudo_as'', bm_range = [], bm_storage = (1, 0),
      bm_estimate = (1517, []), bm_weight = \<lambda>W d xs. sudo_sudo_as W d\<rparr>,
     \<lparr>bm_name = ''pallet_sudo::remove_key'', bm_range = [], bm_storage = (1, 1),
      bm_estimate = (1517, []), bm_weight = \<lambda>W d xs. sudo_remove_key W d\<rparr>]"

lemmas sudo_weight_defs =
  sudo_set_key_def sudo_sudo_def sudo_sudo_as_def sudo_remove_key_def

lemma sudo_tracked: "sp_weights W \<Longrightarrow> list_all2 (tracked W) sudo_weights sudo_weights"
  unfolding sudo_weights_def
  by (intro list.rel_intros conjI trackedI;
      simp only: sudo_weight_defs saturating_adds_simps; (rule tracking | assumption | simp)+)

lemma sudo_bounded: "list_all bounded sudo_weights"
  by (simp add: bounded_def slow_db_def sudo_weights_def sudo_weight_defs weight_eval)

lemma sudo_well_estimated: "list_all well_estimated sudo_weights"
  by (auto simp: well_estimated_def estimated_size_def sudo_weights_def sudo_weight_defs weight_eval)

section \<open>\<open>pallet_timestamp.rs\<close>\<close>

definition timestamp_set :: "'w weight_ops \<Rightarrow> RuntimeDbWeight \<Rightarrow> 'w" where
  "timestamp_set W d = saturating_adds W (from_parts W 9116000 0)
     [from_parts W 0 1493, db_reads W d 2, db_writes W d 1]"

definition timestamp_on_finalize :: "'w weight_ops \<Rightarrow> RuntimeDbWeight \<Rightarrow> 'w" where
  "timestamp_on_finalize W d = saturating_adds W (from_parts W 3620000 0)
     [from_parts W 0 0]"

definition timestamp_weights :: "'w benchmark list" where
  "timestamp_weights = [
     \<lparr>bm_name = ''pallet_timestamp::set'', bm_range = [], bm_storage = (2, 1),
      bm_estimate = (1493, []), bm_weight = \<lambda>W d xs. timestamp_set W d\<rparr>,
     \<lparr>bm_name = ''pallet_timestamp::on_finalize'', bm_range = [], bm_storage = (0, 0),
      bm_estimate = (0, []), bm_weight = \<lambda>W d xs. timestamp_on_finalize W d\<rparr>]"

lemmas timestamp_weight_defs =
  timestamp_set_def timestamp_on_finalize_def

lemma timestamp_tracked: "sp_weights W \<Longrightarrow> list_all2 (tracked W) timestamp_weights timestamp_weights"
  unfolding timestamp_weights_def
  by (intro list.rel_intros conjI trackedI;
      simp only: timestamp_weight_defs saturating_adds_simps; (rule tracking | assumption | simp)+)

lemma timestamp_bounded: "list_all bounded timestamp_weights"
  by (simp add: bounded_def slow_db_def timestamp_weights_def timestamp_weight_defs weight_eval)

lemma timestamp_well_estimated: "list_all well_estimated timestamp_weights"
  by (auto simp: well_estimated_def estimated_size_def timestamp_weights_def timestamp_weight_defs weight_eval)

end
