(* ===== verification/Runtime_Weights.thy ===== *)
theory Runtime_Weights
  imports Runtime_Constants Weights_Assets Weights_Governance Weights_Calls Weights_System
begin

text \<open>
  All weight functions of the runtime against its limits: they never saturate, never get cheaper for
  more work, charge the proof size their comments estimate, and fit the limit of normal extrinsics with
  two exceptions. The tables are put together as \<open>weights/mod.rs\<close> exposes them.
\<close>

definition all_weights :: "'w benchmark list" where
  "all_weights = parachain_system_weights @ xcmp_queue_weights @ assets_weights @ balances_weights
     @ collator_selection_weights @ conviction_voting_weights @ message_queue_weights
     @ multisig_weights @ preimage_weights @ proxy_weights @ referenda_weights @ scheduler_weights
     @ session_weights @ sudo_weights @ timestamp_weights @ treasury_weights @ utility_weights
     @ whitelist_weights"

definition range_of :: "unit benchmark list \<Rightarrow> string \<Rightarrow> (nat \<times> nat) list option" where
  "range_of T n = map_option bm_range (find (\<lambda>f. bm_name f = n) T)"

section \<open>The tables together\<close>

lemmas tables_tracked = parachain_system_tracked xcmp_queue_tracked assets_tracked balances_tracked
  collator_selection_tracked conviction_voting_tracked message_queue_tracked multisig_tracked
  preimage_tracked proxy_tracked referenda_tracked scheduler_tracked session_tracked sudo_tracked
  timestamp_tracked treasury_tracked utility_tracked whitelist_tracked

lemmas tables_bounded = parachain_system_bounded xcmp_queue_bounded assets_bounded balances_bounded
  collator_selection_bounded conviction_voting_bounded message_queue_bounded multisig_bounded
  preimage_bounded proxy_bounded referenda_bounded scheduler_bounded session_bounded sudo_bounded
  timestamp_bounded treasury_bounded utility_bounded whitelist_bounded

lemmas tables_estimated = parachain_system_well_estimated xcmp_queue_well_estimated
  assets_well_estimated balances_well_estimated collator_selection_well_estimated
  conviction_voting_well_estimated message_queue_well_estimated multisig_well_estimated
  preimage_well_estimated proxy_well_estimated referenda_well_estimated scheduler_well_estimated
  session_well_estimated sudo_well_estimated timestamp_well_estimated treasury_well_estimated
  utility_well_estimated whitelist_well_estimated

lemmas tables_defs = parachain_system_weights_def xcmp_queue_weights_def assets_weights_def
  balances_weights_def collator_selection_weights_def conviction_voting_weights_def
  message_queue_weights_def multisig_weights_def preimage_weights_def proxy_weights_def
  referenda_weights_def scheduler_weights_def session_weights_def sudo_weights_def
  timestamp_weights_def treasury_weights_def utility_weights_def whitelist_weights_def

lemmas weight_defs = parachain_system_weight_defs xcmp_queue_weight_defs assets_weight_defs
  balances_weight_defs collator_selection_weight_defs conviction_voting_weight_defs
  message_queue_weight_defs multisig_weight_defs preimage_weight_defs proxy_weight_defs
  referenda_weight_defs scheduler_weight_defs session_weight_defs sudo_weight_defs
  timestamp_weight_defs treasury_weight_defs utility_weight_defs whitelist_weight_defs

lemma all_tracked: "sp_weights W \<Longrightarrow> list_all2 (tracked W) all_weights all_weights"
  unfolding all_weights_def by (intro list_all2_appendI tables_tracked)

lemma all_bounded: "list_all bounded all_weights"
  by (simp add: all_weights_def tables_bounded)

lemma all_estimated: "list_all well_estimated all_weights"
  by (simp add: all_weights_def tables_estimated)

definition normal_size :: "(nat \<times> nat) benchmark \<Rightarrow> bool" where
  "normal_size f \<longleftrightarrow> weight_le (worst_case \<lparr>db_read = 25000000, db_write = 100000000\<rparr> f) (1500000000000, 3932160)"

definition over_limit :: "string list" where
  "over_limit = [''pallet_scheduler::service_task_fetched'', ''pallet_whitelist::dispatch_whitelisted_call'']"

lemma normal_size_iff: "list_all (\<lambda>f. normal_size f \<longleftrightarrow> bm_name f \<notin> set over_limit) all_weights"
  by (simp add: all_weights_def tables_defs weight_defs over_limit_def normal_size_def weight_le_def weight_eval)

lemma ranges_nonempty:
  "list_all (\<lambda>f. \<forall>r\<in>set (bm_range f). fst r \<le> snd r) (all_weights :: (nat \<times> nat) benchmark list)"
  by (simp add: all_weights_def tables_defs)

lemma weight_le_trans: "weight_le a b \<Longrightarrow> weight_le b c \<Longrightarrow> weight_le a c"
  by (auto simp: weight_le_def)

lemma db_le_rocks: "documented E \<Longrightarrow> db_le (RocksDbWeight E) slow_db"
  by (simp add: rocks_db db_le_def slow_db_def)

lemma upper_end_in_range:
  "\<forall>r\<in>set rs. fst r \<le> snd r \<Longrightarrow> \<forall>r\<in>set rs. snd r < 2 ^ 32 \<Longrightarrow> in_range rs (upper_end rs)"
  by (induction rs) (auto simp: upper_end_def unat_of_nat)

lemma runtime_weight_exact:
  fixes E :: "('w, 'p) primitives"
  assumes "documented E" and "i < length (all_weights :: 'w benchmark list)"
    and "in_range (bm_range (all_weights ! i :: 'w benchmark)) xs"
  shows "parts E (bm_weight (all_weights ! i) (weights_of E) (RocksDbWeight E) xs)
    = bm_weight (all_weights ! i) exact_weights (RocksDbWeight E) xs"
proof -
  have "sp_weights (weights_of E)" using assms(1) by (simp add: documented_def)
  from tracked_exact [OF all_tracked [OF this] all_bounded assms(2,3) db_le_rocks [OF assms(1)]]
  show ?thesis by (simp add: weighs_def parts_def prod_eq_iff)
qed

lemma nth_all_weights:
  fixes W :: "'w weight_ops"
  assumes "sp_weights W" and "i < length (all_weights :: 'w benchmark list)"
  shows "i < length (all_weights :: (nat \<times> nat) benchmark list)"
    and "tracked W (all_weights ! i) (all_weights ! i)"
  using all_tracked [OF assms(1)] assms(2) by (simp_all add: list_all2_conv_all_nth)

section \<open>Properties\<close>

text \<open>C21. No weight function of the runtime saturates: for components within the ranges its comments
  declare, and any database weights up to a millisecond per access, reference time and proof size are
  exactly what the same sum gives on unbounded natural numbers.\<close>

theorem weights_exact:
  fixes W :: "'w weight_ops"
  assumes "sp_weights W" and "db_le d slow_db" and "i < length (all_weights :: 'w benchmark list)"
    and "in_range (bm_range (all_weights ! i :: 'w benchmark)) xs"
  shows "weighs W (bm_weight (all_weights ! i) W d xs) (bm_weight (all_weights ! i) exact_weights d xs)"
  by (rule tracked_exact [OF all_tracked [OF assms(1)] all_bounded assms(3,4,2)])

theorem weights_exact_witness:
  "weighs word_weights (bm_weight (all_weights ! 11) word_weights slow_db [1000])
     (bm_weight (all_weights ! 11) exact_weights slow_db [1000])"
  by (rule weights_exact) (simp_all add: sp_weights_word_weights db_le_def all_weights_def tables_defs)

text \<open>More work never costs less: when every component of one call is at most that of another, both
  within the declared ranges, so are its reference time and its proof size.\<close>

theorem weights_monotone:
  fixes W :: "'w weight_ops"
  assumes "sp_weights W" and "db_le d slow_db" and "i < length (all_weights :: 'w benchmark list)"
    and "in_range (bm_range (all_weights ! i :: 'w benchmark)) xs"
    and "in_range (bm_range (all_weights ! i :: 'w benchmark)) ys"
    and "list_all2 (\<le>) xs ys"
  shows "ref_time W (bm_weight (all_weights ! i) W d xs) \<le> ref_time W (bm_weight (all_weights ! i) W d ys)
    \<and> proof_size W (bm_weight (all_weights ! i) W d xs) \<le> proof_size W (bm_weight (all_weights ! i) W d ys)"
proof -
  note exact = tracked_exact [OF all_tracked [OF assms(1)] all_bounded assms(3) _ assms(2)]
  have "weight_le (bm_weight (all_weights ! i) exact_weights d xs) (bm_weight (all_weights ! i) exact_weights d ys)"
    by (rule tracked_le [OF all_tracked [OF assms(1)] assms(3) in_range_length [OF assms(4)] assms(6)])
      (simp add: db_le_def)
  then show ?thesis
    using exact [OF assms(4)] exact [OF assms(5)]
    by (simp add: weighs_def weight_le_def word_le_nat_alt)
qed

theorem weights_monotone_witness:
  "ref_time word_weights (bm_weight (all_weights ! 11) word_weights slow_db [10])
     \<le> ref_time word_weights (bm_weight (all_weights ! 11) word_weights slow_db [1000])
   \<and> proof_size word_weights (bm_weight (all_weights ! 11) word_weights slow_db [10])
     \<le> proof_size word_weights (bm_weight (all_weights ! 11) word_weights slow_db [1000])"
  by (rule weights_monotone) (simp_all add: sp_weights_word_weights db_le_def all_weights_def tables_defs)

text \<open>The proof size every weight function returns is the one its comment estimates, a constant plus a
  coefficient per component.\<close>

theorem proof_size_estimated:
  fixes W :: "'w weight_ops"
  assumes "sp_weights W" and "db_le d slow_db" and "i < length (all_weights :: 'w benchmark list)"
    and "in_range (bm_range (all_weights ! i :: 'w benchmark)) xs"
  shows "unat (proof_size W (bm_weight (all_weights ! i) W d xs))
    = estimated_size (bm_estimate (all_weights ! i :: 'w benchmark)) xs"
proof -
  note nth = nth_all_weights [OF assms(1,3)]
  have "well_estimated (all_weights ! i)"
    using all_estimated nth(1) by (simp add: list_all_length)
  then have "snd (bm_weight (all_weights ! i) exact_weights d xs)
      = estimated_size (bm_estimate (all_weights ! i :: 'w benchmark)) xs"
    using nth(2) assms(4) by (simp add: well_estimated_def tracked_def)
  with tracked_exact [OF all_tracked [OF assms(1)] all_bounded assms(3,4,2)] show ?thesis
    by (simp add: weighs_def)
qed

theorem proof_size_estimated_witness:
  "unat (proof_size word_weights (bm_weight (all_weights ! 11) word_weights slow_db [1000])) = 2612675"
  using proof_size_estimated [OF sp_weights_word_weights, of slow_db 11 "[1000]"]
  by (simp add: db_le_def all_weights_def tables_defs estimated_size_def)

text \<open>C22. With the database weights of the runtime, a weight function stays within the limit of normal
  extrinsics over its whole range, unless it is \<open>service_task_fetched\<close> of the scheduler or
  \<open>dispatch_whitelisted_call\<close>: those two declare preimages of up to 4 MiB, whose proof size alone
  exceeds it.\<close>

theorem weights_fit:
  fixes E :: "('w, 'p) primitives"
  assumes "documented E" and "i < length (all_weights :: 'w benchmark list)"
  shows "(\<forall>xs. in_range (bm_range (all_weights ! i :: 'w benchmark)) xs \<longrightarrow>
      weight_le (parts E (bm_weight (all_weights ! i) (weights_of E) (RocksDbWeight E) xs))
        (parts E (the (max_total (RuntimeBlockWeights E Normal)))))
    \<longleftrightarrow> bm_name (all_weights ! i :: 'w benchmark)
      \<notin> {''pallet_scheduler::service_task_fetched'', ''pallet_whitelist::dispatch_whitelisted_call''}"
    (is "(\<forall>xs. ?in xs \<longrightarrow> ?fits xs) \<longleftrightarrow> ?ok")
proof -
  have W: "sp_weights (weights_of E)" using assms(1) by (simp add: documented_def)
  note nth = nth_all_weights [OF W assms(2)]
  let ?g = "all_weights ! i :: (nat \<times> nat) benchmark"
  have eq: "?fits xs \<longleftrightarrow> weight_le (bm_weight ?g exact_weights (RocksDbWeight E) xs) (1500000000000, 3932160)"
    if "?in xs" for xs
    using runtime_weight_exact [OF assms that] normal_limit [OF assms(1)]
    by (simp add: RuntimeBlockWeights_def)
  have ok: "?ok \<longleftrightarrow> weight_le (worst_case (RocksDbWeight E) ?g) (1500000000000, 3932160)"
    using normal_size_iff nth by (auto simp: list_all_length normal_size_def rocks_db [OF assms(1)] over_limit_def tracked_def)
  have rng: "bounded ?g" "\<forall>r\<in>set (bm_range ?g). fst r \<le> snd r" "\<forall>r\<in>set (bm_range ?g). snd r < 2 ^ 32"
    using all_bounded ranges_nonempty nth(1) by (simp_all add: list_all_length bounded_def)
  show ?thesis
  proof
    assume "\<forall>xs. ?in xs \<longrightarrow> ?fits xs"
    moreover have "?in (upper_end (bm_range ?g))"
      using upper_end_in_range [OF rng(2,3)] nth(2) by (simp add: tracked_def)
    ultimately have "?fits (upper_end (bm_range ?g))" and inr: "?in (upper_end (bm_range ?g))"
      by blast+
    then have "weight_le (worst_case (RocksDbWeight E) ?g) (1500000000000, 3932160)"
      unfolding worst_case_def eq [OF inr] by blast
    then show ?ok by (rule iffD2 [OF ok])
  next
    assume ?ok
    then have wc: "weight_le (worst_case (RocksDbWeight E) ?g) (1500000000000, 3932160)"
      by (rule iffD1 [OF ok])
    have "?fits xs" if x: "?in xs" for xs
    proof -
      have "in_range (bm_range ?g) xs" using x nth(2) by (simp add: tracked_def)
      then have "list_all2 (\<le>) xs (upper_end (bm_range ?g))"
        by (rule in_range_le_upper_end [OF _ rng(3)])
      with x have "weight_le (bm_weight ?g exact_weights (RocksDbWeight E) xs) (worst_case (RocksDbWeight E) ?g)"
        unfolding worst_case_def
        by (intro tracked_le [OF all_tracked [OF W] assms(2)] in_range_length) (simp_all add: db_le_def)
      then show ?thesis
        using wc unfolding eq [OF x] by (rule weight_le_trans)
    qed
    then show "\<forall>xs. ?in xs \<longrightarrow> ?fits xs" by blast
  qed
qed

theorem weights_fit_witness:
  "weight_le (parts word_primitives (bm_weight (all_weights ! 11) (weights_of word_primitives)
        (RocksDbWeight word_primitives) [1000]))
     (parts word_primitives (the (max_total (RuntimeBlockWeights word_primitives Normal))))"
proof -
  let ?f = "all_weights ! 11 :: (u64 \<times> u64) benchmark"
  have "bm_name ?f = ''pallet_assets::destroy_accounts''" "bm_range ?f = [(0, 1000)]"
    "11 < length (all_weights :: (u64 \<times> u64) benchmark list)"
    by (simp_all add: all_weights_def tables_defs)
  then show ?thesis
    using weights_fit [OF documented_word_primitives, of 11] by simp
qed

text \<open>The ranges over which the weights were measured end at the limits the runtime configures: items
  removed at once, string lengths, invulnerables, candidates, votes, signatories, proxies, announcements,
  scheduled calls and approvals.\<close>

theorem ranges_are_limits:
  "range_of assets_weights ''pallet_assets::destroy_accounts'' = Some [(0, unat RemoveItemsLimit)]
   \<and> range_of assets_weights ''pallet_assets::set_metadata'' = Some [(0, unat AssetsStringLimit), (0, unat AssetsStringLimit)]
   \<and> range_of collator_selection_weights ''pallet_collator_selection::set_invulnerables'' = Some [(1, unat MaxInvulnerables)]
   \<and> range_of collator_selection_weights ''pallet_collator_selection::remove_invulnerable''
       = Some [(unat MinEligibleCollators + 1, unat MaxInvulnerables)]
   \<and> range_of collator_selection_weights ''pallet_collator_selection::register_as_candidate'' = Some [(1, unat MaxCandidates - 1)]
   \<and> range_of conviction_voting_weights ''pallet_conviction_voting::delegate'' = Some [(0, unat MaxVotes)]
   \<and> range_of multisig_weights ''pallet_multisig::as_multi_create'' = Some [(2, unat MaxSignatories), (0, 10000)]
   \<and> range_of proxy_weights ''pallet_proxy::announce'' = Some [(0, unat MaxPending - 1), (1, unat MaxProxies - 1)]
   \<and> range_of scheduler_weights ''pallet_scheduler::service_agenda_base'' = Some [(0, unat MaxScheduledRuntimeCallsPerBlock)]
   \<and> range_of scheduler_weights ''pallet_scheduler::schedule'' = Some [(0, unat MaxScheduledRuntimeCallsPerBlock - 1)]
   \<and> range_of treasury_weights ''pallet_treasury::approve_proposal'' = Some [(0, unat MaxApprovals - 1)]"
  by (intro conjI)
    (simp_all add: range_of_def tables_defs RemoveItemsLimit_def AssetsStringLimit_def
      MaxInvulnerables_def MinEligibleCollators_def MaxCandidates_def MaxVotes_def MaxSignatories_def
      MaxPending_def MaxProxies_def MaxScheduledRuntimeCallsPerBlock_def MaxApprovals_def)

text \<open>A storage deposit never overflows: for every number of items and bytes it is 15 cents per item and
  6 cents per byte.\<close>

theorem deposit_exact:
  "unat (deposit items bytes) = (15 * unat items + 6 * unat bytes) * 1000000000000"
proof -
  have c: "unat (ucast x :: u128) = unat x" for x :: u32
    by (simp add: unsigned_ucast_eq take_bit_nat_eq_self_iff less_le_trans [OF unsigned_less])
  have "unat items < 2 ^ 32" "unat bytes < 2 ^ 32"
    using unsigned_less [of items] unsigned_less [of bytes] by simp_all
  then show ?thesis
    by (simp add: deposit_def currency_defs unat_word_ariths c)
qed

text \<open>The fee polynomial has one coefficient of degree one, without integer part, and charges the base
  weight of an extrinsic one \<open>MICROCENTS\<close>, a thousandth of \<open>MILLICENTS\<close>.\<close>

theorem fee_of_base_weight:
  assumes "documented E"
  shows "polynomial E = [\<lparr>degree = 1, negative = False, coeff_frac = from_rational E 100000000 12500000000,
      coeff_integer = 0\<rparr>]
    \<and> 100000000 * unat (ref_time (weights_of E) (ExtrinsicBaseWeight E)) = 12500000000 * unat MICROCENTS"
proof -
  have "ref_time (weights_of E) (ExtrinsicBaseWeight E) = 125000000"
    using assms by (simp add: documented_def sp_weights_def ExtrinsicBaseWeight_def saturating_mul_def)
  then show ?thesis
    by (simp add: polynomial_def currency_defs P_FACTOR_def Q_FACTOR_def POLY_DEGREE_def)
qed

theorem fee_of_base_weight_witness:
  "polynomial word_primitives = [\<lparr>degree = 1, negative = False, coeff_frac = (100000000, 12500000000),
      coeff_integer = 0\<rparr>]"
  using fee_of_base_weight [OF documented_word_primitives] by (simp add: word_primitives_def)

text \<open>At the upper end of its ranges every weight function charges the reads and writes its storage
  comments add up to, but for seven functions; among them \<open>set_candidacy_bond\<close> and \<open>new_session\<close> charge far
  fewer reads than their comments list.\<close>

theorem storage_charged:
  "map bm_name (filter (\<lambda>f. bm_weight f access_counts d (upper_end (bm_range f)) \<noteq> bm_storage f) all_weights) =
    [''pallet_balances::upgrade_accounts'', ''pallet_collator_selection::set_candidacy_bond'',
     ''pallet_collator_selection::new_session'', ''pallet_conviction_voting::delegate'',
     ''pallet_conviction_voting::undelegate'', ''pallet_preimage::ensure_updated'',
     ''pallet_treasury::on_initialize_proposals'']"
  by (simp add: all_weights_def tables_defs weight_defs saturating_adds_simps access_counts_def upper_end_def
     unat_saturating_mul unat_into_u64)

end
