(* ===== verification/Runtime_Governance.thy ===== *)
theory Runtime_Governance
  imports Runtime_Constants
begin

text \<open>
  The governance of the runtime: the custom origins and the checks on them
  (\<open>configs/governance/origins.rs\<close>), the referenda tracks (\<open>tracks.rs\<close>) and the privileged origins the
  pallets are configured with (\<open>configs/governance/mod.rs\<close>, \<open>configs/mod.rs\<close>, \<open>types.rs\<close>).

  The outer origin of the runtime is made by \<open>construct_runtime!\<close>; its conversions are the record
  \<open>outer_origin\<close>, and \<open>origin_laws\<close> says that they invert each other and that a failed conversion gives
  the origin back. The checks of \<open>frame_system\<close> and the combinators \<open>EitherOf\<close> and \<open>EitherOfDiverse\<close> are
  arguments too.
\<close>

section \<open>Custom origins\<close>

datatype Origin =
    Treasurer
  | ReferendumCanceller
  | ReferendumKiller
  | SmallTipper
  | BigTipper
  | SmallSpender
  | MediumSpender
  | BigSpender
  | WhitelistedCaller

definition all_origins :: "Origin list" where
  "all_origins = [Treasurer, ReferendumCanceller, ReferendumKiller, SmallTipper, BigTipper,
     SmallSpender, MediumSpender, BigSpender, WhitelistedCaller]"

record 'o outer_origin =
  into_custom :: "'o \<Rightarrow> 'o + Origin"
  from_custom :: "Origin \<Rightarrow> 'o"
  EnsureRoot :: "'o \<Rightarrow> 'o + unit"

definition origin_laws :: "'o outer_origin \<Rightarrow> bool" where
  "origin_laws F \<longleftrightarrow>
     (\<forall>x. into_custom F (from_custom F x) = Inr x)
   \<and> (\<forall>q x. into_custom F q = Inr x \<longrightarrow> from_custom F x = q)
   \<and> (\<forall>q q'. into_custom F q = Inl q' \<longrightarrow> q' = q)
   \<and> (\<forall>q q'. EnsureRoot F q = Inl q' \<longrightarrow> q' = q)
   \<and> (\<forall>x. EnsureRoot F (from_custom F x) = Inl (from_custom F x))"

text \<open>\<open>decl_unit_ensures!\<close>: the check for one origin.\<close>

definition unit_ensure :: "Origin \<Rightarrow> 'o outer_origin \<Rightarrow> 'o \<Rightarrow> 'o + unit" where
  "unit_ensure name F q = (case into_custom F q of
      Inl q' \<Rightarrow> Inl q'
    | Inr r \<Rightarrow> if r = name then Inr () else Inl (from_custom F r))"

text \<open>\<open>decl_ensure!\<close>: the check for a table of origins, with what each succeeds with.\<close>

definition table_ensure :: "(Origin \<times> balance) list \<Rightarrow> 'o outer_origin \<Rightarrow> 'o \<Rightarrow> 'o + balance" where
  "table_ensure items F q = (case into_custom F q of
      Inl q' \<Rightarrow> Inl q'
    | Inr r \<Rightarrow> (case map_of items r of
          Some success \<Rightarrow> Inr success
        | None \<Rightarrow> Inl (from_custom F r)))"

definition table_successful_origin :: "(Origin \<times> balance) list \<Rightarrow> 'o outer_origin \<Rightarrow> unit + 'o" where
  "table_successful_origin items F = foldl (\<lambda>_ item. Inr (from_custom F (fst item))) (Inl ()) items"

definition spender_items :: "(Origin \<times> balance) list" where
  "spender_items =
    [(SmallTipper, 250 * 3 * CENTS),
     (BigTipper, GRAND),
     (SmallSpender, 10 * GRAND),
     (MediumSpender, 100 * GRAND),
     (BigSpender, 1000 * GRAND),
     (Treasurer, 10000 * GRAND)]"

definition Spender :: "'o outer_origin \<Rightarrow> 'o \<Rightarrow> 'o + balance" where
  "Spender = table_ensure spender_items"

section \<open>Configured origins\<close>

text \<open>
  \<open>either\<close> stands for \<open>EitherOf\<close>, \<open>root_with\<close> for \<open>EnsureRootWithSuccess\<close>, which succeeds for the root
  origin with the value it is given.
\<close>

definition TreasurySpender ::
  "(('o \<Rightarrow> 'o + balance) \<Rightarrow> ('o \<Rightarrow> 'o + balance) \<Rightarrow> 'o \<Rightarrow> 'o + balance) \<Rightarrow> (balance \<Rightarrow> 'o \<Rightarrow> 'o + balance)
   \<Rightarrow> 'o outer_origin \<Rightarrow> 'o \<Rightarrow> 'o + balance" where
  "TreasurySpender either root_with F = either (root_with MaxBalance) (Spender F)"

definition DispatchWhitelistedOrigin ::
  "(('o \<Rightarrow> 'o + unit) \<Rightarrow> ('o \<Rightarrow> 'o + unit) \<Rightarrow> 'o \<Rightarrow> 'o + unit) \<Rightarrow> 'o outer_origin \<Rightarrow> 'o \<Rightarrow> 'o + unit" where
  "DispatchWhitelistedOrigin either F = either (EnsureRoot F) (unit_ensure WhitelistedCaller F)"

definition WhitelistOrigin :: "'o outer_origin \<Rightarrow> 'o \<Rightarrow> 'o + unit" where
  "WhitelistOrigin F = EnsureRoot F"

definition CancelOrigin :: "'o outer_origin \<Rightarrow> 'o \<Rightarrow> 'o + unit" where
  "CancelOrigin F = EnsureRoot F"

definition KillOrigin :: "'o outer_origin \<Rightarrow> 'o \<Rightarrow> 'o + unit" where
  "KillOrigin F = EnsureRoot F"

definition ApproveOrigin ::
  "(('o \<Rightarrow> 'o + unit) \<Rightarrow> ('o \<Rightarrow> 'o + unit) \<Rightarrow> 'o \<Rightarrow> 'o + 'e) \<Rightarrow> 'o outer_origin \<Rightarrow> 'o \<Rightarrow> 'o + 'e" where
  "ApproveOrigin diverse F = diverse (EnsureRoot F) (unit_ensure Treasurer F)"

definition RejectOrigin ::
  "(('o \<Rightarrow> 'o + unit) \<Rightarrow> ('o \<Rightarrow> 'o + unit) \<Rightarrow> 'o \<Rightarrow> 'o + 'e) \<Rightarrow> 'o outer_origin \<Rightarrow> 'o \<Rightarrow> 'o + 'e" where
  "RejectOrigin diverse F = diverse (EnsureRoot F) (unit_ensure Treasurer F)"

section \<open>Tracks\<close>

text \<open>Fixed-point numbers and curves are those of \<open>sp_arithmetic\<close> and \<open>pallet_referenda\<close>.\<close>

record ('f, 'c) curve_ops =
  fixed_from_rational :: "u128 \<Rightarrow> u128 \<Rightarrow> 'f"
  make_linear :: "u128 \<Rightarrow> u128 \<Rightarrow> 'f \<Rightarrow> 'f \<Rightarrow> 'c"
  make_reciprocal :: "u128 \<Rightarrow> u128 \<Rightarrow> 'f \<Rightarrow> 'f \<Rightarrow> 'f \<Rightarrow> 'c"

definition percent :: "('f, 'c) curve_ops \<Rightarrow> 32 word \<Rightarrow> 'f" where
  "percent K x = fixed_from_rational K (scast x) 100"

definition APP_ROOT :: "('f, 'c) curve_ops \<Rightarrow> 'c" where
  "APP_ROOT K = make_reciprocal K 4 28 (percent K 80) (percent K 50) (percent K 100)"

definition SUP_ROOT :: "('f, 'c) curve_ops \<Rightarrow> 'c" where
  "SUP_ROOT K = make_linear K 28 28 (percent K 0) (percent K 50)"

definition APP_TREASURER :: "('f, 'c) curve_ops \<Rightarrow> 'c" where
  "APP_TREASURER K = make_reciprocal K 4 28 (percent K 80) (percent K 50) (percent K 100)"

definition SUP_TREASURER :: "('f, 'c) curve_ops \<Rightarrow> 'c" where
  "SUP_TREASURER K = make_linear K 28 28 (percent K 0) (percent K 50)"

definition APP_REFERENDUM_CANCELLER :: "('f, 'c) curve_ops \<Rightarrow> 'c" where
  "APP_REFERENDUM_CANCELLER K = make_linear K 17 28 (percent K 50) (percent K 100)"

definition SUP_REFERENDUM_CANCELLER :: "('f, 'c) curve_ops \<Rightarrow> 'c" where
  "SUP_REFERENDUM_CANCELLER K = make_reciprocal K 12 28 (percent K 1) (percent K 0) (percent K 50)"

definition APP_REFERENDUM_KILLER :: "('f, 'c) curve_ops \<Rightarrow> 'c" where
  "APP_REFERENDUM_KILLER K = make_linear K 17 28 (percent K 50) (percent K 100)"

definition SUP_REFERENDUM_KILLER :: "('f, 'c) curve_ops \<Rightarrow> 'c" where
  "SUP_REFERENDUM_KILLER K = make_reciprocal K 12 28 (percent K 1) (percent K 0) (percent K 50)"

definition APP_SMALL_TIPPER :: "('f, 'c) curve_ops \<Rightarrow> 'c" where
  "APP_SMALL_TIPPER K = make_linear K 10 28 (percent K 50) (percent K 100)"

definition SUP_SMALL_TIPPER :: "('f, 'c) curve_ops \<Rightarrow> 'c" where
  "SUP_SMALL_TIPPER K = make_reciprocal K 1 28 (percent K 4) (percent K 0) (percent K 50)"

definition APP_BIG_TIPPER :: "('f, 'c) curve_ops \<Rightarrow> 'c" where
  "APP_BIG_TIPPER K = make_linear K 10 28 (percent K 50) (percent K 100)"

definition SUP_BIG_TIPPER :: "('f, 'c) curve_ops \<Rightarrow> 'c" where
  "SUP_BIG_TIPPER K = make_reciprocal K 8 28 (percent K 1) (percent K 0) (percent K 50)"

definition APP_SMALL_SPENDER :: "('f, 'c) curve_ops \<Rightarrow> 'c" where
  "APP_SMALL_SPENDER K = make_linear K 17 28 (percent K 50) (percent K 100)"

definition SUP_SMALL_SPENDER :: "('f, 'c) curve_ops \<Rightarrow> 'c" where
  "SUP_SMALL_SPENDER K = make_reciprocal K 12 28 (percent K 1) (percent K 0) (percent K 50)"

definition APP_MEDIUM_SPENDER :: "('f, 'c) curve_ops \<Rightarrow> 'c" where
  "APP_MEDIUM_SPENDER K = make_linear K 23 28 (percent K 50) (percent K 100)"

definition SUP_MEDIUM_SPENDER :: "('f, 'c) curve_ops \<Rightarrow> 'c" where
  "SUP_MEDIUM_SPENDER K = make_reciprocal K 16 28 (percent K 1) (percent K 0) (percent K 50)"

definition APP_BIG_SPENDER :: "('f, 'c) curve_ops \<Rightarrow> 'c" where
  "APP_BIG_SPENDER K = make_linear K 28 28 (percent K 50) (percent K 100)"

definition SUP_BIG_SPENDER :: "('f, 'c) curve_ops \<Rightarrow> 'c" where
  "SUP_BIG_SPENDER K = make_reciprocal K 20 28 (percent K 1) (percent K 0) (percent K 50)"

definition APP_WHITELISTED_CALLER :: "('f, 'c) curve_ops \<Rightarrow> 'c" where
  "APP_WHITELISTED_CALLER K = make_reciprocal K 16 (28 * 24) (percent K 96) (percent K 50) (percent K 100)"

definition SUP_WHITELISTED_CALLER :: "('f, 'c) curve_ops \<Rightarrow> 'c" where
  "SUP_WHITELISTED_CALLER K = make_reciprocal K 1 28 (percent K 20) (percent K 5) (percent K 50)"

record 'c TrackInfo =
  track_name :: string
  max_deciding :: u32
  decision_deposit :: balance
  prepare_period :: block_number
  decision_period :: block_number
  confirm_period :: block_number
  min_enactment_period :: block_number
  min_approval :: 'c
  min_support :: 'c

definition TRACKS_DATA :: "('f, 'c) curve_ops \<Rightarrow> (u16 \<times> 'c TrackInfo) list" where
  "TRACKS_DATA K =
    [(0, \<lparr>track_name = ''root'', max_deciding = 1, decision_deposit = 100 * GRAND,
       prepare_period = 8 * MINUTES, decision_period = 20 * MINUTES, confirm_period = 12 * MINUTES,
       min_enactment_period = 5 * MINUTES, min_approval = APP_ROOT K, min_support = SUP_ROOT K\<rparr>),
     (1, \<lparr>track_name = ''whitelisted_caller'', max_deciding = 100, decision_deposit = 10 * GRAND,
       prepare_period = 6 * MINUTES, decision_period = 20 * MINUTES, confirm_period = 4 * MINUTES,
       min_enactment_period = 3 * MINUTES, min_approval = APP_WHITELISTED_CALLER K, min_support = SUP_WHITELISTED_CALLER K\<rparr>),
     (11, \<lparr>track_name = ''treasurer'', max_deciding = 10, decision_deposit = GRAND,
       prepare_period = 8 * MINUTES, decision_period = 20 * MINUTES, confirm_period = 8 * MINUTES,
       min_enactment_period = 5 * MINUTES, min_approval = APP_TREASURER K, min_support = SUP_TREASURER K\<rparr>),
     (20, \<lparr>track_name = ''referendum_canceller'', max_deciding = 1000, decision_deposit = 10 * GRAND,
       prepare_period = 8 * MINUTES, decision_period = 14 * MINUTES, confirm_period = 8 * MINUTES,
       min_enactment_period = 3 * MINUTES, min_approval = APP_REFERENDUM_CANCELLER K, min_support = SUP_REFERENDUM_CANCELLER K\<rparr>),
     (21, \<lparr>track_name = ''referendum_killer'', max_deciding = 1000, decision_deposit = 50 * GRAND,
       prepare_period = 8 * MINUTES, decision_period = 20 * MINUTES, confirm_period = 8 * MINUTES,
       min_enactment_period = 3 * MINUTES, min_approval = APP_REFERENDUM_KILLER K, min_support = SUP_REFERENDUM_KILLER K\<rparr>),
     (30, \<lparr>track_name = ''small_tipper'', max_deciding = 200, decision_deposit = 3 * CENTS,
       prepare_period = MINUTES, decision_period = 14 * MINUTES, confirm_period = 4 * MINUTES,
       min_enactment_period = MINUTES, min_approval = APP_SMALL_TIPPER K, min_support = SUP_SMALL_TIPPER K\<rparr>),
     (31, \<lparr>track_name = ''big_tipper'', max_deciding = 100, decision_deposit = 10 * 3 * CENTS,
       prepare_period = 4 * MINUTES, decision_period = 14 * MINUTES, confirm_period = 12 * MINUTES,
       min_enactment_period = 3 * MINUTES, min_approval = APP_BIG_TIPPER K, min_support = SUP_BIG_TIPPER K\<rparr>),
     (32, \<lparr>track_name = ''small_spender'', max_deciding = 50, decision_deposit = 100 * 3 * CENTS,
       prepare_period = 10 * MINUTES, decision_period = 20 * MINUTES, confirm_period = 10 * MINUTES,
       min_enactment_period = 5 * MINUTES, min_approval = APP_SMALL_SPENDER K, min_support = SUP_SMALL_SPENDER K\<rparr>),
     (33, \<lparr>track_name = ''medium_spender'', max_deciding = 50, decision_deposit = 200 * 3 * CENTS,
       prepare_period = 10 * MINUTES, decision_period = 20 * MINUTES, confirm_period = 12 * MINUTES,
       min_enactment_period = 5 * MINUTES, min_approval = APP_MEDIUM_SPENDER K, min_support = SUP_MEDIUM_SPENDER K\<rparr>),
     (34, \<lparr>track_name = ''big_spender'', max_deciding = 50, decision_deposit = 400 * 3 * CENTS,
       prepare_period = 10 * MINUTES, decision_period = 20 * MINUTES, confirm_period = 14 * MINUTES,
       min_enactment_period = 5 * MINUTES, min_approval = APP_BIG_SPENDER K, min_support = SUP_BIG_SPENDER K\<rparr>)]"

text \<open>
  The caller part of an origin: \<open>try_raw\<close> and \<open>try_custom\<close> are the conversions \<open>RawOrigin::try_from\<close> and
  \<open>origins::Origin::try_from\<close>.
\<close>

record ('c, 'r) origin_caller =
  try_raw :: "'c \<Rightarrow> 'r option"
  raw_root :: 'r
  try_custom :: "'c \<Rightarrow> Origin option"

fun custom_track :: "Origin \<Rightarrow> u16" where
  "custom_track WhitelistedCaller = 1"
| "custom_track Treasurer = 11"
| "custom_track ReferendumCanceller = 20"
| "custom_track ReferendumKiller = 21"
| "custom_track SmallTipper = 30"
| "custom_track BigTipper = 31"
| "custom_track SmallSpender = 32"
| "custom_track MediumSpender = 33"
| "custom_track BigSpender = 34"

definition track_for :: "('c, 'r) origin_caller \<Rightarrow> 'c \<Rightarrow> unit + u16" where
  "track_for C i = (case try_raw C i of
      Some system_origin \<Rightarrow> if system_origin = raw_root C then Inr 0 else Inl ()
    | None \<Rightarrow> (case try_custom C i of
          Some custom_origin \<Rightarrow> Inr (custom_track custom_origin)
        | None \<Rightarrow> Inl ()))"

section \<open>Checks on origins\<close>

lemma into_custom_iff: "origin_laws F \<Longrightarrow> into_custom F q = Inr x \<longleftrightarrow> q = from_custom F x"
  by (auto simp: origin_laws_def)

lemma origin_laws_rejected:
  "origin_laws F \<Longrightarrow> into_custom F q = Inl q' \<Longrightarrow> q' = q"
  "origin_laws F \<Longrightarrow> EnsureRoot F q = Inl q' \<Longrightarrow> q' = q"
  "origin_laws F \<Longrightarrow> EnsureRoot F (from_custom F x) = Inl (from_custom F x)"
  by (auto simp: origin_laws_def)

lemma unit_ensure_custom:
  "origin_laws F \<Longrightarrow>
   unit_ensure name F (from_custom F x) = (if x = name then Inr () else Inl (from_custom F x))"
  by (simp add: unit_ensure_def origin_laws_def)

lemma table_ensure_accepts:
  assumes "origin_laws F"
  shows "table_ensure items F q = Inr b \<longleftrightarrow> (\<exists>x. q = from_custom F x \<and> map_of items x = Some b)"
proof (cases "into_custom F q")
  case (Inl q')
  then have "q \<noteq> from_custom F x" for x using assms by (auto simp: origin_laws_def)
  with Inl show ?thesis by (simp add: table_ensure_def)
next
  case (Inr r)
  then have q: "q = from_custom F r" by (simp add: into_custom_iff [OF assms])
  have "from_custom F r = from_custom F x \<longleftrightarrow> x = r" for x
    using assms unfolding origin_laws_def by (metis sum.inject(2))
  with Inr q show ?thesis by (simp add: table_ensure_def split: option.split)
qed

lemma table_ensure_rejects: "origin_laws F \<Longrightarrow> table_ensure items F q = Inl q' \<Longrightarrow> q' = q"
  by (auto simp: table_ensure_def into_custom_iff origin_laws_rejected split: sum.splits option.splits)

text \<open>The limits in the smallest unit of the currency.\<close>

definition spend_limit :: "Origin \<Rightarrow> nat option" where
  "spend_limit = map_of
    [(SmallTipper, 750 * 10 ^ 12), (BigTipper, 10 ^ 17), (SmallSpender, 10 ^ 18),
     (MediumSpender, 10 ^ 19), (BigSpender, 10 ^ 20), (Treasurer, 10 ^ 21)]"

lemma spender_items_limit: "map_of spender_items x = Some b \<longleftrightarrow> spend_limit x = Some (unat b)"
  by (cases x) (auto simp: spender_items_def spend_limit_def currency_defs word_unat_eq_iff)

text \<open>C32. The treasury spends for the root origin without limit and for exactly six custom origins up to
  fixed limits, none of which overflowed; every other origin is handed back unchanged.\<close>

theorem treasury_spender_limits:
  assumes F: "origin_laws F"
    and either: "\<And>l r q. either l r q = (case l q of Inl q' \<Rightarrow> r q' | Inr b \<Rightarrow> Inr b)"
    and root: "\<And>m q. root_with m q = (case EnsureRoot F q of Inl q' \<Rightarrow> Inl q' | Inr _ \<Rightarrow> Inr m)"
  shows "(TreasurySpender either root_with F q = Inr b \<longleftrightarrow>
      (EnsureRoot F q = Inr () \<and> unat b = 2 ^ 128 - 1)
      \<or> (\<exists>x. q = from_custom F x \<and> spend_limit x = Some (unat b)))
    \<and> (TreasurySpender either root_with F q = Inl q' \<longrightarrow> q' = q)"
proof -
  have max: "MaxBalance = b \<longleftrightarrow> unat b = 2 ^ 128 - 1"
    by (auto simp add: MaxBalance_def word_unat_eq_iff unsigned_minus_1_eq_mask mask_eq_exp_minus_1)
  show ?thesis
  proof (cases "EnsureRoot F q")
    case (Inl q')
    then have "q' = q" by (rule origin_laws_rejected [OF F])
    with Inl show ?thesis
      using table_ensure_rejects [OF F]
      by (simp add: TreasurySpender_def either root Spender_def table_ensure_accepts [OF F] spender_items_limit)
  next
    case (Inr u)
    then have "q \<noteq> from_custom F x" for x using origin_laws_rejected(3) [OF F, of x] by auto
    with Inr show ?thesis
      by (simp add: TreasurySpender_def either root max)
  qed
qed

text \<open>The origins of the referendum canceller and the referendum killer pass no privileged check of the
  runtime: neither those for cancelling and killing referenda, which accept the root origin only, nor
  those of the whitelist and the treasury.\<close>

theorem referendum_admins_powerless:
  assumes F: "origin_laws F" and x: "x \<in> {ReferendumCanceller, ReferendumKiller}"
    and either: "\<And>l r q. either l r q = (case l q of Inl q' \<Rightarrow> r q' | Inr u \<Rightarrow> Inr u)"
    and diverse: "\<And>l r q q' q''. l q = Inl q' \<Longrightarrow> r q' = Inl q'' \<Longrightarrow> diverse l r q = Inl q''"
  shows "let q = from_custom F x in
     CancelOrigin F q = Inl q \<and> KillOrigin F q = Inl q \<and> WhitelistOrigin F q = Inl q
   \<and> DispatchWhitelistedOrigin either F q = Inl q \<and> ApproveOrigin diverse F q = Inl q
   \<and> RejectOrigin diverse F q = Inl q \<and> Spender F q = Inl q"
proof -
  have u: "unit_ensure name F (from_custom F x) = Inl (from_custom F x)"
    if "name \<in> {Treasurer, WhitelistedCaller}" for name
    using x that by (auto simp: unit_ensure_custom [OF F])
  have "Spender F (from_custom F x) = Inl (from_custom F x)"
    using x F by (auto simp: Spender_def table_ensure_def spender_items_def origin_laws_def)
  then show ?thesis
    using u origin_laws_rejected(3) [OF F, of x]
    by (simp add: CancelOrigin_def KillOrigin_def WhitelistOrigin_def DispatchWhitelistedOrigin_def either
        ApproveOrigin_def RejectOrigin_def diverse)
qed

lemma track_ids: "map fst (TRACKS_DATA K) = [0, 1, 11, 20, 21, 30, 31, 32, 33, 34]"
  by (simp add: TRACKS_DATA_def)

lemma custom_track_id: "custom_track x \<in> {1, 11, 20, 21, 30, 31, 32, 33, 34}"
  by (cases x) simp_all

lemma custom_track_inj: "custom_track x = custom_track y \<longleftrightarrow> x = y"
  by (cases x; cases y) simp_all

lemma track_periods:
  "list_all (\<lambda>(n, d). 0 < max_deciding d \<and> SubmissionDeposit \<le> decision_deposit d
      \<and> 0 < prepare_period d \<and> prepare_period d < decision_period d
      \<and> 0 < confirm_period d \<and> confirm_period d < decision_period d
      \<and> unat (prepare_period d) + unat (decision_period d) < unat UndecidingTimeout) (TRACKS_DATA K)"
  by (simp add: TRACKS_DATA_def time_defs currency_defs SubmissionDeposit_def UndecidingTimeout_def)

lemma track_names:
  "map (\<lambda>x. map_option track_name (map_of (TRACKS_DATA K) (custom_track x))) all_origins
      = map Some [''treasurer'', ''referendum_canceller'', ''referendum_killer'', ''small_tipper'',
          ''big_tipper'', ''small_spender'', ''medium_spender'', ''big_spender'', ''whitelisted_caller'']"
  by (simp add: TRACKS_DATA_def all_origins_def)


section \<open>Instances\<close>

text \<open>An outer origin with a root, accounts and the custom origins.\<close>

datatype demo_origin = Root_Origin | Signed_Origin nat | Custom_Origin Origin

definition demo_outer :: "demo_origin outer_origin" where
  "demo_outer = \<lparr>
     into_custom = (\<lambda>q. case q of Custom_Origin x \<Rightarrow> Inr x | _ \<Rightarrow> Inl q),
     from_custom = Custom_Origin,
     EnsureRoot = (\<lambda>q. if q = Root_Origin then Inr () else Inl q)\<rparr>"

definition demo_caller :: "(demo_origin, nat option) origin_caller" where
  "demo_caller = \<lparr>
     try_raw = (\<lambda>q. case q of Root_Origin \<Rightarrow> Some None | Signed_Origin a \<Rightarrow> Some (Some a) | Custom_Origin _ \<Rightarrow> None),
     raw_root = None,
     try_custom = (\<lambda>q. case q of Custom_Origin x \<Rightarrow> Some x | _ \<Rightarrow> None)\<rparr>"

definition demo_curves :: "(u128 \<times> u128, (u128 \<times> u128) list) curve_ops" where
  "demo_curves = \<lparr>fixed_from_rational = Pair, make_linear = (\<lambda>a b c d. [(a, b), c, d]),
     make_reciprocal = (\<lambda>a b c d e. [(a, b), c, d, e])\<rparr>"

definition either_of :: "('o \<Rightarrow> 'o + 's) \<Rightarrow> ('o \<Rightarrow> 'o + 's) \<Rightarrow> 'o \<Rightarrow> 'o + 's" where
  "either_of l r q = (case l q of Inl q' \<Rightarrow> r q' | Inr s \<Rightarrow> Inr s)"

definition demo_root_with :: "balance \<Rightarrow> demo_origin \<Rightarrow> demo_origin + balance" where
  "demo_root_with m q = (case EnsureRoot demo_outer q of Inl q' \<Rightarrow> Inl q' | Inr _ \<Rightarrow> Inr m)"

lemma demo_origin_laws: "origin_laws demo_outer"
  by (auto simp: origin_laws_def demo_outer_def split: demo_origin.splits if_splits)

theorem treasury_spender_limits_witness:
  "TreasurySpender either_of demo_root_with demo_outer (Custom_Origin BigTipper) = Inr (10 ^ 17)
   \<and> TreasurySpender either_of demo_root_with demo_outer (Custom_Origin ReferendumKiller) = Inl (Custom_Origin ReferendumKiller)"
proof -
  note T = treasury_spender_limits [OF demo_origin_laws, of either_of demo_root_with,
      OF either_of_def demo_root_with_def]
  have "TreasurySpender either_of demo_root_with demo_outer (Custom_Origin BigTipper) = Inr (10 ^ 17)"
    using T [of "Custom_Origin BigTipper" "10 ^ 17" undefined]
    by (simp add: demo_outer_def spend_limit_def)
  moreover obtain q where q: "TreasurySpender either_of demo_root_with demo_outer (Custom_Origin ReferendumKiller) = Inl q"
    using T [of "Custom_Origin ReferendumKiller"]
    by (cases "TreasurySpender either_of demo_root_with demo_outer (Custom_Origin ReferendumKiller)")
      (auto simp: demo_outer_def spend_limit_def)
  ultimately show ?thesis using T [of "Custom_Origin ReferendumKiller" 0 q] by simp
qed

theorem referendum_admins_powerless_witness:
  "CancelOrigin demo_outer (Custom_Origin ReferendumCanceller) = Inl (Custom_Origin ReferendumCanceller)"
  using referendum_admins_powerless [OF demo_origin_laws, of ReferendumCanceller either_of either_of,
      OF _ either_of_def]
  by (simp add: either_of_def demo_outer_def Let_def)


end
