(* ===== verification/Runtime_Calls.thy ===== *)
theory Runtime_Calls
  imports Runtime_Constants
begin

text \<open>
  The composition of the runtime (\<open>construct_runtime!\<close> in \<open>runtime/src/lib.rs\<close>), the filter every call
  passes and the filters of the proxy types (\<open>configs/mod.rs\<close>).

  A value of the generated type \<open>RuntimeCall\<close> is a variant for the pallet holding one of the pallet's own
  calls; it is modelled by the pallet, the name of the call and the arguments of the call.
\<close>

datatype runtime_pallet =
    System | ParachainSystem | Timestamp | ParachainInfo | Proxy | Utility | Multisig | Scheduler
  | Preimage | Balances | TransactionPayment | Assets | Treasury | Sudo | ConvictionVoting | Referenda
  | Origins | Whitelist | Authorship | CollatorSelection | Session | Aura | AuraExt | XcmpQueue
  | PolkadotXcm | CumulusXcm | MessageQueue | Rosca

fun pallet_index :: "runtime_pallet \<Rightarrow> u8" where
  "pallet_index System = 0"
| "pallet_index ParachainSystem = 1"
| "pallet_index Timestamp = 2"
| "pallet_index ParachainInfo = 3"
| "pallet_index Proxy = 4"
| "pallet_index Utility = 5"
| "pallet_index Multisig = 6"
| "pallet_index Scheduler = 7"
| "pallet_index Preimage = 8"
| "pallet_index Balances = 10"
| "pallet_index TransactionPayment = 11"
| "pallet_index Assets = 12"
| "pallet_index Treasury = 13"
| "pallet_index Sudo = 15"
| "pallet_index ConvictionVoting = 16"
| "pallet_index Referenda = 17"
| "pallet_index Origins = 18"
| "pallet_index Whitelist = 19"
| "pallet_index Authorship = 20"
| "pallet_index CollatorSelection = 21"
| "pallet_index Session = 22"
| "pallet_index Aura = 23"
| "pallet_index AuraExt = 24"
| "pallet_index XcmpQueue = 30"
| "pallet_index PolkadotXcm = 31"
| "pallet_index CumulusXcm = 32"
| "pallet_index MessageQueue = 33"
| "pallet_index Rosca = 40"

record 'x RuntimeCall =
  rc_pallet :: runtime_pallet
  rc_method :: string
  rc_args :: 'x

text \<open>\<open>NormalFilter\<close>, the base filter of every call.\<close>

definition NormalFilter_contains :: "'x RuntimeCall \<Rightarrow> bool" where
  "NormalFilter_contains c = (case rc_pallet c of
      Proxy \<Rightarrow> rc_method c \<notin> set [''create_pure'', ''kill_pure'', ''remove_proxies'']
    | _ \<Rightarrow> True)"

datatype ProxyType = Any | NonTransfer | CancelProxy | Collator

fun proxy_filter :: "ProxyType \<Rightarrow> 'x RuntimeCall \<Rightarrow> bool" where
  "proxy_filter Any c = True"
| "proxy_filter NonTransfer c = (rc_pallet c \<noteq> Balances)"
| "proxy_filter CancelProxy c =
     (rc_pallet c = Proxy \<and> rc_method c = ''reject_announcement'' \<or> rc_pallet c = Multisig)"
| "proxy_filter Collator c = (rc_pallet c = CollatorSelection \<or> rc_pallet c = Multisig)"

text \<open>The limits of the ROSCA pallet in this runtime.\<close>

definition RoscaMaxParticipants :: u32 where "RoscaMaxParticipants = 150"
definition RoscaMaxInvitedParticipants :: u32 where "RoscaMaxInvitedParticipants = 149"
definition RoscaStringLimit :: u32 where "RoscaStringLimit = 50"

text \<open>The indices are pairwise different, so that an encoded call names one pallet.\<close>

lemma pallet_index_inject: "pallet_index p = pallet_index q \<longleftrightarrow> p = q"
  by (cases p; cases q) simp_all

text \<open>The proxy types are ordered: what a collator proxy or a cancelling proxy may call, a non-transfer proxy
  may call too, and neither of the two reaches the ROSCA pallet. A non-transfer proxy may make every call
  but those of \<open>Balances\<close>, transfers of \<open>Assets\<close> and all calls of the ROSCA pallet included, and the base
  filter lets all of these pass.\<close>

theorem proxy_types_ordered:
  "(t \<noteq> Any \<and> proxy_filter t c \<longrightarrow> proxy_filter NonTransfer c)
   \<and> (t \<in> {CancelProxy, Collator} \<and> proxy_filter t c \<longrightarrow> rc_pallet c \<notin> {Rosca, Assets, Balances, Sudo, Treasury})
   \<and> (rc_pallet c \<in> {Rosca, Assets} \<longrightarrow> proxy_filter NonTransfer c \<and> NormalFilter_contains c)
   \<and> (\<not> NormalFilter_contains c \<longleftrightarrow>
        rc_pallet c = Proxy \<and> rc_method c \<in> {''create_pure'', ''kill_pure'', ''remove_proxies''})
   \<and> (t = CancelProxy \<and> proxy_filter t c \<longrightarrow> NormalFilter_contains c)"
  by (cases t; cases "rc_pallet c") (auto simp: NormalFilter_contains_def)

theorem proxy_types_ordered_witness:
  "proxy_filter NonTransfer \<lparr>rc_pallet = Assets, rc_method = ''transfer'', rc_args = ()\<rparr>"
  using proxy_types_ordered [of Any "\<lparr>rc_pallet = Assets, rc_method = ''transfer'', rc_args = ()\<rparr>"]
  by simp
end
