(* ===== verification/Runtime_Rosca.thy ===== *)
theory Runtime_Rosca
  imports Rosca_Rounds Runtime_Calls
begin

text \<open>
  The ROSCA pallet under the limits this runtime configures: 150 participants, 149 invitations.
\<close>

lemma generate_rounds_from_error:
  assumes "\<forall>x\<in>set rest. length (filter (\<lambda>y. y \<noteq> x) participants) \<le> unat (MaxInvitedParticipants T)"
    and "length rounds + length rest \<le> unat (MaxParticipants T)"
    and "generate_rounds_from T participants frequency i rest cutoff rounds = Inl e"
  shows "e = ArithmeticOverflow"
  using assms
proof (induction rest arbitrary: i cutoff rounds)
  case (Cons x rest)
  have "e = ArithmeticOverflow"
    if "generate_rounds_from T participants frequency j rest c (rounds @ [r]) = Inl e" for j c r
    by (rule Cons.IH [OF _ _ that]) (use Cons.prems in auto)
  then show ?case
    using Cons.prems by (auto simp: ensure_def ok_or_def Let_def split: option.splits)
qed simp

lemma length_filter_others: "x \<in> set ps \<Longrightarrow> length (filter (\<lambda>y. y \<noteq> x) ps) < length ps"
  by (rule length_filter_less) simp_all

definition runtime_limits :: "('o, 'a, 'l) config \<Rightarrow> bool" where
  "runtime_limits T \<longleftrightarrow> MaxParticipants T = RoscaMaxParticipants
     \<and> MaxInvitedParticipants T = RoscaMaxInvitedParticipants \<and> StringLimit T = RoscaStringLimit"

text \<open>C34. Under the limits of this runtime the plan of rounds never fails on a bound: for any order of up to
  \<open>MaxParticipants\<close> participants it is the reference plan, unless the last cutoffs leave the range of
  timestamps, and then the error is \<open>ArithmeticOverflow\<close>.\<close>

theorem runtime_limits_suffice:
  assumes T: "runtime_limits T" and n: "length ps \<le> unat (MaxParticipants T)"
  shows "generate_rounds T ps now frequency =
    (if unat now + (length ps + 1) * unat frequency < 2 ^ 64 then Inr (round_plan ps now frequency)
     else Inl ArithmeticOverflow)"
proof -
  have inv: "\<forall>x\<in>set ps. length (filter (\<lambda>y. y \<noteq> x) ps) \<le> unat (MaxInvitedParticipants T)"
  proof
    fix x assume "x \<in> set ps"
    then have "length (filter (\<lambda>y. y \<noteq> x) ps) < length ps" by (rule length_filter_others)
    with T n show "length (filter (\<lambda>y. y \<noteq> x) ps) \<le> unat (MaxInvitedParticipants T)"
      by (simp add: runtime_limits_def RoscaMaxParticipants_def RoscaMaxInvitedParticipants_def)
  qed
  have err: "e = ArithmeticOverflow" if "generate_rounds T ps now frequency = Inl e" for e
    using that generate_rounds_from_error [of "rev ps" ps T "[]"] inv n
    by (auto simp: generate_rounds_def ok_or_def split: option.splits)
  show ?thesis
  proof (cases "generate_rounds T ps now frequency")
    case (Inl e)
    with err generate_rounds_Inr_iff [of T ps now frequency "round_plan ps now frequency"] inv n show ?thesis
      by auto
  next
    case (Inr rs)
    with generate_rounds_Inr_iff [of T ps now frequency rs] show ?thesis by auto
  qed
qed

definition runtime_demo :: "(nat, nat, unit) config" where
  "runtime_demo = \<lparr>MaxParticipants = RoscaMaxParticipants, MaxInvitedParticipants = RoscaMaxInvitedParticipants,
     StringLimit = RoscaStringLimit, ensure_signed = Inr, transfer = (\<lambda>_ _ _ _ l. Inr l),
     into_sub_account = unat, blake2_128 = id, block_hash = (\<lambda>_. [0]), clear_prefix = (\<lambda>_ _ _. None)\<rparr>"

theorem runtime_limits_suffice_witness:
  "generate_rounds runtime_demo [7, 8, 9] 1000 60 = Inr (round_plan [7, 8, 9] 1000 60)
   \<and> generate_rounds runtime_demo [7, 8, 9] (- 1) 60 = Inl ArithmeticOverflow"
proof -
  have T: "runtime_limits runtime_demo" "length [7, 8, 9 :: nat] \<le> unat (MaxParticipants runtime_demo)"
    by (simp_all add: runtime_limits_def runtime_demo_def RoscaMaxParticipants_def)
  show ?thesis
    using runtime_limits_suffice [OF T, of 1000 60] runtime_limits_suffice [OF T, of "- 1" 60]
    by (simp add: unsigned_minus_1_eq_mask mask_eq_exp_minus_1)
qed

end
