(* ===== verification/Xcm_Config.thy ===== *)
theory Xcm_Config
  imports Rosca_Types Runtime_Calls
begin

text \<open>
  The cross-chain configuration of the runtime (\<open>configs/xcm_config.rs\<close>): which locations name the
  supported assets, from where assets are accepted as reserves, which origins execute without paying and
  which messages of the relay chain pass as channel notifications.

  Locations belong to the \<open>xcm\<close> crate: a location is made by \<open>location_new\<close> and taken apart by \<open>unpack\<close>, and
  \<open>location_laws\<close> says that the two are inverse. The matcher of message instructions belongs to
  \<open>xcm-builder\<close>; \<open>matcher_laws\<close> states what its two operations do.
\<close>

section \<open>Locations\<close>

datatype BodyId = Executive | Defense | OtherBody nat

datatype 'j Junction =
    Parachain u32
  | PalletInstance u8
  | GeneralIndex u128
  | Plurality BodyId 'j
  | OtherJunction 'j

record ('l, 'j) location_ops =
  location_new :: "u8 \<Rightarrow> 'j Junction list \<Rightarrow> 'l"
  unpack :: "'l \<Rightarrow> u8 \<times> 'j Junction list"

definition location_laws :: "('l, 'j) location_ops \<Rightarrow> bool" where
  "location_laws L \<longleftrightarrow> (\<forall>p js. unpack L (location_new L p js) = (p, js))
     \<and> (\<forall>l. location_new L (fst (unpack L l)) (snd (unpack L l)) = l)"

definition USDC_PATH :: "'j Junction list" where
  "USDC_PATH = [Parachain 1000, PalletInstance 50, GeneralIndex 1337]"

definition USDT_PATH :: "'j Junction list" where
  "USDT_PATH = [Parachain 1000, PalletInstance 50, GeneralIndex 1984]"

definition AssetsPalletLocation :: "('l, 'j) location_ops \<Rightarrow> 'l" where
  "AssetsPalletLocation L = location_new L 0 [PalletInstance (pallet_index Assets)]"

definition UsdtLocation :: "('l, 'j) location_ops \<Rightarrow> 'l" where
  "UsdtLocation L = location_new L 1 [Parachain 1000, PalletInstance 50, GeneralIndex 1984]"

definition UsdtPerSecond :: "('l, 'j) location_ops \<Rightarrow> 'l \<times> u128 \<times> u128" where
  "UsdtPerSecond L = (UsdtLocation L, 1000, 1000)"

definition UsdcLocation :: "('l, 'j) location_ops \<Rightarrow> 'l" where
  "UsdcLocation L = location_new L 1 [Parachain 1000, PalletInstance 50, GeneralIndex 1337]"

definition UsdcPerSecond :: "('l, 'j) location_ops \<Rightarrow> 'l \<times> u128 \<times> u128" where
  "UsdcPerSecond L = (UsdcLocation L, 1000, 1000)"

definition TreasuryInteriorLocation :: "'j Junction list" where
  "TreasuryInteriorLocation = [PalletInstance 13]"

section \<open>Assets\<close>

definition SupportedAssets_contains :: "('l, 'j) location_ops \<Rightarrow> 'l \<Rightarrow> bool" where
  "SupportedAssets_contains L location =
     (unpack L location = (1, USDC_PATH) \<or> unpack L location = (1, USDT_PATH))"

definition SupportedAssets_convert :: "('l, 'j) location_ops \<Rightarrow> 'l \<Rightarrow> u32 option" where
  "SupportedAssets_convert L location =
     (if unpack L location = (1, USDC_PATH) then Some 1337
      else if unpack L location = (1, USDT_PATH) then Some 1984
      else None)"

definition SupportedAssets_convert_back :: "('l, 'j) location_ops \<Rightarrow> u32 \<Rightarrow> 'l option" where
  "SupportedAssets_convert_back L asset =
     (if asset = 1337 then Some (UsdcLocation L)
      else if asset = 1984 then Some (UsdtLocation L)
      else None)"

text \<open>An asset is its identifier, a location, and what it holds; \<open>asset.id.0\<close> is the first part.\<close>

definition AssetHubAssets_contains_pair :: "('l, 'j) location_ops \<Rightarrow> 'l \<times> 'h \<Rightarrow> 'l \<Rightarrow> bool" where
  "AssetHubAssets_contains_pair L asset source =
     (let asset_hub = location_new L 1 [Parachain 1000] in
      if asset_hub \<noteq> source then False else SupportedAssets_contains L (fst asset))"

definition AssetHubAssets_contains :: "('l, 'j) location_ops \<Rightarrow> 'l \<times> ('l \<times> 'h) list \<Rightarrow> bool" where
  "AssetHubAssets_contains L item = list_all (\<lambda>asset. SupportedAssets_contains L (fst asset)) (snd item)"

section \<open>Origins of messages\<close>

definition ParentOrParentsExecutivePlurality_contains :: "('l, 'j) location_ops \<Rightarrow> 'l \<Rightarrow> bool" where
  "ParentOrParentsExecutivePlurality_contains L location = (case unpack L location of
      (p, []) \<Rightarrow> p = 1
    | (p, [Plurality b _]) \<Rightarrow> p = 1 \<and> b = Executive
    | _ \<Rightarrow> False)"

definition AssetHubParachain_contains :: "('l, 'j) location_ops \<Rightarrow> 'l \<Rightarrow> bool" where
  "AssetHubParachain_contains L location = (unpack L location = (1, [Parachain 1000]))"

definition ParentOrSiblings_contains :: "('l, 'j) location_ops \<Rightarrow> 'l \<Rightarrow> bool" where
  "ParentOrSiblings_contains L location = (case unpack L location of
      (p, []) \<Rightarrow> p = 1
    | (p, [Parachain _]) \<Rightarrow> p = 1
    | _ \<Rightarrow> False)"

text \<open>The origins \<open>AllowUnpaidExecutionFrom\<close> is given in \<open>Barrier\<close>.\<close>

definition unpaid_execution :: "('l, 'j) location_ops \<Rightarrow> 'l \<Rightarrow> bool" where
  "unpaid_execution L location =
     (AssetHubParachain_contains L location \<or> ParentOrParentsExecutivePlurality_contains L location)"

definition MaxInstructions :: u32 where "MaxInstructions = 100"
definition MaxAssetsIntoHolding :: u32 where "MaxAssetsIntoHolding = 64"

definition UnitWeightCost :: "'w weight_ops \<Rightarrow> 'w" where
  "UnitWeightCost W = from_parts W 1000000000 (64 * 1024)"

section \<open>Channel notifications\<close>

datatype ProcessMessageError = Unsupported | BadFormat | OtherMessageError nat

datatype 'i Instruction =
    HrmpNewChannelOpenRequest 'i
  | HrmpChannelAccepted 'i
  | HrmpChannelClosing 'i
  | OtherInstruction 'i

record ('i, 'm) matcher_ops =
  matcher :: "'i Instruction list \<Rightarrow> 'm"
  assert_remaining_insts :: "'m \<Rightarrow> nat \<Rightarrow> ProcessMessageError + 'm"
  match_next_inst :: "'m \<Rightarrow> ('i Instruction \<Rightarrow> ProcessMessageError + unit) \<Rightarrow> ProcessMessageError + 'm"

definition matcher_laws :: "('i, 'm) matcher_ops \<Rightarrow> bool" where
  "matcher_laws M \<longleftrightarrow>
     (\<forall>xs n. length xs = n \<longrightarrow> assert_remaining_insts M (matcher M xs) n = Inr (matcher M xs))
   \<and> (\<forall>xs n. length xs \<noteq> n \<longrightarrow> assert_remaining_insts M (matcher M xs) n = Inl BadFormat)
   \<and> (\<forall>x xs f e. f x = Inl e \<longrightarrow> match_next_inst M (matcher M (x # xs)) f = Inl e)
   \<and> (\<forall>x xs f. f x = Inr () \<longrightarrow> (\<exists>m. match_next_inst M (matcher M (x # xs)) f = Inr m))"

fun hrmp_notification :: "'i Instruction \<Rightarrow> ProcessMessageError + unit" where
  "hrmp_notification (HrmpNewChannelOpenRequest _) = Inr ()"
| "hrmp_notification (HrmpChannelAccepted _) = Inr ()"
| "hrmp_notification (HrmpChannelClosing _) = Inr ()"
| "hrmp_notification (OtherInstruction _) = Inl BadFormat"

definition AllowHrmpNotificationsFromRelayChain ::
  "('l, 'j) location_ops \<Rightarrow> ('i, 'm) matcher_ops \<Rightarrow> 'l \<Rightarrow> 'i Instruction list \<Rightarrow> ProcessMessageError + unit" where
  "AllowHrmpNotificationsFromRelayChain L M origin instructions =
     ensure (unpack L origin = (1, [])) Unsupported (
     try_do (assert_remaining_insts M (matcher M instructions) 1) (\<lambda>m.
     try_do (match_next_inst M m hrmp_notification) (\<lambda>_. Inr ())))"

section \<open>Properties\<close>

lemma location_new_eq: "location_laws L \<Longrightarrow> location_new L p js = l \<longleftrightarrow> unpack L l = (p, js)"
  unfolding location_laws_def by (metis fst_conv snd_conv)

lemma convert_iff:
  "location_laws L \<Longrightarrow> SupportedAssets_convert L l = Some a \<longleftrightarrow> SupportedAssets_convert_back L a = Some l"
  by (auto simp: SupportedAssets_convert_def SupportedAssets_convert_back_def UsdcLocation_def
      UsdtLocation_def location_new_eq USDC_PATH_def USDT_PATH_def)

lemma contains_iff: "SupportedAssets_contains L l \<longleftrightarrow> SupportedAssets_convert L l \<noteq> None"
  by (simp add: SupportedAssets_contains_def SupportedAssets_convert_def)

lemma convert_values: "SupportedAssets_convert L l \<noteq> None \<longleftrightarrow> SupportedAssets_convert L l \<in> {Some 1337, Some 1984}"
  by (simp add: SupportedAssets_convert_def)

lemma reserve_iff:
  "AssetHubAssets_contains_pair L asset l \<longleftrightarrow>
     l = location_new L 1 [Parachain 1000] \<and> SupportedAssets_convert L (fst asset) \<in> {Some 1337, Some 1984}"
  by (auto simp: AssetHubAssets_contains_pair_def contains_iff convert_values simp del: not_None_eq)

text \<open>Locations and local identifiers of the supported assets determine each other: a location converts to an
  identifier exactly when the identifier converts back to it, and exactly the supported locations
  convert. The identifiers reached are those of the payment assets of the ROSCA pallet, so that every
  contribution can enter from and leave to Asset Hub.\<close>

theorem supported_assets_equivalence:
  assumes "location_laws L"
  shows "(SupportedAssets_convert L l = Some a \<longleftrightarrow> SupportedAssets_convert_back L a = Some l)
    \<and> (SupportedAssets_contains L l \<longleftrightarrow> SupportedAssets_convert L l \<noteq> None)
    \<and> (\<exists>l'. SupportedAssets_convert_back L (asset_id p) = Some l'
         \<and> AssetHubAssets_contains_pair L (l', h) (location_new L 1 [Parachain 1000]))
    \<and> (SupportedAssets_convert L l = Some a \<longrightarrow> (\<exists>p'. a = asset_id p'))"
proof -
  have "\<exists>l'. SupportedAssets_convert_back L (asset_id p) = Some l'
      \<and> AssetHubAssets_contains_pair L (l', h) (location_new L 1 [Parachain 1000])"
    using assms
    by (cases p) (auto simp: SupportedAssets_convert_back_def AssetHubAssets_contains_pair_def
        SupportedAssets_contains_def UsdcLocation_def UsdtLocation_def USDC_PATH_def USDT_PATH_def location_laws_def)
  moreover have "\<exists>p'. a = asset_id p'" if "SupportedAssets_convert L l = Some a"
  proof -
    have "a = asset_id USDC \<or> a = asset_id USDT"
      using that by (auto simp: SupportedAssets_convert_def split: if_splits)
    then show ?thesis by blast
  qed
  ultimately show ?thesis
    using convert_iff [OF assms, of l a] contains_iff [of L l] by metis
qed

text \<open>A message passes as a channel notification exactly when it comes from the relay chain itself and
  consists of one of the three channel instructions alone; a message from anywhere else is unsupported.\<close>

theorem hrmp_notifications_only:
  assumes "matcher_laws M"
  shows "(AllowHrmpNotificationsFromRelayChain L M origin insts = Inr () \<longleftrightarrow>
      unpack L origin = (1, []) \<and> (\<exists>i. insts = [i] \<and> (\<forall>x. i \<noteq> OtherInstruction x)))
    \<and> (unpack L origin \<noteq> (1, []) \<longrightarrow> AllowHrmpNotificationsFromRelayChain L M origin insts = Inl Unsupported)
    \<and> (unpack L origin = (1, []) \<and> length insts \<noteq> 1 \<longrightarrow>
         AllowHrmpNotificationsFromRelayChain L M origin insts = Inl BadFormat)"
proof (cases "length insts = 1")
  case True
  then obtain i where i: "insts = [i]" by (cases insts) auto
  have as: "assert_remaining_insts M (matcher M insts) 1 = Inr (matcher M insts)"
    using assms True unfolding matcher_laws_def by metis
  show ?thesis
  proof (cases "hrmp_notification i")
    case (Inl e)
    then have "match_next_inst M (matcher M [i]) hrmp_notification = Inl e"
      using assms by (simp add: matcher_laws_def)
    with Inl show ?thesis
      using as i by (cases i) (auto simp: AllowHrmpNotificationsFromRelayChain_def ensure_def try_do_def)
  next
    case (Inr u)
    then obtain m where "match_next_inst M (matcher M [i]) hrmp_notification = Inr m"
      using assms unfolding matcher_laws_def by (metis old.unit.exhaust)
    with Inr show ?thesis
      using as i by (cases i) (auto simp: AllowHrmpNotificationsFromRelayChain_def ensure_def try_do_def)
  qed
next
  case False
  then have "assert_remaining_insts M (matcher M insts) 1 = Inl BadFormat"
    using assms by (simp add: matcher_laws_def)
  with False show ?thesis
    by (auto simp: AllowHrmpNotificationsFromRelayChain_def ensure_def try_do_def)
qed

text \<open>Execution is free for exactly three origins: the relay chain, its executive body and Asset Hub, which is
  also the only source of reserve assets. Every origin with free execution but the executive body may
  subscribe to version changes, and a reserve is accepted for a supported asset only.\<close>

theorem trusted_origins:
  assumes "location_laws L"
  shows "(unpaid_execution L l \<longleftrightarrow>
      l = location_new L 1 [] \<or> l = location_new L 1 [Parachain 1000]
      \<or> (\<exists>x. l = location_new L 1 [Plurality Executive x]))
    \<and> (unpaid_execution L l \<and> (\<forall>x. l \<noteq> location_new L 1 [Plurality Executive x]) \<longrightarrow> ParentOrSiblings_contains L l)
    \<and> (AssetHubAssets_contains_pair L asset l \<longleftrightarrow>
         l = location_new L 1 [Parachain 1000] \<and> SupportedAssets_convert L (fst asset) \<in> {Some 1337, Some 1984})"
proof -
  have new: "l = location_new L p js \<longleftrightarrow> unpack L l = (p, js)" for p js
    using location_new_eq [OF assms, of p js l] by auto
  have free: "unpaid_execution L l \<longleftrightarrow>
      l = location_new L 1 [] \<or> l = location_new L 1 [Parachain 1000]
      \<or> (\<exists>x. l = location_new L 1 [Plurality Executive x])"
    unfolding new
    by (auto simp: unpaid_execution_def AssetHubParachain_contains_def
        ParentOrParentsExecutivePlurality_contains_def split: prod.splits list.splits Junction.splits)
  have "ParentOrSiblings_contains L l"
    if "l = location_new L 1 [] \<or> l = location_new L 1 [Parachain 1000]"
    using that unfolding new by (auto simp: ParentOrSiblings_contains_def)
  with free show ?thesis
    using reserve_iff [of L asset l] by metis
qed

text \<open>
  \<open>UnitWeightCost\<close> per instruction lets the message queue serve messages of up to 28 instructions; longer
  ones, up to the \<open>MaxInstructions\<close> of 100 the weigher accepts, exceed its service weight.
\<close>

lemma xcm_instructions_fit:
  assumes "documented E"
  shows "weight_le (n * fst (parts E (UnitWeightCost (weights_of E))), n * snd (parts E (UnitWeightCost (weights_of E))))
      (parts E (MessageQueueServiceWeight E)) \<longleftrightarrow> n \<le> 28"
proof -
  have "parts E (UnitWeightCost (weights_of E)) = (1000000000, 65536)"
    using assms by (simp add: documented_def parts_def sp_weights_def UnitWeightCost_def)
  moreover have "parts E (MessageQueueServiceWeight E) = (700000000000, 1835008)"
    by (simp add: MessageQueueServiceWeight_def documented_percent assms max_block)
  ultimately show ?thesis by (auto simp: weight_le_def)
qed

section \<open>Instances\<close>

definition pair_locations :: "(u8 \<times> nat Junction list, nat) location_ops" where
  "pair_locations = \<lparr>location_new = Pair, unpack = id\<rparr>"

definition list_matcher :: "(nat, nat Instruction list) matcher_ops" where
  "list_matcher = \<lparr>
     matcher = id,
     assert_remaining_insts = (\<lambda>xs n. if length xs = n then Inr xs else Inl BadFormat),
     match_next_inst = (\<lambda>xs f. case xs of [] \<Rightarrow> Inl BadFormat
       | x # xs \<Rightarrow> (case f x of Inl e \<Rightarrow> Inl e | Inr _ \<Rightarrow> Inr xs))\<rparr>"

lemma pair_location_laws: "location_laws pair_locations"
  by (simp add: location_laws_def pair_locations_def)

lemma list_matcher_laws: "matcher_laws list_matcher"
  by (simp add: matcher_laws_def list_matcher_def)

theorem supported_assets_equivalence_witness:
  "SupportedAssets_convert pair_locations (1, USDT_PATH) = Some (asset_id USDT)"
  by (rule iffD2 [OF conjunct1 [OF supported_assets_equivalence [OF pair_location_laws]]])
    (simp add: SupportedAssets_convert_back_def UsdtLocation_def USDT_PATH_def pair_locations_def)

theorem hrmp_notifications_only_witness:
  "AllowHrmpNotificationsFromRelayChain pair_locations list_matcher (1, []) [HrmpChannelAccepted 0] = Inr ()"
  using hrmp_notifications_only [OF list_matcher_laws, of pair_locations "(1, [])" "[HrmpChannelAccepted 0]"]
  by (simp add: pair_locations_def)

theorem trusted_origins_witness:
  "unpaid_execution pair_locations (1, [Parachain 1000])
   \<and> AssetHubAssets_contains_pair pair_locations ((1, USDC_PATH), ()) (1, [Parachain 1000])"
  using trusted_origins [OF pair_location_laws, of "(1, [Parachain 1000])" "((1, USDC_PATH), ())"]
  by (simp add: pair_locations_def SupportedAssets_convert_def)

end
