(* ===== verification/Node_Spec.thy ===== *)
theory Node_Spec
  imports Rosca_Types Runtime_Constants
begin

text \<open>
  The node around the runtime: the built-in chain specifications with their genesis state
  (\<open>node/src/chain_spec.rs\<close>), how a specification is chosen and what the relay chain part of the command
  line takes from it (\<open>node/src/command.rs\<close>, \<open>node/src/cli.rs\<close>).

  Key derivation, the runtime binary, the reader of specification files and the parsed relay chain
  command are arguments. Where the sources call \<open>expect\<close>, the model returns \<open>None\<close> for the panic.
\<close>

section \<open>Keys\<close>

text \<open>
  \<open>get_from_seed\<close> is generic in the kind of key: \<open>from_string\<close> and \<open>public\<close> are those of its pair type. An
  account is made from the public part of an \<open>sr25519\<close> pair.
\<close>

record ('p, 'q, 's, 'a, 'k) key_ops =
  sr25519_from_string :: "string \<Rightarrow> 'p option"
  sr25519_public :: "'p \<Rightarrow> 's"
  into_account :: "'s \<Rightarrow> 'a"
  aura_from_string :: "string \<Rightarrow> 'q option"
  aura_public :: "'q \<Rightarrow> 'k"

definition get_from_seed :: "(string \<Rightarrow> 'x option) \<Rightarrow> ('x \<Rightarrow> 'y) \<Rightarrow> string \<Rightarrow> 'y option" where
  "get_from_seed from_string public seed = map_option public (from_string (''//'' @ seed))"

definition get_collator_keys_from_seed :: "('p, 'q, 's, 'a, 'k) key_ops \<Rightarrow> string \<Rightarrow> 'k option" where
  "get_collator_keys_from_seed K seed = get_from_seed (aura_from_string K) (aura_public K) seed"

definition get_account_id_from_seed :: "('p, 'q, 's, 'a, 'k) key_ops \<Rightarrow> string \<Rightarrow> 'a option" where
  "get_account_id_from_seed K seed =
     map_option (into_account K) (get_from_seed (sr25519_from_string K) (sr25519_public K) seed)"

record 'k SessionKeys =
  aura :: 'k

definition template_session_keys :: "'k \<Rightarrow> 'k SessionKeys" where
  "template_session_keys keys = \<lparr>aura = keys\<rparr>"

section \<open>Genesis\<close>

record ('a, 'k) genesis_config =
  g_balances :: "('a \<times> u64) list"
  g_parachainId :: u32
  g_invulnerables :: "'a list"
  g_candidacyBond :: balance
  g_session_keys :: "('a \<times> 'a \<times> 'k SessionKeys) list"
  g_safeXcmVersion :: "u32 option"
  g_sudo_key :: "'a option"
  g_assets :: "(u32 \<times> 'a \<times> bool \<times> nat) list"
  g_metadata :: "(u32 \<times> string \<times> string \<times> nat) list"
  g_accounts :: "(u32 \<times> 'a \<times> u64) list"

definition testnet_genesis ::
  "u32 \<Rightarrow> ('a \<times> 'k) list \<Rightarrow> 'a list \<Rightarrow> 'a \<Rightarrow> u32 \<Rightarrow> ('a, 'k) genesis_config" where
  "testnet_genesis SAFE_XCM_VERSION invulnerables endowed_accounts root i = \<lparr>
     g_balances = map (\<lambda>k. (k, push_bit 60 1)) endowed_accounts,
     g_parachainId = i,
     g_invulnerables = map fst invulnerables,
     g_candidacyBond = EXISTENTIAL_DEPOSIT * 16,
     g_session_keys = map (\<lambda>(acc, aura). (acc, acc, template_session_keys aura)) invulnerables,
     g_safeXcmVersion = Some SAFE_XCM_VERSION,
     g_sudo_key = Some root,
     g_assets = [(1984, root, True, 70000), (1337, root, True, 70000)],
     g_metadata = [(1984, ''USDT'', ''USDT'', 6), (1337, ''USDC'', ''USDC'', 6)],
     g_accounts = [(1984, root, 1000000), (1337, root, 1000000)]\<rparr>"

section \<open>Chain specifications\<close>

record Extensions =
  relay_chain :: string
  para_id :: u32

datatype ChainType = Development | Local

datatype property = Text string | Number nat

record ('a, 'k) ChainSpec =
  cs_name :: string
  cs_id :: string
  cs_type :: ChainType
  cs_code :: "u8 list"
  cs_extensions :: Extensions
  cs_genesis :: "('a, 'k) genesis_config"
  cs_protocol_id :: "string option"
  cs_properties :: "(string \<times> property) list option"

text \<open>
  What the two configurations share: the binary, the extensions and the genesis of the well-known
  development keys.
\<close>

definition endowed_seeds :: "string list" where
  "endowed_seeds = [''Alice'', ''Bob'', ''Charlie'', ''Dave'', ''Eve'', ''Ferdie'', ''Alice//stash'',
     ''Bob//stash'', ''Charlie//stash'', ''Dave//stash'', ''Eve//stash'', ''Ferdie//stash'']"

definition collator_from_seed :: "('p, 'q, 's, 'a, 'k) key_ops \<Rightarrow> string \<Rightarrow> ('a \<times> 'k) option" where
  "collator_from_seed K seed =
     Option.bind (get_account_id_from_seed K seed) (\<lambda>acc.
     map_option (Pair acc) (get_collator_keys_from_seed K seed))"

definition development_genesis ::
  "('p, 'q, 's, 'a, 'k) key_ops \<Rightarrow> u32 \<Rightarrow> ('a, 'k) genesis_config option" where
  "development_genesis K SAFE_XCM_VERSION =
     Option.bind (those (map (collator_from_seed K) [''Alice'', ''Bob''])) (\<lambda>collators.
     Option.bind (those (map (get_account_id_from_seed K) endowed_seeds)) (\<lambda>endowed.
     Option.bind (get_account_id_from_seed K ''Alice'') (\<lambda>root.
     Some (testnet_genesis SAFE_XCM_VERSION collators endowed root 1000))))"

definition development_config ::
  "('p, 'q, 's, 'a, 'k) key_ops \<Rightarrow> u8 list option \<Rightarrow> u32 \<Rightarrow> ('a, 'k) ChainSpec option" where
  "development_config K WASM_BINARY SAFE_XCM_VERSION =
     Option.bind WASM_BINARY (\<lambda>code.
     Option.bind (development_genesis K SAFE_XCM_VERSION) (\<lambda>genesis.
     Some \<lparr>cs_name = ''Development'', cs_id = ''dev'', cs_type = Development, cs_code = code,
       cs_extensions = \<lparr>relay_chain = ''rococo-local'', para_id = 1000\<rparr>, cs_genesis = genesis,
       cs_protocol_id = None, cs_properties = None\<rparr>))"

definition local_testnet_config ::
  "('p, 'q, 's, 'a, 'k) key_ops \<Rightarrow> u8 list option \<Rightarrow> u32 \<Rightarrow> ('a, 'k) ChainSpec option" where
  "local_testnet_config K WASM_BINARY SAFE_XCM_VERSION =
     Option.bind WASM_BINARY (\<lambda>code.
     Option.bind (development_genesis K SAFE_XCM_VERSION) (\<lambda>genesis.
     Some \<lparr>cs_name = ''Local Testnet'', cs_id = ''local_testnet'', cs_type = Local, cs_code = code,
       cs_extensions = \<lparr>relay_chain = ''rococo-local'', para_id = 1000\<rparr>, cs_genesis = genesis,
       cs_protocol_id = Some ''template-local'',
       cs_properties = Some [(''tokenSymbol'', Text ''UNIT''), (''tokenDecimals'', Number 12),
         (''ss58Format'', Number 42)]\<rparr>))"

section \<open>Choosing a specification\<close>

definition load_spec ::
  "('p, 'q, 's, 'a, 'k) key_ops \<Rightarrow> u8 list option \<Rightarrow> u32 \<Rightarrow> (string \<Rightarrow> string + ('a, 'k) ChainSpec) \<Rightarrow> string
   \<Rightarrow> (string + ('a, 'k) ChainSpec) option" where
  "load_spec K WASM_BINARY SAFE_XCM_VERSION from_json_file i =
     (if i = ''dev'' then map_option Inr (development_config K WASM_BINARY SAFE_XCM_VERSION)
      else if i = ''template-paseo'' then map_option Inr (local_testnet_config K WASM_BINARY SAFE_XCM_VERSION)
      else if i = '''' \<or> i = ''local'' then map_option Inr (local_testnet_config K WASM_BINARY SAFE_XCM_VERSION)
      else Some (from_json_file i))"

text \<open>The parachain identifier a starting node reads from its specification.\<close>

definition node_para_id :: "('c \<Rightarrow> Extensions option) \<Rightarrow> 'c \<Rightarrow> string + u32" where
  "node_para_id try_get spec =
     ok_or (map_option para_id (try_get spec)) ''Could not find parachain ID in chain-spec.'' Inr"

section \<open>The relay chain command line\<close>

text \<open>
  \<open>base\<close> is the parsed command of the relay chain; its own answers for the chain identifier and the base
  path are the two fields below.
\<close>

record 'e relay_run_cmd =
  run_chain_id :: "bool \<Rightarrow> 'e + string"
  run_base_path :: "'e + string option"

record 'e RelayChainCli =
  rcc_base :: "'e relay_run_cmd"
  rcc_chain_id :: "string option"
  rcc_base_path :: "string option"

definition relay_cli_new ::
  "('c \<Rightarrow> Extensions option) \<Rightarrow> (string \<Rightarrow> string \<Rightarrow> string) \<Rightarrow> (string list \<Rightarrow> 'e relay_run_cmd)
   \<Rightarrow> 'c \<Rightarrow> string \<Rightarrow> string list \<Rightarrow> 'e RelayChainCli" where
  "relay_cli_new try_get path_join parse_from chain_spec base_path relay_chain_args = \<lparr>
     rcc_base = parse_from relay_chain_args,
     rcc_chain_id = map_option relay_chain (try_get chain_spec),
     rcc_base_path = Some (path_join base_path ''polkadot'')\<rparr>"

definition relay_cli_base_path :: "'e RelayChainCli \<Rightarrow> 'e + string option" where
  "relay_cli_base_path self = try_do (run_base_path (rcc_base self)) (\<lambda>p.
     Inr (case p of Some x \<Rightarrow> Some x | None \<Rightarrow> rcc_base_path self))"

definition relay_cli_chain_id :: "'e RelayChainCli \<Rightarrow> bool \<Rightarrow> 'e + string" where
  "relay_cli_chain_id self is_dev = try_do (run_chain_id (rcc_base self) is_dev) (\<lambda>chain_id.
     Inr (if chain_id = '''' then unwrap_or '''' (rcc_chain_id self) else chain_id))"

definition p2p_listen_port :: u16 where "p2p_listen_port = 30334"
definition rpc_listen_port :: u16 where "rpc_listen_port = 9945"
definition prometheus_listen_port :: u16 where "prometheus_listen_port = 9616"
section \<open>Properties\<close>

lemma development_genesisE:
  assumes "development_genesis K v = Some g"
  obtains collators endowed root where
    "those (map (collator_from_seed K) [''Alice'', ''Bob'']) = Some collators"
    and "those (map (get_account_id_from_seed K) endowed_seeds) = Some endowed"
    and "get_account_id_from_seed K ''Alice'' = Some root"
    and "g = testnet_genesis v collators endowed root 1000"
  using assms unfolding development_genesis_def Option.bind_eq_Some_conv by blast

lemma development_genesis_shape:
  assumes "development_genesis K v = Some g"
  obtains aliceK bob bobK rest root where
    "g = testnet_genesis v [(root, aliceK), (bob, bobK)] (root # bob # rest) root 1000"
proof -
  from assms obtain collators endowed root where
      c: "those (map (collator_from_seed K) [''Alice'', ''Bob'']) = Some collators"
    and e: "those (map (get_account_id_from_seed K) endowed_seeds) = Some endowed"
    and r: "get_account_id_from_seed K ''Alice'' = Some root"
    and g: "g = testnet_genesis v collators endowed root 1000"
    by (rule development_genesisE)
  from c r obtain aliceK bob bobK where col: "collators = [(root, aliceK), (bob, bobK)]"
    and b: "get_account_id_from_seed K ''Bob'' = Some bob"
    by (auto simp: collator_from_seed_def Option.bind_eq_Some_conv split: option.splits)
  from e r b obtain rest where "endowed = root # bob # rest"
    by (auto simp: endowed_seeds_def split: option.splits)
  with g col show ?thesis by (auto intro: that)
qed

text \<open>C35. The genesis of the built-in specifications carries the ROSCA pallet: each payment asset is created once,
  described once, and issued to the sudo account with at least its minimum balance; every collator has
  session keys under its own account and is endowed with more than the candidacy bond and the
  existential deposit; and the collators fit the limit of invulnerables.\<close>

theorem genesis_supports_rosca:
  assumes "development_genesis K v = Some g"
  shows "(\<exists>root name n amount. g_sudo_key g = Some root \<and> root \<in> fst ` set (g_balances g)
      \<and> filter (\<lambda>x. fst x = asset_id p) (g_assets g) = [(asset_id p, root, True, n)]
      \<and> filter (\<lambda>x. fst x = asset_id p) (g_metadata g) = [(asset_id p, name, name, 6)]
      \<and> filter (\<lambda>x. fst x = asset_id p) (g_accounts g) = [(asset_id p, root, amount)]
      \<and> n \<le> unat amount)
    \<and> (\<forall>acc \<in> set (g_invulnerables g). (\<exists>k. (acc, acc, k) \<in> set (g_session_keys g))
         \<and> (\<exists>b. (acc, b) \<in> set (g_balances g) \<and> unat (g_candidacyBond g) < unat b))
    \<and> (\<forall>(acc, b) \<in> set (g_balances g). unat EXISTENTIAL_DEPOSIT \<le> unat b)
    \<and> length (g_invulnerables g) \<le> unat MaxInvulnerables"
proof -
  obtain aliceK bob bobK rest root where
    g: "g = testnet_genesis v [(root, aliceK), (bob, bobK)] (root # bob # rest) root 1000"
    using assms by (rule development_genesis_shape)
  show ?thesis
    unfolding g by (cases p) (auto simp: testnet_genesis_def currency_defs MaxInvulnerables_def)
qed

text \<open>The built-in specifications agree: whichever of the four names selects one, the genesis is the same, its
  parachain identifier is the one the node starts with, and a relay chain command without a chain of its
  own follows the specification to \<open>rococo-local\<close>.\<close>

theorem builtin_specs_agree:
  assumes "load_spec K wasm v from_json i = Some (Inr spec)"
    and "i \<in> {''dev'', ''template-paseo'', '''', ''local''}"
    and "j \<in> {''dev'', ''template-paseo'', '''', ''local''}"
    and "\<And>s. try_get s = Some (cs_extensions s)"
    and "run_chain_id (parse_from args) is_dev = Inr ''''"
  shows "(\<exists>spec'. load_spec K wasm v from_json j = Some (Inr spec') \<and> cs_genesis spec' = cs_genesis spec)
    \<and> node_para_id try_get spec = Inr (g_parachainId (cs_genesis spec))
    \<and> relay_cli_chain_id (relay_cli_new try_get path_join parse_from spec base args) is_dev = Inr ''rococo-local''"
proof -
  from assms(1,2) obtain code where wasm: "wasm = Some code"
    and gen: "development_genesis K v = Some (cs_genesis spec)"
    and ext: "cs_extensions spec = \<lparr>relay_chain = ''rococo-local'', para_id = 1000\<rparr>"
    by (auto simp: load_spec_def development_config_def local_testnet_config_def Option.bind_eq_Some_conv)
  have "g_parachainId (cs_genesis spec) = 1000"
    by (rule development_genesis_shape [OF gen]) (simp add: testnet_genesis_def)
  moreover have "\<exists>spec'. load_spec K wasm v from_json j = Some (Inr spec') \<and> cs_genesis spec' = cs_genesis spec"
    using assms(3) wasm gen by (auto simp: load_spec_def development_config_def local_testnet_config_def)
  ultimately show ?thesis
    using assms(4,5) ext
    by (simp add: node_para_id_def relay_cli_chain_id_def relay_cli_new_def ok_or_def try_do_def unwrap_or_def)
qed

section \<open>Instances\<close>

definition demo_keys :: "(string, string, string, string, string) key_ops" where
  "demo_keys = \<lparr>sr25519_from_string = Some, sr25519_public = id, into_account = id,
     aura_from_string = Some, aura_public = id\<rparr>"

lemma demo_genesis_loaded: "\<exists>g. development_genesis demo_keys 4 = Some g"
  by (simp add: development_genesis_def collator_from_seed_def get_account_id_from_seed_def
      get_collator_keys_from_seed_def get_from_seed_def demo_keys_def endowed_seeds_def)

theorem genesis_supports_rosca_witness:
  "\<exists>g. development_genesis demo_keys 4 = Some g \<and> length (g_invulnerables g) \<le> 20"
proof -
  obtain g where g: "development_genesis demo_keys 4 = Some g" using demo_genesis_loaded by blast
  then show ?thesis
    using genesis_supports_rosca [OF g, of USDT] by (simp add: MaxInvulnerables_def)
qed

theorem builtin_specs_agree_witness:
  "\<exists>spec. load_spec demo_keys (Some []) 4 (\<lambda>_. Inl ''no file'') ''dev'' = Some (Inr spec)
     \<and> node_para_id (\<lambda>s. Some (cs_extensions s)) spec = Inr (g_parachainId (cs_genesis spec))"
proof -
  obtain g where "development_genesis demo_keys 4 = Some g" using demo_genesis_loaded by blast
  then obtain spec where
    spec: "load_spec demo_keys (Some []) 4 (\<lambda>_. Inl ''no file'') ''dev'' = Some (Inr spec)"
    by (simp add: load_spec_def development_config_def)
  then show ?thesis
    using builtin_specs_agree [OF spec, where j = "''local''" and try_get = "\<lambda>s. Some (cs_extensions s)"
        and parse_from = "\<lambda>_. \<lparr>run_chain_id = \<lambda>_. Inr '''', run_base_path = Inr None\<rparr> :: unit relay_run_cmd"
        and is_dev = True and path_join = "\<lambda>a b. a @ ''/'' @ b" and base = "''data''" and args = "[]"]
    by simp
qed

end
