(* ===== verification/Node_Command.thy ===== *)
theory Node_Command
  imports Node_Spec
begin

text \<open>
  The command line of the node (\<open>node/src/cli.rs\<close>, \<open>run\<close> in \<open>node/src/command.rs\<close>): which job a command line leads
  to, with which arguments, and where it fails.

  The parser, the runner, the client (\<open>new_partial\<close>) and the jobs themselves are those of other crates and of
  \<open>service.rs\<close>; they are arguments. Log output is left out. The steps a starting node takes before its job are
  recorded, because they depend on the order in which the arguments of a method are evaluated.
\<close>

section \<open>Commands\<close>

text \<open>The benchmark commands the source names; the others are handled alike.\<close>

datatype BenchmarkCmd = BenchmarkPallet | BenchmarkBlock | BenchmarkStorage | BenchmarkMachine | OtherBenchmark

text \<open>\<open>ExportGenesisWasm\<close> has the chain given on the command line.\<close>

datatype Subcommand = BuildSpec | CheckBlock | ExportBlocks | ExportState | ImportBlocks | Revert | PurgeChain
  | ExportGenesisHead | ExportGenesisWasm "string option" | Benchmark BenchmarkCmd | TryRuntime

record 'o Cli =
  cli_subcommand :: "Subcommand option"
  cli_run :: 'o
  no_hardware_benchmarks :: bool
  relay_chain_args :: "string list"

record ('spec, 'net, 'db) Configuration =
  config_chain_spec :: 'spec
  config_network :: 'net
  config_database :: 'db
  config_database_path :: "string option"
  config_base_path :: string

record ('client, 'queue, 'backend) PartialComponents =
  part_client :: 'client
  part_import_queue :: 'queue
  part_backend :: 'backend

section \<open>Jobs\<close>

datatype ('spec, 'net, 'db, 'client, 'queue, 'backend, 'r, 'o, 'hw) job =
    RunBuildSpec 'spec 'net
  | RunCheckBlock 'client 'queue
  | RunExportBlocks 'client 'db
  | RunExportState 'client 'spec
  | RunImportBlocks 'client 'queue
  | RunRevert 'client 'backend
  | RunPurgeChain "('spec, 'net, 'db) Configuration" 'r
  | RunExportGenesisHead 'client
  | RunExportGenesisWasm 'spec
  | RunBenchmarkPallet "('spec, 'net, 'db) Configuration"
  | RunBenchmarkBlock 'client
  | RunBenchmarkStorage "('spec, 'net, 'db) Configuration" 'client 'backend
  | RunBenchmarkMachine "('spec, 'net, 'db) Configuration"
  | StartParachainNode "('spec, 'net, 'db) Configuration" 'r 'o u32 "'hw option"

text \<open>What happens before the job; \<open>'e\<close> is an error of another crate.\<close>

datatype effect = CreateDirAll string | GatherHwbench string

datatype 'e cli_error = Cli_error 'e | Message string

text \<open>
  \<open>create_configuration\<close> is that of the relay chain, from its part of the command line; \<open>spec_of_id\<close> is \<open>load_spec\<close>
  and \<open>runtime_benchmarks\<close> the feature the node was built with.
\<close>

record ('spec, 'net, 'db, 'client, 'queue, 'backend, 'r, 'o, 'hw, 'e) node_env =
  executable_name :: string
  runtime_benchmarks :: bool
  create_runner :: "'o + Subcommand \<Rightarrow> 'e + ('spec, 'net, 'db) Configuration"
  normalize :: "'o \<Rightarrow> 'o"
  collator_options :: "'o \<Rightarrow> 'o"
  new_partial :: "('spec, 'net, 'db) Configuration \<Rightarrow> 'e + ('client, 'queue, 'backend) PartialComponents"
  create_configuration :: "'e RelayChainCli \<Rightarrow> 'e + 'r"
  show_error :: "'e \<Rightarrow> string"
  spec_of_id :: "string \<Rightarrow> 'e + 'spec"
  extensions_of :: "'spec \<Rightarrow> Extensions option"
  path_join :: "string \<Rightarrow> string \<Rightarrow> string"
  parse_relay_args :: "string list \<Rightarrow> 'e relay_run_cmd"
  gather_hwbench :: "string \<Rightarrow> 'hw"

type_synonym ('spec, 'net, 'db, 'client, 'queue, 'backend, 'r, 'o, 'hw, 'e) outcome =
  "'e cli_error + ('spec, 'net, 'db, 'client, 'queue, 'backend, 'r, 'o, 'hw) job"

definition runner ::
  "('spec, 'net, 'db, 'client, 'queue, 'backend, 'r, 'o, 'hw, 'e) node_env \<Rightarrow> Subcommand
   \<Rightarrow> (('spec, 'net, 'db) Configuration \<Rightarrow> ('spec, 'net, 'db, 'client, 'queue, 'backend, 'r, 'o, 'hw, 'e) outcome)
   \<Rightarrow> ('spec, 'net, 'db, 'client, 'queue, 'backend, 'r, 'o, 'hw, 'e) outcome" where
  "runner V cmd k = try_do (map_err Cli_error (create_runner V (Inr cmd))) k"

text \<open>The macro \<^verbatim>\<open>construct_async_run!\<close>.\<close>

definition construct_async_run ::
  "('spec, 'net, 'db, 'client, 'queue, 'backend, 'r, 'o, 'hw, 'e) node_env \<Rightarrow> Subcommand
   \<Rightarrow> (('client, 'queue, 'backend) PartialComponents \<Rightarrow> ('spec, 'net, 'db) Configuration
       \<Rightarrow> ('spec, 'net, 'db, 'client, 'queue, 'backend, 'r, 'o, 'hw) job)
   \<Rightarrow> ('spec, 'net, 'db, 'client, 'queue, 'backend, 'r, 'o, 'hw, 'e) outcome" where
  "construct_async_run V cmd code =
     runner V cmd (\<lambda>config. try_do (map_err Cli_error (new_partial V config)) (\<lambda>components. Inr (code components config)))"

definition polkadot_config ::
  "('spec, 'net, 'db, 'client, 'queue, 'backend, 'r, 'o, 'hw, 'e) node_env \<Rightarrow> 'o Cli \<Rightarrow> ('spec, 'net, 'db) Configuration
   \<Rightarrow> 'e cli_error + 'r" where
  "polkadot_config V cli config =
     (let polkadot_cli = relay_cli_new (extensions_of V) (path_join V) (parse_relay_args V) (config_chain_spec config)
            (config_base_path config) (executable_name V # relay_chain_args cli) in
      map_err (\<lambda>err. Message (''Relay chain argument error: '' @ show_error V err)) (create_configuration V polkadot_cli))"

definition run_benchmark ::
  "('spec, 'net, 'db, 'client, 'queue, 'backend, 'r, 'o, 'hw, 'e) node_env \<Rightarrow> BenchmarkCmd
   \<Rightarrow> ('spec, 'net, 'db, 'client, 'queue, 'backend, 'r, 'o, 'hw, 'e) outcome" where
  "run_benchmark V cmd = runner V (Benchmark cmd) (\<lambda>config. case cmd of
      BenchmarkPallet \<Rightarrow>
        if runtime_benchmarks V then Inr (RunBenchmarkPallet config)
        else Inl (Message ''Benchmarking wasn't enabled when building the node. You can enable it with `--features runtime-benchmarks`.'')
    | BenchmarkBlock \<Rightarrow>
        try_do (map_err Cli_error (new_partial V config)) (\<lambda>partials. Inr (RunBenchmarkBlock (part_client partials)))
    | BenchmarkStorage \<Rightarrow>
        if runtime_benchmarks V then
          try_do (map_err Cli_error (new_partial V config)) (\<lambda>partials.
          Inr (RunBenchmarkStorage config (part_client partials) (part_backend partials)))
        else Inl (Message ''Compile with --features=runtime-benchmarks to enable storage benchmarks.'')
    | BenchmarkMachine \<Rightarrow> Inr (RunBenchmarkMachine config)
    | OtherBenchmark \<Rightarrow> Inl (Message ''Benchmarking sub-command unsupported''))"

text \<open>
  A starting node. The argument of \<open>then_some\<close> is evaluated before the flag is looked at, so the benchmarks run in
  any case, and \<open>then_some\<close> only keeps or drops their result.
\<close>

definition hwbench_effects :: "('spec, 'net, 'db) Configuration \<Rightarrow> effect list" where
  "hwbench_effects config = (case config_database_path config of
      None \<Rightarrow> [] | Some database_path \<Rightarrow> [CreateDirAll database_path, GatherHwbench database_path])"

definition start_node ::
  "('spec, 'net, 'db, 'client, 'queue, 'backend, 'r, 'o, 'hw, 'e) node_env \<Rightarrow> 'o Cli \<Rightarrow> ('spec, 'net, 'db) Configuration
   \<Rightarrow> effect list \<times> ('spec, 'net, 'db, 'client, 'queue, 'backend, 'r, 'o, 'hw, 'e) outcome" where
  "start_node V cli config =
     (let gathered = map_option (gather_hwbench V) (config_database_path config);
          hwbench = (if \<not> no_hardware_benchmarks cli then gathered else None) in
      (hwbench_effects config,
       try_do (map_err Message (node_para_id (extensions_of V) (config_chain_spec config))) (\<lambda>para_id.
       try_do (polkadot_config V cli config) (\<lambda>polkadot_config.
       Inr (StartParachainNode config polkadot_config (collator_options V (cli_run cli)) para_id hwbench)))))"

definition try_runtime_notice :: string where
  "try_runtime_notice = ''The `try-runtime` subcommand has been migrated to a standalone CLI (https://github.com/paritytech/try-runtime-cli). It is no longer being maintained here and will be removed entirely some time after January 2024. Please remove this subcommand from your runtime and use the standalone CLI.''"

definition run ::
  "('spec, 'net, 'db, 'client, 'queue, 'backend, 'r, 'o, 'hw, 'e) node_env \<Rightarrow> 'o Cli
   \<Rightarrow> effect list \<times> ('spec, 'net, 'db, 'client, 'queue, 'backend, 'r, 'o, 'hw, 'e) outcome" where
  "run V cli = (case cli_subcommand cli of
      Some BuildSpec \<Rightarrow> ([], runner V BuildSpec (\<lambda>config. Inr (RunBuildSpec (config_chain_spec config) (config_network config))))
    | Some CheckBlock \<Rightarrow> ([], construct_async_run V CheckBlock (\<lambda>components config.
        RunCheckBlock (part_client components) (part_import_queue components)))
    | Some ExportBlocks \<Rightarrow> ([], construct_async_run V ExportBlocks (\<lambda>components config.
        RunExportBlocks (part_client components) (config_database config)))
    | Some ExportState \<Rightarrow> ([], construct_async_run V ExportState (\<lambda>components config.
        RunExportState (part_client components) (config_chain_spec config)))
    | Some ImportBlocks \<Rightarrow> ([], construct_async_run V ImportBlocks (\<lambda>components config.
        RunImportBlocks (part_client components) (part_import_queue components)))
    | Some Revert \<Rightarrow> ([], construct_async_run V Revert (\<lambda>components config.
        RunRevert (part_client components) (part_backend components)))
    | Some PurgeChain \<Rightarrow> ([], runner V PurgeChain (\<lambda>config.
        try_do (polkadot_config V cli config) (\<lambda>polkadot_config. Inr (RunPurgeChain config polkadot_config))))
    | Some ExportGenesisHead \<Rightarrow> ([], runner V ExportGenesisHead (\<lambda>config.
        try_do (map_err Cli_error (new_partial V config)) (\<lambda>partials. Inr (RunExportGenesisHead (part_client partials)))))
    | Some (ExportGenesisWasm chain) \<Rightarrow> ([], runner V (ExportGenesisWasm chain) (\<lambda>_.
        try_do (map_err Cli_error (spec_of_id V (unwrap_or '''' chain))) (\<lambda>spec. Inr (RunExportGenesisWasm spec))))
    | Some (Benchmark cmd) \<Rightarrow> ([], run_benchmark V cmd)
    | Some TryRuntime \<Rightarrow> ([], Inl (Message try_runtime_notice))
    | None \<Rightarrow> (case create_runner V (Inl (normalize V (cli_run cli))) of
        Inl e \<Rightarrow> ([], Inl (Cli_error e))
      | Inr config \<Rightarrow> start_node V cli config))"

section \<open>Properties\<close>

fun needs_client :: "bool \<Rightarrow> Subcommand option \<Rightarrow> bool" where
  "needs_client benchmarks (Some cmd) \<longleftrightarrow>
     cmd \<in> {CheckBlock, ExportBlocks, ExportState, ImportBlocks, Revert, ExportGenesisHead, Benchmark BenchmarkBlock} \<or>
     cmd = Benchmark BenchmarkStorage \<and> benchmarks"
| "needs_client benchmarks None \<longleftrightarrow> False"

lemmas run_defs = run_def runner_def construct_async_run_def run_benchmark_def polkadot_config_def

text \<open>C1. The client and its database are opened for the commands that work on blocks and state only: every other
  command line gives the same job whatever the client does, and the commands that need it fail with its error.\<close>

theorem client_only_where_needed:
  "(\<not> needs_client (runtime_benchmarks V) (cli_subcommand cli) \<longrightarrow> run (V\<lparr>new_partial := f\<rparr>) cli = run V cli) \<and>
   (\<forall>cmd config e. cli_subcommand cli = Some cmd \<longrightarrow> needs_client (runtime_benchmarks V) (Some cmd) \<longrightarrow>
      create_runner V (Inr cmd) = Inr config \<longrightarrow> new_partial V config = Inl e \<longrightarrow> run V cli = ([], Inl (Cli_error e)))"
proof (cases "cli_subcommand cli")
  case None
  then show ?thesis
    by (simp add: run_defs start_node_def Let_def split: sum.splits)
next
  case (Some cmd)
  then show ?thesis
  proof (cases cmd)
    case (Benchmark b)
    with Some show ?thesis by (cases b) (auto simp: run_defs)
  qed (auto simp: run_defs Let_def)
qed



section \<open>Instances\<close>

text \<open>An environment in which the client cannot be opened, and one in which it can.\<close>

definition demo_node_env :: "(Extensions, unit, unit, unit, unit, unit, string, unit, unit, unit) node_env" where
  "demo_node_env = \<lparr>executable_name = ''node'', runtime_benchmarks = False,
     create_runner = (\<lambda>_. Inr \<lparr>config_chain_spec = \<lparr>relay_chain = ''rococo-local'', para_id = 1000\<rparr>, config_network = (),
       config_database = (), config_database_path = Some ''db'', config_base_path = ''data''\<rparr>),
     normalize = id, collator_options = id, new_partial = (\<lambda>_. Inl ()),
     create_configuration = (\<lambda>rc. Inr (unwrap_or [] (rcc_chain_id rc))), show_error = (\<lambda>_. []),
     spec_of_id = (\<lambda>_. Inl ()), extensions_of = Some, path_join = (\<lambda>a b. a @ ''/'' @ b),
     parse_relay_args = (\<lambda>_. \<lparr>run_chain_id = (\<lambda>_. Inr []), run_base_path = Inr None\<rparr>), gather_hwbench = (\<lambda>_. ())\<rparr>"

definition demo_open_client :: "(Extensions, unit, unit) Configuration \<Rightarrow> unit + (unit, unit, unit) PartialComponents" where
  "demo_open_client = (\<lambda>_. Inr \<lparr>part_client = (), part_import_queue = (), part_backend = ()\<rparr>)"

definition demo_cli :: "Subcommand option \<Rightarrow> bool \<Rightarrow> unit Cli" where
  "demo_cli cmd flag = \<lparr>cli_subcommand = cmd, cli_run = (), no_hardware_benchmarks = flag, relay_chain_args = []\<rparr>"

theorem client_only_where_needed_witness:
  "run (demo_node_env\<lparr>new_partial := demo_open_client\<rparr>) (demo_cli None True) = run demo_node_env (demo_cli None True) \<and>
   run demo_node_env (demo_cli (Some Revert) True) = ([], Inl (Cli_error ()))"
  using client_only_where_needed [of demo_node_env "demo_cli None True" demo_open_client]
    client_only_where_needed [of demo_node_env "demo_cli (Some Revert) True" demo_open_client]
  by (simp add: demo_cli_def demo_node_env_def)



end
