(* ===== verification/Fuzzer.thy ===== *)
theory Fuzzer
  imports Runtime_Constants
begin

text \<open>
  The fuzzer of the runtime (\<open>template-fuzzer/src/main.rs\<close>): it decodes calls from its input, dispatches them
  in blocks on a chain of its own and checks invariants at the end. A panic is the finding of a fuzzer, so
  every \<open>unwrap\<close>, \<open>assert!\<close> and checked arithmetic operation is a branch that returns \<open>Inl\<close>; overflow checks
  are on, as in the builds for fuzzing.

  The runtime it drives and the decoding of the input are arguments (record \<open>runtime_api\<close>), and so is the
  time each dispatch took. Output is left out.
\<close>

section \<open>What other crates provide\<close>

type_synonym account_id = "u8 list"

record 'h RelayStateSproofBuilder =
  sp_para_id :: u32
  sp_current_slot :: u64
  sp_included_para_head :: "'h option"

record ('h, 'x) ParachainInherentData =
  pd_parent_head :: 'h
  pd_relay_parent_number :: u32
  pd_relay_parent_storage_root :: 'x
  pd_max_pov_size :: u32
  pd_relay_chain_state :: 'x

datatype ('h, 'x) inherent = Timestamp_set u64 | Set_validation_data "('h, 'x) ParachainInherentData"

record AccountInfo =
  ai_consumers :: u32
  ai_providers :: u32
  ai_free :: balance
  ai_reserved :: balance
  ai_frozen :: balance

record fuzz_genesis =
  fg_balances :: "(account_id \<times> balance) list"
  fg_keys :: "(account_id \<times> account_id \<times> u8 list) list"
  fg_invulnerables :: "account_id list"
  fg_candidacy_bond :: balance
  fg_desired_candidates :: u32
  fg_assets :: "u32 list"
  fg_sudo_key :: "account_id option"

text \<open>\<open>'s\<close> is the state of the chain, \<open>'c\<close> a call, \<open>'h\<close> a header, \<open>'x\<close> a hash or a proof, \<open>'w\<close> a weight;
  \<open>None\<close> is a panic of the runtime.\<close>

record ('s, 'c, 'h, 'x, 'w) runtime_api =
  INITIAL_TIMESTAMP :: u64
  MAX_TIME_FOR_BLOCK :: nat
  build_storage :: "fuzz_genesis \<Rightarrow> 's option"
  finalize_block :: "'s \<Rightarrow> ('h \<times> 's) option"
  header_new :: "u32 \<Rightarrow> 'x \<Rightarrow> u64 list \<Rightarrow> 'h"
  header_hash :: "'h \<Rightarrow> 'x"
  default_hash :: 'x
  initialize_block :: "'h \<Rightarrow> 's \<Rightarrow> 's option"
  into_state_root_and_proof :: "'h RelayStateSproofBuilder \<Rightarrow> 'x \<times> 'x"
  apply_extrinsic :: "('h, 'x) inherent \<Rightarrow> 's \<Rightarrow> 's option"
  call_weight :: "'c \<Rightarrow> 's \<Rightarrow> 'w"
  dispatch_signed :: "'c \<Rightarrow> account_id \<Rightarrow> 's \<Rightarrow> 's option"
  try_state :: "u32 \<Rightarrow> 's \<Rightarrow> bool"
  integrity_test :: "'s \<Rightarrow> bool"
  system_accounts :: "'s \<Rightarrow> (account_id \<times> AccountInfo) list"
  locks_of :: "account_id \<Rightarrow> 's \<Rightarrow> balance list"
  holds_of :: "account_id \<Rightarrow> 's \<Rightarrow> balance list"
  total_issuance :: "'s \<Rightarrow> balance"

datatype fuzz_panic = RuntimePanic | Overflow | BlockTooSlow | TryStateFailed | InvalidState
  | LockNotFrozen | HoldsAboveReserved | InconsistentIssuance | IntegrityFailed

definition checked_mul :: "'n::len word \<Rightarrow> 'n word \<Rightarrow> 'n word option" where
  "checked_mul a b = (if unat a * unat b < 2 ^ LENGTH('n) then Some (a * b) else None)"

section \<open>Genesis\<close>

definition endowed_accounts :: "account_id list" where
  "endowed_accounts = map (replicate 32) [0, 1, 2, 3, 4]"

definition fuzz_genesis_config :: fuzz_genesis where
  "fuzz_genesis_config =
     (let initial_authorities = [(replicate 32 0, replicate 32 0)]; root = replicate 32 0 in
      \<lparr>fg_balances = map (\<lambda>k. (k, push_bit 60 1)) endowed_accounts,
       fg_keys = map (\<lambda>(acc, aura). (acc, acc, aura)) initial_authorities,
       fg_invulnerables = map fst initial_authorities,
       fg_candidacy_bond = push_bit 57 1,
       fg_desired_candidates = 1,
       fg_assets = [],
       fg_sudo_key = Some root\<rparr>)"

section \<open>Blocks\<close>

definition start_block ::
  "('s, 'c, 'h, 'x, 'w) runtime_api \<Rightarrow> u32 \<Rightarrow> u32 \<Rightarrow> 's \<Rightarrow> fuzz_panic + 's" where
  "start_block R block lapse s =
   ok_or (checked_add block lapse) Overflow (\<lambda>next_block.
   ok_or (checked_mul (ucast next_block) SLOT_DURATION) Overflow (\<lambda>passed.
   ok_or (checked_add (INITIAL_TIMESTAMP R) passed) Overflow (\<lambda>current_timestamp.
   let pre_digest = (if current_timestamp = INITIAL_TIMESTAMP R then []
         else [current_timestamp div SLOT_DURATION]) in
   try_do (if next_block = 1 then Inr (None, s)
           else ok_or (finalize_block R s) RuntimePanic (\<lambda>(h, s'). Inr (Some h, s'))) (\<lambda>(prev_header, s1).
   ok_or (checked_add next_block 1) Overflow (\<lambda>number.
   let parent_header = header_new R number
         (unwrap_or (default_hash R) (map_option (header_hash R) prev_header)) pre_digest in
   ok_or (initialize_block R parent_header s1) RuntimePanic (\<lambda>s2.
   ok_or (apply_extrinsic R (Timestamp_set current_timestamp) s2) RuntimePanic (\<lambda>s3.
   let parent_head = unwrap_or parent_header prev_header in
   ok_or (checked_mul 2 current_timestamp) Overflow (\<lambda>doubled.
   let sproof_builder = \<lparr>sp_para_id = 100, sp_current_slot = doubled div SLOT_DURATION,
         sp_included_para_head = Some parent_head\<rparr>;
       (relay_parent_storage_root, relay_chain_state) = into_state_root_and_proof R sproof_builder;
       data = \<lparr>pd_parent_head = parent_head, pd_relay_parent_number = next_block,
         pd_relay_parent_storage_root = relay_parent_storage_root, pd_max_pov_size = 1000,
         pd_relay_chain_state = relay_chain_state\<rparr> in
   ok_or (apply_extrinsic R (Set_validation_data data) s3) RuntimePanic Inr))))))))"

text \<open>The locals of the loop over the extrinsics.\<close>

record ('s, 'w) fuzz_locals =
  current_block :: u32
  current_weight :: 'w
  elapsed :: nat
  externalities :: 's

definition max_weight :: "('w, 'p) primitives \<Rightarrow> 'w" where
  "max_weight E = from_parts (weights_of E) (WEIGHT_REF_TIME_PER_SECOND E * 2) 0"

text \<open>The start of a new block, when there is a lapse.\<close>

definition next_block ::
  "('s, 'c, 'h, 'x, 'w) runtime_api \<Rightarrow> ('w, 'p) primitives \<Rightarrow> u32 option \<Rightarrow> ('s, 'w) fuzz_locals
   \<Rightarrow> fuzz_panic + ('s, 'w) fuzz_locals" where
  "next_block R E maybe_lapse l = (case maybe_lapse of
      None \<Rightarrow> Inr l
    | Some lapse \<Rightarrow>
        try_do (start_block R (current_block l) lapse (externalities l)) (\<lambda>s.
        ok_or (checked_add (current_block l) lapse) Overflow (\<lambda>block.
        Inr \<lparr>current_block = block, current_weight = from_parts (weights_of E) 0 0, elapsed = 0, externalities = s\<rparr>)))"

text \<open>One iteration; \<open>took\<close> is the time in nanoseconds until \<open>now.elapsed()\<close> is read.\<close>

type_synonym 'c extrinsic = "(u32 option \<times> nat \<times> 'c) \<times> nat"

definition fuzz_iteration ::
  "('s, 'c, 'h, 'x, 'w) runtime_api \<Rightarrow> ('w, 'p) primitives \<Rightarrow> 'c extrinsic \<Rightarrow> ('s, 'w) fuzz_locals
   \<Rightarrow> fuzz_panic + ('s, 'w) fuzz_locals" where
  "fuzz_iteration R E = (\<lambda>((maybe_lapse, origin, extrinsic), took) l.
   try_do (next_block R E maybe_lapse l) (\<lambda>l1.
   let l2 = l1\<lparr>current_weight := weight_add (weights_of E) (current_weight l1) (call_weight R extrinsic (externalities l1))\<rparr> in
   if ref_time (weights_of E) (max_weight E) \<le> ref_time (weights_of E) (current_weight l2) then Inr l2
   else
     let origin_account = endowed_accounts ! (origin mod length endowed_accounts) in
     ok_or (dispatch_signed R extrinsic origin_account (externalities l2)) RuntimePanic (\<lambda>s.
     Inr (l2\<lparr>externalities := s, elapsed := elapsed l2 + took\<rparr>))))"

section \<open>Invariants\<close>

definition check_account ::
  "('s, 'c, 'h, 'x, 'w) runtime_api \<Rightarrow> 's \<Rightarrow> account_id \<times> AccountInfo \<Rightarrow> balance \<times> balance
   \<Rightarrow> fuzz_panic + balance \<times> balance" where
  "check_account R s = (\<lambda>(acc, info) (counted_free, counted_reserved).
   ensure (\<not> (0 < ai_consumers info \<and> ai_providers info = 0)) InvalidState (
   ok_or (checked_add counted_free (ai_free info)) Overflow (\<lambda>counted_free.
   ok_or (checked_add counted_reserved (ai_reserved info)) Overflow (\<lambda>counted_reserved.
   let max_lock = (if locks_of R acc s = [] then 0 else Max (set (locks_of R acc s))) in
   ensure (max_lock = ai_frozen info) LockNotFrozen (
   try_do (try_for (\<lambda>amount sum. ok_or (checked_add sum amount) Overflow Inr) (holds_of R acc s) 0) (\<lambda>sum_holds.
   ensure (sum_holds \<le> ai_reserved info) HoldsAboveReserved (
   Inr (counted_free, counted_reserved))))))))"

definition check_invariants ::
  "('s, 'c, 'h, 'x, 'w) runtime_api \<Rightarrow> 's \<Rightarrow> fuzz_panic + unit" where
  "check_invariants R s =
   try_do (try_for (check_account R s) (system_accounts R s) (0, 0)) (\<lambda>(counted_free, counted_reserved).
   ok_or (checked_add counted_free counted_reserved) Overflow (\<lambda>counted_issuance.
   ensure (total_issuance R s \<le> counted_issuance) InconsistentIssuance (
   ensure (integrity_test R s) IntegrityFailed (Inr ()))))"

section \<open>One run\<close>

definition finish ::
  "('s, 'c, 'h, 'x, 'w) runtime_api \<Rightarrow> ('s, 'w) fuzz_locals \<Rightarrow> fuzz_panic + unit" where
  "finish R l =
   ensure (elapsed l div 1000000000 \<le> MAX_TIME_FOR_BLOCK R) BlockTooSlow (
   ok_or (finalize_block R (externalities l)) RuntimePanic (\<lambda>(_, s).
   ensure (try_state R (current_block l) s) TryStateFailed (
   check_invariants R s)))"

definition fuzz ::
  "('s, 'c, 'h, 'x, 'w) runtime_api \<Rightarrow> ('w, 'p) primitives \<Rightarrow> 'c extrinsic list \<Rightarrow> fuzz_panic + unit" where
  "fuzz R E extrinsics =
   ok_or (build_storage R fuzz_genesis_config) RuntimePanic (\<lambda>genesis_storage.
   if extrinsics = [] then Inr ()
   else
     try_do (start_block R 1 0 genesis_storage) (\<lambda>s.
     try_do (try_for (fuzz_iteration R E) extrinsics
       \<lparr>current_block = 1, current_weight = from_parts (weights_of E) 0 0, elapsed = 0, externalities = s\<rparr>) (finish R)))"

section \<open>Full blocks\<close>

text \<open>The reference: a block takes calls up to the first one that reaches the limit; the rest of the block is skipped.\<close>

definition fits ::
  "('s, 'c, 'h, 'x, 'w) runtime_api \<Rightarrow> ('w, 'p) primitives \<Rightarrow> 'c \<Rightarrow> ('s, 'w) fuzz_locals \<Rightarrow> bool" where
  "fits R E extrinsic l \<longleftrightarrow> ref_time (weights_of E) (weight_add (weights_of E) (current_weight l)
     (call_weight R extrinsic (externalities l))) < ref_time (weights_of E) (max_weight E)"

fun run_blocks ::
  "('s, 'c, 'h, 'x, 'w) runtime_api \<Rightarrow> ('w, 'p) primitives \<Rightarrow> bool \<Rightarrow> 'c extrinsic list \<Rightarrow> ('s, 'w) fuzz_locals
   \<Rightarrow> fuzz_panic + ('s, 'w) fuzz_locals" where
  "run_blocks R E full [] l = Inr l"
| "run_blocks R E full (((maybe_lapse, origin, extrinsic), took) # xs) l =
     (if full \<and> maybe_lapse = None then run_blocks R E True xs l
      else try_do (next_block R E maybe_lapse l) (\<lambda>l1.
        if fits R E extrinsic l1
        then try_do (fuzz_iteration R E ((None, origin, extrinsic), took) l1) (run_blocks R E False xs)
        else run_blocks R E True xs l1))"

lemma finish_weight: "finish R (l\<lparr>current_weight := w\<rparr>) = finish R l"
  by (simp add: finish_def)

lemma saturating_add_ge: "a \<le> saturating_add a b" for a :: "'n::len word"
proof -
  have "unat a < 2 ^ LENGTH('n)" by (rule unsigned_less)
  then show ?thesis by (simp only: word_le_nat_alt unat_saturating_add)
qed

lemma full_stays_full:
  assumes "sp_weights (weights_of E)" and "ref_time (weights_of E) (max_weight E) \<le> ref_time (weights_of E) w"
  shows "ref_time (weights_of E) (max_weight E) \<le> ref_time (weights_of E) (weight_add (weights_of E) w v)"
  using assms saturating_add_ge order_trans by (fastforce simp: sp_weights_def)

lemma next_block_weight:
  "lapse \<noteq> None \<Longrightarrow> next_block R E lapse (l\<lparr>current_weight := w\<rparr>) = next_block R E lapse l"
  by (auto simp: next_block_def)

lemma next_block_None [simp]: "next_block R E None l = Inr l"
  by (simp add: next_block_def)

text \<open>An iteration is the start of a block and an iteration in it.\<close>

lemma fuzz_iteration_split:
  "fuzz_iteration R E ((lapse, origin, extrinsic), took) l =
     try_do (next_block R E lapse l) (fuzz_iteration R E ((None, origin, extrinsic), took))"
  by (cases "next_block R E lapse l") (simp_all add: fuzz_iteration_def)

lemma fuzz_iteration_full:
  "\<not> fits R E extrinsic l \<Longrightarrow> fuzz_iteration R E ((None, origin, extrinsic), took) l =
     Inr (l\<lparr>current_weight := weight_add (weights_of E) (current_weight l) (call_weight R extrinsic (externalities l))\<rparr>)"
  by (simp add: fuzz_iteration_def fits_def not_less)

lemma run_blocks_finish:
  assumes W: "sp_weights (weights_of E)"
    and "full \<Longrightarrow> ref_time (weights_of E) (max_weight E) \<le> ref_time (weights_of E) w"
    and "\<not> full \<Longrightarrow> w = current_weight l"
  shows "try_do (try_for (fuzz_iteration R E) xs (l\<lparr>current_weight := w\<rparr>)) (finish R) =
    try_do (run_blocks R E full xs l) (finish R)"
  using assms(2,3)
proof (induction xs arbitrary: full w l)
  case Nil
  then show ?case by (simp add: finish_weight)
next
  case (Cons x xs)
  obtain lapse origin extrinsic took where x: "x = ((lapse, origin, extrinsic), took)"
    by (metis prod.exhaust)
  show ?case
  proof (cases "full \<and> lapse = None")
    case True
    let ?w = "weight_add (weights_of E) w (call_weight R extrinsic (externalities l))"
    have full: "ref_time (weights_of E) (max_weight E) \<le> ref_time (weights_of E) ?w"
      using Cons.prems(1) True full_stays_full [OF W] by blast
    then have "\<not> fits R E extrinsic (l\<lparr>current_weight := w\<rparr>)"
      by (simp add: fits_def)
    from fuzz_iteration_full [OF this] Cons.IH [of True ?w l] full True show ?thesis
      by (simp add: x)
  next
    case False
    then have "next_block R E lapse (l\<lparr>current_weight := w\<rparr>) = next_block R E lapse l"
      using Cons.prems(2) next_block_weight [where lapse = lapse and l = l and w = w] by (cases "lapse = None") auto
    then show ?thesis
    proof (cases "next_block R E lapse l")
      case (Inr l1)
      then show ?thesis
      proof (cases "fits R E extrinsic l1")
        case True
        have "try_do (try_for (fuzz_iteration R E) xs m) (finish R) = try_do (run_blocks R E False xs m) (finish R)" for m
          using Cons.IH [of False "current_weight m" m] by simp
        then show ?thesis
          using False Inr True \<open>next_block R E lapse (_\<lparr>current_weight := w\<rparr>) = _\<close>
          by (cases "fuzz_iteration R E ((None, origin, extrinsic), took) l1")
            (auto simp: x fuzz_iteration_split [of R E lapse])
      next
        case no: False
        then have "ref_time (weights_of E) (max_weight E) \<le> ref_time (weights_of E)
            (weight_add (weights_of E) (current_weight l1) (call_weight R extrinsic (externalities l1)))"
          by (simp add: fits_def)
        with no show ?thesis
          using False Inr \<open>next_block R E lapse (_\<lparr>current_weight := w\<rparr>) = _\<close> fuzz_iteration_full [OF no]
            Cons.IH [of True _ l1] by (auto simp: x fuzz_iteration_split [of R E lapse])
      qed
    qed (use False in \<open>auto simp: x fuzz_iteration_split [of R E lapse]\<close>)
  qed
qed

text \<open>C38. The fuzzer skips a call that would fill the block, but keeps its weight: from then on it skips every call
  of the block, so its runs are those in which a block ends at the first call that reaches two seconds.\<close>

theorem full_block_skips_rest:
  assumes "sp_weights (weights_of E)"
  shows "fuzz R E extrinsics =
    ok_or (build_storage R fuzz_genesis_config) RuntimePanic (\<lambda>genesis_storage.
    if extrinsics = [] then Inr ()
    else try_do (start_block R 1 0 genesis_storage) (\<lambda>s.
      try_do (run_blocks R E False extrinsics
        \<lparr>current_block = 1, current_weight = from_parts (weights_of E) 0 0, elapsed = 0, externalities = s\<rparr>) (finish R)))"
proof -
  have "try_do (try_for (fuzz_iteration R E) extrinsics l) (finish R) =
      try_do (run_blocks R E False extrinsics l) (finish R)" for l
    using run_blocks_finish [OF assms, of False "current_weight l" l] by simp
  then show ?thesis
    by (cases "extrinsics = []") (simp_all add: fuzz_def)
qed

text \<open>A runtime that records the weights it has dispatched, and whose one account covers the issuance of two calls.\<close>

definition demo_api_runtime :: "(u64 list, u64, unit, unit, u64 \<times> u64) runtime_api" where
  "demo_api_runtime = \<lparr>INITIAL_TIMESTAMP = 0, MAX_TIME_FOR_BLOCK = 6, build_storage = (\<lambda>_. Some []),
     finalize_block = (\<lambda>s. Some ((), s)), header_new = (\<lambda>_ _ _. ()), header_hash = (\<lambda>_. ()), default_hash = (),
     initialize_block = (\<lambda>_ s. Some s), into_state_root_and_proof = (\<lambda>_. ((), ())), apply_extrinsic = (\<lambda>_ s. Some s),
     call_weight = (\<lambda>c _. (c, 0)), dispatch_signed = (\<lambda>c _ s. Some (c # s)), try_state = (\<lambda>_ _. True),
     integrity_test = (\<lambda>_. True),
     system_accounts = (\<lambda>_. [([], \<lparr>ai_consumers = 0, ai_providers = 1, ai_free = 2, ai_reserved = 0, ai_frozen = 0\<rparr>)]),
     locks_of = (\<lambda>_ _. []), holds_of = (\<lambda>_ _. []), total_issuance = (\<lambda>s. of_nat (length s))\<rparr>"

text \<open>The second call fills the block, so the small third one is skipped as well; the fourth one starts a block.\<close>

definition demo_extrinsics :: "u64 extrinsic list" where
  "demo_extrinsics = [((None, 0, 1500000000000), 0), ((None, 1, 1000000000000), 0), ((None, 2, 1), 0), ((Some 2, 3, 1), 0)]"

theorem full_block_skips_rest_witness: "fuzz demo_api_runtime word_primitives demo_extrinsics = Inr ()"
proof -
  have W: "sp_weights (weights_of word_primitives)"
    using documented_word_primitives by (simp add: documented_def)
  show ?thesis
    unfolding full_block_skips_rest [OF W]
    by (simp add: demo_api_runtime_def demo_extrinsics_def word_primitives_def word_weights_def start_block_def
        next_block_def fits_def max_weight_def fuzz_iteration_def finish_def check_invariants_def check_account_def
        checked_mul_def checked_add_def saturating_add_def time_defs Let_def word_less_nat_alt word_le_nat_alt)
qed

section \<open>Time\<close>

definition same_but_time :: "('s, 'w) fuzz_locals \<Rightarrow> ('s, 'w) fuzz_locals \<Rightarrow> bool" where
  "same_but_time l m \<longleftrightarrow> m\<lparr>elapsed := elapsed l\<rparr> = l"

lemma next_block_elapsed: "next_block R E (Some lapse) (l\<lparr>elapsed := e\<rparr>) = next_block R E (Some lapse) l"
  by (simp add: next_block_def)

lemma same_but_time_refl [simp]: "same_but_time l l"
  by (simp add: same_but_time_def)

lemma next_block_time:
  assumes "same_but_time l m"
  shows "rel_sum (=) same_but_time (next_block R E lapse l) (next_block R E lapse m)"
proof (cases lapse)
  case (Some n)
  have "next_block R E lapse l = next_block R E lapse m"
    using assms next_block_elapsed [of R E n "elapsed l" m] by (simp add: same_but_time_def Some)
  then show ?thesis
    by (cases "next_block R E lapse m") simp_all
qed (use assms in simp)

lemma fuzz_iteration_time:
  assumes "same_but_time l m"
  shows "rel_sum (=) same_but_time (fuzz_iteration R E (x, t) l) (fuzz_iteration R E (x, t') m)"
proof -
  obtain lapse origin extrinsic where x: "x = (lapse, origin, extrinsic)"
    by (cases x)
  have "rel_sum (=) same_but_time (fuzz_iteration R E ((None, origin, extrinsic), t) (m\<lparr>elapsed := e\<rparr>))
      (fuzz_iteration R E ((None, origin, extrinsic), t') m)" for e m
    by (cases "dispatch_signed R extrinsic (endowed_accounts ! (origin mod length endowed_accounts)) (externalities m)")
      (simp_all add: fuzz_iteration_def Let_def same_but_time_def)
  then have same: "rel_sum (=) same_but_time (fuzz_iteration R E ((None, origin, extrinsic), t) l)
      (fuzz_iteration R E ((None, origin, extrinsic), t') m)" if "same_but_time l m" for l m
    using that by (metis same_but_time_def)
  show ?thesis
    using next_block_time [OF assms, of R E lapse] same
    by (auto simp: x fuzz_iteration_split [of R E lapse] elim!: rel_sum.cases)
qed

definition retime :: "('c \<Rightarrow> nat \<Rightarrow> nat) \<Rightarrow> 'c extrinsic list \<Rightarrow> 'c extrinsic list" where
  "retime g xs = map (\<lambda>((maybe_lapse, origin, extrinsic), took). ((maybe_lapse, origin, extrinsic), g extrinsic took)) xs"

lemma fuzz_iterations_time:
  "same_but_time l m \<Longrightarrow> rel_sum (=) same_but_time
     (try_for (fuzz_iteration R E) (retime g xs) l) (try_for (fuzz_iteration R E) xs m)"
proof (induction xs arbitrary: l m)
  case (Cons x xs)
  obtain y t where x: "x = (y, t)" by (cases x)
  obtain t' where "retime g (x # xs) = (y, t') # retime g xs"
    by (cases y) (simp add: retime_def x)
  with fuzz_iteration_time [OF Cons.prems, of R E y t' t] Cons.IH show ?case
    by (auto simp: x elim!: rel_sum.cases)
qed (simp add: retime_def)

text \<open>C40. The time limit is checked for the last block only: however long the calls of the earlier blocks took, the
  outcome of a run is the same.\<close>

theorem only_last_block_timed:
  "fuzz R E (retime g xs @ ((Some lapse, origin, extrinsic), took) # ys) =
   fuzz R E (xs @ ((Some lapse, origin, extrinsic), took) # ys)"
proof -
  let ?x = "((Some lapse, origin, extrinsic), took)"
  have reset: "fuzz_iteration R E ?x l = fuzz_iteration R E ?x m" if "same_but_time l m" for l m
    using that next_block_elapsed [of R E lapse "elapsed l" m]
    by (simp add: fuzz_iteration_split [of R E "Some lapse"] same_but_time_def)
  have "try_for (fuzz_iteration R E) (retime g xs @ ?x # ys) l = try_for (fuzz_iteration R E) (xs @ ?x # ys) l" for l
    using fuzz_iterations_time [of l l R E g xs]
    by (auto simp: try_for_append elim!: rel_sum.cases dest!: reset)
  then show ?thesis
    by (simp add: fuzz_def retime_def)
qed

section \<open>The final checks\<close>

lemma checked_add_defined: "unat a + unat b \<le> unat (d :: 'n::len word) \<Longrightarrow> \<exists>c. checked_add a b = Some c"
  for a :: "'n::len word"
  by (auto simp: checked_add_def intro: le_less_trans [OF _ unsigned_less [of d]])

lemma checked_sum_Inr:
  "try_for (\<lambda>amount sum. ok_or (checked_add sum amount) Overflow Inr) xs a = Inr b \<longleftrightarrow>
     unat b = unat a + sum_list (map unat xs)" for a :: "'n::len word"
proof (induction xs arbitrary: a)
  case (Cons x xs)
  show ?case
  proof (cases "checked_add a x")
    case None
    then have "\<not> unat a + unat x \<le> unat b"
      using checked_add_defined by fastforce
    with None show ?thesis by simp
  next
    case (Some c)
    then have "unat c = unat a + unat x" by (simp add: checked_add_Some_iff)
    with Some Cons.IH [of c] show ?thesis by (simp add: add.assoc)
  qed
qed (auto simp: word_unat_eq_iff)

definition account_ok :: "('s, 'c, 'h, 'x, 'w) runtime_api \<Rightarrow> 's \<Rightarrow> account_id \<times> AccountInfo \<Rightarrow> bool" where
  "account_ok R s = (\<lambda>(acc, info).
     (0 < ai_consumers info \<longrightarrow> 0 < ai_providers info) \<and>
     ai_frozen info = fold max (locks_of R acc s) 0 \<and>
     sum_list (map unat (holds_of R acc s)) \<le> unat (ai_reserved info))"

lemma max_lock_fold: "(if xs = [] then 0 else Max (set xs)) = fold max xs (0 :: 'n::len word)"
proof (cases xs)
  case (Cons y ys)
  have "Max (set (0 # xs)) = fold max xs (0 :: 'n word)"
    by (simp only: Max.set_eq_fold)
  moreover have "Max (set (0 # xs)) = Max (set xs)"
    using Cons by (simp add: max_def)
  ultimately show ?thesis using Cons by simp
qed simp

lemma check_account_Inr:
  "check_account R s (acc, info) (f, g) = Inr (f', g') \<longleftrightarrow>
     account_ok R s (acc, info) \<and> unat f' = unat f + unat (ai_free info) \<and> unat g' = unat g + unat (ai_reserved info)"
proof -
  have holds: "(\<exists>h. try_for (\<lambda>amount sum. ok_or (checked_add sum amount) Overflow Inr) (holds_of R acc s) 0 = Inr h
      \<and> h \<le> ai_reserved info) \<longleftrightarrow> sum_list (map unat (holds_of R acc s)) \<le> unat (ai_reserved info)"
    (is "_ \<longleftrightarrow> ?sum \<le> _")
  proof
    assume "?sum \<le> unat (ai_reserved info)"
    moreover from this have "unat (of_nat ?sum :: balance) = ?sum"
      using unsigned_less [of "ai_reserved info", where 'a = nat] by (simp add: unat_of_nat take_bit_nat_eq_self)
    ultimately show "\<exists>h. try_for (\<lambda>amount sum. ok_or (checked_add sum amount) Overflow Inr) (holds_of R acc s) 0 = Inr h
      \<and> h \<le> ai_reserved info"
      by (intro exI [of _ "of_nat ?sum"]) (simp add: checked_sum_Inr word_le_nat_alt)
  qed (auto simp: checked_sum_Inr word_le_nat_alt)
  show ?thesis
    by (auto simp: check_account_def account_ok_def max_lock_fold checked_add_Some_iff word_greater_zero_iff Let_def
        simp flip: holds)
qed

lemma check_accounts_Inr:
  "try_for (check_account R s) xs (f, g) = Inr (f', g') \<longleftrightarrow> list_all (account_ok R s) xs \<and>
     unat f' = unat f + (\<Sum>a\<leftarrow>xs. unat (ai_free (snd a))) \<and>
     unat g' = unat g + (\<Sum>a\<leftarrow>xs. unat (ai_reserved (snd a)))"
proof (induction xs arbitrary: f g)
  case (Cons x xs)
  obtain acc info where x: "x = (acc, info)" by (cases x)
  have unfold: "try_for (check_account R s) (x # xs) (f, g) = Inr (f', g') \<longleftrightarrow>
      (\<exists>f1 g1. check_account R s (acc, info) (f, g) = Inr (f1, g1) \<and>
         try_for (check_account R s) xs (f1, g1) = Inr (f', g'))"
    by (auto simp: x)
  show ?case
  proof
    assume "try_for (check_account R s) (x # xs) (f, g) = Inr (f', g')"
    then show "list_all (account_ok R s) (x # xs) \<and>
        unat f' = unat f + (\<Sum>a\<leftarrow>x # xs. unat (ai_free (snd a))) \<and>
        unat g' = unat g + (\<Sum>a\<leftarrow>x # xs. unat (ai_reserved (snd a)))"
      unfolding unfold by (auto simp: x Cons.IH check_account_Inr)
  next
    assume all: "list_all (account_ok R s) (x # xs) \<and>
        unat f' = unat f + (\<Sum>a\<leftarrow>x # xs. unat (ai_free (snd a))) \<and>
        unat g' = unat g + (\<Sum>a\<leftarrow>x # xs. unat (ai_reserved (snd a)))"
    then obtain f1 g1 where "checked_add f (ai_free info) = Some f1" "checked_add g (ai_reserved info) = Some g1"
      using checked_add_defined [of f "ai_free info" f'] checked_add_defined [of g "ai_reserved info" g'] by (auto simp: x)
    with all show "try_for (check_account R s) (x # xs) (f, g) = Inr (f', g')"
      unfolding unfold by (intro exI [of _ f1] exI [of _ g1]) (auto simp: x Cons.IH check_account_Inr checked_add_Some_iff)
  qed
qed (auto simp: word_unat_eq_iff)

lemma balance_of_nat: "k < 2 ^ 128 \<Longrightarrow> unat (of_nat k :: balance) = k"
  by (simp add: unat_of_nat take_bit_nat_eq_self)

lemma balance_bound: "unat (c :: balance) < 2 ^ 128"
  using unsigned_less [of c] by simp

text \<open>C39. The final checks pass exactly when every account is valid and the counted balances fit and cover the total
  issuance, in exact arithmetic, and the integrity tests pass.\<close>

theorem invariants_hold_iff:
  "check_invariants R s = Inr () \<longleftrightarrow>
     (let accounts = system_accounts R s;
          counted = (\<Sum>a\<leftarrow>accounts. unat (ai_free (snd a))) + (\<Sum>a\<leftarrow>accounts. unat (ai_reserved (snd a)))
      in list_all (account_ok R s) accounts \<and> counted < 2 ^ 128 \<and>
         unat (total_issuance R s) \<le> counted \<and> integrity_test R s)"
proof -
  let ?f = "\<Sum>a\<leftarrow>system_accounts R s. unat (ai_free (snd a))"
  let ?g = "\<Sum>a\<leftarrow>system_accounts R s. unat (ai_reserved (snd a))"
  have run: "check_invariants R s = Inr () \<longleftrightarrow> (\<exists>f g c. try_for (check_account R s) (system_accounts R s) (0, 0) = Inr (f, g) \<and>
      unat c = unat f + unat g \<and> total_issuance R s \<le> c \<and> integrity_test R s)"
    by (auto simp: check_invariants_def checked_add_Some_iff)
  show ?thesis
    unfolding run Let_def
  proof
    assume "\<exists>f g c. try_for (check_account R s) (system_accounts R s) (0, 0) = Inr (f, g) \<and>
      unat c = unat f + unat g \<and> total_issuance R s \<le> c \<and> integrity_test R s"
    then obtain f g c where "try_for (check_account R s) (system_accounts R s) (0, 0) = Inr (f, g)"
      and c: "unat c = unat f + unat g" "total_issuance R s \<le> c" "integrity_test R s" by blast
    then have "list_all (account_ok R s) (system_accounts R s)" "unat c = ?f + ?g"
      by (simp_all add: check_accounts_Inr)
    with c balance_bound [of c] show "list_all (account_ok R s) (system_accounts R s) \<and> ?f + ?g < 2 ^ 128 \<and>
        unat (total_issuance R s) \<le> ?f + ?g \<and> integrity_test R s"
      by (simp add: word_le_nat_alt)
  next
    assume all: "list_all (account_ok R s) (system_accounts R s) \<and> ?f + ?g < 2 ^ 128 \<and>
        unat (total_issuance R s) \<le> ?f + ?g \<and> integrity_test R s"
    then have "unat (of_nat ?f :: balance) = ?f" "unat (of_nat ?g :: balance) = ?g"
      "unat (of_nat (?f + ?g) :: balance) = ?f + ?g"
      by (intro balance_of_nat; linarith)+
    with all show "\<exists>f g c. try_for (check_account R s) (system_accounts R s) (0, 0) = Inr (f, g) \<and>
      unat c = unat f + unat g \<and> total_issuance R s \<le> c \<and> integrity_test R s"
      by (intro exI [of _ "of_nat ?f"] exI [of _ "of_nat ?g"] exI [of _ "of_nat (?f + ?g)"])
        (simp only: check_accounts_Inr word_le_nat_alt unat_0 add_0 simp_thms)
  qed
qed

end
