(* ===== verification/Rosca_Events.thy ===== *)
theory Rosca_Events
  imports Rosca_Chain
begin

text \<open>
  What the events of the pallet tell. A \<open>view\<close> is what an observer of the log can know of a ROSCA:
  participants, invitations, the threshold while it is open, completion and the current recipient. Every dispatchable deposits events
  that describe its change of the views (\<open>logs\<close>), so the views can be rebuilt from the events alone.
\<close>

section \<open>Views\<close>

record 'a view =
  v_parts :: "'a set"
  v_invited :: "'a set"
  v_threshold :: "u32 option"
  v_completed :: bool
  v_recipient :: "'a option"

type_synonym 'a views = "rosca_id \<Rightarrow> 'a view option"

definition views_of :: "('a, 'l) pallet \<Rightarrow> 'a views" where
  "views_of s r = (if r < NextRoscaId s then Some \<lparr>
      v_parts = dom (RoscaParticipants s r),
      v_invited = dom (RoscaInvitedPreverifiedParticipants s r),
      v_threshold = map_option rd_minimum_participant_threshold (PendingRoscaDetails s r),
      v_completed = (CompletedRoscas s r \<noteq> None),
      v_recipient = EligibleClaimant s r\<rparr> else None)"

text \<open>What an event says about the views; \<open>None\<close> where it contradicts them.\<close>

fun observe :: "'a rosca_event \<Rightarrow> 'a views \<Rightarrow> 'a views option" where
  "observe (RoscaCreated r _ _ _ _ _ _ threshold _ eligible creator) v =
     (if v r = None \<and> creator \<in> set eligible then Some (v(r \<mapsto>
        \<lparr>v_parts = {creator}, v_invited = set eligible, v_threshold = Some threshold, v_completed = False,
         v_recipient = None\<rparr>))
      else None)"
| "observe (JoinedRosca r a) v = (case v r of None \<Rightarrow> None | Some w \<Rightarrow>
     if a \<in> v_invited w then Some (v(r \<mapsto> w\<lparr>v_parts := insert a (v_parts w)\<rparr>)) else None)"
| "observe (LeftRosca r a) v = (case v r of None \<Rightarrow> None | Some w \<Rightarrow>
     if a \<in> v_parts w then Some (v(r \<mapsto> w\<lparr>v_parts := v_parts w - {a}\<rparr>)) else None)"
| "observe (RoscaStarted r _ _ a _) v = (case v r of None \<Rightarrow> None | Some w \<Rightarrow>
     Some (v(r \<mapsto> w\<lparr>v_threshold := None, v_recipient := Some a\<rparr>)))"
| "observe (NewRoundStarted r a _) v = (case v r of None \<Rightarrow> None | Some w \<Rightarrow>
     if v_recipient w \<noteq> None then Some (v(r \<mapsto> w\<lparr>v_recipient := Some a\<rparr>)) else None)"
| "observe (RoscaComplete r) v = (case v r of None \<Rightarrow> None | Some w \<Rightarrow>
     Some (v(r \<mapsto> w\<lparr>v_completed := True\<rparr>)))"
| "observe (ParticipantDefaulted _ _ _) v = Some v"
| "observe (ContributionMade _ _ _ _) v = Some v"
| "observe (DepositDeducted _ _ _ _ _) v = Some v"
| "observe (SecurityDepositContribution _ _ _) v = Some v"
| "observe (SecurityDepositClaimed _ _ _) v = Some v"
| "observe (RoscaManuallyEnded _) v = Some v"

fun observe_all :: "('e \<Rightarrow> 'v \<Rightarrow> 'v option) \<Rightarrow> 'e list \<Rightarrow> 'v \<Rightarrow> 'v option" where
  "observe_all obs [] v = Some v"
| "observe_all obs (e # es) v = Option.bind (obs e v) (observe_all obs es)"

lemma observe_all_append:
  "observe_all obs (es @ fs) v = Option.bind (observe_all obs es v) (observe_all obs fs)"
  by (induction es arbitrary: v) (simp_all split: bind_split)

section \<open>The pallet logs every change of the views\<close>

definition logs :: "('a, 'l) pallet \<Rightarrow> ('a, 'l) pallet \<Rightarrow> bool" where
  "logs s t \<longleftrightarrow> (\<exists>es. Events t = Events s @ es \<and> observe_all observe es (views_of s) = Some (views_of t))"

lemma logs_refl: "logs s s"
  by (auto simp: logs_def intro: exI [of _ "[]"])

lemma logs_trans:
  assumes "logs s t" and "logs t u"
  shows "logs s u"
proof -
  obtain es fs where "Events t = Events s @ es" "observe_all observe es (views_of s) = Some (views_of t)"
    "Events u = Events t @ fs" "observe_all observe fs (views_of t) = Some (views_of u)"
    using assms by (auto simp: logs_def)
  then show ?thesis
    unfolding logs_def by (intro exI [of _ "es @ fs"]) (simp add: observe_all_append)
qed

lemma logs_event:
  assumes "Events t = Events s @ [e]" and "observe e (views_of s) = Some (views_of t)"
  shows "logs s t"
  unfolding logs_def using assms by (intro exI [of _ "[e]"]) simp

lemma logs_quiet: "Events t = Events s \<Longrightarrow> views_of t = views_of s \<Longrightarrow> logs s t"
  unfolding logs_def by (intro exI [of _ "[]"]) simp

lemma views_of_quiet [simp]:
  "views_of (s\<lparr>RoscaSecurityDeposits := D\<rparr>) = views_of s"
  "views_of (s\<lparr>DefaultCount := C\<rparr>) = views_of s"
  "views_of (s\<lparr>Ledger := l\<rparr>) = views_of s"
  "views_of (s\<lparr>Events := E\<rparr>) = views_of s"
  "views_of (s\<lparr>CurrentContributors := CC\<rparr>) = views_of s"
  "views_of (s\<lparr>CurrentContributionCount := N\<rparr>) = views_of s"
  "views_of (s\<lparr>NextPayByTimestamp := P\<rparr>) = views_of s"
  "views_of (s\<lparr>FinalPayByTimestamp := P\<rparr>) = views_of s"
  "views_of (s\<lparr>ActiveRoscaParticipantsOrder := O1\<rparr>) = views_of s"
  "views_of (s\<lparr>PendingRoscaParticipantsOrder := O2\<rparr>) = views_of s"
  "views_of (s\<lparr>ActiveRoscas := A\<rparr>) = views_of s"
  "views_of (s\<lparr>RoscaParticipantsCount := RC\<rparr>) = views_of s"
  "views_of (s\<lparr>Now := now\<rparr>) = views_of s"
  "views_of (s\<lparr>BlockNumber := b\<rparr>) = views_of s"
  by (simp_all add: views_of_def fun_eq_iff)

lemma Events_deposit_event [simp]: "Events (deposit_event e s) = Events s @ [e]"
  by (simp add: deposit_event_def)

lemma views_of_deposit_event [simp]: "views_of (deposit_event e s) = views_of s"
  by (simp add: deposit_event_def)

lemma views_frame:
  "NextRoscaId (deposit_event e s) = NextRoscaId s"
  "RoscaParticipants (deposit_event e s) = RoscaParticipants s"
  "RoscaInvitedPreverifiedParticipants (deposit_event e s) = RoscaInvitedPreverifiedParticipants s"
  "CompletedRoscas (deposit_event e s) = CompletedRoscas s"
  "EligibleClaimant (deposit_event e s) = EligibleClaimant s"
  "PendingRoscaDetails (deposit_event e s) = PendingRoscaDetails s"
  "PendingRoscaDetails (clear_contributions T r n s) = PendingRoscaDetails s"
  "NextRoscaId (clear_contributions T r n s) = NextRoscaId s"
  "RoscaParticipants (clear_contributions T r n s) = RoscaParticipants s"
  "RoscaInvitedPreverifiedParticipants (clear_contributions T r n s) = RoscaInvitedPreverifiedParticipants s"
  "CompletedRoscas (clear_contributions T r n s) = CompletedRoscas s"
  "EligibleClaimant (clear_contributions T r n s) = EligibleClaimant s"
  "Events (clear_contributions T r n s) = Events s"
  by (simp_all add: deposit_event_def clear_contributions_def)

lemma process_participant_logs:
  assumes "process_participant T r d claimant p s = Inr t"
  shows "logs s t \<and> NextRoscaId t = NextRoscaId s \<and> EligibleClaimant t = EligibleClaimant s"
  using assms
  by (auto simp: process_participant_def Let_def currency_transfer_Inr logs_def deposit_event_def
      split: if_splits)

lemma process_defaulters_logs:
  assumes "process_defaulters T r s = Inr t"
  shows "logs s t \<and> NextRoscaId t = NextRoscaId s \<and> EligibleClaimant t r \<noteq> None"
proof -
  obtain d claimant order where c: "EligibleClaimant s r = Some claimant"
    and "try_for (process_participant T r d claimant) order s = Inr t"
    using assms by (auto simp: process_defaulters_def)
  from this(2) have "logs s t \<and> NextRoscaId t = NextRoscaId s \<and> EligibleClaimant t = EligibleClaimant s"
    by (rule try_for_invariant) (use process_participant_logs logs_trans logs_refl in \<open>fastforce+\<close>)
  with c show ?thesis by simp
qed

lemma advance_rosca_round_logs:
  assumes "advance_rosca_round T r s = Inr t" and "r < NextRoscaId s" and "EligibleClaimant s r \<noteq> None"
  shows "logs s t \<and> NextRoscaId t = NextRoscaId s \<and> EligibleClaimant t r \<noteq> None"
proof -
  obtain n a P O1 CC N where
    t: "t = deposit_event (NewRoundStarted r a n) (s\<lparr>NextPayByTimestamp := P,
      EligibleClaimant := (EligibleClaimant s)(r \<mapsto> a), ActiveRoscaParticipantsOrder := O1,
      CurrentContributors := CC, CurrentContributionCount := N\<rparr>)"
    using assms(1) by (auto simp: advance_rosca_round_def Let_def clear_contributions_def)
  have "logs s t"
    by (rule logs_event) (use assms(2,3) in \<open>auto simp: t views_of_def fun_eq_iff deposit_event_def\<close>)
  then show ?thesis by (simp add: t deposit_event_def)
qed

lemma complete_rosca_logs: "r < NextRoscaId s \<Longrightarrow> logs s (complete_rosca r s)"
  by (rule logs_event) (auto simp: complete_rosca_def views_of_def fun_eq_iff deposit_event_def)

definition in_round :: "rosca_id \<Rightarrow> ('a, 'l) pallet \<Rightarrow> ('a, 'l) pallet \<Rightarrow> bool" where
  "in_round r s t \<longleftrightarrow> logs s t \<and> r < NextRoscaId t \<and> EligibleClaimant t r \<noteq> None"

lemma turn_in_round:
  assumes "in_round r s u" and "process_defaulters T r u = Inr u1" and "advance_rosca_round T r u1 = Inr u2"
  shows "in_round r s u2"
  using assms process_defaulters_logs [OF assms(2)] advance_rosca_round_logs [OF assms(3)]
  by (auto simp: in_round_def intro: logs_trans)

lemma in_round_complete: "in_round r s u \<Longrightarrow> logs s (complete_rosca r u)"
  by (auto simp: in_round_def intro: logs_trans complete_rosca_logs)

lemma catch_up_iteration_logs:
  assumes "in_round r s (cu_state c)" and "catch_up_iteration T r now c = Inr x"
  shows "case x of Inl (Completed t) \<Rightarrow> logs s t | Inl (CaughtUp c') \<Rightarrow> c' = c
     | Inr c' \<Rightarrow> in_round r s (cu_state c')"
proof (cases "cu_next_pay_by c \<le> now")
  case True
  then obtain s1 s2 b s3 where "process_defaulters T r (cu_state c) = Inr s1"
    "advance_rosca_round T r s1 = Inr s2" and c: "check_and_complete_rosca T r s2 = Inr (b, s3)"
    using assms(2) by (auto simp: catch_up_iteration_def)
  then have s2: "in_round r s s2"
    using turn_in_round [OF assms(1)] by blast
  from c have s3: "s3 = (if b then complete_rosca r s2 else s2)"
    by (auto simp: check_and_complete_rosca_def split: if_splits)
  show ?thesis
    using assms(2) True \<open>process_defaulters T r (cu_state c) = Inr s1\<close> \<open>advance_rosca_round T r s1 = Inr s2\<close> c
      in_round_complete [OF s2] s2
    by (auto simp: catch_up_iteration_def s3 split: if_splits)
qed (use assms(2) in \<open>auto simp: catch_up_iteration_def\<close>)

lemma contribute_payment_logs:
  assumes "in_round r s (cu_state c)" and "contribute_payment T signer r d f c = Inr t"
  shows "logs s t"
proof -
  let ?e = "ContributionMade r signer (cu_claimant c) (ucast (rd_contribution_amount d))"
  obtain l n where
    pay: "currency_transfer T (asset_id (rd_payment_asset d)) signer (cu_claimant c)
        (ucast (rd_contribution_amount d)) (cu_state c) = Inr ((cu_state c)\<lparr>Ledger := l\<rparr>)"
    and n: "checked_add (CurrentContributionCount (cu_state c) r) 1 = Some n"
    using assms(2) by (auto simp: contribute_payment_def Let_def currency_transfer_Inr)
  define CC where "CC = (CurrentContributors (cu_state c))(r := (CurrentContributors (cu_state c) r)(signer \<mapsto> ()))"
  define s3 where s3: "s3 = deposit_event ?e ((cu_state c)\<lparr>Ledger := l, CurrentContributors := CC,
      CurrentContributionCount := (CurrentContributionCount (cu_state c))(r := n)\<rparr>)"
  consider "t = s3" | "t = complete_rosca r s3"
    | a n where "Events t = Events s3 @ [NewRoundStarted r a n]" "NextRoscaId t = NextRoscaId s3"
      "RoscaParticipants t = RoscaParticipants s3" "CompletedRoscas t = CompletedRoscas s3"
      "RoscaInvitedPreverifiedParticipants t = RoscaInvitedPreverifiedParticipants s3"
      "PendingRoscaDetails t = PendingRoscaDetails s3" "EligibleClaimant t = (EligibleClaimant s3)(r \<mapsto> a)"
    using assms(2)
    by (simp add: contribute_payment_def Let_def pay n CC_def s3 split: if_splits)
      (force simp: views_frame)
  note exits = this
  have "logs (cu_state c) s3"
    by (rule logs_event [of _ _ ?e]) (simp_all add: s3)
  then have in3: "in_round r s s3"
    using assms(1) by (auto simp: in_round_def s3 deposit_event_def intro: logs_trans)
  then have "logs s s3" and "logs s (complete_rosca r s3)"
    by (simp_all add: in_round_def in_round_complete)
  from exits show ?thesis
  proof cases
    case (3 a n)
    have "logs s3 t"
      by (rule logs_event [OF 3(1)]) (use in3 3 in \<open>auto simp: in_round_def views_of_def fun_eq_iff\<close>)
    with \<open>logs s s3\<close> show ?thesis by (rule logs_trans)
  qed (use \<open>logs s s3\<close> \<open>logs s (complete_rosca r s3)\<close> in simp_all)
qed

lemma in_round_start:
  "pallet_inv T s \<Longrightarrow> ActiveRoscas s r = Some d \<Longrightarrow> EligibleClaimant s r \<noteq> None \<Longrightarrow> in_round r s s"
  by (auto simp: in_round_def logs_refl pallet_inv_def fresh_at_def not_le [symmetric])

lemma contribute_to_rosca_logs:
  assumes "pallet_inv T s" and "contribute_to_rosca T origin r s = Some (Inr t)"
  shows "logs s t"
proof -
  obtain signer d f c x where g: "contribute_guards signer r s = Inr (d, f, c)"
    and x: "run_loop (catch_up_body T r (Now s)) c = Some (Inr x)"
    and t: "case x of Completed s' \<Rightarrow> t = s' | CaughtUp c' \<Rightarrow> contribute_payment T signer r d f c' = Inr t"
    using assms(2)
    by (auto simp: contribute_to_rosca_def split: sum.splits option.splits catch_up_exit.splits)
  from g have "in_round r s (cu_state c)"
    using in_round_start [OF assms(1)] by (auto simp: contribute_guards_def)
  then obtain c' where c': "in_round r s (cu_state c')" "catch_up_body T r (Now s) c' = Inl (Inr x)"
    using run_loop_invariant [OF x, of "\<lambda>c. in_round r s (cu_state c)"] catch_up_iteration_logs
    by (fastforce simp: catch_up_body_def split: sum.splits)
  then have "catch_up_iteration T r (Now s) c' = Inr (Inl x)"
    by (auto simp: catch_up_body_def split: sum.splits)
  from catch_up_iteration_logs [OF c'(1) this] t c'(1) show ?thesis
    by (auto split: catch_up_exit.splits intro: contribute_payment_logs)
qed

lemma manually_end_rosca_logs:
  assumes "pallet_inv T s" and "manually_end_rosca T origin r s = Some (Inr t)"
  shows "logs s t"
proof -
  obtain d f u where a: "ActiveRoscas s r = Some d"
    and u: "run_loop (end_rounds_body T r f) s = Some (Inr u)" and t: "t = complete_rosca r u"
    using assms(2) by (auto simp: manually_end_rosca_def split: sum.splits option.splits)
  have "EligibleClaimant s r \<noteq> None"
    using assms(1) a by (fastforce simp: pallet_inv_def rosca_inv_def active_ok_def round_ok_def)
  then have "in_round r s s"
    by (rule in_round_start [OF assms(1) a])
  then obtain u' where u': "in_round r s u'" "end_rounds_body T r f u' = Inl (Inr u)"
    using run_loop_invariant [OF u, of "in_round r s"] turn_in_round
    by (fastforce simp: end_rounds_body_def split: sum.splits option.splits if_splits)
  then have "u = u'"
    by (auto simp: end_rounds_body_def split: sum.splits option.splits if_splits)
  with u' t show ?thesis by (simp add: in_round_complete)
qed

lemma not_fresh_logs:
  assumes "pallet_inv T s" and "\<not> fresh_at s r"
  shows "r < NextRoscaId s"
  using assms by (auto simp: pallet_inv_def not_le [symmetric])

lemma join_rosca_logs:
  assumes "pallet_inv T s" and "join_rosca T origin r position s = Inr t"
  shows "logs s t"
  using assms(2)
proof (rule join_rosca_effect)
  fix signer d order order' p c c'
  assume a: "RoscaInvitedPreverifiedParticipants s r signer \<noteq> None" "PendingRoscaDetails s r = Some d"
    and t: "t = deposit_event (JoinedRosca r signer)
       (s\<lparr>PendingRoscaParticipantsOrder := (PendingRoscaParticipantsOrder s)(r \<mapsto> order'),
          RoscaParticipants := (RoscaParticipants s)(r := (RoscaParticipants s r)(signer \<mapsto> p)),
          RoscaParticipantsCount := (RoscaParticipantsCount s)(r \<mapsto> c')\<rparr>)"
  have "r < NextRoscaId s"
    by (rule not_fresh_logs [OF assms(1)]) (simp add: a fresh_at_def)
  with a show ?thesis
    by (intro logs_event [of _ _ "JoinedRosca r signer"])
      (auto simp: t views_of_def fun_eq_iff deposit_event_def)
qed

lemma refund_deposit_logs:
  assumes "refund_deposit T r signer d s = Inr t"
  shows "\<exists>es. Events t = Events s @ es \<and> observe_all observe es v = Some v" and "views_of t = views_of s"
  using assms by (auto simp: refund_deposit_def Let_def currency_transfer_Inr split: if_splits)

lemma leave_rosca_logs:
  assumes "pallet_inv T s" and "leave_rosca T origin r s = Inr t"
  shows "logs s t"
  using assms(2)
proof (rule leave_rosca_effect)
  fix signer d order c c' s1 and p :: u32
  let ?s = "s\<lparr>RoscaParticipants := (RoscaParticipants s)(r := (RoscaParticipants s r)(signer := None)),
          PendingRoscaParticipantsOrder :=
            (PendingRoscaParticipantsOrder s)(r \<mapsto> order[unat p := None]),
          RoscaParticipantsCount := (RoscaParticipantsCount s)(r \<mapsto> c')\<rparr>"
  assume a: "RoscaParticipants s r signer = Some p" "PendingRoscaDetails s r = Some d"
    and refund: "refund_deposit T r signer d ?s = Inr s1" and t: "t = deposit_event (LeftRosca r signer) s1"
  have "r < NextRoscaId s"
    by (rule not_fresh_logs [OF assms(1)]) (simp add: a fresh_at_def)
  with a have "observe (LeftRosca r signer) (views_of s) = Some (views_of ?s)"
    by (auto simp: views_of_def fun_eq_iff)
  moreover obtain es where "Events s1 = Events s @ es" "observe_all observe es (views_of s) = Some (views_of s)"
    using refund_deposit_logs(1) [OF refund] by auto
  ultimately show ?thesis
    unfolding logs_def t using refund_deposit_logs(2) [OF refund]
    by (intro exI [of _ "es @ [LeftRosca r signer]"]) (simp add: observe_all_append)
qed

lemma start_rosca_logs:
  assumes "pallet_inv T s" and "start_rosca T origin r s = Inr t"
  shows "logs s t"
  using assms(2)
proof (rule start_rosca_effect)
  fix signer d xs rs n f
  assume "PendingRoscaDetails s r = Some d" and t: "t = started r signer d xs rs n f s"
  then have "r < NextRoscaId s"
    by (intro not_fresh_logs [OF assms(1)]) (simp add: fresh_at_def)
  then show ?thesis
    by (intro logs_event [of _ _ "RoscaStarted r signer rs (last xs) n"])
      (auto simp: t started_def views_of_def fun_eq_iff deposit_event_def)
qed

lemma invite_all_list:
  "length acc + length xs \<le> unat (MaxParticipants T) \<Longrightarrow> snd (invite_all T r xs (s, acc)) = acc @ xs"
  by (induction xs arbitrary: s acc) (auto simp: try_push_def)

lemma create_rosca_logs:
  assumes "pallet_inv T s" and "NextRoscaId s \<noteq> - 1"
    and "create_rosca T origin random_order invited threshold amount asset frequency start_by position name s = Inr t"
  shows "logs s t"
  using assms(3)
proof (rule create_rosca_effect)
  let ?r = "NextRoscaId s"
  fix signer n I d
  let ?xs = "signer # remdups_adj (sort invited)"
  let ?e = "RoscaCreated ?r (ucast amount) asset frequency random_order name (of_nat n)
          threshold start_by ?xs signer"
  assume n: "n = card (set invited) + 1" "n \<le> unat (MaxParticipants T)"
    and d: "d = \<lparr>rd_random_order = random_order, rd_number_of_participants = of_nat n,
         rd_minimum_participant_threshold = threshold, rd_contribution_amount = amount,
         rd_payment_asset = asset, rd_contribution_frequency = frequency,
         rd_start_by_timestamp = start_by, rd_name = name\<rparr>"
    and I: "\<forall>q. q \<noteq> ?r \<longrightarrow> I q = RoscaInvitedPreverifiedParticipants s q"
      "I ?r = (\<lambda>a. if a = signer \<or> a \<in> set invited then Some ()
         else RoscaInvitedPreverifiedParticipants s ?r a)"
    and t: "t = deposit_event (RoscaCreated ?r (ucast amount) asset frequency random_order name (of_nat n)
          threshold start_by (snd (invite_all T ?r ?xs (s, []))) signer)
       (s\<lparr>RoscaInvitedPreverifiedParticipants := I,
          PendingRoscaParticipantsOrder := (PendingRoscaParticipantsOrder s)
            (?r \<mapsto> (replicate n None)[unat (unwrap_or 0 position) := Some signer]),
          RoscaParticipants := (RoscaParticipants s)(?r :=
            (RoscaParticipants s ?r)(signer \<mapsto> unwrap_or 0 position)),
          RoscaParticipantsCount := (RoscaParticipantsCount s)(?r \<mapsto> 1),
          PendingRoscaDetails := (PendingRoscaDetails s)(?r \<mapsto> d),
          NextRoscaId := ?r + 1\<rparr>)"
  have xs: "snd (invite_all T ?r ?xs (s, [])) = ?xs"
    using invite_all_list [of "[]" ?xs T ?r s] n by (simp add: card_remdups_adj_sort)
  have "fresh_at s ?r"
    using assms(1) by (simp add: pallet_inv_def)
  then have fresh: "RoscaParticipants s ?r = Map.empty" "RoscaInvitedPreverifiedParticipants s ?r = Map.empty"
    "CompletedRoscas s ?r = None" "EligibleClaimant s ?r = None"
    by (simp_all add: fresh_at_def)
  have next_: "q < ?r + 1 \<longleftrightarrow> q < ?r \<or> q = ?r" for q
    using word_next_le_imp_less [OF assms(2), of q] inc_le [of ?r q]
    by (cases q ?r rule: linorder_cases) (force simp: not_less)+
  have dom: "dom (I ?r) = insert signer (set invited)"
    by (auto simp: I(2) fresh split: if_splits)
  have "observe ?e (views_of s) = Some (views_of t)"
    using I(1) by (auto simp: t views_of_def fun_eq_iff deposit_event_def fresh dom next_ d)
  moreover have "Events t = Events s @ [?e]"
    unfolding t xs by simp
  ultimately show ?thesis
    by (rule logs_event [rotated])
qed

lemma deposit_logs:
  "claim_security_deposit T origin r asset s = Inr t \<Longrightarrow> logs s t"
  "add_to_security_deposit T origin r extra s = Inr t \<Longrightarrow> logs s t"
  by (erule claim_security_deposit_effect, simp add: logs_def)
    (erule add_to_security_deposit_effect, simp add: logs_def)

lemma dispatch_logs:
  assumes "pallet_inv T s" and "NextRoscaId s \<noteq> - 1" and "dispatch_call T origin c s = Some (Inr t)"
  shows "logs s t"
  using assms
  by (cases c) (auto intro: create_rosca_logs join_rosca_logs leave_rosca_logs start_rosca_logs
      contribute_to_rosca_logs manually_end_rosca_logs deposit_logs)

end
