(* ===== verification/Rosca_Offers.thy ===== *)
theory Rosca_Offers
  imports Rosca_Chain
begin

text \<open>
  When the membership calls succeed. An open ROSCA has as many positions as invited accounts, and only
  invited accounts take part, so an invited account that is not a participant finds a free position.
\<close>

section \<open>Invitations\<close>

definition seats_ok :: "('a, 'l) pallet \<Rightarrow> rosca_id \<Rightarrow> bool" where
  "seats_ok s r \<longleftrightarrow> (\<forall>d. PendingRoscaDetails s r = Some d \<longrightarrow>
     finite (dom (RoscaInvitedPreverifiedParticipants s r)) \<and>
     card (dom (RoscaInvitedPreverifiedParticipants s r)) = unat (rd_number_of_participants d) \<and>
     dom (RoscaParticipants s r) \<subseteq> dom (RoscaInvitedPreverifiedParticipants s r))"

lemma seats_ok_same_at: "same_at s t q \<Longrightarrow> seats_ok t q = seats_ok s q"
  by (simp add: seats_ok_def same_at_def)

lemma seats_ok_environment [simp]:
  "seats_ok (s\<lparr>Now := now, BlockNumber := block, Events := E\<rparr>) r = seats_ok s r"
  "seats_ok (s\<lparr>Ledger := l\<rparr>) r = seats_ok s r"
  by (simp_all add: seats_ok_def)

lemma seats_ok_not_open: "pallet_inv T t \<Longrightarrow> phase_of t r \<noteq> Open \<Longrightarrow> seats_ok t r"
  by (auto simp: seats_ok_def phase_of_def pallet_inv_def rosca_inv_def pending_ok_def split: if_splits)

lemma create_rosca_seats:
  assumes "pallet_inv T s" and "create_rosca T origin random_order invited threshold amount asset frequency
      start_by position name s = Inr t"
  shows "seats_ok t (NextRoscaId s)"
  using assms(2)
proof (rule create_rosca_effect)
  let ?r = "NextRoscaId s"
  fix signer n I d
  assume n: "signer \<notin> set invited" "n = card (set invited) + 1" "n < 2 ^ 32"
    and d: "d = \<lparr>rd_random_order = random_order, rd_number_of_participants = of_nat n,
         rd_minimum_participant_threshold = threshold, rd_contribution_amount = amount,
         rd_payment_asset = asset, rd_contribution_frequency = frequency,
         rd_start_by_timestamp = start_by, rd_name = name\<rparr>"
    and I: "I ?r = (\<lambda>a. if a = signer \<or> a \<in> set invited then Some ()
         else RoscaInvitedPreverifiedParticipants s ?r a)"
    and t: "t = deposit_event (RoscaCreated ?r (ucast amount) asset frequency random_order name (of_nat n)
          threshold start_by (snd (invite_all T ?r (signer # remdups_adj (sort invited)) (s, []))) signer)
       (s\<lparr>RoscaInvitedPreverifiedParticipants := I,
          PendingRoscaParticipantsOrder := (PendingRoscaParticipantsOrder s)
            (?r \<mapsto> (replicate n None)[unat (unwrap_or 0 position) := Some signer]),
          RoscaParticipants := (RoscaParticipants s)(?r :=
            (RoscaParticipants s ?r)(signer \<mapsto> unwrap_or 0 position)),
          RoscaParticipantsCount := (RoscaParticipantsCount s)(?r \<mapsto> 1),
          PendingRoscaDetails := (PendingRoscaDetails s)(?r \<mapsto> d),
          NextRoscaId := ?r + 1\<rparr>)"
  have "fresh_at s ?r"
    using assms(1) by (simp add: pallet_inv_def)
  then have "dom (I ?r) = insert signer (set invited)" "RoscaParticipants s ?r = Map.empty"
    by (auto simp: I fresh_at_def split: if_splits)
  moreover have "unat (of_nat n :: u32) = n"
    using n(3) by (simp add: unat_of_nat)
  ultimately show ?thesis
    using n by (simp add: seats_ok_def t d deposit_event_def)
qed

lemma join_rosca_seats:
  assumes "join_rosca T origin r p s = Inr t" and "seats_ok s r"
  shows "seats_ok t r"
  using assms(1) by (rule join_rosca_effect) (use assms(2) in \<open>simp add: seats_ok_def deposit_event_def domIff\<close>)

lemma leave_rosca_seats:
  assumes "leave_rosca T origin r s = Inr t" and "seats_ok s r"
  shows "seats_ok t r"
  using assms(1)
  by (elim leave_rosca_effect refund_deposit_effect)
    (use assms(2) in \<open>simp add: seats_ok_def deposit_event_def, blast\<close>)

lemma deposit_seats:
  "claim_security_deposit T origin r asset s = Inr t \<Longrightarrow> seats_ok s r \<Longrightarrow> seats_ok t r"
  "add_to_security_deposit T origin r extra s = Inr t \<Longrightarrow> seats_ok s r \<Longrightarrow> seats_ok t r"
  by (erule claim_security_deposit_effect, simp add: seats_ok_def deposit_event_def)
    (erule add_to_security_deposit_effect, simp add: seats_ok_def deposit_event_def)

lemma contribute_to_rosca_active: "contribute_to_rosca T origin r s = Some (Inr t) \<Longrightarrow> \<exists>d. ActiveRoscas s r = Some d"
  by (auto simp: contribute_to_rosca_def contribute_guards_def split: sum.splits)

lemma manually_end_rosca_active: "manually_end_rosca T origin r s = Some (Inr t) \<Longrightarrow> \<exists>d. ActiveRoscas s r = Some d"
  by (auto simp: manually_end_rosca_def split: sum.splits)

lemma dispatch_seats:
  assumes "pallet_inv T s" and "clears_prefix T" and "NextRoscaId s \<noteq> - 1"
    and "dispatch_call T origin c s = Some (Inr t)" and "\<And>r. seats_ok s r"
  shows "seats_ok t r"
proof (cases "r = call_target c s")
  case False
  with dispatch_acts_at [OF assms(1,2,4)] show ?thesis
    using seats_ok_same_at [of s t r] assms(5) by (simp add: acts_at_def)
next
  case True
  have inv: "pallet_inv T t"
    using dispatch.keeps [OF assms(1-4)] .
  have run: "phase_of s r = Running \<Longrightarrow> seats_ok t r"
    using dispatch.moves [OF assms(1,2,4), of r] seats_ok_not_open [OF inv, of r] by (auto elim: phase_step.cases)
  show ?thesis
  proof (cases c)
    case (Call_create_rosca x1 x2 x3 x4 x5 x6 x7 x8 x9)
    with True assms(4) show ?thesis
      by (auto intro: create_rosca_seats [OF assms(1)])
  next
    case (Call_join_rosca q p)
    with True assms(4) assms(5) [of r] show ?thesis
      by (auto intro: join_rosca_seats)
  next
    case (Call_leave_rosca q)
    with True assms(4) assms(5) [of r] show ?thesis
      by (auto intro: leave_rosca_seats)
  next
    case (Call_start_rosca q)
    with True assms(4) show ?thesis
      by (auto elim!: start_rosca_effect simp: seats_ok_def started_def deposit_event_def)
  next
    case (Call_contribute_to_rosca q)
    with True assms(4) obtain d where "ActiveRoscas s r = Some d"
      using contribute_to_rosca_active [of T origin r s t] by auto
    then show ?thesis
      by (intro run phase_active [OF assms(1)])
  next
    case (Call_manually_end_rosca q)
    with True assms(4) obtain d where "ActiveRoscas s r = Some d"
      using manually_end_rosca_active [of T origin r s t] by auto
    then show ?thesis
      by (intro run phase_active [OF assms(1)])
  next
    case (Call_claim_security_deposit q asset)
    with True assms(4) assms(5) [of r] show ?thesis
      by (auto intro: deposit_seats)
  next
    case (Call_add_to_security_deposit q amount)
    with True assms(4) assms(5) [of r] show ?thesis
      by (auto intro: deposit_seats)
  qed
qed

section \<open>Calls that succeed\<close>

lemma open_storage:
  assumes "pallet_inv T s" and "PendingRoscaDetails s r = Some d"
  obtains order c where "ActiveRoscas s r = None" "PendingRoscaParticipantsOrder s r = Some order"
    "RoscaParticipantsCount s r = Some c" "rd_number_of_participants d \<le> MaxParticipants T"
proof -
  have "pending_ok T s r d"
    using assms by (simp add: pallet_inv_def rosca_inv_def)
  then show thesis
    using that by (auto simp: pending_ok_def)
qed

lemma length_taken_positions:
  assumes "slots_ok order parts" and "length order < 2 ^ 32"
  shows "length (List.map_filter (\<lambda>p. p) (rev order)) = card (dom parts)"
  using distinct_card [OF distinct_somes [OF assms]] by (simp add: set_somes slots_ok_dom [OF assms])

lemma free_position:
  assumes "slots_ok order parts" and "length order < 2 ^ 32" and "card (dom parts) < length order"
  obtains i where "first_free order = Some i"
proof (cases "first_free order")
  case None
  then have "filter (\<lambda>p. p \<noteq> None) (rev order) = rev order"
    by (intro filter_True) (metis first_free_None set_rev)
  then have "length (List.map_filter (\<lambda>p. p) (rev order)) = length order"
    by (simp add: somes_conv)
  with length_taken_positions [OF assms(1,2)] assms(3) show thesis by simp
qed (use that in blast)

lemma join_rosca_succeeds:
  assumes inv: "pallet_inv T s" and seats: "seats_ok s r" and signer: "ensure_signed T origin = Inr a"
    and d: "PendingRoscaDetails s r = Some d" and time: "Now s < rd_start_by_timestamp d"
    and new: "RoscaParticipants s r a = None" and invited: "RoscaInvitedPreverifiedParticipants s r a \<noteq> None"
  shows "\<exists>t. join_rosca T origin r None s = Inr t"
proof -
  obtain order c where o: "ActiveRoscas s r = None" "PendingRoscaParticipantsOrder s r = Some order"
    "RoscaParticipantsCount s r = Some c"
    by (rule open_storage [OF inv d])
  note shape = pending_shape [OF inv d o(2,3)]
  have "dom (RoscaParticipants s r) \<subset> dom (RoscaInvitedPreverifiedParticipants s r)"
    using seats d new invited by (auto simp: seats_ok_def)
  then have less: "card (dom (RoscaParticipants s r)) < length order"
    using psubset_card_mono [of "dom (RoscaInvitedPreverifiedParticipants s r)"] seats d shape(3)
    by (simp add: seats_ok_def)
  obtain i where i: "first_free order = Some i"
    by (rule free_position [OF shape(4,6) less])
  have "unat c + unat (1 :: u32) < 2 ^ 32"
    using less shape(5,6) by simp
  then obtain c' where "checked_add c 1 = Some c'"
    by (auto simp: checked_add_def)
  with i o signer d time new invited show ?thesis
    by (auto simp: join_rosca_def claim_position_def Let_def)
qed

lemma leave_rosca_succeeds:
  assumes inv: "pallet_inv T s" and signer: "ensure_signed T origin = Inr a"
    and d: "PendingRoscaDetails s r = Some d" and p: "RoscaParticipants s r a = Some p"
    and refund: "\<And>x. RoscaSecurityDeposits s r a = Some x \<Longrightarrow> 0 < x \<Longrightarrow>
      \<exists>l. transfer T (asset_id (rd_payment_asset d)) (rosca_account_id T r) a (ucast x) (Ledger s) = Inr l"
  shows "\<exists>t. leave_rosca T origin r s = Inr t"
proof -
  obtain order c where o: "ActiveRoscas s r = None" "PendingRoscaParticipantsOrder s r = Some order"
    "RoscaParticipantsCount s r = Some c"
    by (rule open_storage [OF inv d])
  note shape = pending_shape [OF inv d o(2,3)]
  have "unat p < length order"
    using slots_ok_iff [OF shape(4)] p by blast
  moreover have "0 < unat c"
    using shape(5,7) p by (auto simp: card_gt_0_iff)
  then obtain c' where "checked_sub c 1 = Some c'"
    by (auto simp: checked_sub_def word_le_nat_alt)
  ultimately show ?thesis
    using signer d p o refund
    by (cases "RoscaSecurityDeposits s r a")
      (auto simp: leave_rosca_def refund_deposit_def currency_transfer_def Let_def)
qed

lemma word_of_small: "k < 2 ^ 64 \<Longrightarrow> \<exists>u :: u64. unat u = k"
  by (rule exI [of _ "of_nat k"]) (simp add: unat_of_nat)

lemma start_rosca_succeeds:
  assumes inv: "pallet_inv T s" and signer: "ensure_signed T origin = Inr a"
    and d: "PendingRoscaDetails s r = Some d" and p: "RoscaParticipants s r a = Some p"
    and time: "Now s < rd_start_by_timestamp d"
    and threshold: "unat (rd_minimum_participant_threshold d) \<le> card (dom (RoscaParticipants s r))"
    and limits: "unat (MaxParticipants T) \<le> unat (MaxInvitedParticipants T) + 1"
    and fits: "unat (Now s) + (card (dom (RoscaParticipants s r)) + 1) * unat (rd_contribution_frequency d) < 2 ^ 64"
  shows "\<exists>t. start_rosca T origin r s = Inr t"
proof -
  obtain order c where o: "ActiveRoscas s r = None" "PendingRoscaParticipantsOrder s r = Some order"
    "RoscaParticipantsCount s r = Some c" "rd_number_of_participants d \<le> MaxParticipants T"
    by (rule open_storage [OF inv d])
  note shape = pending_shape [OF inv d o(2,3)]
  define xs0 where "xs0 = List.map_filter (\<lambda>p. p) (rev order)"
  define xs where "xs = (if rd_random_order d then shuffle_participants T s xs0 else xs0)"
  have len0: "length xs0 = unat c"
    using length_taken_positions [OF shape(4,6)] shape(5) by (simp add: xs0_def)
  then have len: "length xs = unat c"
    by (simp add: xs_def)
  have max: "unat c \<le> unat (MaxParticipants T)"
    using card_somes_le [of order] o(4) shape(3,5) by (simp add: slots_ok_dom [OF shape(4,6)] word_le_nat_alt)
  have c: "0 < unat c"
    using shape(5,7) p by (auto simp: card_gt_0_iff)
  have "length (filter (\<lambda>y. y \<noteq> x) xs) \<le> unat (MaxInvitedParticipants T)" if "x \<in> set xs" for x
    using length_filter_less [of x xs "\<lambda>y. y \<noteq> x"] that len max limits by simp
  with fits max len shape(5) have
    "generate_rounds T xs (Now s) (rd_contribution_frequency d) = Inr (round_plan xs (Now s) (rd_contribution_frequency d))"
    unfolding generate_rounds_Inr_iff by simp
  note rounds = this
  let ?F = "unat (rd_contribution_frequency d)"
  have b: "unat (Now s) + (?F + unat c * ?F) < 2 ^ 64"
    using fits shape(5) by simp
  obtain n where n: "checked_add (Now s) (rd_contribution_frequency d) = Some n" "unat n = unat (Now s) + ?F"
    using word_of_small [of "unat (Now s) + ?F"] b by (auto simp: checked_add_Some_iff)
  have "(unat c - 1) * ?F \<le> unat c * ?F"
    by (rule mult_le_mono1) simp
  with b n(2) have "unat n + (unat c - 1) * ?F < 2 ^ 64"
    by linarith
  then obtain f where f: "add_periods (rd_contribution_frequency d) n (unat c - 1) = Inr f"
    using word_of_small unfolding add_periods_Inr by blast
  have "xs \<noteq> []" "rd_minimum_participant_threshold d \<le> c" "length xs0 \<le> unat (MaxParticipants T)"
    using len c threshold shape(5) max len0 by (auto simp: word_le_nat_alt)
  then show ?thesis
    using signer o d p time rounds n(1) f
    unfolding start_rosca_def Let_def
    by (cases "rd_random_order d") (simp_all add: xs0_def [symmetric] xs_def)
qed

section \<open>Identifiers that are given out\<close>

lemma contribute_to_rosca_next_id:
  assumes "pallet_inv T s" and "clears_prefix T" and "contribute_to_rosca T origin r s = Some (Inr t)"
  shows "NextRoscaId t = NextRoscaId s"
  using assms(1,2)
proof (cases rule: contribute_to_rosca_cases [of T s origin r])
  case (2 u d xs n f)
  then show ?thesis
    using assms(3) by (simp add: frame_def complete_rosca_def deposit_event_def)
next
  case (3 signer d f c k)
  then have "contribute_payment T signer r d f c = Inr t"
    using assms(3) by simp
  then have "NextRoscaId t = NextRoscaId (cu_state c)"
    by (rule contribute_payment_Inr [OF 3(5,6) assms(2) 3(10,11)])
      (auto simp: paid_def round_after_def complete_rosca_def deposit_event_def)
  with 3(4) show ?thesis by (simp add: frame_def)
qed (use assms(3) in simp)

lemma manually_end_rosca_next_id:
  assumes "pallet_inv T s" and "clears_prefix T" and "manually_end_rosca T origin r s = Some (Inr t)"
  shows "NextRoscaId t = NextRoscaId s"
  using assms(1,2)
  by (cases rule: manually_end_rosca_cases [of T s origin r])
    (use assms(3) in \<open>simp_all add: frame_def complete_rosca_def deposit_event_def\<close>)

lemma dispatch_next_id:
  assumes "pallet_inv T s" and "clears_prefix T" and "dispatch_call T origin c s = Some (Inr t)"
  shows "NextRoscaId t = NextRoscaId s \<or> NextRoscaId t = NextRoscaId s + 1 \<and> phase_of t (NextRoscaId s) = Open"
proof (cases c)
  case (Call_create_rosca x1 x2 x3 x4 x5 x6 x7 x8 x9)
  moreover have "fresh_at s (NextRoscaId s)"
    using assms(1) by (simp add: pallet_inv_def)
  ultimately show ?thesis
    using assms(3) by (auto elim!: create_rosca_effect simp: deposit_event_def phase_of_def fresh_at_def)
next
  case (Call_contribute_to_rosca r)
  with assms show ?thesis by (simp add: contribute_to_rosca_next_id)
next
  case (Call_manually_end_rosca r)
  with assms show ?thesis by (simp add: manually_end_rosca_next_id)
qed (use assms(3) in \<open>auto elim!: join_rosca_effect leave_rosca_effect refund_deposit_effect start_rosca_effect
      claim_security_deposit_effect add_to_security_deposit_effect simp: started_def deposit_event_def\<close>)

definition given_out :: "('a, 'l) pallet \<Rightarrow> bool" where
  "given_out s \<longleftrightarrow> (\<forall>r < NextRoscaId s. phase_of s r \<noteq> Unused)"

lemma dispatch_given_out:
  assumes "pallet_inv T s" and "clears_prefix T" and "NextRoscaId s \<noteq> - 1"
    and "dispatch_call T origin c s = Some (Inr t)" and "given_out s"
  shows "given_out t"
  unfolding given_out_def
proof (intro allI impI)
  fix r assume r: "r < NextRoscaId t"
  have "phase_step (phase_of s r) (phase_of t r)"
    using dispatch.moves [OF assms(1,2,4)] .
  then have stays: "phase_of s r \<noteq> Unused \<Longrightarrow> phase_of t r \<noteq> Unused"
    by (auto elim: phase_step.cases)
  show "phase_of t r \<noteq> Unused"
  proof (cases "r < NextRoscaId s")
    case True
    then show ?thesis using stays assms(5) by (simp add: given_out_def)
  next
    case False
    with r dispatch_next_id [OF assms(1,2,4)] word_next_le_imp_less [OF assms(3), of r] inc_le [of "NextRoscaId s" r]
    show ?thesis by (cases "r = NextRoscaId s") force+
  qed
qed

lemma given_out_environment [simp]:
  "given_out (s\<lparr>Now := now, BlockNumber := block, Events := E\<rparr>) = given_out s"
  "given_out (s\<lparr>Ledger := l\<rparr>) = given_out s"
  by (simp_all add: given_out_def phase_of_def)

end
