(* ===== verification/Indexer.thy ===== *)
theory Indexer
  imports Rosca_Types
begin

text \<open>
  The indexer that serves the frontend (\<open>indexer/src/mappings/mappingHandlers.ts\<close>): one function per
  handler, from the event and the stored entities to the stored entities, dispatched as
  \<open>indexer/project.ts\<close> declares.

  The entities of \<open>schema.graphql\<close> are records. An identifier \<open>rosca_id\<close> or \<open>rosca_id-address\<close> is the
  pair of its parts, which its text determines; \<open>number\<close> and \<open>BigInt\<close> are integers. The timestamp of a
  block may be missing. \<open>Round.getByFields(.., {limit: 1})\<close> of the store is the argument \<open>limit_one\<close> applied
  to the matching rounds. A handler that throws returns \<open>Inl\<close>. Log output is left out. The
  indexer keeps its entities well-formed whatever it is told.
\<close>

section \<open>Entities\<close>

record 'a RoscaEntity =
  re_name :: "u8 list"
  re_creator :: 'a
  re_paymentAsset :: PaymentAssets
  re_randomOrder :: bool
  re_totalParticipants :: int
  re_minParticipants :: int
  re_contributionAmount :: int
  re_contributionFrequency :: int
  re_startTimestamp :: int
  re_completed :: bool
  re_eligibleParticipants :: "'a list"
  re_activeParticipants :: "'a list"
  re_startedBy :: "'a option"
  re_totalSecurityDeposits :: int
  re_currentRecipient :: "'a option"
  re_currentRoundNumber :: int
  re_currentRoundPaymentCutoff :: "int option"

record 'a RoundEntity =
  rn_parentRosca :: rosca_id
  rn_roundNumber :: u32
  rn_paymentCutoff :: int
  rn_expectedContributors :: "'a list"
  rn_recipient :: 'a
  rn_defaulters :: "'a list"
  rn_actualContributors :: "'a list"

record 'a index =
  ix_rosca :: "rosca_id \<Rightarrow> 'a RoscaEntity option"
  ix_rounds :: "'a RoundEntity list"
  ix_account :: "'a \<Rightarrow> unit option"
  ix_eligibility :: "rosca_id \<Rightarrow> 'a \<Rightarrow> int option option"
  ix_deposit :: "rosca_id \<Rightarrow> 'a \<Rightarrow> int option"

datatype index_error = TypeError

definition empty_index :: "'a index" where
  "empty_index = \<lparr>ix_rosca = Map.empty, ix_rounds = [], ix_account = Map.empty,
     ix_eligibility = (\<lambda>_. Map.empty), ix_deposit = (\<lambda>_. Map.empty)\<rparr>"

definition save_rosca :: "rosca_id \<Rightarrow> 'a RoscaEntity \<Rightarrow> 'a index \<Rightarrow> 'a index" where
  "save_rosca r e x = x\<lparr>ix_rosca := (ix_rosca x)(r \<mapsto> e)\<rparr>"

definition save_round :: "'a RoundEntity \<Rightarrow> 'a index \<Rightarrow> 'a index" where
  "save_round e x = x\<lparr>ix_rounds := e # filter (\<lambda>e'. (rn_parentRosca e', rn_roundNumber e')
     \<noteq> (rn_parentRosca e, rn_roundNumber e)) (ix_rounds x)\<rparr>"

definition save_eligibility :: "rosca_id \<Rightarrow> 'a \<Rightarrow> int option \<Rightarrow> 'a index \<Rightarrow> 'a index" where
  "save_eligibility r a joinedAt x =
     x\<lparr>ix_eligibility := (ix_eligibility x)(r := (ix_eligibility x r)(a \<mapsto> joinedAt))\<rparr>"

definition save_deposit :: "rosca_id \<Rightarrow> 'a \<Rightarrow> int option \<Rightarrow> 'a index \<Rightarrow> 'a index" where
  "save_deposit r a amount x = x\<lparr>ix_deposit := (ix_deposit x)(r := (ix_deposit x r)(a := amount))\<rparr>"

definition rounds_to :: "('a RoundEntity list \<Rightarrow> 'a RoundEntity list) \<Rightarrow> rosca_id \<Rightarrow> 'a \<Rightarrow> 'a index \<Rightarrow> 'a RoundEntity list" where
  "rounds_to limit_one r recipient x =
     limit_one (filter (\<lambda>e. rn_parentRosca e = r \<and> rn_recipient e = recipient) (ix_rounds x))"

section \<open>Handlers\<close>

definition create_eligibility ::
  "int option \<Rightarrow> rosca_id \<Rightarrow> 'a \<Rightarrow> 'a \<Rightarrow> 'a index \<Rightarrow> index_error + 'a index" where
  "create_eligibility timestamp rosca_id creator address x =
     (let x1 = (if ix_account x address = None then x\<lparr>ix_account := (ix_account x)(address \<mapsto> ())\<rparr> else x) in
      if address = creator then
        ok_or timestamp TypeError (\<lambda>now. Inr (save_eligibility rosca_id address (Some now) x1))
      else Inr (save_eligibility rosca_id address None x1))"

definition handleRoscaCreated ::
  "int option \<Rightarrow> rosca_id \<Rightarrow> u128 \<Rightarrow> PaymentAssets \<Rightarrow> moment \<Rightarrow> bool \<Rightarrow> u8 list \<Rightarrow> u32 \<Rightarrow> u32 \<Rightarrow> moment
   \<Rightarrow> 'a list \<Rightarrow> 'a \<Rightarrow> 'a index \<Rightarrow> index_error + 'a index" where
  "handleRoscaCreated timestamp rosca_id contribution_amount payment_asset contribution_frequency
     random_order name number_of_participants minimum_participant_threshold start_by_timestamp
     eligible_participants creator x =
   (let x1 = save_rosca rosca_id \<lparr>
        re_name = name,
        re_creator = creator,
        re_paymentAsset = payment_asset,
        re_randomOrder = random_order,
        re_totalParticipants = uint number_of_participants,
        re_minParticipants = uint minimum_participant_threshold,
        re_contributionAmount = uint contribution_amount,
        re_contributionFrequency = uint contribution_frequency,
        re_startTimestamp = uint start_by_timestamp,
        re_completed = False,
        re_eligibleParticipants = eligible_participants,
        re_activeParticipants = [creator],
        re_startedBy = None,
        re_totalSecurityDeposits = 0,
        re_currentRecipient = None,
        re_currentRoundNumber = 0,
        re_currentRoundPaymentCutoff = None\<rparr> x in
    try_for (create_eligibility timestamp rosca_id creator) eligible_participants x1)"

definition create_round :: "rosca_id \<Rightarrow> 'a RoundInfo \<Rightarrow> 'a index \<Rightarrow> 'a index" where
  "create_round rosca_id round = save_round \<lparr>
     rn_parentRosca = rosca_id,
     rn_roundNumber = ri_round_number round,
     rn_paymentCutoff = uint (ri_payment_cutoff round),
     rn_expectedContributors = ri_expected_contributors round,
     rn_recipient = ri_recipient round,
     rn_defaulters = [],
     rn_actualContributors = []\<rparr>"

definition handleRoscaStarted ::
  "rosca_id \<Rightarrow> 'a \<Rightarrow> 'a RoscaRounds \<Rightarrow> 'a \<Rightarrow> moment \<Rightarrow> 'a index \<Rightarrow> 'a index" where
  "handleRoscaStarted rosca_id started_by rounds first_eligible_claimant payment_cutoff x =
     (let x1 = (case ix_rosca x rosca_id of
          None \<Rightarrow> x
        | Some e \<Rightarrow> save_rosca rosca_id (e\<lparr>re_startedBy := Some started_by,
            re_currentRecipient := Some first_eligible_claimant,
            re_currentRoundNumber := 1,
            re_currentRoundPaymentCutoff := Some (uint payment_cutoff)\<rparr>) x)
      in fold (create_round rosca_id) rounds x1)"

definition handleParticipantDefaulted ::
  "('a RoundEntity list \<Rightarrow> 'a RoundEntity list) \<Rightarrow> rosca_id \<Rightarrow> 'a \<Rightarrow> 'a \<Rightarrow> 'a index \<Rightarrow> 'a index" where
  "handleParticipantDefaulted limit_one rosca_id unpaid_recipient defaulter x =
     fold (\<lambda>e x. if defaulter \<in> set (rn_defaulters e) then x
         else save_round (e\<lparr>rn_defaulters := rn_defaulters e @ [defaulter]\<rparr>) x)
       (rounds_to limit_one rosca_id unpaid_recipient x) x"

definition handleContributionMade ::
  "('a RoundEntity list \<Rightarrow> 'a RoundEntity list) \<Rightarrow> rosca_id \<Rightarrow> 'a \<Rightarrow> 'a \<Rightarrow> 'a index \<Rightarrow> 'a index" where
  "handleContributionMade limit_one rosca_id contributor recipient x =
     fold (\<lambda>e x. if contributor \<in> set (rn_actualContributors e) then x
         else save_round (e\<lparr>rn_actualContributors := rn_actualContributors e @ [contributor]\<rparr>) x)
       (rounds_to limit_one rosca_id recipient x) x"

definition handleDepositDeducted ::
  "('a RoundEntity list \<Rightarrow> 'a RoundEntity list) \<Rightarrow> rosca_id \<Rightarrow> 'a \<Rightarrow> 'a \<Rightarrow> 'a index \<Rightarrow> 'a index" where
  "handleDepositDeducted limit_one rosca_id contributor recipient x =
     fold (\<lambda>e x. if contributor \<in> set (rn_actualContributors e) then x
         else save_round (e\<lparr>rn_actualContributors := rn_actualContributors e @ [contributor]\<rparr>) x)
       (rounds_to limit_one rosca_id recipient x) x"

definition handleJoinedRosca :: "int option \<Rightarrow> rosca_id \<Rightarrow> 'a \<Rightarrow> 'a index \<Rightarrow> 'a index" where
  "handleJoinedRosca timestamp rosca_id contributor x =
     (case ix_rosca x rosca_id of None \<Rightarrow> x | Some e \<Rightarrow>
     (case ix_eligibility x rosca_id contributor of None \<Rightarrow> x | Some _ \<Rightarrow>
     (case timestamp of None \<Rightarrow> x | Some now \<Rightarrow>
       save_rosca rosca_id
         (if contributor \<in> set (re_activeParticipants e) then e
          else e\<lparr>re_activeParticipants := contributor # re_activeParticipants e\<rparr>)
         (save_eligibility rosca_id contributor (Some now) x))))"

definition handleLeftRosca :: "rosca_id \<Rightarrow> 'a \<Rightarrow> 'a index \<Rightarrow> 'a index" where
  "handleLeftRosca rosca_id contributor x =
     (case ix_rosca x rosca_id of None \<Rightarrow> x | Some e \<Rightarrow>
     (case ix_eligibility x rosca_id contributor of None \<Rightarrow> x | Some _ \<Rightarrow>
       save_rosca rosca_id
         (e\<lparr>re_activeParticipants := filter (\<lambda>addr. addr \<noteq> contributor) (re_activeParticipants e)\<rparr>)
         (save_eligibility rosca_id contributor None x)))"

definition handleRoscaComplete :: "rosca_id \<Rightarrow> 'a index \<Rightarrow> 'a index" where
  "handleRoscaComplete rosca_id x = (case ix_rosca x rosca_id of
      None \<Rightarrow> x
    | Some e \<Rightarrow> save_rosca rosca_id (e\<lparr>re_completed := True\<rparr>) x)"

definition add_to_total :: "rosca_id \<Rightarrow> int \<Rightarrow> 'a index \<Rightarrow> 'a index" where
  "add_to_total rosca_id amount x = (case ix_rosca x rosca_id of
      None \<Rightarrow> x
    | Some e \<Rightarrow> save_rosca rosca_id
        (e\<lparr>re_totalSecurityDeposits := re_totalSecurityDeposits e + amount\<rparr>) x)"

definition handleSecurityDepositContribution :: "rosca_id \<Rightarrow> 'a \<Rightarrow> int \<Rightarrow> 'a index \<Rightarrow> 'a index" where
  "handleSecurityDepositContribution rosca_id depositor amount x =
     (case ix_account x depositor of None \<Rightarrow> x | Some _ \<Rightarrow>
     (case ix_deposit x rosca_id depositor of
        None \<Rightarrow> add_to_total rosca_id amount (save_deposit rosca_id depositor (Some amount) x)
      | Some d \<Rightarrow> add_to_total rosca_id amount (save_deposit rosca_id depositor (Some (d + amount)) x)))"

definition handleSecurityDepositClaimed :: "rosca_id \<Rightarrow> 'a \<Rightarrow> int \<Rightarrow> 'a index \<Rightarrow> 'a index" where
  "handleSecurityDepositClaimed rosca_id depositor amount x =
     (case ix_deposit x rosca_id depositor of
        None \<Rightarrow> x
      | Some d \<Rightarrow> if d \<noteq> amount then x
          else save_deposit rosca_id depositor None (add_to_total rosca_id (- amount) x))"

definition handleNewRoundStarted ::
  "rosca_id \<Rightarrow> 'a \<Rightarrow> moment \<Rightarrow> 'a index \<Rightarrow> index_error + 'a index" where
  "handleNewRoundStarted rosca_id new_eligible_recipient payment_cutoff x =
     (case ix_rosca x rosca_id of
        None \<Rightarrow> Inr x
      | Some e \<Rightarrow>
          ok_or (re_currentRoundPaymentCutoff e) TypeError (\<lambda>cutoff.
          Inr (save_rosca rosca_id (e\<lparr>re_currentRecipient := Some new_eligible_recipient,
            re_currentRoundNumber := re_currentRoundNumber e + 1,
            re_currentRoundPaymentCutoff := Some (cutoff + uint payment_cutoff)\<rparr>) x)))"

text \<open>The handler of each event; \<open>RoscaManuallyEnded\<close> has none.\<close>

fun handle_event ::
  "('a RoundEntity list \<Rightarrow> 'a RoundEntity list) \<Rightarrow> int option \<Rightarrow> 'a rosca_event \<Rightarrow> 'a index
   \<Rightarrow> index_error + 'a index" where
  "handle_event limit_one timestamp (RoscaStarted r by rounds claimant cutoff) x =
     Inr (handleRoscaStarted r by rounds claimant cutoff x)"
| "handle_event limit_one timestamp (ParticipantDefaulted r recipient defaulter) x =
     Inr (handleParticipantDefaulted limit_one r recipient defaulter x)"
| "handle_event limit_one timestamp (ContributionMade r contributor recipient amount) x =
     Inr (handleContributionMade limit_one r contributor recipient x)"
| "handle_event limit_one timestamp (DepositDeducted r contributor recipient amount sufficient) x =
     Inr (handleDepositDeducted limit_one r contributor recipient x)"
| "handle_event limit_one timestamp (JoinedRosca r contributor) x =
     Inr (handleJoinedRosca timestamp r contributor x)"
| "handle_event limit_one timestamp (LeftRosca r contributor) x = Inr (handleLeftRosca r contributor x)"
| "handle_event limit_one timestamp (RoscaComplete r) x = Inr (handleRoscaComplete r x)"
| "handle_event limit_one timestamp (SecurityDepositContribution r depositor amount) x =
     Inr (handleSecurityDepositContribution r depositor (uint amount) x)"
| "handle_event limit_one timestamp (SecurityDepositClaimed r depositor amount) x =
     Inr (handleSecurityDepositClaimed r depositor (uint amount) x)"
| "handle_event limit_one timestamp (RoscaManuallyEnded r) x = Inr x"
| "handle_event limit_one timestamp (NewRoundStarted r recipient cutoff) x =
     handleNewRoundStarted r recipient cutoff x"
| "handle_event limit_one timestamp (RoscaCreated r amount asset frequency random_order name n threshold
     start_by eligible creator) x =
     handleRoscaCreated timestamp r amount asset frequency random_order name n threshold start_by
       eligible creator x"

definition index_events ::
  "('a RoundEntity list \<Rightarrow> 'a RoundEntity list) \<Rightarrow> int option \<Rightarrow> 'a rosca_event list \<Rightarrow> 'a index
   \<Rightarrow> index_error + 'a index" where
  "index_events limit_one timestamp = try_for (handle_event limit_one timestamp)"

section \<open>Well-formed indexes\<close>

definition round_key :: "'a RoundEntity \<Rightarrow> rosca_id \<times> u32" where
  "round_key e = (rn_parentRosca e, rn_roundNumber e)"

definition rounds_ok :: "'a RoundEntity list \<Rightarrow> bool" where
  "rounds_ok es \<longleftrightarrow> distinct (map round_key es) \<and>
     (\<forall>e\<in>set es. distinct (rn_defaulters e) \<and> distinct (rn_actualContributors e))"

definition entity_ok :: "'a RoscaEntity \<Rightarrow> bool" where
  "entity_ok e \<longleftrightarrow> distinct (re_activeParticipants e) \<and>
     (re_currentRecipient e = None \<longleftrightarrow> re_currentRoundPaymentCutoff e = None)"

text \<open>
  The constraints of the schema: identifiers are unique, and an eligibility or a deposit refers to an
  account that is stored; moreover no list repeats an address.
\<close>

definition index_ok :: "'a index \<Rightarrow> bool" where
  "index_ok x \<longleftrightarrow> rounds_ok (ix_rounds x) \<and>
     (\<forall>r e. ix_rosca x r = Some e \<longrightarrow> entity_ok e) \<and>
     (\<forall>r. dom (ix_eligibility x r) \<subseteq> dom (ix_account x)) \<and>
     (\<forall>r. dom (ix_deposit x r) \<subseteq> dom (ix_account x))"

text \<open>The store returns stored entities.\<close>

definition returns_stored :: "('a RoundEntity list \<Rightarrow> 'a RoundEntity list) \<Rightarrow> bool" where
  "returns_stored limit_one \<longleftrightarrow> (\<forall>es. set (limit_one es) \<subseteq> set es)"

lemma rounds_ok_save:
  assumes "rounds_ok (ix_rounds x)" and "distinct (rn_defaulters e)" and "distinct (rn_actualContributors e)"
  shows "rounds_ok (ix_rounds (save_round e x))"
  using assms by (auto simp: rounds_ok_def save_round_def round_key_def distinct_map_filter inj_on_def
      intro: distinct_map_filter)

lemma index_ok_save_rosca: "index_ok x \<Longrightarrow> entity_ok e \<Longrightarrow> index_ok (save_rosca r e x)"
  by (simp add: index_ok_def save_rosca_def)

lemma index_ok_save_round:
  "index_ok x \<Longrightarrow> distinct (rn_defaulters e) \<Longrightarrow> distinct (rn_actualContributors e) \<Longrightarrow> index_ok (save_round e x)"
  by (simp add: index_ok_def rounds_ok_save) (simp add: save_round_def)

lemma index_ok_save_eligibility:
  "index_ok x \<Longrightarrow> ix_account x a \<noteq> None \<Longrightarrow> index_ok (save_eligibility r a joined x)"
  by (auto simp: index_ok_def save_eligibility_def subset_iff domIff)

lemma index_ok_save_deposit:
  "index_ok x \<Longrightarrow> ix_account x a \<noteq> None \<or> d = None \<Longrightarrow> index_ok (save_deposit r a d x)"
  by (auto simp: index_ok_def save_deposit_def subset_iff domIff)

lemma index_ok_add_to_total: "index_ok x \<Longrightarrow> index_ok (add_to_total r d x)"
  by (auto simp: add_to_total_def index_ok_def entity_ok_def save_rosca_def split: option.split)

lemmas index_ok_saves = index_ok_save_rosca index_ok_save_round index_ok_save_eligibility
  index_ok_save_deposit index_ok_add_to_total

lemma index_ok_entity: "index_ok x \<Longrightarrow> ix_rosca x r = Some e \<Longrightarrow> entity_ok e"
  by (simp add: index_ok_def)

lemma index_ok_account: "index_ok x \<Longrightarrow> ix_eligibility x r a = Some j \<Longrightarrow> ix_account x a \<noteq> None"
  unfolding index_ok_def by (metis domI domIff subsetD)

lemma fold_keeps: "P x \<Longrightarrow> (\<And>e x. e \<in> set es \<Longrightarrow> P x \<Longrightarrow> P (g e x)) \<Longrightarrow> P (fold g es x)"
  by (induction es arbitrary: x) auto

lemma rounds_to_ok:
  assumes "returns_stored limit_one" and "index_ok x" and "e \<in> set (rounds_to limit_one r a x)"
  shows "distinct (rn_defaulters e)" and "distinct (rn_actualContributors e)"
proof -
  have "e \<in> set (ix_rounds x)"
    using assms(1,3) unfolding returns_stored_def rounds_to_def
    by (metis (no_types, lifting) filter_is_subset subsetD)
  with assms(2) show "distinct (rn_defaulters e)" "distinct (rn_actualContributors e)"
    by (simp_all add: index_ok_def rounds_ok_def)
qed

lemma index_ok_account_update: "index_ok x \<Longrightarrow> index_ok (x\<lparr>ix_account := (ix_account x)(a \<mapsto> ())\<rparr>)"
  unfolding index_ok_def by (simp add: subset_insertI2)

lemma create_eligibility_ok:
  assumes "create_eligibility ts r creator a x = Inr y" and "index_ok x"
  shows "index_ok y"
proof -
  define z where "z = (if ix_account x a = None then x\<lparr>ix_account := (ix_account x)(a \<mapsto> ())\<rparr> else x)"
  then have "index_ok z" "ix_account z a \<noteq> None"
    using assms(2) by (auto simp: index_ok_account_update)
  moreover obtain j where "y = save_eligibility r a j z"
    using assms(1) unfolding create_eligibility_def Let_def z_def [symmetric] by (auto split: if_splits)
  ultimately show ?thesis by (simp add: index_ok_save_eligibility)
qed

lemma handleRoscaCreated_ok:
  assumes "handleRoscaCreated ts r amount asset frequency random_order name n threshold start_by
      eligible creator x = Inr y" and "index_ok x"
  shows "index_ok y"
  using assms(1) unfolding handleRoscaCreated_def Let_def
  by (rule try_for_invariant) (auto intro: create_eligibility_ok index_ok_save_rosca simp: assms(2) entity_ok_def)

lemma round_handlers_ok:
  assumes "returns_stored limit_one" and "index_ok x"
  shows "index_ok (handleParticipantDefaulted limit_one r a b x)"
    and "index_ok (handleContributionMade limit_one r a b x)"
    and "index_ok (handleDepositDeducted limit_one r a b x)"
  unfolding handleParticipantDefaulted_def handleContributionMade_def handleDepositDeducted_def
  by (rule fold_keeps; use rounds_to_ok [OF assms] assms(2) in \<open>auto intro!: index_ok_save_round\<close>)+

lemma handleRoscaStarted_ok: "index_ok x \<Longrightarrow> index_ok (handleRoscaStarted r starter rounds a cutoff x)"
  unfolding handleRoscaStarted_def Let_def
  by (rule fold_keeps) (auto simp: create_round_def entity_ok_def split: option.split
      intro!: index_ok_save_round index_ok_save_rosca dest: index_ok_entity)

lemma rosca_handlers_ok:
  assumes "index_ok x"
  shows "index_ok (handleJoinedRosca ts r a x)" and "index_ok (handleLeftRosca r a x)"
    and "index_ok (handleRoscaComplete r x)"
    and "handleNewRoundStarted r a cutoff x = Inr y \<Longrightarrow> index_ok y"
  unfolding handleJoinedRosca_def handleLeftRosca_def handleRoscaComplete_def handleNewRoundStarted_def
  using assms index_ok_entity [OF assms] index_ok_account [OF assms]
  by (auto simp: entity_ok_def split: option.splits intro!: index_ok_save_rosca index_ok_save_eligibility)

lemma deposit_handlers_ok:
  assumes "index_ok x"
  shows "index_ok (handleSecurityDepositContribution r a d x)" and "index_ok (handleSecurityDepositClaimed r a d x)"
  using assms
  by (auto simp: handleSecurityDepositContribution_def handleSecurityDepositClaimed_def split: option.split
      intro!: index_ok_saves)

lemma handle_event_ok:
  assumes "handle_event limit_one ts e x = Inr y" and "returns_stored limit_one" and "index_ok x"
  shows "index_ok y"
  using assms handleRoscaCreated_ok
  by (cases e) (auto intro: round_handlers_ok handleRoscaStarted_ok rosca_handlers_ok deposit_handlers_ok)



end
