(* ===== verification/Indexer_Mirror.thy ===== *)
theory Indexer_Mirror
  imports Rosca_Events Rosca_Offers Rosca_Example Indexer
begin

text \<open>
  The index mirrors the pallet: the handlers follow the events of every call (locale \<open>follower\<close>), so
  that participants, completion and recipient of a ROSCA are those of the storage. What the index
  gets wrong is shown as well: the cutoff of the current round, and deposits after a deduction.
\<close>

section \<open>The index follows the events\<close>

text \<open>
  A reader of a log: \<open>observe\<close> says what an event means for an abstract state, \<open>handle\<close> updates the
  reader's own state, and \<open>agrees\<close> relates the two.
\<close>

locale follower =
  fixes observe :: "'e \<Rightarrow> 'v \<Rightarrow> 'v option"
    and handle :: "'e \<Rightarrow> 'x \<Rightarrow> 'err + 'x"
    and agrees :: "'x \<Rightarrow> 'v \<Rightarrow> bool"
  assumes follows: "observe e v = Some v' \<Longrightarrow> agrees x v \<Longrightarrow> \<exists>x'. handle e x = Inr x' \<and> agrees x' v'"
begin

lemma follows_all:
  "observe_all observe es v = Some v' \<Longrightarrow> agrees x v \<Longrightarrow> \<exists>x'. try_for handle es x = Inr x' \<and> agrees x' v'"
proof (induction es arbitrary: v x)
  case (Cons e es)
  then obtain u where u: "observe e v = Some u" "observe_all observe es u = Some v'"
    by (auto split: bind_splits)
  obtain y where "handle e x = Inr y" "agrees y u"
    using follows [OF u(1) Cons.prems(2)] by blast
  with Cons.IH [OF u(2)] show ?case by simp
qed simp

end

text \<open>The index shows the views of the ROSCAs it was told about.\<close>

definition joined :: "'a index \<Rightarrow> rosca_id \<Rightarrow> 'a set" where
  "joined x r = {a. \<exists>j. ix_eligibility x r a = Some (Some j)}"

definition shows_rosca :: "'a index \<Rightarrow> rosca_id \<Rightarrow> 'a view \<Rightarrow> bool" where
  "shows_rosca x r w \<longleftrightarrow> (\<exists>e. ix_rosca x r = Some e \<and> set (re_activeParticipants e) = v_parts w \<and>
      set (re_eligibleParticipants e) = v_invited w \<and>
      (re_startedBy e = None \<longleftrightarrow> v_threshold w \<noteq> None) \<and>
      (\<forall>m. v_threshold w = Some m \<longrightarrow> re_minParticipants e = uint m) \<and> re_completed e = v_completed w \<and> re_currentRecipient e = v_recipient w \<and>
      (v_recipient w \<noteq> None \<longrightarrow> re_currentRoundPaymentCutoff e \<noteq> None)) \<and>
     v_invited w \<subseteq> dom (ix_eligibility x r) \<and> v_parts w = joined x r \<and> v_parts w \<subseteq> v_invited w"

lemma joined_save_eligibility:
  "joined (save_eligibility r a j x) r = (if j = None then joined x r - {a} else insert a (joined x r))"
  by (auto simp: joined_def save_eligibility_def split: if_splits)

lemma joined_account_update [simp]: "joined (x\<lparr>ix_account := A\<rparr>) r = joined x r"
  by (simp add: joined_def)

lemma shows_rosca_cong:
  "ix_rosca y r = ix_rosca x r \<Longrightarrow> ix_eligibility y r = ix_eligibility x r \<Longrightarrow> shows_rosca y r w = shows_rosca x r w"
  by (simp add: shows_rosca_def joined_def)

definition mirrors :: "'a index \<Rightarrow> 'a views \<Rightarrow> bool" where
  "mirrors x v \<longleftrightarrow> (\<forall>r w. v r = Some w \<longrightarrow> shows_rosca x r w) \<and>
     (\<forall>r. v r = None \<longrightarrow> ix_eligibility x r = Map.empty)"

lemma mirrors_cong:
  "ix_rosca y = ix_rosca x \<Longrightarrow> ix_eligibility y = ix_eligibility x \<Longrightarrow> mirrors y v = mirrors x v"
  by (simp add: mirrors_def shows_rosca_def joined_def)

lemma save_round_frame [simp]:
  "ix_rosca (save_round e x) = ix_rosca x" "ix_eligibility (save_round e x) = ix_eligibility x"
  by (simp_all add: save_round_def)

lemma fold_frame:
  assumes "\<And>e x. f (g e x) = f x"
  shows "f (fold g es x) = f x"
  using assms by (induction es arbitrary: x) simp_all

lemma create_eligibility_follows:
  "\<exists>y. try_for (create_eligibility (Some now) r creator) addrs x = Inr y \<and> ix_rosca y = ix_rosca x \<and>
     (\<forall>q. q \<noteq> r \<longrightarrow> ix_eligibility y q = ix_eligibility x q) \<and>
     dom (ix_eligibility y r) = set addrs \<union> dom (ix_eligibility x r) \<and>
     joined y r = (joined x r - set addrs) \<union> ({creator} \<inter> set addrs)"
proof (induction addrs arbitrary: x)
  case (Cons a addrs)
  obtain z where z: "create_eligibility (Some now) r creator a x = Inr z" "ix_rosca z = ix_rosca x"
    "\<forall>q. q \<noteq> r \<longrightarrow> ix_eligibility z q = ix_eligibility x q"
    "dom (ix_eligibility z r) = insert a (dom (ix_eligibility x r))"
    "joined z r = (joined x r - {a}) \<union> ({creator} \<inter> {a})"
    by (cases "ix_account x a"; cases "a = creator")
      (auto simp: create_eligibility_def Let_def joined_save_eligibility, auto simp: save_eligibility_def)
  with Cons.IH [of z] show ?case by auto
qed simp


text \<open>The handlers change at most the entity and the eligibilities of the event's own ROSCA.\<close>

definition only_rosca :: "rosca_id \<Rightarrow> 'a index \<Rightarrow> 'a index \<Rightarrow> bool" where
  "only_rosca r x y \<longleftrightarrow>
     (\<forall>q. q \<noteq> r \<longrightarrow> ix_rosca y q = ix_rosca x q \<and> ix_eligibility y q = ix_eligibility x q)"

lemma mirrors_set:
  "mirrors x v \<Longrightarrow> only_rosca r x y \<Longrightarrow> shows_rosca y r w \<Longrightarrow> mirrors y (v(r \<mapsto> w))"
  using shows_rosca_cong [of y _ x] by (simp add: mirrors_def only_rosca_def)

lemma mirrors_only_rosca:
  assumes "mirrors x v" and "v r = Some w" and "only_rosca r x y"
    and "shows_rosca x r w \<Longrightarrow> shows_rosca y r w'"
  shows "mirrors y (v(r \<mapsto> w'))"
  by (rule mirrors_set) (use assms in \<open>simp_all add: mirrors_def\<close>)

lemmas handler_simps = only_rosca_def save_rosca_def save_eligibility_def save_deposit_def add_to_total_def

lemma handlers_only_rosca:
  "only_rosca r x (handleJoinedRosca ts r a x)"
  "only_rosca r x (handleLeftRosca r a x)"
  "only_rosca r x (handleRoscaStarted r by rounds claimant cutoff x)"
  "only_rosca r x (handleRoscaComplete r x)"
  "handleNewRoundStarted r a cutoff x = Inr y \<Longrightarrow> only_rosca r x y"
  by (auto simp: handler_simps handleJoinedRosca_def handleLeftRosca_def handleRoscaStarted_def
      handleRoscaComplete_def handleNewRoundStarted_def create_round_def Let_def fold_frame [of ix_rosca]
      fold_frame [of ix_eligibility] split: option.splits)

lemma handleRoscaCreated_mirrors:
  assumes "mirrors x v" and "v r = None" and "creator \<in> set eligible"
  shows "\<exists>y. handleRoscaCreated (Some now) r amount asset frequency random_order name n threshold start_by
       eligible creator x = Inr y \<and> mirrors y (v(r \<mapsto>
       \<lparr>v_parts = {creator}, v_invited = set eligible, v_threshold = Some threshold, v_completed = False, v_recipient = None\<rparr>))"
proof -
  obtain y where y: "handleRoscaCreated (Some now) r amount asset frequency random_order name n threshold start_by
       eligible creator x = Inr y" and only: "only_rosca r x y" and e: "set eligible \<subseteq> dom (ix_eligibility y r)"
       "\<exists>e. ix_rosca y r = Some e \<and> re_activeParticipants e = [creator] \<and> \<not> re_completed e \<and>
         re_currentRecipient e = None \<and> re_eligibleParticipants e = eligible \<and> re_startedBy e = None \<and>
         re_minParticipants e = uint threshold"
       "joined y r = (joined x r - set eligible) \<union> {creator}"
    unfolding handleRoscaCreated_def Let_def only_rosca_def
    using assms(3) create_eligibility_follows [of now r creator eligible]
    by (fastforce simp: save_rosca_def joined_def)
  have "joined x r = {}"
    using assms(1,2) by (simp add: mirrors_def joined_def)
  with e assms(3) have "shows_rosca y r
      \<lparr>v_parts = {creator}, v_invited = set eligible, v_threshold = Some threshold, v_completed = False, v_recipient = None\<rparr>"
    by (auto simp: shows_rosca_def)
  with y mirrors_set [OF assms(1) only] show ?thesis by blast
qed

lemma handleJoinedRosca_shows:
  "shows_rosca x r w \<Longrightarrow> a \<in> v_invited w \<Longrightarrow>
   shows_rosca (handleJoinedRosca (Some now) r a x) r (w\<lparr>v_parts := insert a (v_parts w)\<rparr>)"
  by (auto simp: shows_rosca_def joined_def handleJoinedRosca_def handler_simps split: option.split)

lemma handleLeftRosca_shows:
  "shows_rosca x r w \<Longrightarrow> a \<in> v_parts w \<Longrightarrow>
   shows_rosca (handleLeftRosca r a x) r (w\<lparr>v_parts := v_parts w - {a}\<rparr>)"
  by (auto simp: shows_rosca_def joined_def handleLeftRosca_def handler_simps split: option.split)

lemma handleRoscaStarted_shows:
  "shows_rosca x r w \<Longrightarrow> shows_rosca (handleRoscaStarted r by rounds a cutoff x) r
     (w\<lparr>v_threshold := None, v_recipient := Some a\<rparr>)"
  by (auto simp: shows_rosca_def joined_def handleRoscaStarted_def handler_simps create_round_def Let_def
      fold_frame [of ix_rosca] fold_frame [of ix_eligibility])

lemma handleRoscaComplete_shows:
  "shows_rosca x r w \<Longrightarrow> shows_rosca (handleRoscaComplete r x) r (w\<lparr>v_completed := True\<rparr>)"
  by (auto simp: shows_rosca_def joined_def handleRoscaComplete_def handler_simps)

lemma handleNewRoundStarted_shows:
  "shows_rosca x r w \<Longrightarrow> v_recipient w \<noteq> None \<Longrightarrow>
   \<exists>y. handleNewRoundStarted r a cutoff x = Inr y \<and> shows_rosca y r (w\<lparr>v_recipient := Some a\<rparr>)"
  by (auto simp: shows_rosca_def joined_def handleNewRoundStarted_def handler_simps)

lemma mirrors_quiet [simp]:
  "mirrors (handleParticipantDefaulted limit_one r a b x) v = mirrors x v"
  "mirrors (handleContributionMade limit_one r a b x) v = mirrors x v"
  "mirrors (handleDepositDeducted limit_one r a b x) v = mirrors x v"
  by (rule mirrors_cong; simp add: handleParticipantDefaulted_def handleContributionMade_def
      handleDepositDeducted_def fold_frame [of ix_rosca] fold_frame [of ix_eligibility])+

lemma add_to_total_shows: "shows_rosca (add_to_total r a x) q w = shows_rosca x q w"
  by (cases "ix_rosca x r"; cases "q = r") (simp_all add: shows_rosca_def joined_def add_to_total_def save_rosca_def)

lemma add_to_total_mirrors [simp]: "mirrors (add_to_total r a x) v = mirrors x v"
  by (simp add: mirrors_def add_to_total_shows) (simp add: add_to_total_def save_rosca_def split: option.split)

lemma save_deposit_mirrors [simp]: "mirrors (save_deposit r a d x) v = mirrors x v"
  by (rule mirrors_cong) (simp_all add: save_deposit_def)

lemma deposit_handlers_mirror [simp]:
  "mirrors (handleSecurityDepositContribution r a d x) v = mirrors x v"
  "mirrors (handleSecurityDepositClaimed r a d x) v = mirrors x v"
  by (simp_all add: handleSecurityDepositContribution_def handleSecurityDepositClaimed_def split: option.split)

interpretation indexer: follower observe "handle_event limit_one (Some now)" mirrors
  for limit_one :: "'a RoundEntity list \<Rightarrow> 'a RoundEntity list" and now :: int
proof
  fix e :: "'a rosca_event" and v v' :: "'a views" and x :: "'a index"
  assume o: "observe e v = Some v'" and m: "mirrors x v"
  note step = mirrors_only_rosca [OF m]
  show "\<exists>x'. handle_event limit_one (Some now) e x = Inr x' \<and> mirrors x' v'"
  proof (cases e)
    case (NewRoundStarted r a cutoff)
    with o obtain w where w: "v r = Some w" "v_recipient w \<noteq> None" "v' = v(r \<mapsto> w\<lparr>v_recipient := Some a\<rparr>)"
      by (simp split: option.splits if_splits)
    from w(1) m have "shows_rosca x r w" by (simp add: mirrors_def)
    from handleNewRoundStarted_shows [OF this w(2)] obtain y where y: "handleNewRoundStarted r a cutoff x = Inr y"
      "shows_rosca y r (w\<lparr>v_recipient := Some a\<rparr>)"
      by blast
    then show ?thesis
      using step [OF w(1) handlers_only_rosca(5) [OF y(1)]] by (simp add: NewRoundStarted w(3))
  next
    case (RoscaCreated r amount asset frequency random_order name n threshold start_by eligible creator)
    then show ?thesis
      using o handleRoscaCreated_mirrors [OF m] by (auto split: if_splits)
  next
    case (JoinedRosca r a)
    with o obtain w where w: "v r = Some w" "a \<in> v_invited w" "v' = v(r \<mapsto> w\<lparr>v_parts := insert a (v_parts w)\<rparr>)"
      by (simp split: option.splits if_splits)
    show ?thesis
      using step [OF w(1) handlers_only_rosca(1) handleJoinedRosca_shows [OF _ w(2)]] by (simp add: JoinedRosca w(3))
  next
    case (LeftRosca r a)
    with o obtain w where w: "v r = Some w" "a \<in> v_parts w" "v' = v(r \<mapsto> w\<lparr>v_parts := v_parts w - {a}\<rparr>)"
      by (simp split: option.splits if_splits)
    show ?thesis
      using step [OF w(1) handlers_only_rosca(2) handleLeftRosca_shows [OF _ w(2)]] by (simp add: LeftRosca w(3))
  next
    case (RoscaStarted r "by" rounds a cutoff)
    with o obtain w where w: "v r = Some w" "v' = v(r \<mapsto> w\<lparr>v_threshold := None, v_recipient := Some a\<rparr>)"
      by (simp split: option.splits)
    show ?thesis
      using step [OF w(1) handlers_only_rosca(3) handleRoscaStarted_shows] by (simp add: RoscaStarted w(2))
  next
    case (RoscaComplete r)
    with o obtain w where w: "v r = Some w" "v' = v(r \<mapsto> w\<lparr>v_completed := True\<rparr>)"
      by (simp split: option.splits)
    show ?thesis
      using step [OF w(1) handlers_only_rosca(4) handleRoscaComplete_shows] by (simp add: RoscaComplete w(2))
  qed (use o m in auto)
qed

section \<open>The chain with its indexer\<close>

definition new_events :: "('a, 'l) pallet \<Rightarrow> ('a, 'l) pallet \<Rightarrow> 'a rosca_event list" where
  "new_events s t = drop (length (Events s)) (Events t)"

text \<open>Runs of the chain in which the new events of each call are indexed at the time of their block.\<close>

inductive indexed ::
  "('o, 'a::linorder, 'l) config \<Rightarrow> ('a RoundEntity list \<Rightarrow> 'a RoundEntity list)
   \<Rightarrow> ('a, 'l) pallet \<Rightarrow> 'a index \<Rightarrow> bool" for T limit_one where
  genesis: "indexed T limit_one (genesis now block l) empty_index"
| applied: "indexed T limit_one s x \<Longrightarrow> dispatch_call T origin c s = Some (Inr t) \<Longrightarrow> NextRoscaId s \<noteq> - 1 \<Longrightarrow>
    0 < now \<Longrightarrow> index_events limit_one (Some now) (new_events s t) x = Inr y \<Longrightarrow> indexed T limit_one t y"
| new_block: "indexed T limit_one s x \<Longrightarrow> Now s \<le> now \<Longrightarrow>
    indexed T limit_one (s\<lparr>Now := now, BlockNumber := block, Events := []\<rparr>) x"
| other_pallets: "indexed T limit_one s x \<Longrightarrow> indexed T limit_one (s\<lparr>Ledger := l\<rparr>) x"

lemma index_follows_call:
  assumes "pallet_inv T s" and "NextRoscaId s \<noteq> - 1" and "dispatch_call T origin c s = Some (Inr t)"
    and "mirrors x (views_of s)"
  shows "\<exists>y. index_events limit_one (Some now) (new_events s t) x = Inr y \<and> mirrors y (views_of t)"
proof -
  obtain es where "Events t = Events s @ es" "observe_all observe es (views_of s) = Some (views_of t)"
    using dispatch_logs [OF assms(1-3)] by (auto simp: logs_def)
  then show ?thesis
    using indexer.follows_all assms(4) by (simp add: new_events_def index_events_def)
qed

text \<open>Times of joining are positive, which is how the frontend tells participants.\<close>

definition times_ok :: "'a index \<Rightarrow> bool" where
  "times_ok x \<longleftrightarrow> (\<forall>r a j. ix_eligibility x r a = Some (Some j) \<longrightarrow> 0 < j)"

lemma times_ok_save: "times_ok x \<Longrightarrow> (\<And>j. joined_at = Some j \<Longrightarrow> 0 < j) \<Longrightarrow> times_ok (save_eligibility r a joined_at x)"
  by (simp add: times_ok_def save_eligibility_def)

lemma times_ok_cong: "ix_eligibility y = ix_eligibility x \<Longrightarrow> times_ok y = times_ok x"
  by (simp add: times_ok_def)

lemma eligibility_frame [simp]:
  "ix_eligibility (save_rosca r e x) = ix_eligibility x"
  "ix_eligibility (save_deposit r a d x) = ix_eligibility x"
  "ix_eligibility (add_to_total r m x) = ix_eligibility x"
  by (simp_all add: handler_simps split: option.split)

lemma times_ok_save_rosca [simp]: "times_ok (save_rosca r e x) = times_ok x"
  by (rule times_ok_cong) simp

lemma handle_event_times:
  assumes "handle_event limit_one (Some now) e x = Inr y" and "0 < now" and "times_ok x"
  shows "times_ok y"
proof (cases e)
  case (RoscaCreated r amount asset frequency random_order name n threshold start_by eligible creator)
  with assms(1,3) obtain z where "try_for (create_eligibility (Some now) r creator) eligible z = Inr y"
    and "times_ok z"
    by (auto simp: handleRoscaCreated_def Let_def)
  then show ?thesis
    by (elim try_for_invariant) (use assms(2) in \<open>auto simp: create_eligibility_def Let_def
        intro!: times_ok_save split: if_splits elim: times_ok_cong [THEN iffD2, rotated]\<close>)
next
  case (JoinedRosca r a)
  with assms show ?thesis
    by (auto simp: handleJoinedRosca_def intro!: times_ok_save split: option.splits)
next
  case (LeftRosca r a)
  with assms show ?thesis
    by (auto simp: handleLeftRosca_def intro!: times_ok_save split: option.splits)
qed (use assms in \<open>auto simp: handleRoscaStarted_def handleRoscaComplete_def handleNewRoundStarted_def
      handleParticipantDefaulted_def handleContributionMade_def handleDepositDeducted_def
      handleSecurityDepositContribution_def handleSecurityDepositClaimed_def create_round_def Let_def
      fold_frame [of ix_eligibility] split: option.splits elim!: times_ok_cong [THEN iffD2, rotated]\<close>)

lemma indexed_inv:
  assumes "indexed T limit_one s x" and "clears_prefix T"
  shows "pallet_inv T s \<and> (\<forall>r. seats_ok s r) \<and> given_out s \<and> mirrors x (views_of s) \<and> times_ok x"
  using assms(1)
proof (induction rule: indexed.induct)
  case (genesis now block l)
  have "seats_ok (genesis now block l) r" "mirrors empty_index (views_of (genesis now block l))" for r
    by (simp_all add: mirrors_def views_of_def genesis_def empty_index_def seats_ok_def)
  moreover have "times_ok empty_index" "given_out (genesis now block l)"
    by (simp_all add: times_ok_def empty_index_def given_out_def genesis_def)
  ultimately show ?case
    by (auto simp: pallet_inv_genesis)
next
  case (applied s x origin c t now y)
  then have "times_ok y"
    unfolding index_events_def by (elim conjE, elim try_for_invariant) (auto intro: handle_event_times)
  moreover have "seats_ok t r" "given_out t" for r
    using applied dispatch_seats [OF _ assms(2)] dispatch_given_out [OF _ assms(2)] by blast+
  ultimately show ?case
    using applied index_follows_call [of T s origin c t x limit_one now]
      chain_step_inv [OF chain_step.applied assms(2), of origin c s t] by auto
qed (simp_all add: pallet_inv_environment)

text \<open>C23. Whatever calls are made, the indexer handles the events of each without an error, and
  afterwards the index shows, for every ROSCA of the storage, its participants, whether it has
  completed and whose turn it is.\<close>

theorem index_mirrors_pallet:
  assumes "indexed T limit_one s x" and "clears_prefix T"
  shows "mirrors x (views_of s) \<and>
    (dispatch_call T origin c s = Some (Inr t) \<longrightarrow> NextRoscaId s \<noteq> - 1 \<longrightarrow> 0 < now \<longrightarrow>
      (\<exists>y. index_events limit_one (Some now) (new_events s t) x = Inr y \<and> indexed T limit_one t y))"
proof (intro conjI impI)
  show "mirrors x (views_of s)"
    using indexed_inv [OF assms] by simp
  assume call: "dispatch_call T origin c s = Some (Inr t)" "NextRoscaId s \<noteq> - 1" "0 < now"
  with index_follows_call [OF _ call(2,1), of x limit_one now] indexed_inv [OF assms]
  obtain y where "index_events limit_one (Some now) (new_events s t) x = Inr y" by blast
  with indexed.applied [OF assms(1) call] show
    "\<exists>y. index_events limit_one (Some now) (new_events s t) x = Inr y \<and> indexed T limit_one t y"
    by blast
qed

theorem index_mirrors_pallet_witness:
  "\<exists>t y. create_rosca demo 11 False [12, 13] 2 10 USDT 100 50 None [65] demo_genesis = Inr t \<and>
     index_events (take 1) (Some 5) (new_events demo_genesis t) empty_index = Inr y \<and>
     indexed demo (take 1) t y"
proof -
  obtain t where t: "create_rosca demo 11 False [12, 13] 2 10 USDT 100 50 None [65] demo_genesis = Inr t"
    by (simp add: create_rosca_def usize_checked_add_def demo_defs Let_def)
  have start: "indexed demo (take 1) demo_genesis empty_index"
    unfolding demo_genesis_def by (rule indexed.genesis)
  have "dispatch_call demo 11 (Call_create_rosca False [12, 13] 2 10 USDT 100 50 None [65]) demo_genesis =
      Some (Inr t)"
    by (simp only: dispatch_call.simps t)
  moreover have "NextRoscaId demo_genesis \<noteq> - 1"
    by (simp add: demo_genesis_def genesis_def)
  ultimately show ?thesis
    using index_mirrors_pallet [OF start demo_clears_prefix,
      of 11 "Call_create_rosca False [12, 13] 2 10 USDT 100 50 None [65]" t 5] t
    by force
qed

section \<open>Deposits and cutoffs\<close>

definition demo_entity :: "nat RoscaEntity" where
  "demo_entity = \<lparr>re_name = [65], re_creator = 11, re_paymentAsset = USDT, re_randomOrder = False,
     re_totalParticipants = 3, re_minParticipants = 2, re_contributionAmount = 10,
     re_contributionFrequency = 100, re_startTimestamp = 50, re_completed = False,
     re_eligibleParticipants = [11, 12, 13], re_activeParticipants = [13, 12, 11],
     re_startedBy = Some 13, re_totalSecurityDeposits = 15, re_currentRecipient = Some 11,
     re_currentRoundNumber = 1, re_currentRoundPaymentCutoff = Some 105\<rparr>"

lemma contributions_add_up:
  "ix_account x a \<noteq> None \<Longrightarrow> ix_deposit x r a = Some d \<Longrightarrow>
   index_events limit_one ts (map (SecurityDepositContribution r a) ms) x =
     Inr (add_to_total r (\<Sum>m\<leftarrow>ms. uint m) (save_deposit r a (Some (d + (\<Sum>m\<leftarrow>ms. uint m))) x))"
proof (induction ms arbitrary: x d)
  case Nil
  then show ?case
    by (cases "ix_rosca x r")
      (simp_all add: index_events_def add_to_total_def save_deposit_def save_rosca_def fun_upd_idem)
next
  case (Cons m ms)
  let ?y = "add_to_total r (uint m) (save_deposit r a (Some (d + uint m)) x)"
  have "ix_account ?y a \<noteq> None" "ix_deposit ?y r a = Some (d + uint m)"
    using Cons.prems by (simp_all add: handler_simps split: option.split)
  from Cons.IH [OF this] Cons.prems show ?case
    by (cases "ix_rosca x r")
      (auto simp: index_events_def handleSecurityDepositContribution_def handler_simps add.assoc)
qed

text \<open>Deposits that were contributed in any number of steps and are then claimed in full leave no
  trace in the index.\<close>

theorem contributed_deposits_claimed:
  assumes "ix_account x a \<noteq> None" and "ix_deposit x r a = None" and "ms \<noteq> []"
    and "uint m = (\<Sum>m\<leftarrow>ms. uint m)"
  shows "index_events limit_one ts (map (SecurityDepositContribution r a) ms @ [SecurityDepositClaimed r a m]) x = Inr x"
proof -
  obtain k ks where ms: "ms = k # ks" using assms(3) by (cases ms) auto
  let ?y = "add_to_total r (uint k) (save_deposit r a (Some (uint k)) x)"
  have "ix_account ?y a \<noteq> None" "ix_deposit ?y r a = Some (uint k)"
    using assms(1) by (simp_all add: handler_simps split: option.split)
  note rest = contributions_add_up [OF this, of limit_one ts ks]
  have "index_events limit_one ts (map (SecurityDepositContribution r a) ms) x =
      Inr (add_to_total r (uint m) (save_deposit r a (Some (uint m)) x))"
    using rest assms(1,2,4) unfolding ms
    by (cases "ix_rosca x r")
      (auto simp: index_events_def handleSecurityDepositContribution_def handler_simps add.assoc)
  moreover have "handleSecurityDepositClaimed r a (uint m) (add_to_total r (uint m) (save_deposit r a (Some (uint m)) x)) = x"
    using assms(2)
    by (cases "ix_rosca x r")
      (simp_all add: handleSecurityDepositClaimed_def handler_simps fun_upd_idem)
  ultimately show ?thesis
    by (simp add: index_events_def try_for_append)
qed

theorem contributed_deposits_claimed_witness:
  "index_events (take 1) (Some 5) [SecurityDepositContribution 0 11 10, SecurityDepositContribution 0 11 5,
     SecurityDepositClaimed 0 (11 :: nat) 15] (empty_index\<lparr>ix_account := [11 \<mapsto> ()]\<rparr>) =
   Inr (empty_index\<lparr>ix_account := [11 \<mapsto> ()]\<rparr>)"
  using contributed_deposits_claimed [of "empty_index\<lparr>ix_account := [11 \<mapsto> ()]\<rparr>" 11 0 "[10, 5]" 15 "take 1" "Some 5"]
  by (simp add: empty_index_def)





end
