(* ===== verification/Frontend.thy ===== *)
theory Frontend
  imports Indexer Rosca_Pallet
begin

text \<open>
  What the frontend decides (\<open>frontend/app\<close>): how it reads the index (\<open>lib/data-fetchers.ts\<close>), which tab
  shows a ROSCA, how its page splits the rounds, which actions it offers, what the two forms accept, and
  which call each action submits (\<open>lib/hooks/useSubmitExtrinsic.ts\<close>).

  The answer of the GraphQL service is an entity of the index with its rounds and eligibilities, all of
  whose fields the schema requires, so the defaults for missing fields play no role. A \<open>number\<close> is an
  integer, \<open>NaN\<close> is \<open>None\<close>; addresses are strings in the form and accounts elsewhere. Rendering, and the
  text of names, dates and amounts, are left out.
\<close>

section \<open>Reading the index\<close>

datatype RoscaStatus = StatusPending | StatusActive | StatusCompleted

record 'a Round =
  fr_parentRoscaId :: rosca_id
  fr_roundNumber :: u32
  fr_paymentCutoff :: int
  fr_recipient :: 'a
  fr_expectedContributors :: "'a list"
  fr_contributors :: "'a list"
  fr_defaulters :: "'a list"

record 'a FrontRosca = "'a RoscaEntity" +
  ro_rounds :: "'a Round list"
  ro_status :: RoscaStatus
  ro_eligibilities :: "('a \<times> int) list"

definition mapRound :: "'a RoundEntity \<Rightarrow> 'a Round" where
  "mapRound raw = \<lparr>
     fr_parentRoscaId = rn_parentRosca raw,
     fr_roundNumber = rn_roundNumber raw,
     fr_paymentCutoff = rn_paymentCutoff raw,
     fr_recipient = rn_recipient raw,
     fr_expectedContributors = rn_expectedContributors raw,
     fr_contributors = rn_actualContributors raw,
     fr_defaulters = rn_defaulters raw\<rparr>"

definition deriveStatus :: "'a RoscaEntity \<Rightarrow> RoscaStatus" where
  "deriveStatus raw =
     (if re_completed raw then StatusCompleted
      else if re_startedBy raw \<noteq> None then StatusActive
      else StatusPending)"

definition mapRosca :: "'a RoscaEntity \<Rightarrow> 'a RoundEntity list \<Rightarrow> ('a \<times> int option) list \<Rightarrow> 'a FrontRosca" where
  "mapRosca raw rounds eligibilities = RoscaEntity.extend raw
     (FrontRosca.fields (map mapRound rounds) (deriveStatus raw)
        (map (\<lambda>(account, joinedAt). (account, unwrap_or 0 joinedAt)) eligibilities))"

section \<open>The tabs of the dashboard\<close>

definition pendingRoscas :: "'a FrontRosca list \<Rightarrow> 'a FrontRosca list" where
  "pendingRoscas eligibleFor = filter (\<lambda>r. ro_status r = StatusPending) eligibleFor"

definition activeRoscas :: "'a \<Rightarrow> 'a FrontRosca list \<Rightarrow> 'a FrontRosca list" where
  "activeRoscas accountId eligibleFor =
     filter (\<lambda>r. ro_status r = StatusActive \<and> accountId \<in> set (re_activeParticipants r)) eligibleFor"

definition missedRoscas :: "'a \<Rightarrow> 'a FrontRosca list \<Rightarrow> 'a FrontRosca list" where
  "missedRoscas accountId eligibleFor =
     filter (\<lambda>r. ro_status r = StatusActive \<and> accountId \<notin> set (re_activeParticipants r)) eligibleFor"

definition completedRoscas :: "'a FrontRosca list \<Rightarrow> 'a FrontRosca list" where
  "completedRoscas eligibleFor = filter (\<lambda>r. ro_status r = StatusCompleted) eligibleFor"

section \<open>The page of a ROSCA\<close>

definition isCompleted :: "'a Round \<Rightarrow> bool" where
  "isCompleted round \<longleftrightarrow> 0 < length (fr_expectedContributors round) \<and>
     length (fr_contributors round) = length (fr_expectedContributors round)"

text \<open>The loop over the sorted rounds, with the lists past, current and future so far.\<close>

fun split_rounds ::
  "'a Round list \<Rightarrow> 'a Round list \<times> 'a Round option \<times> 'a Round list
   \<Rightarrow> 'a Round list \<times> 'a Round option \<times> 'a Round list" where
  "split_rounds [] (past, current, future) = (past, current, future)"
| "split_rounds (round # rounds) (past, current, future) =
     split_rounds rounds
       (if isCompleted round then (past @ [round], current, future)
        else if current = None then (past, Some round, future)
        else (past, current, future @ [round]))"

definition sortedRounds :: "'a FrontRosca \<Rightarrow> 'a Round list" where
  "sortedRounds rosca = sort_key fr_roundNumber (ro_rounds rosca)"

definition round_data :: "'a FrontRosca \<Rightarrow> 'a Round list \<times> 'a Round option \<times> 'a Round list" where
  "round_data rosca = split_rounds (sortedRounds rosca) ([], None, [])"

text \<open>\<open>orderMap\<close> keeps the first round of each recipient, in the order of insertion.\<close>

fun order_map :: "'a Round list \<Rightarrow> ('a \<times> u32) list \<Rightarrow> ('a \<times> u32) list" where
  "order_map [] m = m"
| "order_map (r # rs) m =
     order_map rs (if fr_recipient r \<in> fst ` set m then m else m @ [(fr_recipient r, fr_roundNumber r)])"

definition participantOrder :: "'a FrontRosca \<Rightarrow> 'a list" where
  "participantOrder rosca = map fst (sort_key snd (order_map (sortedRounds rosca) []))"

section \<open>Actions offered\<close>

definition joinedAccounts :: "'a FrontRosca \<Rightarrow> 'a set" where
  "joinedAccounts rosca = set (map fst (filter (\<lambda>(_, joinedAt). 0 < joinedAt) (ro_eligibilities rosca)))"

definition hasMetThreshold :: "'a FrontRosca \<Rightarrow> bool" where
  "hasMetThreshold rosca \<longleftrightarrow> re_minParticipants rosca \<le> int (card (joinedAccounts rosca))"

definition hasJoined :: "'a \<Rightarrow> 'a FrontRosca \<Rightarrow> bool" where
  "hasJoined user rosca \<longleftrightarrow> user \<in> joinedAccounts rosca"

definition isParticipant :: "'a \<Rightarrow> 'a FrontRosca \<Rightarrow> bool" where
  "isParticipant user rosca \<longleftrightarrow> user \<in> set (re_eligibleParticipants rosca)"

definition offers_join :: "'a \<Rightarrow> 'a FrontRosca \<Rightarrow> bool" where
  "offers_join user rosca \<longleftrightarrow> ro_status rosca = StatusPending \<and> \<not> hasJoined user rosca \<and> isParticipant user rosca"

definition offers_start :: "'a \<Rightarrow> 'a FrontRosca \<Rightarrow> bool" where
  "offers_start user rosca \<longleftrightarrow> ro_status rosca = StatusPending \<and> hasJoined user rosca \<and> hasMetThreshold rosca"

definition offers_deposit :: "'a \<Rightarrow> 'a FrontRosca \<Rightarrow> bool" where
  "offers_deposit user rosca \<longleftrightarrow> ro_status rosca \<noteq> StatusCompleted \<and> hasJoined user rosca"

definition offers_leave :: "'a \<Rightarrow> 'a FrontRosca \<Rightarrow> bool" where
  "offers_leave user rosca \<longleftrightarrow> ro_status rosca = StatusPending \<and> hasJoined user rosca \<and> isParticipant user rosca"

text \<open>The button of the current round; \<open>now\<close> is \<open>Date.now()\<close>, in milliseconds.\<close>

definition isContributionDue :: "int \<Rightarrow> 'a \<Rightarrow> 'a Round \<Rightarrow> bool" where
  "isContributionDue now user currentRound \<longleftrightarrow>
     fr_recipient currentRound \<noteq> user \<and> user \<notin> set (fr_contributors currentRound) \<and>
     user \<in> set (fr_expectedContributors currentRound) \<and> now div 1000 < fr_paymentCutoff currentRound"

definition offers_contribute :: "int \<Rightarrow> 'a \<Rightarrow> 'a FrontRosca \<Rightarrow> bool" where
  "offers_contribute now user rosca \<longleftrightarrow> ro_status rosca = StatusActive \<and>
     (case fst (snd (round_data rosca)) of None \<Rightarrow> False | Some currentRound \<Rightarrow> isContributionDue now user currentRound)"

section \<open>Forms\<close>

definition js_space :: "char \<Rightarrow> bool" where
  "js_space c \<longleftrightarrow> of_char c \<in> {9 :: nat, 10, 11, 12, 13, 32, 160}"

definition trim :: "string \<Rightarrow> string" where
  "trim s = rev (dropWhile js_space (rev (dropWhile js_space s)))"

definition digit :: "nat \<Rightarrow> char \<Rightarrow> nat option" where
  "digit base c =
     (let n = of_char c :: nat;
          v = (if 48 \<le> n \<and> n \<le> 57 then n - 48
               else if 97 \<le> n \<and> n \<le> 102 then n - 87
               else if 65 \<le> n \<and> n \<le> 70 then n - 55 else base)
      in if v < base then Some v else None)"

fun parse_digits :: "nat \<Rightarrow> int option \<Rightarrow> string \<Rightarrow> int option" where
  "parse_digits base acc [] = acc"
| "parse_digits base acc (c # cs) =
     (case digit base c of
        None \<Rightarrow> acc
      | Some d \<Rightarrow> parse_digits base (Some (unwrap_or 0 acc * int base + int d)) cs)"

definition parse_unsigned :: "string \<Rightarrow> int option" where
  "parse_unsigned s =
     (if take 2 s \<in> {''0x'', ''0X''} then parse_digits 16 None (drop 2 s) else parse_digits 10 None s)"

text \<open>\<open>parseInt\<close> of JavaScript without a radix.\<close>

definition parseInt :: "string \<Rightarrow> int option" where
  "parseInt s = (case dropWhile js_space s of
      CHR ''-'' # cs \<Rightarrow> map_option uminus (parse_unsigned cs)
    | CHR ''+'' # cs \<Rightarrow> parse_unsigned cs
    | cs \<Rightarrow> parse_unsigned cs)"

record 'd FormData =
  fd_name :: string
  fd_contributionAmount :: string
  fd_contributionFrequency :: string
  fd_startByTimestamp :: "'d option"
  fd_minParticipants :: string
  fd_randomOrder :: bool
  fd_invitedParticipants :: "string list"
  fd_paymentAsset :: string

definition frequencyOptions :: "(string \<times> string) list" where
  "frequencyOptions = [(''604800000'', ''Weekly''), (''1209600000'', ''Bi-Weekly''), (''2592000000'', ''Monthly'')]"

datatype FormError = CannotInviteSelf | AlreadyInvited | InvalidAddress
  | MissingFields | MinimumParticipants | AmountNotPositive | DateNotInFuture

definition handleAddInvite :: "string \<Rightarrow> string \<Rightarrow> 'd FormData \<Rightarrow> FormError + 'd FormData" where
  "handleAddInvite currentUserAddress newInvite formData =
     (let inviteTrimmed = trim newInvite in
      if inviteTrimmed \<noteq> [] \<and> inviteTrimmed \<noteq> currentUserAddress \<and>
         inviteTrimmed \<notin> set (fd_invitedParticipants formData)
      then Inr (formData\<lparr>fd_invitedParticipants := fd_invitedParticipants formData @ [inviteTrimmed]\<rparr>)
      else if inviteTrimmed = currentUserAddress then Inl CannotInviteSelf
      else if inviteTrimmed \<in> set (fd_invitedParticipants formData) then Inl AlreadyInvited
      else Inl InvalidAddress)"

definition handleRemoveInvite :: "string \<Rightarrow> 'd FormData \<Rightarrow> 'd FormData" where
  "handleRemoveInvite inviteToRemove formData = formData\<lparr>fd_invitedParticipants :=
     filter (\<lambda>invite. invite \<noteq> inviteToRemove) (fd_invitedParticipants formData)\<rparr>"

record payload =
  pl_name :: string
  pl_randomOrder :: bool
  pl_minimumParticipantThreshold :: int
  pl_contributionAmount :: int
  pl_paymentAsset :: string
  pl_contributionFrequency :: int
  pl_startByTimestamp :: int
  pl_invitedPreVerifiedParticipants :: "string list"

text \<open>
  Dates are those of \<^verbatim>\<open>@internationalized/date\<close>: \<open>compare_today\<close> compares with the current day and \<open>getTime\<close>
  is the time stamp of a date in the local time zone.
\<close>

definition handleSubmit :: "('d \<Rightarrow> int) \<Rightarrow> ('d \<Rightarrow> int) \<Rightarrow> 'd FormData \<Rightarrow> FormError + payload" where
  "handleSubmit compare_today getTime formData =
     (let calculatedTotalParticipants = length (fd_invitedParticipants formData) + 1 in
      ensure (fd_name formData \<noteq> [] \<and> fd_contributionAmount formData \<noteq> [] \<and> fd_startByTimestamp formData \<noteq> None \<and>
        fd_minParticipants formData \<noteq> []) MissingFields (
      ok_or (parseInt (fd_minParticipants formData)) MinimumParticipants (\<lambda>minP.
      ensure (1 < minP \<and> minP \<le> int calculatedTotalParticipants) MinimumParticipants (
      ok_or (parseInt (fd_contributionAmount formData)) AmountNotPositive (\<lambda>contribAmountNum.
      ensure (0 < contribAmountNum) AmountNotPositive (
      ok_or (fd_startByTimestamp formData) DateNotInFuture (\<lambda>date.
      ensure (0 < compare_today date) DateNotInFuture (
      Inr \<lparr>pl_name = fd_name formData,
        pl_randomOrder = fd_randomOrder formData,
        pl_minimumParticipantThreshold = minP,
        pl_contributionAmount = contribAmountNum,
        pl_paymentAsset = fd_paymentAsset formData,
        pl_contributionFrequency = unwrap_or 0 (parse_digits 10 None (fd_contributionFrequency formData)),
        pl_startByTimestamp = getTime date,
        pl_invitedPreVerifiedParticipants = fd_invitedParticipants formData\<rparr>))))))))"

text \<open>The amount the deposit dialog confirms; \<open>None\<close> when it shows an error.\<close>

definition handleConfirm :: "string \<Rightarrow> int option" where
  "handleConfirm depositAmount = (case parseInt depositAmount of
      None \<Rightarrow> None
    | Some n \<Rightarrow> if 0 < n * 1000000 then Some (n * 1000000) else None)"

section \<open>Submitting calls\<close>

text \<open>
  The API encodes the arguments of a call, an integer of \<open>w\<close> bits failing out of its range; it is an
  argument, with the accounts of the addresses and the bytes of a name.
\<close>

record 'a api =
  enc_u32 :: "int \<Rightarrow> u32 option"
  enc_u64 :: "int \<Rightarrow> u64 option"
  enc_asset :: "string \<Rightarrow> PaymentAssets option"
  enc_account :: "string \<Rightarrow> 'a"
  enc_name :: "string \<Rightarrow> u8 list"

definition api_laws :: "'a api \<Rightarrow> bool" where
  "api_laws P \<longleftrightarrow>
     (\<forall>i. 0 \<le> i \<longrightarrow> i < 2 ^ 32 \<longrightarrow> enc_u32 P i = Some (word_of_int i)) \<and>
     (\<forall>i. 0 \<le> i \<longrightarrow> i < 2 ^ 64 \<longrightarrow> enc_u64 P i = Some (word_of_int i)) \<and>
     enc_asset P ''USDT'' = Some USDT \<and> enc_asset P ''USDC'' = Some USDC"

definition SubmitJoinRosca :: "rosca_id \<Rightarrow> 'a rosca_call" where
  "SubmitJoinRosca roscaId = Call_join_rosca roscaId None"

definition SubmitLeaveRosca :: "rosca_id \<Rightarrow> 'a rosca_call" where
  "SubmitLeaveRosca roscaId = Call_leave_rosca roscaId"

definition SubmitStartRosca :: "rosca_id \<Rightarrow> 'a rosca_call" where
  "SubmitStartRosca roscaId = Call_start_rosca roscaId"

definition SubmitContributeToRosca :: "rosca_id \<Rightarrow> 'a rosca_call" where
  "SubmitContributeToRosca roscaId = Call_contribute_to_rosca roscaId"

definition SubmitAddToSecurityDeposit :: "'a api \<Rightarrow> rosca_id \<Rightarrow> int \<Rightarrow> 'a rosca_call option" where
  "SubmitAddToSecurityDeposit P roscaId amount = map_option (Call_add_to_security_deposit roscaId) (enc_u32 P amount)"

definition SubmitCreateRosca :: "'a api \<Rightarrow> payload \<Rightarrow> 'a rosca_call option" where
  "SubmitCreateRosca P payload =
     Option.bind (enc_u32 P (pl_minimumParticipantThreshold payload)) (\<lambda>threshold.
     Option.bind (enc_u32 P (pl_contributionAmount payload)) (\<lambda>amount.
     Option.bind (enc_asset P (pl_paymentAsset payload)) (\<lambda>asset.
     Option.bind (enc_u64 P (pl_contributionFrequency payload)) (\<lambda>frequency.
     Option.bind (enc_u64 P (pl_startByTimestamp payload)) (\<lambda>start_by.
     Some (Call_create_rosca (pl_randomOrder payload)
       (map (enc_account P) (pl_invitedPreVerifiedParticipants payload)) threshold amount asset frequency start_by
       None (enc_name P (pl_name payload))))))))"

text \<open>The event each hook waits for.\<close>

fun expected_event :: "'a rosca_call \<Rightarrow> 'a rosca_event \<Rightarrow> bool" where
  "expected_event (Call_create_rosca _ _ _ _ _ _ _ _ _) (RoscaCreated _ _ _ _ _ _ _ _ _ _ _) = True"
| "expected_event (Call_join_rosca _ _) (JoinedRosca _ _) = True"
| "expected_event (Call_leave_rosca _) (LeftRosca _ _) = True"
| "expected_event (Call_start_rosca _) (RoscaStarted _ _ _ _ _) = True"
| "expected_event (Call_contribute_to_rosca _) (ContributionMade _ _ _ _) = True"
| "expected_event (Call_add_to_security_deposit _ _) (SecurityDepositContribution _ _ _) = True"
| "expected_event _ _ = False"

datatype TxError = Dispatch dispatch_error | NoEvent

text \<open>What the user is told of a finalized transaction, from its dispatch and its events.\<close>

definition executeTx ::
  "'a rosca_call \<Rightarrow> dispatch_error + 'a rosca_event list \<Rightarrow> TxError + unit" where
  "executeTx call result = (case result of
      Inl e \<Rightarrow> Inl (Dispatch e)
    | Inr events \<Rightarrow> if list_ex (expected_event call) events then Inr () else Inl NoEvent)"

end
