(* ===== verification/Frontend_Actions.thy ===== *)
theory Frontend_Actions
  imports Indexer_Mirror Frontend
begin

text \<open>
  The frontend against the index and the pallet: the status it shows is the phase of the storage, and the
  membership actions it offers succeed. The example at the end of the first section is a ROSCA that has just
  been created, with the index the handlers build from its event.
\<close>

section \<open>Status and membership\<close>

text \<open>The answer of the GraphQL service for a ROSCA: its entity with the entities that refer to it.\<close>

definition answers :: "'a index \<Rightarrow> rosca_id \<Rightarrow> 'a RoscaEntity \<Rightarrow> 'a RoundEntity list \<Rightarrow> ('a \<times> int option) list \<Rightarrow> bool" where
  "answers x r raw rounds eligibilities \<longleftrightarrow> ix_rosca x r = Some raw \<and>
     set rounds = {e \<in> set (ix_rounds x). rn_parentRosca e = r} \<and>
     set eligibilities = {(a, j). ix_eligibility x r a = Some j}"

lemma mapRosca_simps [simp]:
  "ro_status (mapRosca raw rounds eligibilities) = deriveStatus raw"
  "ro_rounds (mapRosca raw rounds eligibilities) = map mapRound rounds"
  "re_eligibleParticipants (mapRosca raw rounds eligibilities) = re_eligibleParticipants raw"
  "re_activeParticipants (mapRosca raw rounds eligibilities) = re_activeParticipants raw"
  "re_minParticipants (mapRosca raw rounds eligibilities) = re_minParticipants raw"
  by (simp_all add: mapRosca_def RoscaEntity.defs FrontRosca.defs)

lemma joinedAccounts_answer:
  assumes "answers x r raw rounds eligibilities" and "times_ok x"
  shows "joinedAccounts (mapRosca raw rounds eligibilities) = joined x r"
proof -
  have "ro_eligibilities (mapRosca raw rounds eligibilities) =
      map (\<lambda>(account, joinedAt). (account, unwrap_or 0 joinedAt)) eligibilities"
    by (simp add: mapRosca_def RoscaEntity.defs FrontRosca.defs)
  then have "joinedAccounts (mapRosca raw rounds eligibilities) =
      {a. \<exists>j. (a, j) \<in> set eligibilities \<and> 0 < unwrap_or 0 j}"
    by (force simp: joinedAccounts_def image_iff)
  also have "\<dots> = joined x r"
    using assms unfolding answers_def joined_def times_ok_def
    by (auto simp: unwrap_or_def split: option.splits) 
  finally show ?thesis .
qed

text \<open>What the frontend knows of a ROSCA, in terms of the storage.\<close>

lemma shown_rosca:
  assumes ix: "indexed T limit_one s x" "clears_prefix T" and r: "r < NextRoscaId s"
    and ans: "answers x r raw rounds eligibilities"
  shows "re_completed raw = (CompletedRoscas s r \<noteq> None)"
    and "(re_startedBy raw \<noteq> None) = (PendingRoscaDetails s r = None)"
    and "\<And>d. PendingRoscaDetails s r = Some d \<Longrightarrow> re_minParticipants raw = uint (rd_minimum_participant_threshold d)"
    and "set (re_eligibleParticipants raw) = dom (RoscaInvitedPreverifiedParticipants s r)"
    and "joinedAccounts (mapRosca raw rounds eligibilities) = dom (RoscaParticipants s r)"
    and "phase_of s r \<noteq> Unused"
proof -
  have inv: "mirrors x (views_of s)" "times_ok x" "given_out s"
    using indexed_inv [OF ix] by simp_all
  obtain w where w: "views_of s r = Some w" "v_parts w = dom (RoscaParticipants s r)"
    "v_invited w = dom (RoscaInvitedPreverifiedParticipants s r)" 
    "v_threshold w = map_option rd_minimum_participant_threshold (PendingRoscaDetails s r)"
    "v_completed w = (CompletedRoscas s r \<noteq> None)"
    using r by (simp add: views_of_def)
  with inv(1) have "shows_rosca x r w" by (simp add: mirrors_def)
  with ans w show "re_completed raw = (CompletedRoscas s r \<noteq> None)"
    "(re_startedBy raw \<noteq> None) = (PendingRoscaDetails s r = None)"
    "\<And>d. PendingRoscaDetails s r = Some d \<Longrightarrow> re_minParticipants raw = uint (rd_minimum_participant_threshold d)"
    "set (re_eligibleParticipants raw) = dom (RoscaInvitedPreverifiedParticipants s r)"
    "joinedAccounts (mapRosca raw rounds eligibilities) = dom (RoscaParticipants s r)"
    by (auto simp: shows_rosca_def joinedAccounts_answer [OF ans inv(2)] answers_def)
  show "phase_of s r \<noteq> Unused"
    using inv(3) r by (simp add: given_out_def)
qed

section \<open>An example\<close>

definition demo_created :: "(nat, demo_ledger) pallet" where
  "demo_created = demo_joinable\<lparr>Events := [RoscaCreated 0 10 USDT 100 False [65] 3 2 50 [11, 12, 13] 11]\<rparr>"

definition demo_index :: "nat index" where
  "demo_index = projr (index_events (take 1) (Some 5) (Events demo_created) empty_index)"

definition demo_raw :: "nat RoscaEntity" where
  "demo_raw = the (ix_rosca demo_index 0)"

definition demo_eligibilities :: "(nat \<times> int option) list" where
  "demo_eligibilities = [(11, Some 5), (12, None), (13, None)]"

lemma demo_create:
  "create_rosca demo 11 False [12, 13] 2 10 USDT 100 50 None [65] demo_genesis = Inr demo_created"
  by (simp add: create_rosca_def usize_checked_add_def demo_defs demo_created_def demo_joinable_def Let_def
      deposit_event_def try_push_def) (simp add: take_bit_eq_mod numeral_3_eq_3)

lemmas demo_index_defs = demo_index_def demo_raw_def demo_created_def empty_index_def index_events_def
  handleRoscaCreated_def create_eligibility_def save_rosca_def save_eligibility_def

lemma demo_indexing:
  "index_events (take 1) (Some 5) (new_events demo_genesis demo_created) empty_index = Inr demo_index"
  by (simp add: demo_index_defs new_events_def demo_defs Let_def)

lemma demo_indexed: "indexed demo (take 1) demo_created demo_index"
proof (rule indexed.applied [OF _ _ _ _ demo_indexing])
  show "indexed demo (take 1) demo_genesis empty_index"
    unfolding demo_genesis_def by (rule indexed.genesis)
  show "dispatch_call demo 11 (Call_create_rosca False [12, 13] 2 10 USDT 100 50 None [65]) demo_genesis =
      Some (Inr demo_created)"
    by (simp only: dispatch_call.simps demo_create)
qed (simp_all add: demo_defs)

lemma demo_answers: "answers demo_index 0 demo_raw [] demo_eligibilities"
  by (auto simp: answers_def demo_index_defs demo_eligibilities_def Let_def split: if_splits)

lemma demo_created_next: "0 < NextRoscaId demo_created"
  by (simp add: demo_created_def demo_joinable_def)

fun phase_shown :: "RoscaStatus \<Rightarrow> phase" where
  "phase_shown StatusPending = Open"
| "phase_shown StatusActive = Running"
| "phase_shown StatusCompleted = Ended"

text \<open>C24. The status the frontend shows for a ROSCA is its phase in the storage of the pallet: pending while
  it is open, active while it runs, completed when it has ended.\<close>

theorem status_shown_is_phase:
  assumes "indexed T limit_one s x" and "clears_prefix T" and "r < NextRoscaId s"
    and "answers x r raw rounds eligibilities"
  shows "phase_shown (ro_status (mapRosca raw rounds eligibilities)) = phase_of s r"
proof -
  have "pallet_inv T s"
    using indexed_inv [OF assms(1,2)] by simp
  then have "PendingRoscaDetails s r \<noteq> None \<Longrightarrow> ActiveRoscas s r = None \<and> CompletedRoscas s r = None"
    by (auto simp: pallet_inv_def rosca_inv_def pending_ok_def)
  with shown_rosca [OF assms] show ?thesis
    by (auto simp: deriveStatus_def phase_of_def split: if_splits)
qed

theorem status_shown_is_phase_witness:
  "phase_shown (ro_status (mapRosca demo_raw [] demo_eligibilities)) = phase_of demo_created 0"
  by (rule status_shown_is_phase [OF demo_indexed demo_clears_prefix demo_created_next demo_answers])

lemma offered_while_open:
  assumes ix: "indexed T limit_one s x" "clears_prefix T" and r: "r < NextRoscaId s"
    and ans: "answers x r raw rounds eligibilities"
    and "ro_status (mapRosca raw rounds eligibilities) = StatusPending"
  obtains d where "PendingRoscaDetails s r = Some d" "pallet_inv T s" "seats_ok s r"
  using shown_rosca [OF ix r ans] assms(5) indexed_inv [OF ix]
  by (auto simp: deriveStatus_def split: if_splits)

text \<open>C25. The membership calls the frontend offers succeed. Joining and starting need that the date to start
  by has not passed; starting moreover that the cutoffs stay in the range of timestamps; leaving that the
  refund of a deposit is transferred.\<close>

theorem offered_calls_succeed:
  assumes ix: "indexed T limit_one s x" "clears_prefix T" and r: "r < NextRoscaId s"
    and ans: "answers x r raw rounds eligibilities" and signer: "ensure_signed T origin = Inr user"
    and limits: "unat (MaxParticipants T) \<le> unat (MaxInvitedParticipants T) + 1"
  shows "let rosca = mapRosca raw rounds eligibilities; d = the (PendingRoscaDetails s r) in
    (offers_join user rosca \<longrightarrow> Now s < rd_start_by_timestamp d \<longrightarrow>
       (\<exists>t. dispatch_call T origin (SubmitJoinRosca r) s = Some (Inr t))) \<and>
    (offers_start user rosca \<longrightarrow> Now s < rd_start_by_timestamp d \<longrightarrow>
       unat (Now s) + (card (joinedAccounts rosca) + 1) * unat (rd_contribution_frequency d) < 2 ^ 64 \<longrightarrow>
       (\<exists>t. dispatch_call T origin (SubmitStartRosca r) s = Some (Inr t))) \<and>
    (offers_leave user rosca \<longrightarrow>
       (\<forall>deposit. RoscaSecurityDeposits s r user = Some deposit \<longrightarrow> 0 < deposit \<longrightarrow>
          (\<exists>l. transfer T (asset_id (rd_payment_asset d)) (rosca_account_id T r) user (ucast deposit) (Ledger s) = Inr l)) \<longrightarrow>
       (\<exists>t. dispatch_call T origin (SubmitLeaveRosca r) s = Some (Inr t)))"
proof -
  let ?rosca = "mapRosca raw rounds eligibilities" and ?d = "the (PendingRoscaDetails s r)"
  note shown = shown_rosca [OF ix r ans]
  note open_ = offered_while_open [OF ix r ans]
  have "\<exists>t. join_rosca T origin r None s = Inr t"
    if "offers_join user ?rosca" "Now s < rd_start_by_timestamp ?d"
  proof -
    note offer = that
    obtain d where d: "PendingRoscaDetails s r = Some d" "pallet_inv T s" "seats_ok s r"
      by (rule open_) (use offer(1) in \<open>simp add: offers_join_def\<close>)
    with that shown show ?thesis
      by (intro join_rosca_succeeds [OF d(2,3) signer d(1)])
        (auto simp: offers_join_def hasJoined_def isParticipant_def)
  qed
  moreover have "\<exists>t. start_rosca T origin r s = Inr t"
    if "offers_start user ?rosca" "Now s < rd_start_by_timestamp ?d"
      "unat (Now s) + (card (joinedAccounts ?rosca) + 1) * unat (rd_contribution_frequency ?d) < 2 ^ 64"
  proof -
    note offer = that
    obtain d where d: "PendingRoscaDetails s r = Some d" "pallet_inv T s"
      by (rule open_) (use offer(1) in \<open>simp add: offers_start_def\<close>)
    obtain p where p: "RoscaParticipants s r user = Some p"
      using offer(1) shown(5) by (auto simp: offers_start_def hasJoined_def)
    have "unat (rd_minimum_participant_threshold d) \<le> card (dom (RoscaParticipants s r))"
    proof -
      have "uint (rd_minimum_participant_threshold d) \<le> int (card (dom (RoscaParticipants s r)))"
        using offer(1) shown(3) [OF d(1)] shown(5) by (simp add: offers_start_def hasMetThreshold_def)
      then show ?thesis
        unfolding unat_eq_nat_uint by (simp only: nat_le_iff)
    qed
    with that d shown(5) show ?thesis
      by (intro start_rosca_succeeds [OF d(2) signer d(1) p _ _ limits]) simp_all
  qed
  moreover have "\<exists>t. leave_rosca T origin r s = Inr t"
    if "offers_leave user ?rosca" "\<forall>deposit. RoscaSecurityDeposits s r user = Some deposit \<longrightarrow> 0 < deposit \<longrightarrow>
      (\<exists>l. transfer T (asset_id (rd_payment_asset ?d)) (rosca_account_id T r) user (ucast deposit) (Ledger s) = Inr l)"
  proof -
    note offer = that
    obtain d where d: "PendingRoscaDetails s r = Some d" "pallet_inv T s"
      by (rule open_) (use offer(1) in \<open>simp add: offers_leave_def\<close>)
    obtain p where p: "RoscaParticipants s r user = Some p"
      using offer(1) shown(5) by (auto simp: offers_leave_def hasJoined_def)
    show ?thesis
      by (rule leave_rosca_succeeds [OF d(2) signer d(1) p]) (use that(2) d(1) in simp)
  qed
  ultimately show ?thesis
    by (simp add: Let_def SubmitJoinRosca_def SubmitStartRosca_def SubmitLeaveRosca_def)
qed

theorem offered_calls_succeed_witness:
  "offers_join 12 (mapRosca demo_raw [] demo_eligibilities) \<and>
   (\<exists>t. dispatch_call demo 12 (SubmitJoinRosca 0) demo_created = Some (Inr t))"
proof -
  have offer: "offers_join 12 (mapRosca demo_raw [] demo_eligibilities)"
    by (simp add: offers_join_def deriveStatus_def hasJoined_def isParticipant_def demo_index_defs
        demo_eligibilities_def joinedAccounts_def mapRosca_def RoscaEntity.defs FrontRosca.defs Let_def)
  have "ensure_signed demo 12 = Inr 12" "unat (MaxParticipants demo) \<le> unat (MaxInvitedParticipants demo) + 1"
    "Now demo_created < rd_start_by_timestamp (the (PendingRoscaDetails demo_created 0))"
    by (simp_all add: demo_created_def demo_joinable_def demo_defs)
  with offered_calls_succeed [OF demo_indexed demo_clears_prefix demo_created_next demo_answers this(1,2)] offer
  show ?thesis by (simp add: Let_def)
qed

end
