(* ===== verification/Frontend_Rounds.thy ===== *)
theory Frontend_Rounds
  imports Frontend_Actions
begin

text \<open>
  The rounds a page shows and the contributions it reports. The first round that is not fully paid is the
  current one, so a missed contribution holds the page back while the pallet moves on; and a contribution
  that comes after the last cutoff only ends the ROSCA, which the hook reports as a failure.
\<close>

section \<open>Rounds\<close>

lemma split_rounds_unpaid:
  "split_rounds rs (past, current, future) =
     (past @ filter isCompleted rs,
      (case current of Some c \<Rightarrow> Some c | None \<Rightarrow> find (\<lambda>r. \<not> isCompleted r) rs),
      future @ (case current of Some c \<Rightarrow> filter (\<lambda>r. \<not> isCompleted r) rs
        | None \<Rightarrow> tl (filter (\<lambda>r. \<not> isCompleted r) rs)))"
  by (induction rs arbitrary: past current future) (auto split: option.splits)

lemma find_sorted_least:
  "sorted (map key rs) \<Longrightarrow> find P rs = Some c \<Longrightarrow> e \<in> set rs \<Longrightarrow> P e \<Longrightarrow> key c \<le> key e"
  by (induction rs) (auto split: if_splits)

lemma filter_find: "find P rs = Some c \<Longrightarrow> filter P rs = c # tl (filter P rs)"
  by (induction rs) (auto split: if_splits)

text \<open>C30. The page counts a round as past exactly when all expected contributors have paid, and takes the
  first of the others as the current one. So a round that somebody has not paid for stays the current one
  and keeps every later unpaid round in the future, however far the pallet has moved on.\<close>

theorem first_unpaid_round_is_current:
  assumes "round_data rosca = (past, current, future)"
  shows "past = filter isCompleted (sortedRounds rosca) \<and>
    current = find (\<lambda>r. \<not> isCompleted r) (sortedRounds rosca) \<and>
    (\<forall>e. e \<in> set (ro_rounds rosca) \<longrightarrow> \<not> isCompleted e \<longrightarrow>
       (\<exists>c. current = Some c \<and> \<not> isCompleted c \<and> fr_roundNumber c \<le> fr_roundNumber e \<and>
          (e = c \<or> e \<in> set future)))"
proof -
  let ?rs = "sortedRounds rosca"
  have split: "past = filter isCompleted ?rs" "current = find (\<lambda>r. \<not> isCompleted r) ?rs"
    "future = tl (filter (\<lambda>r. \<not> isCompleted r) ?rs)"
    using assms by (simp_all add: round_data_def split_rounds_unpaid)
  have "\<exists>c. current = Some c \<and> \<not> isCompleted c \<and> fr_roundNumber c \<le> fr_roundNumber e \<and> (e = c \<or> e \<in> set future)"
    if e: "e \<in> set (ro_rounds rosca)" "\<not> isCompleted e" for e
  proof -
    let ?us = "filter (\<lambda>r. \<not> isCompleted r) ?rs"
    have us: "e \<in> set ?us" using e by (simp add: sortedRounds_def)
    then obtain c where c: "find (\<lambda>r. \<not> isCompleted r) ?rs = Some c"
      by (cases "find (\<lambda>r. \<not> isCompleted r) ?rs") (auto simp: find_None_iff)
    then have cs: "?us = c # future"
      using filter_find [OF c] split(3) by simp
    have "\<not> isCompleted c"
      using cs by (metis (mono_tags, lifting) list.set_intros(1) mem_Collect_eq set_filter)
    moreover have "fr_roundNumber c \<le> fr_roundNumber e"
      using find_sorted_least [of fr_roundNumber ?rs "\<lambda>r. \<not> isCompleted r" c e] c us by (simp add: sortedRounds_def)
    ultimately show ?thesis
      using c cs us split(2) by auto
  qed
  with split show ?thesis by simp
qed

text \<open>Two rounds of the example, the second one paid although 13 missed the first.\<close>

definition demo_round :: "u32 \<Rightarrow> nat list \<Rightarrow> nat RoundEntity" where
  "demo_round n payers = \<lparr>rn_parentRosca = 0, rn_roundNumber = n, rn_paymentCutoff = 100,
     rn_expectedContributors = [12, 13], rn_recipient = 11, rn_defaulters = [], rn_actualContributors = payers\<rparr>"

definition demo_missed :: "nat FrontRosca" where
  "demo_missed = mapRosca demo_raw [demo_round 2 [12, 13], demo_round 1 [12]] demo_eligibilities"

theorem first_unpaid_round_is_current_witness:
  "round_data demo_missed = ([mapRound (demo_round 2 [12, 13])], Some (mapRound (demo_round 1 [12])), []) \<and>
   \<not> isCompleted (mapRound (demo_round 1 [12]))"
proof -
  obtain past current future where r: "round_data demo_missed = (past, current, future)"
    by (cases "round_data demo_missed")
  have rounds: "ro_rounds demo_missed = [mapRound (demo_round 2 [12, 13]), mapRound (demo_round 1 [12])]"
    by (simp add: demo_missed_def)
  then have "sortedRounds demo_missed = [mapRound (demo_round 1 [12]), mapRound (demo_round 2 [12, 13])]"
    by (simp add: sortedRounds_def mapRound_def demo_round_def word_le_nat_alt)
  with r first_unpaid_round_is_current [OF r] show ?thesis
    by (simp add: round_data_def isCompleted_def mapRound_def demo_round_def)
qed

section \<open>Contributions\<close>

definition quiet :: "('a, 'l) pallet \<Rightarrow> ('a, 'l) pallet \<Rightarrow> bool" where
  "quiet s t \<longleftrightarrow> (\<exists>es. Events t = Events s @ es \<and> \<not> list_ex (expected_event (SubmitContributeToRosca 0)) es)"

lemma quiet_refl [simp]: "quiet s s"
  by (simp add: quiet_def)

lemma quiet_trans: "quiet s t \<Longrightarrow> quiet t u \<Longrightarrow> quiet s u"
  by (auto simp: quiet_def)

lemma process_defaulters_quiet:
  assumes "process_defaulters T r s = Inr t"
  shows "quiet s t"
proof -
  obtain d claimant order where "try_for (process_participant T r d claimant) order s = Inr t"
    using assms by (auto simp: process_defaulters_def)
  then show ?thesis
    by (rule try_for_invariant)
      (auto simp: process_participant_def Let_def currency_transfer_Inr quiet_def SubmitContributeToRosca_def
        deposit_event_def split: if_splits)
qed

lemma advance_rosca_round_quiet: "advance_rosca_round T r s = Inr t \<Longrightarrow> quiet s t"
  by (auto simp: advance_rosca_round_def Let_def clear_contributions_def quiet_def SubmitContributeToRosca_def
      deposit_event_def)

lemma complete_rosca_quiet: "quiet s (complete_rosca r s)"
  by (simp add: complete_rosca_def quiet_def SubmitContributeToRosca_def deposit_event_def)

lemma catch_up_iteration_quiet:
  assumes "catch_up_iteration T r now c = Inr x"
  shows "case x of Inl (Completed t) \<Rightarrow> quiet (cu_state c) t | Inl (CaughtUp c') \<Rightarrow> True
     | Inr c' \<Rightarrow> quiet (cu_state c) (cu_state c')"
proof (cases "cu_next_pay_by c \<le> now")
  case True
  then obtain s1 s2 b s3 where s: "process_defaulters T r (cu_state c) = Inr s1"
    "advance_rosca_round T r s1 = Inr s2" "check_and_complete_rosca T r s2 = Inr (b, s3)"
    using assms by (auto simp: catch_up_iteration_def)
  then have q: "quiet (cu_state c) s2"
    using process_defaulters_quiet advance_rosca_round_quiet quiet_trans by blast
  moreover have "s3 = (if b then complete_rosca r s2 else s2)"
    using s(3) by (auto simp: check_and_complete_rosca_def split: if_splits)
  moreover from q have "quiet (cu_state c) (complete_rosca r s2)"
    using complete_rosca_quiet quiet_trans by blast
  ultimately show ?thesis
    using assms True s by (auto simp: catch_up_iteration_def split: if_splits)
qed (use assms in \<open>auto simp: catch_up_iteration_def\<close>)

text \<open>C31. A contribution submitted after the final cutoff ends the ROSCA without a payment, and the
  frontend, which waits for the event of a contribution, reports the transaction as failed although it
  was applied.\<close>

theorem late_contribution_reported_failed:
  assumes inv: "pallet_inv T s" "clears_prefix T"
    and f: "FinalPayByTimestamp s r = Some f" "f \<le> Now s"
    and call: "dispatch_call T origin (SubmitContributeToRosca r) s = Some (Inr t)"
  shows "phase_of t r = Ended \<and> executeTx (SubmitContributeToRosca r) (Inr (new_events s t)) = Inl NoEvent"
proof -
  obtain signer d f' c x where g: "contribute_guards signer r s = Inr (d, f', c)"
    and x: "run_loop (catch_up_body T r (Now s)) c = Some (Inr x)"
    and t: "case x of Completed s' \<Rightarrow> t = s' | CaughtUp c' \<Rightarrow> contribute_payment T signer r d f' c' = Inr t"
    using call
    by (auto simp: SubmitContributeToRosca_def contribute_to_rosca_def split: sum.splits option.splits catch_up_exit.splits)
  have f': "f' = f" "cu_state c = s"
    using g f(1) by (auto simp: contribute_guards_def)
  let ?J = "\<lambda>c. catch_up_inv T r d f s c \<and> quiet s (cu_state c)"
  have "?J c"
    by (rule contribute_guards_Inr [OF inv(1) g]) (use inv(2) f' in \<open>auto simp: catch_up_inv_def\<close>)
  moreover have "?J c2" if "?J c1" "catch_up_body T r (Now s) c1 = Inr c2" for c1 c2
    using that catch_up_iteration_cases [of T r d f s c1 "Now s" "Inr c2"] catch_up_iteration_quiet [of T r "Now s" c1 "Inr c2"]
    by (auto simp: catch_up_body_def split: sum.splits dest: quiet_trans)
  ultimately obtain c' where c': "?J c'" "catch_up_body T r (Now s) c' = Inl (Inr x)"
    using run_loop_invariant [OF x, of ?J] by blast
  then have it: "catch_up_iteration T r (Now s) c' = Inr (Inl x)"
    by (auto simp: catch_up_body_def split: sum.splits)
  have late: "\<not> Now s < cu_next_pay_by c'"
    using c'(1) f(2) playing_cutoff_iff by (fastforce simp: catch_up_inv_def)
  obtain u where u: "x = Completed t" "t = complete_rosca r u"
    using catch_up_iteration_cases [OF conjunct1 [OF c'(1)] it] late t by (cases x) auto
  have "quiet s t"
    using catch_up_iteration_quiet [OF it] u(1) c'(1) by (auto dest: quiet_trans)
  then have "\<not> list_ex (expected_event (SubmitContributeToRosca r :: 'b rosca_call)) (new_events s t)"
    by (auto simp: quiet_def new_events_def SubmitContributeToRosca_def list_ex_iff elim!: expected_event.elims)
  then show ?thesis
    by (simp add: u(2) phase_complete executeTx_def)
qed

text \<open>A contribution to the example past its last cutoff, round by round.\<close>

lemmas catch_up_defs = catch_up_body_def catch_up_iteration_def process_defaulters_def process_participant_def
  Let_def currency_transfer_def demo_transfer_def rosca_account_id_def deposit_event_def
  advance_rosca_round_def clear_contributions_def check_and_complete_rosca_def checked_add_def checked_sub_def saturating_add_def try_rotate_right_def rotate_right_def complete_rosca_def

lemma demo_late_contribution: "\<exists>t. contribute_to_rosca demo 13 0 demo_late = Some (Inr t)"
  by (simp add: contribute_to_rosca_def contribute_guards_def demo_defs)
   (subst run_loop.simps, simp add: catch_up_defs)+

theorem late_contribution_reported_failed_witness:
  "\<exists>t. dispatch_call demo 13 (SubmitContributeToRosca 0) demo_late = Some (Inr t) \<and> phase_of t 0 = Ended \<and>
     executeTx (SubmitContributeToRosca 0) (Inr (new_events demo_late t)) = Inl NoEvent"
proof -
  obtain t where t: "dispatch_call demo 13 (SubmitContributeToRosca 0) demo_late = Some (Inr t)"
    using demo_late_contribution by (auto simp: SubmitContributeToRosca_def)
  have "FinalPayByTimestamp demo_late 0 = Some 305" "305 \<le> Now demo_late"
    by (simp_all add: demo_defs)
  from late_contribution_reported_failed [OF demo_late_inv demo_clears_prefix this t] t show ?thesis by blast
qed

end
