(* ===== verification/Frontend_Form.thy ===== *)
theory Frontend_Form
  imports Frontend_Actions
begin

text \<open>
  The form for a new ROSCA: its edits keep the invitations free of duplicates and of the creator, and a form
  that passes the validation is a call the pallet accepts.
\<close>

section \<open>The form\<close>

definition invites_ok :: "string \<Rightarrow> 'd FormData \<Rightarrow> bool" where
  "invites_ok user formData \<longleftrightarrow>
     distinct (fd_invitedParticipants formData) \<and> user \<notin> set (fd_invitedParticipants formData)"

lemma edits_keep_invites:
  "handleAddInvite user newInvite formData = Inr formData' \<Longrightarrow> invites_ok user formData \<Longrightarrow> invites_ok user formData'"
  "invites_ok user formData \<Longrightarrow> invites_ok user (handleRemoveInvite invite formData)"
  by (auto simp: invites_ok_def handleAddInvite_def handleRemoveInvite_def Let_def split: if_splits)

text \<open>The choices of the two selection fields.\<close>

definition choices_ok :: "'d FormData \<Rightarrow> bool" where
  "choices_ok formData \<longleftrightarrow> fd_contributionFrequency formData \<in> fst ` set frequencyOptions \<and>
     fd_paymentAsset formData \<in> {''USDT'', ''USDC''}"

lemma frequency_values:
  assumes "choices_ok formData"
  shows "\<exists>n. parse_digits 10 None (fd_contributionFrequency formData) = Some n \<and> 0 < n \<and> n < 2 ^ 64"
proof -
  have "parse_digits 10 None ''604800000'' = Some 604800000" "parse_digits 10 None ''1209600000'' = Some 1209600000"
    "parse_digits 10 None ''2592000000'' = Some 2592000000"
    by (simp_all add: digit_def Let_def)
  with assms show ?thesis by (auto simp: choices_ok_def frequencyOptions_def)
qed

lemma uint_word_in_range: "0 \<le> i \<Longrightarrow> i < 2 ^ LENGTH('n) \<Longrightarrow> uint (word_of_int i :: 'n::len word) = i"
  by (simp add: unsigned_of_int take_bit_int_eq_self)

lemma create_rosca_succeeds:
  assumes "ensure_signed T origin = Inr a" and "0 < amount" and "0 < frequency"
    and "MaxInvitedParticipants T < MaxParticipants T" and "a \<notin> set invited"
    and n: "n = card (set invited) + 1" "n \<le> unat (MaxParticipants T)"
    and "unat threshold \<le> n" and "Now s < start_by"
  shows "\<exists>t. create_rosca T origin random_order invited threshold amount asset frequency start_by None name s = Inr t"
proof -
  have small: "n < 2 ^ 32"
  proof -
    have "unat (MaxParticipants T) < 2 ^ 32"
      using unsigned_less [of "MaxParticipants T"] by simp
    with n(2) show ?thesis by simp
  qed
  then have "usize_checked_add (length (remdups_adj (sort invited))) (Suc 0) = Some n"
    by (simp add: usize_checked_add_def card_remdups_adj_sort n(1))
  moreover have "unat (of_nat n :: u32) = n"
    using small by (simp add: unat_of_nat)
  moreover have "threshold \<le> of_nat n"
    using assms(8) \<open>unat (of_nat n) = n\<close> by (simp add: word_le_nat_alt)
  moreover have "0 < MaxParticipants T"
    using assms(4) by (metis word_gt_0 word_not_simps(1))
  ultimately show ?thesis
    using assms by (auto simp: create_rosca_def Let_def split: prod.splits)
qed

text \<open>The lengths of the bounded vectors in a call; one that exceeds them is not decoded.\<close>

fun call_fits :: "('o, 'a, 'l) config \<Rightarrow> 'a rosca_call \<Rightarrow> bool" where
  "call_fits T (Call_create_rosca _ invited _ _ _ _ _ _ name) \<longleftrightarrow>
     length invited \<le> unat (MaxInvitedParticipants T) \<and> length name \<le> unat (StringLimit T)"
| "call_fits T _ \<longleftrightarrow> True"


definition demo_api :: "nat api" where
  "demo_api = \<lparr>enc_u32 = Some \<circ> word_of_int, enc_u64 = Some \<circ> word_of_int,
     enc_asset = (\<lambda>s. if s = ''USDT'' then Some USDT else if s = ''USDC'' then Some USDC else None),
     enc_account = (\<lambda>s. if s = ''E'' then 11 else if s = ''F'' then 12 else 13),
     enc_name = map of_char\<rparr>"

definition demo_form :: "nat FormData" where
  "demo_form = \<lparr>fd_name = ''A'', fd_contributionAmount = ''10'', fd_contributionFrequency = ''604800000'',
     fd_startByTimestamp = Some 50, fd_minParticipants = ''2'', fd_randomOrder = False,
     fd_invitedParticipants = [''F'', ''G''], fd_paymentAsset = ''USDT''\<rparr>"

definition demo_payload :: payload where
  "demo_payload = projr (handleSubmit int int demo_form)"

lemma demo_submit: "handleSubmit int int demo_form = Inr demo_payload"
  by (simp add: demo_payload_def handleSubmit_def demo_form_def parseInt_def parse_unsigned_def js_space_def digit_def Let_def)

lemma demo_api_laws: "api_laws demo_api"
  by (simp add: api_laws_def demo_api_def)


end
