(* ===== verification/Spec2Isabelle.thy ===== *)
theory Spec2Isabelle
  imports Rosca_Properties Rosca_Fairness Runtime_Weights Runtime_Governance Runtime_Rosca Xcm_Config Node_Command
    Fuzzer Frontend_Rounds Frontend_Form
begin

text \<open>
  DOTCIRCLES runs rotating savings circles (ROSCAs) on a parachain. Its parts are the ROSCA pallet with the
  rules of a circle, the runtime that configures it beside the pallets of FRAME and XCM, the node that starts
  a chain from a built-in genesis, an indexer that follows the events of the pallet, and a web frontend that
  reads the index and submits calls to the pallet.

  \<^bold>\<open>The pallet\<close> (\<open>generic-template/pallets/rosca/src/lib.rs\<close>, \<open>types.rs\<close>).

  \<^item> \<open>Rust_Prelude\<close>: machine integers, results and early returns, bounded vectors, loops. \<open>run_loop\<close> is a
    \<open>partial_function\<close>, so that a loop that does not end has no value; the locale \<open>ranked_loop\<close> gives the
    result of a loop from an invariant and a measure.
  \<^item> \<open>Rosca_Types\<close>: the storage as the record \<open>pallet\<close>, one field per storage item; the configuration
    \<open>config\<close> with the foreign functions the pallet calls (transfers, origins, hashes, clearing of a prefix);
    errors and events.
  \<^item> \<open>Rosca_Rounds\<close>: \<^verbatim>\<open>shuffle_participants\<close> and \<^verbatim>\<open>generate_rounds\<close>. The shuffle permutes and depends on a
    single byte; the rounds are the reference plan.
  \<^item> \<open>Rosca_Pallet\<close>: the eight calls and the internal functions, one definition each, and \<open>dispatch_call\<close>.
  \<^item> \<open>Rosca_Invariant\<close>, \<open>Rosca_Membership\<close>, \<open>Rosca_Settlement\<close>, \<open>Rosca_Progress\<close>: the invariant of the storage
    and that every call keeps it; what each call changes; that both loops end.
  \<^item> \<open>Rosca_Life\<close>, \<open>Rosca_Chain\<close>, \<open>Rosca_Solvency\<close>, \<open>Rosca_Liveness\<close>, \<open>Rosca_Properties\<close>: the machine unused,
    open, running, ended that the storage refines; runs of the chain with calls of any account, new blocks and
    transfers of others; deposits covered by the pots; settlement, schedule and completion. \<open>Rosca_Fairness\<close>
    follows a circle whose members contribute on time: it reaches its end, and everyone breaks even. \<open>Rosca_Example\<close>
    is the environment in which the properties are applied.

  \<^bold>\<open>The runtime\<close> (\<open>generic-template/runtime/src\<close>).

  \<^item> \<open>Weight_Ops\<close>, \<open>Weights_Assets\<close>, \<open>Weights_Governance\<close>, \<open>Weights_Calls\<close>, \<open>Weights_System\<close>: every function of
    \<open>weights/*.rs\<close> in the saturating arithmetic of weights. \<open>Runtime_Weights\<close> compares them with the exact sums,
    the block limits and the estimates of their comments.
  \<^item> \<open>Runtime_Constants\<close> (\<open>constants.rs\<close>, \<open>lib.rs\<close>, the parameters of \<open>configs/\<close>), \<open>Runtime_Governance\<close> (origins,
    tracks, treasury), \<open>Runtime_Calls\<close> (call filters and proxies), \<open>Runtime_Rosca\<close> (the pallet under the limits
    of the runtime).
  \<^item> \<open>Xcm_Config\<close> (\<open>configs/xcm_config.rs\<close>, \<open>configs/asset_config.rs\<close>): locations, filters of assets and origins.

  \<^bold>\<open>The node\<close> (\<open>generic-template/node/src\<close>): \<open>Node_Spec\<close> has the chain specifications with their genesis and the
  options of the relay chain client, \<open>Node_Command\<close> the commands and the jobs they lead to.

  \<^bold>\<open>The fuzzer\<close> (\<open>generic-template/template-fuzzer/src/main.rs\<close>): \<open>Fuzzer\<close> has one run, with every panic as a value,
  and shows which calls it dispatches, what its final checks amount to and what its time limit leaves out.

  \<^bold>\<open>The indexer\<close> (\<open>indexer/\<close>): \<open>Indexer\<close> has the twelve handlers over the entities and shows that they stay
  well-formed. \<open>Rosca_Events\<close> reads the events of the pallet as a log: replaying them gives the view of the storage
  they report. \<open>Indexer_Mirror\<close> concludes that the index shows what the pallet stores, through the locale \<open>follower\<close>,
  interpreted for the handlers; what goes wrong with cutoffs and deductions is shown there as well.

  \<^bold>\<open>The frontend\<close> (\<open>frontend/app/\<close>): \<open>Frontend\<close> has the mapping of answers, the tabs, the rounds, the offered
  actions, the form, the submitted calls and the reported outcome. \<open>Rosca_Offers\<close> says when joining, leaving and
  starting succeed; \<open>Frontend_Actions\<close>, \<open>Frontend_Rounds\<close> and \<open>Frontend_Form\<close> relate what the user sees and does to
  the storage of the pallet.

  \<^bold>\<open>Bounds.\<close> Integers keep their width: 32 and 64 bits in the pallet, 128 for balances; \<open>usize\<close> is that of the
  32-bit runtime. No loop has fuel. The measure of the two loops of the pallet is the number of rounds up to the
  final cutoff, which every round reduces because cutoffs grow by a positive frequency.

  \<^bold>\<open>Hypotheses.\<close> Code outside the repository is an argument. \<open>exact_transfers\<close>, \<open>funded_transfers_succeed\<close>,
  \<open>pots_apart\<close>, \<open>clears_prefix\<close> and \<open>foreign_calls_return\<close> state what is documented of transfers, sub-accounts
  and storage maps; \<open>api_laws\<close> what is documented of the encoding of calls.

  \<^bold>\<open>Not modelled.\<close> The services of the node and its RPC (\<open>service.rs\<close>, \<open>rpc.rs\<close>) assemble components of the
  Substrate client; the runtime APIs (\<open>apis.rs\<close>) forward to pallets of FRAME; benchmarks, tests and build scripts
  produce no behaviour of the chain. Rendering, formatting, GraphQL queries and the wallet of the frontend are I/O.
\<close>

end
